(* ===== verification/Prelude.thy ===== *)
theory Prelude
  imports Main "HOL-Library.Word" "HOL-Library.Sublist" "HOL-Library.List_Lexorder"
begin

text \<open>
  What every component of the model shares: Go's byte and integer types, the outcome of
  a Go call (a value, an error or a panic), Go strings as bytes, 64-bit \<open>int\<close>
  arithmetic, the big-endian conversion of heights, and the lemmas about them.
\<close>

unbundle bit_operations_syntax

section \<open>Types\<close>

type_synonym byte = "8 word"
type_synonym u64 = "64 word"
type_synonym addr = "byte list"

text \<open>
  The outcomes of a Go call. \<open>Err\<close> is a returned error, \<open>Panic\<close> a run-time panic;
  \<open>ErrorOutOfGas\<close> is the panic the SDK's gas meters raise and the scheduler recovers.
\<close>

datatype pb_error =
    ErrIntOverflow
  | ErrUnexpectedEOF
  | ErrInvalidLength
  | ErrUnexpectedEndOfGroup
  | WireTypeEndGroup
  | IllegalTag
  | WrongWireType
  | IllegalWireType
  | ForeignCodecError string

datatype panic =
    IndexOutOfRange
  | ErrorOutOfGas
  | MustUnmarshalPanic pb_error
  | Uint64OutOfBounds
  | CoinDenomMismatch
  | InvalidParamSetPair
  | NilPointer
  | ForeignPanic string

datatype ('e, 'a) go = Ret 'a | Err 'e | Panic panic

fun go_bind :: "('e, 'a) go \<Rightarrow> ('a \<Rightarrow> ('e, 'b) go) \<Rightarrow> ('e, 'b) go" where
  "go_bind (Ret a) f = f a"
| "go_bind (Err e) f = Err e"
| "go_bind (Panic p) f = Panic p"

definition panics :: "('e, 'a) go \<Rightarrow> bool" where
  "panics r \<longleftrightarrow> (\<exists>p. r = Panic p)"

named_theorems go_simps \<open>how the outcome of a call splits\<close>
named_theorems wire_simps \<open>evaluation of the wire format\<close>
named_theorems kv_simps \<open>lookups in an updated store\<close>

lemma go_bind_Ret_iff [go_simps]: "go_bind r f = Ret b \<longleftrightarrow> (\<exists>a. r = Ret a \<and> f a = Ret b)"
  by (cases r) auto

lemma go_bind_Err_iff [go_simps]:
  "go_bind r f = Err e \<longleftrightarrow> r = Err e \<or> (\<exists>a. r = Ret a \<and> f a = Err e)"
  by (cases r) auto

lemma go_bind_Panic_iff [go_simps]:
  "go_bind r f = Panic p \<longleftrightarrow> r = Panic p \<or> (\<exists>a. r = Ret a \<and> f a = Panic p)"
  by (cases r) auto

lemma panics_simps [simp, go_simps]:
  "\<not> panics (Ret a)" "\<not> panics (Err e)" "panics (Panic p)"
  by (simp_all add: panics_def)

lemma panics_bind [go_simps]:
  "panics (go_bind r f) \<longleftrightarrow> panics r \<or> (\<exists>a. r = Ret a \<and> panics (f a))"
  by (cases r) simp_all

lemma go_bind_assoc: "go_bind (go_bind r f) g = go_bind r (\<lambda>a. go_bind (f a) g)"
  by (cases r) simp_all

lemma go_bind_cong [fundef_cong]:
  "r = r' \<Longrightarrow> (\<And>a. r' = Ret a \<Longrightarrow> f a = g a) \<Longrightarrow> go_bind r f = go_bind r' g"
  by (cases r') simp_all

section \<open>Go strings\<close>

text \<open>A Go string is a sequence of bytes; \<open>string\<close> is used for its readable form.\<close>

definition string_bytes :: "string \<Rightarrow> byte list" where
  "string_bytes s = map (\<lambda>c. word_of_nat (of_char c)) s"

definition bytes_string :: "byte list \<Rightarrow> string" where
  "bytes_string bs = map (\<lambda>b. char_of (unat b)) bs"

lemma bytes_string_inverse [simp]: "bytes_string (string_bytes s) = s"
proof -
  have "unat (word_of_nat (of_char c) :: byte) = of_char c" for c
    by (simp add: unat_of_nat take_bit_eq_mod)
  then show ?thesis
    by (simp add: bytes_string_def string_bytes_def comp_def)
qed

lemma string_bytes_inverse [simp]: "string_bytes (bytes_string bs) = bs"
proof -
  have "word_of_nat (of_char (char_of (unat b) :: char)) = b" for b :: byte
    using unsigned_less [of b, where ?'a = nat] by simp
  then show ?thesis
    by (simp add: bytes_string_def string_bytes_def comp_def)
qed

lemma length_string_bytes [simp]: "length (string_bytes s) = length s"
  by (simp add: string_bytes_def)

lemma string_bytes_Nil [simp]: "string_bytes s = [] \<longleftrightarrow> s = []"
  by (simp add: string_bytes_def)

lemma bytes_string_Nil [simp]: "bytes_string bs = [] \<longleftrightarrow> bs = []"
  by (simp add: bytes_string_def)

section \<open>Go's 64-bit int\<close>

lemma take_bit_self: "unat w < 2 ^ n \<Longrightarrow> take_bit n w = (w :: 'a::len word)"
  by (simp add: word_unat_eq_iff unsigned_take_bit_eq take_bit_nat_eq_self)


text \<open>\<open>i64 x\<close> is the value an \<open>int\<close> variable holds after being assigned \<open>x\<close>.\<close>

definition i64 :: "int \<Rightarrow> int" where
  "i64 x = sint (word_of_int x :: u64)"

lemma i64_shift: "i64 x = (x + 2 ^ 63) mod 2 ^ 64 - 2 ^ 63"
proof -
  have "i64 x = signed_take_bit 63 x"
    unfolding i64_def by (subst signed_of_int) simp
  then show ?thesis
    by (simp add: signed_take_bit_eq_take_bit_shift take_bit_eq_mod)
qed

lemma i64_id [simp]: "- (2 ^ 63) \<le> x \<Longrightarrow> x < 2 ^ 63 \<Longrightarrow> i64 x = x"
  by (simp add: i64_shift)

lemma i64_overflow: "2 ^ 63 \<le> x \<Longrightarrow> x < 2 ^ 64 \<Longrightarrow> i64 x = x - 2 ^ 64"
  unfolding i64_shift by (subst mod_pos_geq) simp_all

lemma sint_small: "unat (v :: u64) < 2 ^ 63 \<Longrightarrow> sint v = int (unat v)"
proof -
  assume "unat v < 2 ^ 63"
  then have "int (unat v) < int (2 ^ 63)" by (simp only: of_nat_less_iff)
  then show ?thesis
    using i64_id [of "uint v"] uint_ge_0 [of v] by (simp add: i64_def)
qed

end
