(* ===== verification/Wire.thy ===== *)
theory Wire
  imports Prelude
begin

text \<open>
  The protobuf wire format as the generated files under \<^verbatim>\<open>x/schedule/types\<close> write and
  read it: varints, the backward writer over a sized buffer, \<open>skip\<close> for unknown fields
  and the field loop of every \<open>Unmarshal\<close>.
\<close>

section \<open>Varints\<close>

text \<open>\<open>bits.Len64\<close>: the number of bits of a value.\<close>

fun bit_len :: "nat \<Rightarrow> nat" where
  "bit_len n = (if n = 0 then 0 else Suc (bit_len (n div 2)))"

declare bit_len.simps [simp del]

definition sov :: "u64 \<Rightarrow> nat" where
  "sov x = (bit_len (unat (x OR 1)) + 6) div 7"

text \<open>The varint of a value, the format the two loops below agree on.\<close>

function varint :: "u64 \<Rightarrow> byte list" where
  "varint v = (if v < 0x80 then [ucast v]
               else ucast (v AND 0x7f OR 0x80) # varint (drop_bit 7 v))"
  by pat_completeness auto
termination
  by (relation "measure unat")
     (simp_all add: word_less_nat_alt drop_bit_eq_div unat_div_distrib)

declare varint.simps [simp del]

text \<open>
  The reading loop, inlined by the generator wherever a varint is read:
  \<^verbatim>\<open>for shift := uint(0); ; shift += 7\<close>. It returns the value and the next index.
\<close>

function varint_loop :: "byte list \<Rightarrow> nat \<Rightarrow> nat \<Rightarrow> u64 \<Rightarrow> pb_error + (u64 \<times> nat)" where
  "varint_loop dAtA iNdEx shift acc =
     (if 64 \<le> shift then Inl ErrIntOverflow
      else if length dAtA \<le> iNdEx then Inl ErrUnexpectedEOF
      else let b = dAtA ! iNdEx; acc' = acc OR push_bit shift (ucast (b AND 0x7F))
           in if b < 0x80 then Inr (acc', Suc iNdEx)
              else varint_loop dAtA (Suc iNdEx) (shift + 7) acc')"
  by pat_completeness auto
termination
  by (relation "measure (\<lambda>(d, i, s, a). 64 - s)") auto

declare varint_loop.simps [simp del]

definition read_varint :: "byte list \<Rightarrow> nat \<Rightarrow> pb_error + (u64 \<times> nat)" where
  "read_varint dAtA iNdEx = varint_loop dAtA iNdEx 0 0"

lemma varint_loop_advances: "varint_loop d i s a = Inr (v, j) \<Longrightarrow> i < j \<and> j \<le> length d"
proof (induction d i s a rule: varint_loop.induct)
  case (1 d i s a)
  from "1.prems" show ?case
    by (subst (asm) varint_loop.simps)
       (auto simp: Let_def split: if_splits dest!: "1.IH" [OF _ _ refl refl])
qed

lemma read_varint_advances: "read_varint d i = Inr (v, j) \<Longrightarrow> i < j \<and> j \<le> length d"
  by (simp add: read_varint_def varint_loop_advances)

section \<open>Writing a varint\<close>

text \<open>
  \<^verbatim>\<open>encodeVarint*(dAtA, offset, v)\<close>: moves the offset back by \<open>sov v\<close> and writes
  forward from there. Indexing outside the buffer panics.
\<close>

function varint_write :: "byte list \<Rightarrow> nat \<Rightarrow> u64 \<Rightarrow> ('e, byte list) go" where
  "varint_write dAtA offset v =
     (if length dAtA \<le> offset then Panic IndexOutOfRange
      else if 0x80 \<le> v
      then varint_write (dAtA[offset := ucast (v AND 0x7f OR 0x80)]) (Suc offset) (drop_bit 7 v)
      else Ret (dAtA[offset := ucast v]))"
  by pat_completeness auto
termination
  by (relation "measure (\<lambda>(d, i, v). length d - i)") auto

declare varint_write.simps [simp del]

definition encodeVarint :: "byte list \<Rightarrow> nat \<Rightarrow> u64 \<Rightarrow> ('e, byte list \<times> nat) go" where
  "encodeVarint dAtA offset v =
     (if offset < sov v then Panic IndexOutOfRange
      else go_bind (varint_write dAtA (offset - sov v) v) (\<lambda>d. Ret (d, offset - sov v)))"

section \<open>Varint lemmas\<close>

lemma bit_len_0 [simp]: "bit_len 0 = 0"
  by (subst bit_len.simps) simp

lemma bit_len_Suc: "0 < n \<Longrightarrow> bit_len n = Suc (bit_len (n div 2))"
  by (subst bit_len.simps) simp

lemma bit_len_le_iff: "bit_len n \<le> k \<longleftrightarrow> n < 2 ^ k"
proof (induction k arbitrary: n)
  case 0
  show ?case by (cases "n = 0") (simp_all add: bit_len_Suc)
next
  case (Suc k)
  show ?case
    by (cases "n = 0") (auto simp add: bit_len_Suc Suc.IH)
qed

lemma bit_len_div_128: "128 \<le> n \<Longrightarrow> bit_len n = bit_len (n div 128) + 7"
  by (simp add: bit_len_Suc div_mult2_eq [symmetric])

lemma unat_drop_7: "unat (drop_bit 7 (v :: u64)) = unat v div 128"
  by (simp add: drop_bit_eq_div unat_div_distrib)

lemma varint_length: "length (varint v) = (bit_len (if unat v = 0 then 1 else unat v) + 6) div 7"
proof (induction v rule: varint.induct)
  case (1 v)
  show ?case
  proof (cases "unat v < 128")
    case True
    define m where "m = (if unat v = 0 then 1 else unat v)"
    have "bit_len m \<le> 7" using True by (simp add: bit_len_le_iff m_def)
    moreover have "1 \<le> bit_len m"
      using bit_len_Suc [of m] by (simp add: m_def)
    ultimately have "(bit_len m + 6) div 7 = 1" by (simp add: Suc_le_eq div_nat_eqI)
    then show ?thesis using True by (simp add: varint.simps m_def word_less_nat_alt)
  next
    case False
    then have "unat v div 128 \<noteq> 0" by (simp add: div_eq_0_iff)
    with False 1 show ?thesis
      by (subst varint.simps) (simp add: bit_len_div_128 unat_drop_7 word_less_nat_alt)
  qed
qed

lemma sov_varint: "sov v = length (varint v)"
proof -
  have "unat (v OR 1) = unat v OR 1"
    by (simp add: unsigned_or_eq)
  moreover have "bit_len (n OR 1) = bit_len (if n = 0 then 1 else n)" for n :: nat
  proof -
    have "(n OR 1) div 2 = n div 2"
      by (simp add: or_Suc_0_eq)
    moreover have "0 < n OR 1"
      by (cases "n = 0") (simp_all add: or_Suc_0_eq)
    ultimately show ?thesis
      by (cases "n = 0") (simp_all add: bit_len_Suc)
  qed
  ultimately show ?thesis
    by (simp add: sov_def varint_length)
qed

lemma sov_bounds: "1 \<le> sov v \<and> sov v \<le> 10"
proof -
  have "bit_len (unat (v OR 1)) \<le> 64"
    using unsigned_less [of "v OR 1", where ?'a = nat] by (simp add: bit_len_le_iff)
  then have "sov v \<le> 10"
    by (simp add: sov_def)
  moreover have "varint v \<noteq> []"
    by (simp add: varint.simps)
  ultimately show ?thesis
    by (simp add: sov_varint Suc_le_eq)
qed

lemma varint_nonempty [simp]: "varint v \<noteq> []"
  by (simp add: varint.simps)

lemma length_varint_bounds: "1 \<le> length (varint v)" "length (varint v) \<le> 10"
  using sov_bounds [of v] by (simp_all add: sov_varint)

section \<open>Reading back what was written\<close>

lemma bit_masks [wire_simps]:
  "bit (127 :: int) n \<longleftrightarrow> n < 7" "bit (128 :: int) n \<longleftrightarrow> n = 7"
proof -
  have *: "(127 :: int) = mask 7" "(128 :: int) = push_bit 7 1"
    by (simp_all add: mask_eq_exp_minus_1)
  show "bit (127 :: int) n \<longleftrightarrow> n < 7"
    by (simp only: * bit_mask_iff) simp
  show "bit (128 :: int) n \<longleftrightarrow> n = 7"
    by (simp only: * bit_push_bit_iff bit_1_iff) auto
qed

lemma push_7_split:
  "push_bit s (ucast (ucast (v AND 0x7f OR 0x80) AND 0x7F :: byte) :: u64)
     OR push_bit (s + 7) (drop_bit 7 v) = push_bit s v"
proof (rule bit_word_eqI)
  fix n assume "n < LENGTH(64)"
  moreover have "7 + (n - (s + 7)) = n - s" if "s + 7 \<le> n" using that by simp
  ultimately show "bit (push_bit s (ucast (ucast (v AND 0x7f OR 0x80) AND 0x7F :: byte) :: u64)
     OR push_bit (s + 7) (drop_bit 7 v)) n = bit (push_bit s v) n"
    by (cases "s + 7 \<le> n") (auto simp add: bit_simps wire_simps)
qed

lemma small_bits: "v < 0x80 \<Longrightarrow> bit (v :: u64) n \<Longrightarrow> n < 7"
proof -
  assume "v < 0x80" "bit v n"
  then have "take_bit 7 v = v"
    by (intro take_bit_self) (simp add: word_less_nat_alt)
  with \<open>bit v n\<close> show "n < 7" by (metis bit_take_bit_iff)
qed

lemma push_small:
  "v < 0x80 \<Longrightarrow> push_bit s (ucast (ucast v AND 0x7F :: byte) :: u64) = push_bit s v"
  by (rule bit_word_eqI) (auto simp add: bit_simps wire_simps dest: small_bits)

lemma last_byte: "v < 0x80 \<Longrightarrow> (ucast (v :: u64) :: byte) < 0x80"
  by (simp add: word_less_nat_alt unsigned_ucast_eq take_bit_eq_mod)

lemma cont_byte: "\<not> (ucast ((v :: u64) AND 0x7f OR 0x80) :: byte) < 0x80"
proof
  assume "(ucast (v AND 0x7f OR 0x80) :: byte) < 0x80"
  then have "take_bit 7 (ucast (v AND 0x7f OR 0x80) :: byte) = ucast (v AND 0x7f OR 0x80)"
    by (intro take_bit_self) (simp add: word_less_nat_alt)
  then have "bit (take_bit 7 (ucast (v AND 0x7f OR 0x80) :: byte)) 7
    = bit (ucast (v AND 0x7f OR 0x80) :: byte) 7"
    by simp
  then show False by (simp add: bit_simps wire_simps)
qed

lemma varint_loop_read:
  assumes "s + 7 * (length (varint v) - 1) < 64"
  shows "varint_loop (pre @ varint v @ rest) (length pre) s a
    = Inr (a OR push_bit s v, length pre + length (varint v))"
  using assms
proof (induction v arbitrary: pre s a rule: varint.induct)
  case (1 v)
  show ?case
  proof (cases "v < 0x80")
    case True
    then show ?thesis using "1.prems"
      by (subst varint_loop.simps)
         (simp add: varint.simps nth_append last_byte push_small)
  next
    case False
    let ?b = "ucast (v AND 0x7f OR 0x80) :: byte" and ?w = "drop_bit 7 v"
    have v: "varint v = ?b # varint ?w" using False by (simp add: varint.simps)
    have "1 \<le> length (varint ?w)" by (rule length_varint_bounds)
    then have "s + 7 + 7 * (length (varint ?w) - 1) < 64"
      using "1.prems" unfolding v list.size diff_Suc_1' by linarith
    from "1.IH" [OF False this, of "pre @ [?b]" "a OR push_bit s (ucast (?b AND 0x7F))"]
    have "varint_loop (pre @ varint v @ rest) (Suc (length pre)) (s + 7)
        (a OR push_bit s (ucast (?b AND 0x7F)))
      = Inr (a OR push_bit s v, length pre + length (varint v))"
      by (simp add: v or.assoc push_7_split)
    moreover have "(pre @ varint v @ rest) ! length pre = ?b" "s < 64"
      using "1.prems" by (simp_all add: v)
    ultimately show ?thesis
      by (subst varint_loop.simps) (simp add: cont_byte)
  qed
qed

lemma read_varint_back [wire_simps]:
  "read_varint (pre @ varint v @ rest) (length pre) = Inr (v, length pre + length (varint v))"
  using varint_loop_read [of 0 v pre rest 0] length_varint_bounds [of v]
  by (simp add: read_varint_def)

lemma varint_write_back:
  "length old = length (varint v) \<Longrightarrow>
    varint_write (pre @ old @ suf) (length pre) v = Ret (pre @ varint v @ suf)"
proof (induction v arbitrary: pre old rule: varint.induct)
  case (1 v)
  obtain o1 os where old: "old = o1 # os"
    using "1.prems" length_varint_bounds(1) [of v] by (cases old) auto
  show ?case
  proof (cases "v < 0x80")
    case True
    then show ?thesis using "1.prems" old
      by (subst varint_write.simps) (simp add: varint.simps linorder_not_less [symmetric])
  next
    case False
    let ?b = "ucast (v AND 0x7f OR 0x80) :: byte"
    have v: "varint v = ?b # varint (drop_bit 7 v)" using False by (simp add: varint.simps)
    with "1.prems" old have "length os = length (varint (drop_bit 7 v))" by simp
    from "1.IH" [OF False this, of "pre @ [?b]"] show ?thesis
      using False by (subst varint_write.simps) (simp add: v old linorder_not_less)
  qed
qed

text \<open>
  Writing into a buffer that already holds \<open>suf\<close> from index \<open>k\<close> on: the varint lands just
  before it, and the index moves back by its length.
\<close>

lemma encodeVarint_back [wire_simps]:
  assumes "k \<le> length d" "length (varint v) \<le> k"
  shows "(encodeVarint (take k d @ suf) k v :: ('e, byte list \<times> nat) go)
    = Ret (take (k - length (varint v)) d @ varint v @ suf, k - length (varint v))"
proof -
  define j old where "j = k - length (varint v)" and "old = drop j (take k d)"
  have "take k d @ suf = take j d @ old @ suf"
    using append_take_drop_id [of j "take k d"] assms by (simp add: j_def old_def min_def)
  moreover have "length (take j d) = j" "length old = length (varint v)"
    using assms by (simp_all add: j_def old_def)
  ultimately have "(varint_write (take k d @ suf) j v :: ('e, byte list) go)
      = Ret (take j d @ varint v @ suf)"
    using varint_write_back [of old v "take j d" suf] by simp
  then show ?thesis
    using assms by (simp add: encodeVarint_def sov_varint j_def)
qed

end
