(* ===== verification/MessageFields.thy ===== *)
theory MessageFields
  imports Wire
begin

text \<open>
  The parts every generated message shares: reading a length, skipping an unknown field,
  the field loop of \<open>Unmarshal\<close>, and the blocks of \<open>MarshalToSizedBuffer\<close> that write
  one field backwards into the buffer.
\<close>

section \<open>Reading\<close>

text \<open>
  The sum of two non-negative \<open>int\<close> values. \<open>None\<close> is the wrapped, negative sum: all the
  generated code asks of it is its sign.
\<close>

definition int_add :: "nat \<Rightarrow> nat \<Rightarrow> nat option" where
  "int_add a b = (if a + b < 2 ^ 63 then Some (a + b) else None)"

lemma int_add_i64:
  assumes "a < 2 ^ 63" "b < 2 ^ 63"
  shows "int_add a b = (if i64 (int a + int b) < 0 then None else Some (nat (i64 (int a + int b))))"
proof (cases "a + b < 2 ^ 63")
  case True
  then show ?thesis by (simp add: int_add_def nat_plus_as_int)
next
  case False
  then have "i64 (int a + int b) = int a + int b - 2 ^ 64"
    using assms by (intro i64_overflow) simp_all
  with False assms show ?thesis by (simp add: int_add_def)
qed

text \<open>
  A length-delimited payload: its length as an \<open>int\<close>, then the three checks. The result is
  the payload's first index and the index after it.
\<close>

definition read_len :: "byte list \<Rightarrow> nat \<Rightarrow> pb_error + (nat \<times> nat)" where
  "read_len dAtA iNdEx =
     (case read_varint dAtA iNdEx of
        Inl e \<Rightarrow> Inl e
      | Inr (v, j) \<Rightarrow>
          if sint v < 0 then Inl ErrInvalidLength
          else (case int_add j (unat v) of
                  None \<Rightarrow> Inl ErrInvalidLength
                | Some postIndex \<Rightarrow>
                    if length dAtA < postIndex then Inl ErrUnexpectedEOF
                    else Inr (j, postIndex)))"

definition slice :: "byte list \<Rightarrow> nat \<Rightarrow> nat \<Rightarrow> byte list" where
  "slice d i j = drop i (take j d)"

text \<open>
  One step of the skipper: the value after the tag, by wire type. It returns the next index
  (\<open>None\<close> when it overflowed) and the group depth. Wire type 0 runs the varint loop for its
  index only.
\<close>

definition skip_value :: "byte list \<Rightarrow> nat \<Rightarrow> nat \<Rightarrow> nat \<Rightarrow> pb_error + (nat option \<times> nat)" where
  "skip_value dAtA iNdEx wireType depth =
     (if wireType = 0 then
        (case read_varint dAtA iNdEx of Inl e \<Rightarrow> Inl e | Inr (v, j) \<Rightarrow> Inr (Some j, depth))
      else if wireType = 1 then Inr (int_add iNdEx 8, depth)
      else if wireType = 2 then
        (case read_varint dAtA iNdEx of
           Inl e \<Rightarrow> Inl e
         | Inr (v, j) \<Rightarrow> if sint v < 0 then Inl ErrInvalidLength
                         else Inr (int_add j (unat v), depth))
      else if wireType = 3 then Inr (Some iNdEx, Suc depth)
      else if wireType = 4 then
        (if depth = 0 then Inl ErrUnexpectedEndOfGroup else Inr (Some iNdEx, depth - 1))
      else if wireType = 5 then Inr (int_add iNdEx 4, depth)
      else Inl IllegalWireType)"

lemma skip_value_advances: "skip_value d i w n = Inr (Some j, m) \<Longrightarrow> i \<le> j"
  by (auto simp: skip_value_def int_add_def split: if_splits sum.splits prod.splits
      dest!: read_varint_advances)

function skip_loop :: "byte list \<Rightarrow> nat \<Rightarrow> nat \<Rightarrow> pb_error + nat" where
  "skip_loop dAtA iNdEx depth =
     (if length dAtA \<le> iNdEx then Inl ErrUnexpectedEOF
      else case read_varint dAtA iNdEx of
        Inl e \<Rightarrow> Inl e
      | Inr (wire, j) \<Rightarrow>
          (case skip_value dAtA j (unat (wire AND 7)) depth of
             Inl e \<Rightarrow> Inl e
           | Inr (None, depth') \<Rightarrow> Inl ErrInvalidLength
           | Inr (Some k, depth') \<Rightarrow>
               if depth' = 0 then Inr k else skip_loop dAtA k depth'))"
  by pat_completeness auto
termination
  by (relation "measure (\<lambda>(d, i, n). length d - i)")
     (auto dest!: read_varint_advances skip_value_advances)

declare skip_loop.simps [simp del]

definition skip_field :: "byte list \<Rightarrow> pb_error + nat" where
  "skip_field dAtA = skip_loop dAtA 0 0"

lemma skip_loop_advances: "skip_loop d i n = Inr j \<Longrightarrow> i < j"
proof (induction d i n rule: skip_loop.induct)
  case (1 d i n)
  from "1.prems" show ?case
    by (subst (asm) skip_loop.simps)
       (fastforce split: if_splits sum.splits prod.splits option.splits
         dest: "1.IH" read_varint_advances skip_value_advances)
qed

section \<open>The field loop of Unmarshal\<close>

text \<open>
  A message's \<open>switch fieldNum\<close>: for each field number it knows, how the field is read and
  stored. Bytes and strings replace the field, an embedded message is decoded into it.
\<close>

datatype 'm field =
    FUint64 "u64 \<Rightarrow> 'm \<Rightarrow> 'm"
  | FBytes "byte list \<Rightarrow> 'm \<Rightarrow> 'm"
  | FMessage "byte list \<Rightarrow> 'm \<Rightarrow> pb_error + 'm"

fun read_field :: "'m field \<Rightarrow> nat \<Rightarrow> byte list \<Rightarrow> nat \<Rightarrow> 'm \<Rightarrow> pb_error + ('m \<times> nat)" where
  "read_field (FUint64 f) wireType dAtA iNdEx m =
     (if wireType \<noteq> 0 then Inl WrongWireType
      else case read_varint dAtA iNdEx of Inl e \<Rightarrow> Inl e | Inr (v, j) \<Rightarrow> Inr (f v m, j))"
| "read_field (FBytes f) wireType dAtA iNdEx m =
     (if wireType \<noteq> 2 then Inl WrongWireType
      else case read_len dAtA iNdEx of
        Inl e \<Rightarrow> Inl e | Inr (j, k) \<Rightarrow> Inr (f (slice dAtA j k) m, k))"
| "read_field (FMessage f) wireType dAtA iNdEx m =
     (if wireType \<noteq> 2 then Inl WrongWireType
      else case read_len dAtA iNdEx of
        Inl e \<Rightarrow> Inl e
      | Inr (j, k) \<Rightarrow> (case f (slice dAtA j k) m of Inl e \<Rightarrow> Inl e | Inr m' \<Rightarrow> Inr (m', k)))"

definition skip_unknown :: "byte list \<Rightarrow> nat \<Rightarrow> 'm \<Rightarrow> pb_error + ('m \<times> nat)" where
  "skip_unknown dAtA preIndex m =
     (case skip_field (drop preIndex dAtA) of
        Inl e \<Rightarrow> Inl e
      | Inr skippy \<Rightarrow>
          (case int_add preIndex skippy of
             None \<Rightarrow> Inl ErrInvalidLength
           | Some k \<Rightarrow> if length dAtA < k then Inl ErrUnexpectedEOF else Inr (m, k)))"

lemma read_len_advances: "read_len d i = Inr (j, k) \<Longrightarrow> i < j \<and> j \<le> k \<and> k \<le> length d"
  by (auto simp: read_len_def int_add_def split: sum.splits prod.splits if_splits option.splits
      dest!: read_varint_advances)

lemma read_field_advances: "read_field f w d i m = Inr (m', k) \<Longrightarrow> i < k \<and> k \<le> length d"
  by (cases f) (auto split: if_splits sum.splits prod.splits
      dest!: read_varint_advances read_len_advances)

lemma skip_unknown_advances: "skip_unknown d i m = Inr (m', k) \<Longrightarrow> i < k \<and> k \<le> length d"
  by (auto simp: skip_unknown_def skip_field_def int_add_def
      split: if_splits sum.splits option.splits dest!: skip_loop_advances)

text \<open>
  The tag: \<^verbatim>\<open>fieldNum := int32(wire >> 3)\<close>, \<^verbatim>\<open>wireType := int(wire & 0x7)\<close>.
\<close>

definition field_num :: "u64 \<Rightarrow> int" where
  "field_num wire = sint (ucast (drop_bit 3 wire) :: 32 word)"

function unmarshal_loop ::
  "(int \<Rightarrow> 'm field option) \<Rightarrow> byte list \<Rightarrow> nat \<Rightarrow> 'm \<Rightarrow> pb_error + 'm" where
  "unmarshal_loop fields dAtA iNdEx m =
     (if length dAtA \<le> iNdEx
      then (if length dAtA < iNdEx then Inl ErrUnexpectedEOF else Inr m)
      else case read_varint dAtA iNdEx of
        Inl e \<Rightarrow> Inl e
      | Inr (wire, j) \<Rightarrow>
          (let fieldNum = field_num wire; wireType = unat (wire AND 7)
           in if wireType = 4 then Inl WireTypeEndGroup
              else if fieldNum \<le> 0 then Inl IllegalTag
              else (case (case fields fieldNum of
                            None \<Rightarrow> skip_unknown dAtA iNdEx m
                          | Some f \<Rightarrow> read_field f wireType dAtA j m) of
                      Inl e \<Rightarrow> Inl e
                    | Inr (m', k) \<Rightarrow> unmarshal_loop fields dAtA k m')))"
  by pat_completeness auto
termination
  by (relation "measure (\<lambda>(fs, d, i, m). length d - i)")
     (auto split: option.splits
       dest!: read_varint_advances skip_unknown_advances read_field_advances)

declare unmarshal_loop.simps [simp del]

definition unmarshal :: "(int \<Rightarrow> 'm field option) \<Rightarrow> 'm \<Rightarrow> byte list \<Rightarrow> pb_error + 'm" where
  "unmarshal fields m dAtA = unmarshal_loop fields dAtA 0 m"

end
