(* ===== verification/Codec.thy ===== *)
theory Codec
  imports MessageFields
begin

text \<open>
  The wire content of a message as a list of (field number, value) pairs, its bytes, and the
  two facts all codecs share: the backward writer blocks produce exactly those bytes, and
  the field loop reads them back as the field updates. The locale \<open>message_codec\<close> is the
  contract of a generated message type.
\<close>

section \<open>Wire content\<close>

datatype wire_value = WVarint u64 | WLen "byte list"

type_synonym wire_fields = "(nat \<times> wire_value) list"

definition tag_word :: "nat \<Rightarrow> nat \<Rightarrow> u64" where
  "tag_word n wireType = word_of_nat (8 * n + wireType)"

fun enc_value :: "nat \<Rightarrow> wire_value \<Rightarrow> byte list" where
  "enc_value n (WVarint v) = varint (tag_word n 0) @ varint v"
| "enc_value n (WLen bs) = varint (tag_word n 2) @ varint (word_of_nat (length bs)) @ bs"

definition enc_fields :: "wire_fields \<Rightarrow> byte list" where
  "enc_fields ws = concat (map (\<lambda>(n, w). enc_value n w) ws)"

lemma enc_fields_simps [simp]:
  "enc_fields [] = []"
  "enc_fields ((n, w) # ws) = enc_value n w @ enc_fields ws"
  "enc_fields (ws @ ws') = enc_fields ws @ enc_fields ws'"
  by (simp_all add: enc_fields_def)

text \<open>
  proto3 leaves out a scalar field that holds its zero value; an embedded message that is
  present is always written.
\<close>

definition w_uint :: "nat \<Rightarrow> u64 \<Rightarrow> wire_fields" where
  "w_uint n v = (if v = 0 then [] else [(n, WVarint v)])"

definition w_bytes :: "nat \<Rightarrow> byte list \<Rightarrow> wire_fields" where
  "w_bytes n bs = (if bs = [] then [] else [(n, WLen bs)])"

definition w_msg :: "nat \<Rightarrow> byte list \<Rightarrow> wire_fields" where
  "w_msg n bs = [(n, WLen bs)]"

definition w_msgs :: "nat \<Rightarrow> byte list list \<Rightarrow> wire_fields" where
  "w_msgs n bss = map (\<lambda>bs. (n, WLen bs)) bss"

lemma w_msgs_simps [simp]: "w_msgs n [] = []" "w_msgs n (bs # bss) = w_msg n bs @ w_msgs n bss"
  by (simp_all add: w_msgs_def w_msg_def)

section \<open>Reading wire content\<close>

text \<open>What a field table does with one value, and with a list of them.\<close>

fun apply_value :: "'m field \<Rightarrow> wire_value \<Rightarrow> 'm \<Rightarrow> pb_error + 'm" where
  "apply_value (FUint64 f) (WVarint v) m = Inr (f v m)"
| "apply_value (FBytes f) (WLen bs) m = Inr (f bs m)"
| "apply_value (FMessage f) (WLen bs) m = f bs m"
| "apply_value f w m = Inl WrongWireType"

fun apply_fields :: "(int \<Rightarrow> 'm field option) \<Rightarrow> wire_fields \<Rightarrow> 'm \<Rightarrow> pb_error + 'm" where
  "apply_fields F [] m = Inr m"
| "apply_fields F ((n, w) # ws) m =
     (case F (int n) of
        None \<Rightarrow> apply_fields F ws m
      | Some f \<Rightarrow> (case apply_value f w m of Inl e \<Rightarrow> Inl e | Inr m' \<Rightarrow> apply_fields F ws m'))"

text \<open>The field numbers the proto files use are small and known to the table.\<close>

definition known_fields :: "(int \<Rightarrow> 'm field option) \<Rightarrow> wire_fields \<Rightarrow> bool" where
  "known_fields F ws \<longleftrightarrow> (\<forall>(n, w) \<in> set ws. 0 < n \<and> n < 2 ^ 28 \<and> F (int n) \<noteq> None)"

lemma known_fields_simps [simp]:
  "known_fields F []"
  "known_fields F ((n, w) # ws) \<longleftrightarrow> 0 < n \<and> n < 2 ^ 28 \<and> F (int n) \<noteq> None \<and> known_fields F ws"
  "known_fields F (ws @ ws') \<longleftrightarrow> known_fields F ws \<and> known_fields F ws'"
  by (auto simp: known_fields_def)

lemma known_fields_w [simp]:
  "known_fields F (w_uint n v) \<longleftrightarrow> v = 0 \<or> known_fields F [(n, WVarint v)]"
  "known_fields F (w_bytes n bs) \<longleftrightarrow> bs = [] \<or> known_fields F [(n, WLen bs)]"
  "known_fields F (w_msg n bs) \<longleftrightarrow> known_fields F [(n, WLen bs)]"
  "known_fields F (w_msgs n bss) \<longleftrightarrow> bss = [] \<or> known_fields F [(n, WLen [])]"
  by (auto simp: w_uint_def w_bytes_def w_msg_def w_msgs_def known_fields_def)

lemma apply_fields_append:
  "apply_fields F (ws @ ws') m
    = (case apply_fields F ws m of Inl e \<Rightarrow> Inl e | Inr m' \<Rightarrow> apply_fields F ws' m')"
  by (induction F ws m rule: apply_fields.induct) (simp_all split: option.split sum.split)

lemma apply_fields_w:
  "apply_fields F (w_uint n v) m
    = (if v = 0 then Inr m else apply_fields F [(n, WVarint v)] m)"
  "apply_fields F (w_bytes n bs) m
    = (if bs = [] then Inr m else apply_fields F [(n, WLen bs)] m)"
  "apply_fields F (w_msg n bs) m = apply_fields F [(n, WLen bs)] m"
  by (simp_all add: w_uint_def w_bytes_def w_msg_def)

lemma apply_fields_msgs:
  assumes "F (int n) = Some (FMessage f)"
    and "\<And>x m. x \<in> set xs \<Longrightarrow> f (enc x) m = Inr (add x m)"
  shows "apply_fields F (w_msgs n (map enc xs)) m = Inr (foldl (\<lambda>m x. add x m) m xs)"
  using assms(2)
proof (induction xs arbitrary: m)
  case (Cons x xs)
  then show ?case using assms(1) by (simp add: w_msg_def)
qed simp

lemmas apply_simps = apply_fields_append apply_fields_w

lemma tag_parts:
  assumes "n < 2 ^ 28" "w < 8"
  shows "unat (tag_word n w AND 7) = w"
    and "field_num (tag_word n w) = int n"
proof -
  let ?t = "tag_word n w"
  have u: "unat ?t = 8 * n + w"
    unfolding tag_word_def using assms by (subst unat_of_nat) (simp add: take_bit_nat_eq_self)
  have "(7 :: u64) = mask 3"
    by (simp add: mask_eq_exp_minus_1)
  then have "?t AND 7 = take_bit 3 ?t"
    by (simp only: take_bit_eq_mask)
  then have "unat (?t AND 7) = unat ?t mod 8"
    by (simp add: take_bit_eq_mod unat_mod_distrib)
  then show "unat (?t AND 7) = w"
    using assms by (simp add: u)
  have "unat (drop_bit 3 ?t) = n"
    using assms by (simp add: drop_bit_eq_div unat_div_distrib u)
  then have "drop_bit 3 ?t = word_of_nat n"
    by (metis of_nat_unat ucast_id)
  then show "field_num ?t = int n"
    using assms
    by (simp add: field_num_def unsigned_of_nat take_bit_nat_eq_self signed_of_nat
        signed_take_bit_int_eq_self)
qed

lemma read_len_back:
  assumes "length (pre @ varint (word_of_nat (length bs)) @ bs @ rest) < 2 ^ 63"
  shows "read_len (pre @ varint (word_of_nat (length bs)) @ bs @ rest) (length pre)
    = (let j = length pre + length (varint (word_of_nat (length bs)))
       in Inr (j, j + length bs))"
proof -
  let ?v = "word_of_nat (length bs) :: u64"
  have "unat ?v = length bs"
    using assms by (simp add: unat_of_nat take_bit_nat_eq_self)
  moreover from this have "sint ?v = int (length bs)"
    using assms by (subst sint_small) simp_all
  ultimately show ?thesis
    using assms by (simp add: read_len_def wire_simps int_add_def Let_def)
qed

lemma slice_middle [simp]:
  "i = length pre \<Longrightarrow> j = length pre + length bs \<Longrightarrow> slice (pre @ bs @ rest) i j = bs"
  by (simp add: slice_def)

lemma slice_payload:
  "i = length pre + length v \<Longrightarrow> slice (pre @ v @ bs @ rest) i (i + length bs) = bs"
  using slice_middle [of i "pre @ v" "i + length bs" bs rest] by simp

lemma enc_value_nonempty [simp]: "enc_value n w \<noteq> []"
  by (cases w) simp_all

text \<open>One turn of the field loop on a value of a known field.\<close>

lemma unmarshal_loop_value:
  assumes small: "length (pre @ enc_value n w @ rest) < 2 ^ 63" "0 < n" "n < 2 ^ 28"
    and known: "F (int n) = Some f"
  shows "unmarshal_loop F (pre @ enc_value n w @ rest) (length pre) m
    = (case apply_value f w m of
         Inl e \<Rightarrow> Inl e
       | Inr m' \<Rightarrow> unmarshal_loop F (pre @ enc_value n w @ rest)
                     (length pre + length (enc_value n w)) m')"
proof -
  obtain t v where e: "enc_value n w = varint (tag_word n t) @ v"
    and t: "t = (case w of WVarint _ \<Rightarrow> 0 | WLen _ \<Rightarrow> 2)" "t < 8" "t \<noteq> 4"
    by (cases w) auto
  let ?d = "pre @ enc_value n w @ rest" and ?tag = "varint (tag_word n t)"
  let ?j = "length pre + length ?tag"
  have tag: "read_varint ?d (length pre) = Inr (tag_word n t, ?j)"
    using read_varint_back [of pre "tag_word n t" "v @ rest"] by (simp add: e)
  have lt: "length pre < length ?d"
    using length_varint_bounds(1) [of "tag_word n t"] by (simp add: e)
  have "read_field f t ?d ?j m = (case apply_value f w m of
      Inl e \<Rightarrow> Inl e | Inr m' \<Rightarrow> Inr (m', length pre + length (enc_value n w)))"
  proof (cases w)
    case (WVarint x)
    have "read_varint ?d ?j = Inr (x, ?j + length (varint x))"
      using read_varint_back [of "pre @ ?tag" x rest] WVarint t by simp
    then show ?thesis using WVarint t by (cases f) (simp_all add: add.assoc)
  next
    case (WLen bs)
    let ?l = "varint (word_of_nat (length bs))"
    have "read_len ?d ?j = Inr (?j + length ?l, ?j + length ?l + length bs)"
      using read_len_back [of "pre @ ?tag" bs rest] small(1) WLen t by (simp add: Let_def add.assoc)
    moreover have "slice ?d (?j + length ?l) (?j + length ?l + length bs) = bs"
      using slice_payload [of "?j + length ?l" "pre @ ?tag" ?l bs rest] WLen t by simp
    ultimately show ?thesis using WLen t by (cases f) (simp_all add: add.assoc split: sum.splits)
  qed
  then show ?thesis
    using lt tag t(2,3) small(2) known tag_parts [OF small(3) t(2)]
    by (subst unmarshal_loop.simps) (simp add: Let_def split: sum.splits)
qed

lemma unmarshal_loop_fields:
  "known_fields F ws \<Longrightarrow> length (pre @ enc_fields ws) < 2 ^ 63 \<Longrightarrow>
    unmarshal_loop F (pre @ enc_fields ws) (length pre) m = apply_fields F ws m"
proof (induction ws arbitrary: pre m)
  case Nil
  then show ?case by (subst unmarshal_loop.simps) simp
next
  case (Cons a ws)
  obtain n w where a: "a = (n, w)" by (cases a)
  with Cons.prems obtain f where n: "0 < n" "n < 2 ^ 28" and f: "F (int n) = Some f" by auto
  have "unmarshal_loop F ((pre @ enc_value n w) @ enc_fields ws)
      (length (pre @ enc_value n w)) m' = apply_fields F ws m'" for m'
    using Cons.prems a by (intro Cons.IH) simp_all
  then show ?case
    using unmarshal_loop_value [of pre n w "enc_fields ws" F f m] Cons.prems n f a
    by (cases "apply_value f w m") simp_all
qed

lemma unmarshal_fields:
  "known_fields F ws \<Longrightarrow> length (enc_fields ws) < 2 ^ 63 \<Longrightarrow>
    unmarshal F m (enc_fields ws) = apply_fields F ws m"
  using unmarshal_loop_fields [of F ws "[]" m] by (simp add: unmarshal_def)

section \<open>Writing wire content\<close>

text \<open>
  The blocks of the generated \<open>MarshalToSizedBuffer\<close>. Their state is the buffer and the
  index \<open>i\<close>, which moves towards the front; a negative index panics.
  \<open>put_raw\<close> is \<^verbatim>\<open>i -= len(bs); copy(dAtA[i:], bs)\<close>, and with one byte
  \<^verbatim>\<open>i--; dAtA[i] = b\<close>.
\<close>

type_synonym wbuf = "byte list \<times> nat"

definition put_raw :: "byte list \<Rightarrow> wbuf \<Rightarrow> ('e, wbuf) go" where
  "put_raw bs b = (case b of (dAtA, i) \<Rightarrow>
     if i < length bs then Panic IndexOutOfRange
     else Ret (take (i - length bs) dAtA @ bs @ drop i dAtA, i - length bs))"

definition put_varint :: "u64 \<Rightarrow> wbuf \<Rightarrow> ('e, wbuf) go" where
  "put_varint v b = (case b of (dAtA, i) \<Rightarrow> encodeVarint dAtA i v)"

definition put_uint :: "byte \<Rightarrow> u64 \<Rightarrow> wbuf \<Rightarrow> ('e, wbuf) go" where
  "put_uint tag v b =
     (if v \<noteq> 0 then go_bind (put_varint v b) (put_raw [tag]) else Ret b)"

definition put_bytes :: "byte \<Rightarrow> byte list \<Rightarrow> wbuf \<Rightarrow> ('e, wbuf) go" where
  "put_bytes tag bs b =
     (if bs \<noteq> []
      then go_bind (put_raw bs b) (\<lambda>b1.
           go_bind (put_varint (word_of_nat (length bs)) b1) (put_raw [tag]))
      else Ret b)"

text \<open>
  An embedded message writes itself at the end of \<^verbatim>\<open>dAtA[:i]\<close> and returns its size.
\<close>

definition put_msg :: "byte \<Rightarrow> (byte list \<Rightarrow> ('e, byte list \<times> nat) go) \<Rightarrow> wbuf \<Rightarrow> ('e, wbuf) go" where
  "put_msg tag msh b = (case b of (dAtA, i) \<Rightarrow>
     go_bind (msh (take i dAtA)) (\<lambda>(sub, n).
       if i < n then Panic IndexOutOfRange
       else go_bind (put_varint (word_of_nat n) (sub @ drop i dAtA, i - n))
              (put_raw [tag])))"

text \<open>A repeated field is written from its last element to its first.\<close>

fun put_msgs ::
  "byte \<Rightarrow> ('x \<Rightarrow> byte list \<Rightarrow> ('e, byte list \<times> nat) go) \<Rightarrow> 'x list \<Rightarrow> wbuf \<Rightarrow> ('e, wbuf) go" where
  "put_msgs tag msh [] b = Ret b"
| "put_msgs tag msh (x # xs) b = go_bind (put_msgs tag msh xs b) (put_msg tag (msh x))"

definition put_start :: "byte list \<Rightarrow> wbuf" where
  "put_start dAtA = (dAtA, length dAtA)"

definition put_done :: "nat \<Rightarrow> wbuf \<Rightarrow> ('e, byte list \<times> nat) go" where
  "put_done n b = (case b of (dAtA, i) \<Rightarrow> Ret (dAtA, n - i))"

text \<open>
  \<open>Marshal\<close>: a zeroed buffer of \<open>Size()\<close> bytes, filled from the back, and its first
  \<open>n\<close> bytes.
\<close>

definition marshal_with :: "nat \<Rightarrow> (byte list \<Rightarrow> ('e, byte list \<times> nat) go) \<Rightarrow> ('e, byte list) go" where
  "marshal_with sz0 msh = go_bind (msh (replicate sz0 0)) (\<lambda>(dAtA, n). Ret (take n dAtA))"

text \<open>
  The state of the writer over the original buffer \<open>d\<close>: the index is at \<open>k\<close> and \<open>suf\<close> is
  what has been written so far.
\<close>

definition written :: "byte list \<Rightarrow> nat \<Rightarrow> byte list \<Rightarrow> wbuf" where
  "written d k suf = (take k d @ suf, k)"

lemma put_raw_back:
  "k \<le> length d \<Longrightarrow> length bs \<le> k \<Longrightarrow>
    put_raw bs (take k d @ suf, k) = Ret (take (k - length bs) d @ bs @ suf, k - length bs)"
  by (simp add: put_raw_def min_def)

lemma put_varint_back:
  "k \<le> length d \<Longrightarrow> length (varint v) \<le> k \<Longrightarrow>
    put_varint v (take k d @ suf, k)
      = Ret (take (k - length (varint v)) d @ varint v @ suf, k - length (varint v))"
  by (simp add: put_varint_def encodeVarint_back)

lemma one_byte_tag: "8 * n + t < 128 \<Longrightarrow> varint (tag_word n t) = [word_of_nat (8 * n + t)]"
proof -
  assume a: "8 * n + t < 128"
  then have u: "unat (tag_word n t) = 8 * n + t"
    unfolding tag_word_def by (subst unat_of_nat) (simp add: take_bit_nat_eq_self)
  moreover have "(ucast (tag_word n t) :: byte) = word_of_nat (8 * n + t)"
    by (metis u of_nat_unat)
  ultimately show ?thesis using a by (simp add: varint.simps word_less_nat_alt)
qed

text \<open>The field number and wire type of a one-byte tag.\<close>

lemma tag_byte:
  assumes "unat (tag :: byte) mod 8 = t" "unat tag < 128"
  shows "varint (tag_word (unat tag div 8) t) = [tag]"
proof -
  have "8 * (unat tag div 8) + t = unat tag"
    using assms by (metis mult_div_mod_eq)
  then show ?thesis
    using one_byte_tag [of "unat tag div 8" t] assms(2) by simp
qed

lemma put_uint_back [wire_simps]:
  fixes tag :: byte
  defines "n \<equiv> unat tag div 8"
  assumes "k \<le> length d" "length (enc_fields (w_uint n v)) \<le> k"
    and tag: "unat tag mod 8 = 0" "unat tag < 128"
  shows "put_uint tag v (written d k suf)
    = Ret (written d (k - length (enc_fields (w_uint n v))) (enc_fields (w_uint n v) @ suf))"
  using assms tag_byte [OF tag]
  by (auto simp: written_def put_uint_def w_uint_def put_varint_back put_raw_back)

lemma put_bytes_back [wire_simps]:
  fixes tag :: byte
  defines "n \<equiv> unat tag div 8"
  assumes "k \<le> length d" "length (enc_fields (w_bytes n bs)) \<le> k"
    and tag: "unat tag mod 8 = 2" "unat tag < 128"
  shows "put_bytes tag bs (written d k suf)
    = Ret (written d (k - length (enc_fields (w_bytes n bs))) (enc_fields (w_bytes n bs) @ suf))"
  using assms tag_byte [OF tag]
  by (cases "bs = []")
     (simp_all add: written_def put_bytes_def w_bytes_def put_varint_back put_raw_back add.commute)

lemma put_start_back [wire_simps]: "put_start d = written d (length d) []"
  by (simp add: put_start_def written_def)

lemma put_done_back [wire_simps]:
  "n \<le> length d \<Longrightarrow>
    put_done (length d) (written d (length d - n) suf) = Ret (take (length d - n) d @ suf, n)"
  "put_done (length d) (written d (length d) suf) = Ret (d @ suf, 0)"
  by (simp_all add: put_done_def written_def)

section \<open>Sizes\<close>

text \<open>The three shapes of a summand of the generated \<open>Size()\<close>.\<close>

definition size_uint :: "u64 \<Rightarrow> nat" where
  "size_uint v = (if v \<noteq> 0 then 1 + sov v else 0)"

definition size_bytes :: "nat \<Rightarrow> nat" where
  "size_bytes l = (if 0 < l then 1 + l + sov (word_of_nat l) else 0)"

definition size_msg :: "nat \<Rightarrow> nat" where
  "size_msg l = 1 + l + sov (word_of_nat l)"

lemma sov_small: "v < 128 \<Longrightarrow> sov v = 1"
  by (simp add: sov_varint varint.simps)

lemma size_fields [wire_simps]:
  "n < 16 \<Longrightarrow> length (enc_fields (w_uint n v)) = size_uint v"
  "n < 15 \<Longrightarrow> length (enc_fields (w_bytes n bs)) = size_bytes (length bs)"
  "n < 15 \<Longrightarrow> length (enc_fields (w_msg n bs)) = size_msg (length bs)"
  using one_byte_tag [of n 0] one_byte_tag [of n 2]
  by (auto simp: w_uint_def w_bytes_def w_msg_def size_uint_def size_bytes_def size_msg_def sov_varint)

lemma size_msgs:
  "n < 15 \<Longrightarrow> length (enc_fields (w_msgs n (map enc xs))) = (\<Sum>x\<leftarrow>xs. size_msg (length (enc x)))"
  by (induction xs) (simp_all add: size_fields)

lemma embedded_small:
  "n < 15 \<Longrightarrow> length (enc_fields (w_msgs n (map enc xs))) < k \<Longrightarrow> \<forall>x \<in> set xs. length (enc x) < k"
  by (induction xs) (auto simp: size_fields size_msg_def)

section \<open>The contract of a message type\<close>

text \<open>
  \<open>sized_codec\<close> is what an embedding message relies on: \<open>Size()\<close> is the number of bytes
  \<open>MarshalToSizedBuffer\<close> writes, it writes them at the end of any buffer that is large
  enough, and \<open>Unmarshal\<close> into a zero value gives the message back. Types from outside the
  repository (\<open>sdk.Coin\<close>) enter the model through this contract alone.
\<close>

locale sized_codec =
  fixes sz :: "'m \<Rightarrow> nat"
    and bytes :: "'m \<Rightarrow> byte list"
    and msh :: "'m \<Rightarrow> byte list \<Rightarrow> (pb_error, byte list \<times> nat) go"
    and unm :: "'m \<Rightarrow> byte list \<Rightarrow> pb_error + 'm"
    and zero :: 'm
    and ok :: "'m \<Rightarrow> bool"
  assumes size_bytes: "sz m = length (bytes m)"
    and writes_at_end: "sz m \<le> length d \<Longrightarrow> msh m d = Ret (take (length d - sz m) d @ bytes m, sz m)"
    and reads_back: "ok m \<Longrightarrow> length (bytes m) < 2 ^ 63 \<Longrightarrow> unm zero (bytes m) = Inr m"
begin

lemma marshal_bytes: "marshal_with (sz m) (msh m) = Ret (bytes m)"
  using writes_at_end [of m "replicate (sz m) 0"]
  by (simp add: marshal_with_def size_bytes)

lemma codec_roundtrip:
  "ok m \<Longrightarrow> sz m < 2 ^ 63 \<Longrightarrow>
    \<exists>bz. marshal_with (sz m) (msh m) = Ret bz \<and> length bz = sz m \<and> unm zero bz = Inr m"
  using reads_back [of m] marshal_bytes [of m] by (simp add: size_bytes)

lemma marshal_inj:
  assumes "ok m" "ok m'" "length (bytes m) < 2 ^ 63"
    and "marshal_with (sz m) (msh m) = marshal_with (sz m') (msh m')"
  shows "m = m'"
  using assms reads_back [of m] reads_back [of m'] by (simp add: marshal_bytes)

lemma put_msg_back:
  fixes tag :: byte
  defines "n \<equiv> unat tag div 8"
  assumes "k \<le> length d" "length (enc_fields (w_msg n (bytes m))) \<le> k"
    and tag: "unat tag mod 8 = 2" "unat tag < 128"
  shows "put_msg tag (msh m) (written d k suf)
    = Ret (written d (k - length (enc_fields (w_msg n (bytes m)))) (enc_fields (w_msg n (bytes m)) @ suf))"
proof -
  have "msh m (take k d) = Ret (take (k - sz m) d @ bytes m, sz m)"
    using assms by (subst writes_at_end) (simp_all add: size_bytes w_msg_def min_def)
  then show ?thesis
    using assms tag_byte [OF tag]
    by (simp add: written_def put_msg_def w_msg_def size_bytes put_varint_back put_raw_back add.commute)
qed

lemma put_msgs_back:
  fixes tag :: byte
  defines "n \<equiv> unat tag div 8"
  assumes "k \<le> length d" "length (enc_fields (w_msgs n (map bytes xs))) \<le> k"
    and tag: "unat tag mod 8 = 2" "unat tag < 128"
  shows "put_msgs tag msh xs (written d k suf)
    = Ret (written d (k - length (enc_fields (w_msgs n (map bytes xs))))
        (enc_fields (w_msgs n (map bytes xs)) @ suf))"
  using assms(3)
proof (induction xs arbitrary: suf)
  case (Cons x xs)
  then show ?case
    using assms(1,2) put_msg_back [OF _ _ tag] by (simp add: add.commute)
qed simp

end

text \<open>
  \<open>message_codec\<close> is what a generated file provides for one of its messages: the wire fields
  of a value and the field table of its \<open>Unmarshal\<close>. It gives the contract above.
\<close>

locale message_codec =
  fixes sz :: "'m \<Rightarrow> nat"
    and wire :: "'m \<Rightarrow> wire_fields"
    and msh :: "'m \<Rightarrow> byte list \<Rightarrow> (pb_error, byte list \<times> nat) go"
    and tbl :: "int \<Rightarrow> 'm field option"
    and zero :: 'm
    and ok :: "'m \<Rightarrow> bool"
  assumes size_wire: "sz m = length (enc_fields (wire m))"
    and writes_wire: "sz m \<le> length d \<Longrightarrow>
      msh m d = Ret (take (length d - sz m) d @ enc_fields (wire m), sz m)"
    and wire_known: "known_fields tbl (wire m)"
    and wire_applies: "ok m \<Longrightarrow> length (enc_fields (wire m)) < 2 ^ 63 \<Longrightarrow>
      apply_fields tbl (wire m) zero = Inr m"
begin

lemma unmarshal_wire:
  "ok m \<Longrightarrow> length (enc_fields (wire m)) < 2 ^ 63 \<Longrightarrow> unmarshal tbl zero (enc_fields (wire m)) = Inr m"
  by (simp add: unmarshal_fields [OF wire_known] wire_applies)

end

sublocale message_codec \<subseteq> sized_codec sz "\<lambda>m. enc_fields (wire m)" msh "unmarshal tbl" zero ok
  by unfold_locales (simp_all add: size_wire writes_wire unmarshal_wire)

lemma message_codec_sized:
  assumes "message_codec sz wire msh tbl zero ok"
  shows "sized_codec sz (\<lambda>m. enc_fields (wire m)) msh (unmarshal tbl) zero ok"
proof -
  note laws = message_codec.size_wire [OF assms] message_codec.writes_wire [OF assms]
    message_codec.unmarshal_wire [OF assms]
  show ?thesis by (rule sized_codec.intro) (fact laws)+
qed

section \<open>The application's codec\<close>

text \<open>
  \<^verbatim>\<open>codec.BinaryCodec\<close> marshals and unmarshals with the message's own methods; the
  \<open>Must\<close> forms panic with the error.
\<close>

definition must_marshal :: "(pb_error, byte list) go \<Rightarrow> ('e, byte list) go" where
  "must_marshal r =
     (case r of Ret bz \<Rightarrow> Ret bz | Err e \<Rightarrow> Panic (MustUnmarshalPanic e) | Panic p \<Rightarrow> Panic p)"

definition must_unmarshal :: "pb_error + 'm \<Rightarrow> ('e, 'm) go" where
  "must_unmarshal r = (case r of Inl e \<Rightarrow> Panic (MustUnmarshalPanic e) | Inr m \<Rightarrow> Ret m)"

lemma must_simps [simp]:
  "must_marshal (Ret bz) = Ret bz"
  "must_unmarshal (Inl e) = Panic (MustUnmarshalPanic e)"
  "must_unmarshal (Inr m) = Ret m"
  by (simp_all add: must_marshal_def must_unmarshal_def)

end
