(* ===== verification/TxCodec.thy ===== *)
theory TxCodec
  imports Codec
begin

text \<open>
  \<^verbatim>\<open>x/schedule/types/tx.pb.go\<close>: the two transactions of the module and their empty responses.
\<close>

section \<open>MsgAddSchedule\<close>

record MsgAddSchedule =
  ma_Signer :: string
  ma_Contract :: string
  ma_CallBody :: "byte list"
  ma_BlockHeight :: u64

definition MsgAddSchedule_zero :: MsgAddSchedule where
  "MsgAddSchedule_zero = \<lparr>ma_Signer = [], ma_Contract = [], ma_CallBody = [], ma_BlockHeight = 0\<rparr>"

definition MsgAddSchedule_Size :: "MsgAddSchedule \<Rightarrow> nat" where
  "MsgAddSchedule_Size m = size_bytes (length (ma_Signer m))
     + size_bytes (length (ma_Contract m))
     + size_bytes (length (ma_CallBody m))
     + size_uint (ma_BlockHeight m)"

definition MsgAddSchedule_MarshalToSizedBuffer ::
  "MsgAddSchedule \<Rightarrow> byte list \<Rightarrow> (pb_error, byte list \<times> nat) go" where
  "MsgAddSchedule_MarshalToSizedBuffer m dAtA =
     (let b = put_start dAtA in
      go_bind (put_uint 0x28 (ma_BlockHeight m) b) (\<lambda>b.
      go_bind (put_bytes 0x1a (ma_CallBody m) b) (\<lambda>b.
      go_bind (put_bytes 0x12 (string_bytes (ma_Contract m)) b) (\<lambda>b.
      go_bind (put_bytes 0x0a (string_bytes (ma_Signer m)) b) (\<lambda>b.
      put_done (length dAtA) b)))))"

definition MsgAddSchedule_Marshal :: "MsgAddSchedule \<Rightarrow> (pb_error, byte list) go" where
  "MsgAddSchedule_Marshal m =
     marshal_with (MsgAddSchedule_Size m) (MsgAddSchedule_MarshalToSizedBuffer m)"

definition MsgAddSchedule_fields :: "int \<Rightarrow> MsgAddSchedule field option" where
  "MsgAddSchedule_fields fieldNum =
     (if fieldNum = 1 then Some (FBytes (\<lambda>bs m. m\<lparr>ma_Signer := bytes_string bs\<rparr>))
      else if fieldNum = 2 then Some (FBytes (\<lambda>bs m. m\<lparr>ma_Contract := bytes_string bs\<rparr>))
      else if fieldNum = 3 then Some (FBytes (\<lambda>bs m. m\<lparr>ma_CallBody := bs\<rparr>))
      else if fieldNum = 5 then Some (FUint64 (\<lambda>v m. m\<lparr>ma_BlockHeight := v\<rparr>))
      else None)"

definition MsgAddSchedule_Unmarshal :: "MsgAddSchedule \<Rightarrow> byte list \<Rightarrow> pb_error + MsgAddSchedule" where
  "MsgAddSchedule_Unmarshal m dAtA = unmarshal MsgAddSchedule_fields m dAtA"

definition MsgAddSchedule_wire :: "MsgAddSchedule \<Rightarrow> wire_fields" where
  "MsgAddSchedule_wire m = w_bytes 1 (string_bytes (ma_Signer m))
     @ w_bytes 2 (string_bytes (ma_Contract m))
     @ w_bytes 3 (ma_CallBody m)
     @ w_uint 5 (ma_BlockHeight m)"

interpretation msg_add_schedule: message_codec MsgAddSchedule_Size MsgAddSchedule_wire
  MsgAddSchedule_MarshalToSizedBuffer MsgAddSchedule_fields MsgAddSchedule_zero "\<lambda>_. True"
proof (unfold_locales, goal_cases)
  case (1 m)
  show ?case by (simp add: MsgAddSchedule_Size_def MsgAddSchedule_wire_def wire_simps)
next
  case (2 m d)
  then show ?case
    by (simp add: MsgAddSchedule_MarshalToSizedBuffer_def MsgAddSchedule_Size_def MsgAddSchedule_wire_def
        wire_simps) (simp add: ac_simps)
next
  case (3 m)
  show ?case by (simp add: MsgAddSchedule_wire_def MsgAddSchedule_fields_def)
next
  case (4 m)
  show ?case by (simp add: MsgAddSchedule_wire_def MsgAddSchedule_fields_def MsgAddSchedule_zero_def apply_simps)
qed

section \<open>MsgAddScheduleResponse\<close>

datatype MsgAddScheduleResponse = MsgAddScheduleResponse

definition MsgAddScheduleResponse_Size :: "MsgAddScheduleResponse \<Rightarrow> nat" where
  "MsgAddScheduleResponse_Size m = 0"

definition MsgAddScheduleResponse_MarshalToSizedBuffer ::
  "MsgAddScheduleResponse \<Rightarrow> byte list \<Rightarrow> (pb_error, byte list \<times> nat) go" where
  "MsgAddScheduleResponse_MarshalToSizedBuffer m dAtA =
     (let b = put_start dAtA in
      put_done (length dAtA) b)"

definition MsgAddScheduleResponse_Marshal :: "MsgAddScheduleResponse \<Rightarrow> (pb_error, byte list) go" where
  "MsgAddScheduleResponse_Marshal m =
     marshal_with (MsgAddScheduleResponse_Size m) (MsgAddScheduleResponse_MarshalToSizedBuffer m)"

definition MsgAddScheduleResponse_fields :: "int \<Rightarrow> MsgAddScheduleResponse field option" where
  "MsgAddScheduleResponse_fields fieldNum =
     None"

definition MsgAddScheduleResponse_Unmarshal :: "MsgAddScheduleResponse \<Rightarrow> byte list \<Rightarrow> pb_error + MsgAddScheduleResponse" where
  "MsgAddScheduleResponse_Unmarshal m dAtA = unmarshal MsgAddScheduleResponse_fields m dAtA"

definition MsgAddScheduleResponse_wire :: "MsgAddScheduleResponse \<Rightarrow> wire_fields" where
  "MsgAddScheduleResponse_wire m = []"

interpretation msg_add_schedule_response: message_codec MsgAddScheduleResponse_Size MsgAddScheduleResponse_wire
  MsgAddScheduleResponse_MarshalToSizedBuffer MsgAddScheduleResponse_fields MsgAddScheduleResponse "\<lambda>_. True"
proof (unfold_locales, goal_cases)
  case (4 m)
  show ?case by (cases m) (simp add: MsgAddScheduleResponse_wire_def)
qed (simp_all add: MsgAddScheduleResponse_Size_def MsgAddScheduleResponse_wire_def MsgAddScheduleResponse_MarshalToSizedBuffer_def wire_simps)

section \<open>MsgRemoveSchedule\<close>

record MsgRemoveSchedule =
  mr_Signer :: string
  mr_Contract :: string

definition MsgRemoveSchedule_zero :: MsgRemoveSchedule where
  "MsgRemoveSchedule_zero = \<lparr>mr_Signer = [], mr_Contract = []\<rparr>"

definition MsgRemoveSchedule_Size :: "MsgRemoveSchedule \<Rightarrow> nat" where
  "MsgRemoveSchedule_Size m = size_bytes (length (mr_Signer m))
     + size_bytes (length (mr_Contract m))"

definition MsgRemoveSchedule_MarshalToSizedBuffer ::
  "MsgRemoveSchedule \<Rightarrow> byte list \<Rightarrow> (pb_error, byte list \<times> nat) go" where
  "MsgRemoveSchedule_MarshalToSizedBuffer m dAtA =
     (let b = put_start dAtA in
      go_bind (put_bytes 0x12 (string_bytes (mr_Contract m)) b) (\<lambda>b.
      go_bind (put_bytes 0x0a (string_bytes (mr_Signer m)) b) (\<lambda>b.
      put_done (length dAtA) b)))"

definition MsgRemoveSchedule_Marshal :: "MsgRemoveSchedule \<Rightarrow> (pb_error, byte list) go" where
  "MsgRemoveSchedule_Marshal m =
     marshal_with (MsgRemoveSchedule_Size m) (MsgRemoveSchedule_MarshalToSizedBuffer m)"

definition MsgRemoveSchedule_fields :: "int \<Rightarrow> MsgRemoveSchedule field option" where
  "MsgRemoveSchedule_fields fieldNum =
     (if fieldNum = 1 then Some (FBytes (\<lambda>bs m. m\<lparr>mr_Signer := bytes_string bs\<rparr>))
      else if fieldNum = 2 then Some (FBytes (\<lambda>bs m. m\<lparr>mr_Contract := bytes_string bs\<rparr>))
      else None)"

definition MsgRemoveSchedule_Unmarshal :: "MsgRemoveSchedule \<Rightarrow> byte list \<Rightarrow> pb_error + MsgRemoveSchedule" where
  "MsgRemoveSchedule_Unmarshal m dAtA = unmarshal MsgRemoveSchedule_fields m dAtA"

definition MsgRemoveSchedule_wire :: "MsgRemoveSchedule \<Rightarrow> wire_fields" where
  "MsgRemoveSchedule_wire m = w_bytes 1 (string_bytes (mr_Signer m))
     @ w_bytes 2 (string_bytes (mr_Contract m))"

interpretation msg_remove_schedule: message_codec MsgRemoveSchedule_Size MsgRemoveSchedule_wire
  MsgRemoveSchedule_MarshalToSizedBuffer MsgRemoveSchedule_fields MsgRemoveSchedule_zero "\<lambda>_. True"
proof (unfold_locales, goal_cases)
  case (1 m)
  show ?case by (simp add: MsgRemoveSchedule_Size_def MsgRemoveSchedule_wire_def wire_simps)
next
  case (2 m d)
  then show ?case
    by (simp add: MsgRemoveSchedule_MarshalToSizedBuffer_def MsgRemoveSchedule_Size_def MsgRemoveSchedule_wire_def
        wire_simps) (simp add: ac_simps)
next
  case (3 m)
  show ?case by (simp add: MsgRemoveSchedule_wire_def MsgRemoveSchedule_fields_def)
next
  case (4 m)
  show ?case by (simp add: MsgRemoveSchedule_wire_def MsgRemoveSchedule_fields_def MsgRemoveSchedule_zero_def apply_simps)
qed

section \<open>MsgRemoveScheduleResponse\<close>

datatype MsgRemoveScheduleResponse = MsgRemoveScheduleResponse

definition MsgRemoveScheduleResponse_Size :: "MsgRemoveScheduleResponse \<Rightarrow> nat" where
  "MsgRemoveScheduleResponse_Size m = 0"

definition MsgRemoveScheduleResponse_MarshalToSizedBuffer ::
  "MsgRemoveScheduleResponse \<Rightarrow> byte list \<Rightarrow> (pb_error, byte list \<times> nat) go" where
  "MsgRemoveScheduleResponse_MarshalToSizedBuffer m dAtA =
     (let b = put_start dAtA in
      put_done (length dAtA) b)"

definition MsgRemoveScheduleResponse_Marshal :: "MsgRemoveScheduleResponse \<Rightarrow> (pb_error, byte list) go" where
  "MsgRemoveScheduleResponse_Marshal m =
     marshal_with (MsgRemoveScheduleResponse_Size m) (MsgRemoveScheduleResponse_MarshalToSizedBuffer m)"

definition MsgRemoveScheduleResponse_fields :: "int \<Rightarrow> MsgRemoveScheduleResponse field option" where
  "MsgRemoveScheduleResponse_fields fieldNum =
     None"

definition MsgRemoveScheduleResponse_Unmarshal :: "MsgRemoveScheduleResponse \<Rightarrow> byte list \<Rightarrow> pb_error + MsgRemoveScheduleResponse" where
  "MsgRemoveScheduleResponse_Unmarshal m dAtA = unmarshal MsgRemoveScheduleResponse_fields m dAtA"

definition MsgRemoveScheduleResponse_wire :: "MsgRemoveScheduleResponse \<Rightarrow> wire_fields" where
  "MsgRemoveScheduleResponse_wire m = []"

interpretation msg_remove_schedule_response: message_codec MsgRemoveScheduleResponse_Size MsgRemoveScheduleResponse_wire
  MsgRemoveScheduleResponse_MarshalToSizedBuffer MsgRemoveScheduleResponse_fields MsgRemoveScheduleResponse "\<lambda>_. True"
proof (unfold_locales, goal_cases)
  case (4 m)
  show ?case by (cases m) (simp add: MsgRemoveScheduleResponse_wire_def)
qed (simp_all add: MsgRemoveScheduleResponse_Size_def MsgRemoveScheduleResponse_wire_def MsgRemoveScheduleResponse_MarshalToSizedBuffer_def wire_simps)

end
