(* ===== verification/Coin.thy ===== *)
theory Coin
  imports Codec
begin

text \<open>
  \<^verbatim>\<open>sdk.Coin\<close>, which the module stores and compares but does not define. Its value is a
  denomination and an integer amount. Its codec is a parameter of the messages that embed
  it, used under the contract \<open>sized_codec\<close>.
\<close>

record coin =
  denom :: string
  amount :: int

definition coin_zero :: coin where
  "coin_zero = \<lparr>denom = [], amount = 0\<rparr>"

text \<open>
  Comparing coins of two denominations panics, and so does reading an amount that is not a
  64-bit value, as the SDK documents for \<^verbatim>\<open>Coin.IsLT\<close> and \<^verbatim>\<open>Int.Uint64\<close>.
\<close>

definition coin_IsLT :: "coin \<Rightarrow> coin \<Rightarrow> ('e, bool) go" where
  "coin_IsLT a b = (if denom a \<noteq> denom b then Panic CoinDenomMismatch else Ret (amount a < amount b))"

definition int_Uint64 :: "int \<Rightarrow> ('e, u64) go" where
  "int_Uint64 x = (if 0 \<le> x \<and> x < 2 ^ 64 then Ret (word_of_int x) else Panic Uint64OutOfBounds)"

definition int_of_Uint64 :: "u64 \<Rightarrow> int" where
  "int_of_Uint64 x = uint x"

record coin_codec =
  cc_Size :: "coin \<Rightarrow> nat"
  cc_MarshalToSizedBuffer :: "coin \<Rightarrow> byte list \<Rightarrow> (pb_error, byte list \<times> nat) go"
  cc_Unmarshal :: "coin \<Rightarrow> byte list \<Rightarrow> pb_error + coin"

text \<open>The contract, for the encoding \<open>cb\<close> on the coins \<open>cok\<close> that read back.\<close>

definition coin_contract :: "coin_codec \<Rightarrow> (coin \<Rightarrow> byte list) \<Rightarrow> (coin \<Rightarrow> bool) \<Rightarrow> bool" where
  "coin_contract cc cb cok \<longleftrightarrow>
     sized_codec (cc_Size cc) cb (cc_MarshalToSizedBuffer cc) (cc_Unmarshal cc) coin_zero cok"

lemma int_Uint64_Ret: "int_Uint64 x = Ret v \<longleftrightarrow> 0 \<le> x \<and> x < 2 ^ 64 \<and> v = word_of_int x"
  by (auto simp: int_Uint64_def)

end
