(* ===== verification/ParamsCodec.thy ===== *)
theory ParamsCodec
  imports Coin
begin

text \<open>
  \<^verbatim>\<open>x/schedule/types/params.pb.go\<close>: the parameters of the module.
\<close>

section \<open>Params\<close>

record Params =
  p_MinimumBalance :: coin
  p_UpperBound :: u64

definition Params_zero :: Params where
  "Params_zero = \<lparr>p_MinimumBalance = coin_zero, p_UpperBound = 0\<rparr>"

definition Params_Size :: "coin_codec \<Rightarrow> Params \<Rightarrow> nat" where
  "Params_Size cc m = size_msg (cc_Size cc (p_MinimumBalance m))
     + size_uint (p_UpperBound m)"

definition Params_MarshalToSizedBuffer ::
  "coin_codec \<Rightarrow> Params \<Rightarrow> byte list \<Rightarrow> (pb_error, byte list \<times> nat) go" where
  "Params_MarshalToSizedBuffer cc m dAtA =
     (let b = put_start dAtA in
      go_bind (put_uint 0x10 (p_UpperBound m) b) (\<lambda>b.
      go_bind (put_msg 0x0a (cc_MarshalToSizedBuffer cc (p_MinimumBalance m)) b) (\<lambda>b.
      put_done (length dAtA) b)))"

definition Params_Marshal :: "coin_codec \<Rightarrow> Params \<Rightarrow> (pb_error, byte list) go" where
  "Params_Marshal cc m =
     marshal_with (Params_Size cc m) (Params_MarshalToSizedBuffer cc m)"

definition Params_fields :: "coin_codec \<Rightarrow> int \<Rightarrow> Params field option" where
  "Params_fields cc fieldNum =
     (if fieldNum = 1 then Some (FMessage (\<lambda>bs m.
        case cc_Unmarshal cc (p_MinimumBalance m) bs of Inl e \<Rightarrow> Inl e | Inr c \<Rightarrow> Inr (m\<lparr>p_MinimumBalance := c\<rparr>)))
      else if fieldNum = 2 then Some (FUint64 (\<lambda>v m. m\<lparr>p_UpperBound := v\<rparr>))
      else None)"

definition Params_Unmarshal :: "coin_codec \<Rightarrow> Params \<Rightarrow> byte list \<Rightarrow> pb_error + Params" where
  "Params_Unmarshal cc m dAtA = unmarshal (Params_fields cc) m dAtA"

definition Params_wire :: "(coin \<Rightarrow> byte list) \<Rightarrow> Params \<Rightarrow> wire_fields" where
  "Params_wire cb m = w_msg 1 (cb (p_MinimumBalance m))
     @ w_uint 2 (p_UpperBound m)"

text \<open>The coins it embeds are read back when their own codec does.\<close>

lemma params_codec:
  assumes "coin_contract cc cb cok"
  shows "message_codec (Params_Size cc) (Params_wire cb) (Params_MarshalToSizedBuffer cc)
    (Params_fields cc) Params_zero (\<lambda>m. cok (p_MinimumBalance m))"
proof -
  have c: "sized_codec (cc_Size cc) cb (cc_MarshalToSizedBuffer cc) (cc_Unmarshal cc) coin_zero cok"
    using assms by (simp add: coin_contract_def)
  note c_simps = sized_codec.size_bytes [OF c] sized_codec.put_msg_back [OF c]
  show ?thesis
  proof (unfold_locales, goal_cases)
    case (1 m)
    show ?case by (simp add: Params_Size_def Params_wire_def wire_simps c_simps)
  next
    case (2 m d)
    then show ?case
      by (simp add: Params_MarshalToSizedBuffer_def Params_Size_def Params_wire_def
          wire_simps c_simps) (simp add: ac_simps)
  next
    case (3 m)
    show ?case by (simp add: Params_wire_def Params_fields_def)
  next
    case (4 m)
    then have "length (cb (p_MinimumBalance m)) < 2 ^ 63"
      by (simp add: Params_wire_def wire_simps size_msg_def)
    with 4 show ?case
      by (simp add: Params_wire_def Params_fields_def Params_zero_def apply_simps
          sized_codec.reads_back [OF c])
  qed
qed

end
