(* ===== verification/GenesisCodec.thy ===== *)
theory GenesisCodec
  imports ParamsCodec TxCodec
begin

text \<open>
  \<^verbatim>\<open>x/schedule/types/genesis.pb.go\<close>: the genesis state of the module.
\<close>

section \<open>GenesisState\<close>

record GenesisState =
  gs_Params :: Params
  gs_ScheduledCalls :: "MsgAddSchedule list"

definition GenesisState_zero :: GenesisState where
  "GenesisState_zero = \<lparr>gs_Params = Params_zero, gs_ScheduledCalls = []\<rparr>"

definition GenesisState_Size :: "coin_codec \<Rightarrow> GenesisState \<Rightarrow> nat" where
  "GenesisState_Size cc m = size_msg (Params_Size cc (gs_Params m))
     + (\<Sum>e\<leftarrow>gs_ScheduledCalls m. size_msg (MsgAddSchedule_Size e))"

definition GenesisState_MarshalToSizedBuffer ::
  "coin_codec \<Rightarrow> GenesisState \<Rightarrow> byte list \<Rightarrow> (pb_error, byte list \<times> nat) go" where
  "GenesisState_MarshalToSizedBuffer cc m dAtA =
     (let b = put_start dAtA in
      go_bind (put_msgs 0x12 MsgAddSchedule_MarshalToSizedBuffer (gs_ScheduledCalls m) b) (\<lambda>b.
      go_bind (put_msg 0x0a (Params_MarshalToSizedBuffer cc (gs_Params m)) b) (\<lambda>b.
      put_done (length dAtA) b)))"

definition GenesisState_Marshal :: "coin_codec \<Rightarrow> GenesisState \<Rightarrow> (pb_error, byte list) go" where
  "GenesisState_Marshal cc m =
     marshal_with (GenesisState_Size cc m) (GenesisState_MarshalToSizedBuffer cc m)"

definition GenesisState_fields :: "coin_codec \<Rightarrow> int \<Rightarrow> GenesisState field option" where
  "GenesisState_fields cc fieldNum =
     (if fieldNum = 1 then Some (FMessage (\<lambda>bs m.
        case Params_Unmarshal cc (gs_Params m) bs of Inl e \<Rightarrow> Inl e | Inr x \<Rightarrow> Inr (m\<lparr>gs_Params := x\<rparr>)))
      else if fieldNum = 2 then Some (FMessage (\<lambda>bs m.
        case MsgAddSchedule_Unmarshal MsgAddSchedule_zero bs of
          Inl e \<Rightarrow> Inl e | Inr x \<Rightarrow> Inr (m\<lparr>gs_ScheduledCalls := gs_ScheduledCalls m @ [x]\<rparr>)))
      else None)"

definition GenesisState_Unmarshal :: "coin_codec \<Rightarrow> GenesisState \<Rightarrow> byte list \<Rightarrow> pb_error + GenesisState" where
  "GenesisState_Unmarshal cc m dAtA = unmarshal (GenesisState_fields cc) m dAtA"

definition GenesisState_wire :: "(coin \<Rightarrow> byte list) \<Rightarrow> GenesisState \<Rightarrow> wire_fields" where
  "GenesisState_wire cb m = w_msg 1 (enc_fields (Params_wire cb (gs_Params m)))
     @ w_msgs 2 (map (\<lambda>x. enc_fields (MsgAddSchedule_wire x)) (gs_ScheduledCalls m))"

text \<open>The coins it embeds are read back when their own codec does.\<close>

lemma genesis_state_codec:
  assumes "coin_contract cc cb cok"
  shows "message_codec (GenesisState_Size cc) (GenesisState_wire cb) (GenesisState_MarshalToSizedBuffer cc)
    (GenesisState_fields cc) GenesisState_zero (\<lambda>m. cok (p_MinimumBalance (gs_Params m)))"
proof -
  have c: "sized_codec (Params_Size cc) (\<lambda>m. enc_fields (Params_wire cb m))
      (Params_MarshalToSizedBuffer cc) (Params_Unmarshal cc) Params_zero
      (\<lambda>m. cok (p_MinimumBalance m))"
    using message_codec_sized [OF params_codec [OF assms]]
    by (simp add: Params_Unmarshal_def [abs_def])
  note c_simps = sized_codec.size_bytes [OF c] sized_codec.put_msg_back [OF c]
  show ?thesis
  proof (unfold_locales, goal_cases)
    case (1 m)
    show ?case by (simp add: GenesisState_Size_def GenesisState_wire_def wire_simps c_simps
        msg_add_schedule.size_bytes msg_add_schedule.put_msgs_back size_msgs)
  next
    case (2 m d)
    then show ?case
      by (simp add: GenesisState_MarshalToSizedBuffer_def GenesisState_Size_def GenesisState_wire_def
          wire_simps c_simps
        msg_add_schedule.size_bytes msg_add_schedule.put_msgs_back size_msgs) (simp add: ac_simps)
  next
    case (3 m)
    show ?case by (simp add: GenesisState_wire_def GenesisState_fields_def)
  next
    case (4 m)
    then have l: "length (enc_fields (Params_wire cb (gs_Params m))) < 2 ^ 63"
      "\<forall>x \<in> set (gs_ScheduledCalls m). length (enc_fields (MsgAddSchedule_wire x)) < 2 ^ 63"
      using embedded_small [of 2 "\<lambda>x. enc_fields (MsgAddSchedule_wire x)" "gs_ScheduledCalls m"]
      by (simp_all add: GenesisState_wire_def wire_simps size_msg_def)
    have r: "MsgAddSchedule_Unmarshal MsgAddSchedule_zero (enc_fields (MsgAddSchedule_wire x)) = Inr x"
      if "x \<in> set (gs_ScheduledCalls m)" for x
      using that l(2) msg_add_schedule.reads_back [of x] by (simp add: MsgAddSchedule_Unmarshal_def)
    let ?add = "\<lambda>x m. m\<lparr>gs_ScheduledCalls := gs_ScheduledCalls m @ [x]\<rparr>"
    have "apply_fields (GenesisState_fields cc)
        (w_msgs 2 (map (\<lambda>x. enc_fields (MsgAddSchedule_wire x)) (gs_ScheduledCalls m))) g
      = Inr (foldl (\<lambda>m x. ?add x m) g (gs_ScheduledCalls m))" for g
      by (rule apply_fields_msgs)
         (simp add: GenesisState_fields_def, subst r, simp_all)
    moreover have "foldl (\<lambda>m x. ?add x m) g xs
        = g\<lparr>gs_ScheduledCalls := gs_ScheduledCalls g @ xs\<rparr>" for g :: GenesisState and xs
      by (induction xs arbitrary: g) simp_all
    ultimately show ?case
      using l(1) 4
      by (simp add: GenesisState_wire_def GenesisState_zero_def apply_simps)
         (simp add: GenesisState_fields_def sized_codec.reads_back [OF c])
  qed
qed

end
