(* ===== verification/QueryCodec.thy ===== *)
theory QueryCodec
  imports ParamsCodec
begin

text \<open>
  \<^verbatim>\<open>x/schedule/types/query.pb.go\<close>: the queries of the module and their answers.
\<close>

section \<open>QueryParamsRequest\<close>

datatype QueryParamsRequest = QueryParamsRequest

definition QueryParamsRequest_Size :: "QueryParamsRequest \<Rightarrow> nat" where
  "QueryParamsRequest_Size m = 0"

definition QueryParamsRequest_MarshalToSizedBuffer ::
  "QueryParamsRequest \<Rightarrow> byte list \<Rightarrow> (pb_error, byte list \<times> nat) go" where
  "QueryParamsRequest_MarshalToSizedBuffer m dAtA =
     (let b = put_start dAtA in
      put_done (length dAtA) b)"

definition QueryParamsRequest_Marshal :: "QueryParamsRequest \<Rightarrow> (pb_error, byte list) go" where
  "QueryParamsRequest_Marshal m =
     marshal_with (QueryParamsRequest_Size m) (QueryParamsRequest_MarshalToSizedBuffer m)"

definition QueryParamsRequest_fields :: "int \<Rightarrow> QueryParamsRequest field option" where
  "QueryParamsRequest_fields fieldNum =
     None"

definition QueryParamsRequest_Unmarshal :: "QueryParamsRequest \<Rightarrow> byte list \<Rightarrow> pb_error + QueryParamsRequest" where
  "QueryParamsRequest_Unmarshal m dAtA = unmarshal QueryParamsRequest_fields m dAtA"

definition QueryParamsRequest_wire :: "QueryParamsRequest \<Rightarrow> wire_fields" where
  "QueryParamsRequest_wire m = []"

interpretation query_params_request: message_codec QueryParamsRequest_Size QueryParamsRequest_wire
  QueryParamsRequest_MarshalToSizedBuffer QueryParamsRequest_fields QueryParamsRequest "\<lambda>_. True"
proof (unfold_locales, goal_cases)
  case (4 m)
  show ?case by (cases m) (simp add: QueryParamsRequest_wire_def)
qed (simp_all add: QueryParamsRequest_Size_def QueryParamsRequest_wire_def QueryParamsRequest_MarshalToSizedBuffer_def wire_simps)

section \<open>QueryParamsResponse\<close>

record QueryParamsResponse =
  qp_Params :: Params

definition QueryParamsResponse_zero :: QueryParamsResponse where
  "QueryParamsResponse_zero = \<lparr>qp_Params = Params_zero\<rparr>"

definition QueryParamsResponse_Size :: "coin_codec \<Rightarrow> QueryParamsResponse \<Rightarrow> nat" where
  "QueryParamsResponse_Size cc m = size_msg (Params_Size cc (qp_Params m))"

definition QueryParamsResponse_MarshalToSizedBuffer ::
  "coin_codec \<Rightarrow> QueryParamsResponse \<Rightarrow> byte list \<Rightarrow> (pb_error, byte list \<times> nat) go" where
  "QueryParamsResponse_MarshalToSizedBuffer cc m dAtA =
     (let b = put_start dAtA in
      go_bind (put_msg 0x0a (Params_MarshalToSizedBuffer cc (qp_Params m)) b) (\<lambda>b.
      put_done (length dAtA) b))"

definition QueryParamsResponse_Marshal :: "coin_codec \<Rightarrow> QueryParamsResponse \<Rightarrow> (pb_error, byte list) go" where
  "QueryParamsResponse_Marshal cc m =
     marshal_with (QueryParamsResponse_Size cc m) (QueryParamsResponse_MarshalToSizedBuffer cc m)"

definition QueryParamsResponse_fields :: "coin_codec \<Rightarrow> int \<Rightarrow> QueryParamsResponse field option" where
  "QueryParamsResponse_fields cc fieldNum =
     (if fieldNum = 1 then Some (FMessage (\<lambda>bs m.
        case Params_Unmarshal cc (qp_Params m) bs of Inl e \<Rightarrow> Inl e | Inr x \<Rightarrow> Inr (m\<lparr>qp_Params := x\<rparr>)))
      else None)"

definition QueryParamsResponse_Unmarshal :: "coin_codec \<Rightarrow> QueryParamsResponse \<Rightarrow> byte list \<Rightarrow> pb_error + QueryParamsResponse" where
  "QueryParamsResponse_Unmarshal cc m dAtA = unmarshal (QueryParamsResponse_fields cc) m dAtA"

definition QueryParamsResponse_wire :: "(coin \<Rightarrow> byte list) \<Rightarrow> QueryParamsResponse \<Rightarrow> wire_fields" where
  "QueryParamsResponse_wire cb m = w_msg 1 (enc_fields (Params_wire cb (qp_Params m)))"

text \<open>The coins it embeds are read back when their own codec does.\<close>

lemma query_params_response_codec:
  assumes "coin_contract cc cb cok"
  shows "message_codec (QueryParamsResponse_Size cc) (QueryParamsResponse_wire cb) (QueryParamsResponse_MarshalToSizedBuffer cc)
    (QueryParamsResponse_fields cc) QueryParamsResponse_zero (\<lambda>m. cok (p_MinimumBalance (qp_Params m)))"
proof -
  have c: "sized_codec (Params_Size cc) (\<lambda>m. enc_fields (Params_wire cb m))
      (Params_MarshalToSizedBuffer cc) (Params_Unmarshal cc) Params_zero
      (\<lambda>m. cok (p_MinimumBalance m))"
    using message_codec_sized [OF params_codec [OF assms]]
    by (simp add: Params_Unmarshal_def [abs_def])
  note c_simps = sized_codec.size_bytes [OF c] sized_codec.put_msg_back [OF c]
  show ?thesis
  proof (unfold_locales, goal_cases)
    case (1 m)
    show ?case by (simp add: QueryParamsResponse_Size_def QueryParamsResponse_wire_def wire_simps c_simps)
  next
    case (2 m d)
    then show ?case
      by (simp add: QueryParamsResponse_MarshalToSizedBuffer_def QueryParamsResponse_Size_def QueryParamsResponse_wire_def
          wire_simps c_simps) 
  next
    case (3 m)
    show ?case by (simp add: QueryParamsResponse_wire_def QueryParamsResponse_fields_def)
  next
    case (4 m)
    then have "length (enc_fields (Params_wire cb (qp_Params m))) < 2 ^ 63"
      by (simp add: QueryParamsResponse_wire_def wire_simps size_msg_def)
    with 4 show ?case
      by (simp add: QueryParamsResponse_wire_def QueryParamsResponse_fields_def
          QueryParamsResponse_zero_def apply_simps sized_codec.reads_back [OF c])
  qed
qed

section \<open>QueryScheduledCallsRequest\<close>

datatype QueryScheduledCallsRequest = QueryScheduledCallsRequest

definition QueryScheduledCallsRequest_Size :: "QueryScheduledCallsRequest \<Rightarrow> nat" where
  "QueryScheduledCallsRequest_Size m = 0"

definition QueryScheduledCallsRequest_MarshalToSizedBuffer ::
  "QueryScheduledCallsRequest \<Rightarrow> byte list \<Rightarrow> (pb_error, byte list \<times> nat) go" where
  "QueryScheduledCallsRequest_MarshalToSizedBuffer m dAtA =
     (let b = put_start dAtA in
      put_done (length dAtA) b)"

definition QueryScheduledCallsRequest_Marshal :: "QueryScheduledCallsRequest \<Rightarrow> (pb_error, byte list) go" where
  "QueryScheduledCallsRequest_Marshal m =
     marshal_with (QueryScheduledCallsRequest_Size m) (QueryScheduledCallsRequest_MarshalToSizedBuffer m)"

definition QueryScheduledCallsRequest_fields :: "int \<Rightarrow> QueryScheduledCallsRequest field option" where
  "QueryScheduledCallsRequest_fields fieldNum =
     None"

definition QueryScheduledCallsRequest_Unmarshal :: "QueryScheduledCallsRequest \<Rightarrow> byte list \<Rightarrow> pb_error + QueryScheduledCallsRequest" where
  "QueryScheduledCallsRequest_Unmarshal m dAtA = unmarshal QueryScheduledCallsRequest_fields m dAtA"

definition QueryScheduledCallsRequest_wire :: "QueryScheduledCallsRequest \<Rightarrow> wire_fields" where
  "QueryScheduledCallsRequest_wire m = []"

interpretation query_scheduled_calls_request: message_codec QueryScheduledCallsRequest_Size QueryScheduledCallsRequest_wire
  QueryScheduledCallsRequest_MarshalToSizedBuffer QueryScheduledCallsRequest_fields QueryScheduledCallsRequest "\<lambda>_. True"
proof (unfold_locales, goal_cases)
  case (4 m)
  show ?case by (cases m) (simp add: QueryScheduledCallsRequest_wire_def)
qed (simp_all add: QueryScheduledCallsRequest_Size_def QueryScheduledCallsRequest_wire_def QueryScheduledCallsRequest_MarshalToSizedBuffer_def wire_simps)

section \<open>QueryScheduledCall\<close>

record QueryScheduledCall =
  qc_Contract :: string
  qc_CallBody :: "byte list"
  qc_Height :: u64
  qc_Signer :: "byte list"

definition QueryScheduledCall_zero :: QueryScheduledCall where
  "QueryScheduledCall_zero = \<lparr>qc_Contract = [], qc_CallBody = [], qc_Height = 0, qc_Signer = []\<rparr>"

definition QueryScheduledCall_Size :: "QueryScheduledCall \<Rightarrow> nat" where
  "QueryScheduledCall_Size m = size_bytes (length (qc_Contract m))
     + size_bytes (length (qc_CallBody m))
     + size_uint (qc_Height m)
     + size_bytes (length (qc_Signer m))"

definition QueryScheduledCall_MarshalToSizedBuffer ::
  "QueryScheduledCall \<Rightarrow> byte list \<Rightarrow> (pb_error, byte list \<times> nat) go" where
  "QueryScheduledCall_MarshalToSizedBuffer m dAtA =
     (let b = put_start dAtA in
      go_bind (put_bytes 0x22 (qc_Signer m) b) (\<lambda>b.
      go_bind (put_uint 0x18 (qc_Height m) b) (\<lambda>b.
      go_bind (put_bytes 0x12 (qc_CallBody m) b) (\<lambda>b.
      go_bind (put_bytes 0x0a (string_bytes (qc_Contract m)) b) (\<lambda>b.
      put_done (length dAtA) b)))))"

definition QueryScheduledCall_Marshal :: "QueryScheduledCall \<Rightarrow> (pb_error, byte list) go" where
  "QueryScheduledCall_Marshal m =
     marshal_with (QueryScheduledCall_Size m) (QueryScheduledCall_MarshalToSizedBuffer m)"

definition QueryScheduledCall_fields :: "int \<Rightarrow> QueryScheduledCall field option" where
  "QueryScheduledCall_fields fieldNum =
     (if fieldNum = 1 then Some (FBytes (\<lambda>bs m. m\<lparr>qc_Contract := bytes_string bs\<rparr>))
      else if fieldNum = 2 then Some (FBytes (\<lambda>bs m. m\<lparr>qc_CallBody := bs\<rparr>))
      else if fieldNum = 3 then Some (FUint64 (\<lambda>v m. m\<lparr>qc_Height := v\<rparr>))
      else if fieldNum = 4 then Some (FBytes (\<lambda>bs m. m\<lparr>qc_Signer := bs\<rparr>))
      else None)"

definition QueryScheduledCall_Unmarshal :: "QueryScheduledCall \<Rightarrow> byte list \<Rightarrow> pb_error + QueryScheduledCall" where
  "QueryScheduledCall_Unmarshal m dAtA = unmarshal QueryScheduledCall_fields m dAtA"

definition QueryScheduledCall_wire :: "QueryScheduledCall \<Rightarrow> wire_fields" where
  "QueryScheduledCall_wire m = w_bytes 1 (string_bytes (qc_Contract m))
     @ w_bytes 2 (qc_CallBody m)
     @ w_uint 3 (qc_Height m)
     @ w_bytes 4 (qc_Signer m)"

interpretation query_scheduled_call: message_codec QueryScheduledCall_Size QueryScheduledCall_wire
  QueryScheduledCall_MarshalToSizedBuffer QueryScheduledCall_fields QueryScheduledCall_zero "\<lambda>_. True"
proof (unfold_locales, goal_cases)
  case (1 m)
  show ?case by (simp add: QueryScheduledCall_Size_def QueryScheduledCall_wire_def wire_simps)
next
  case (2 m d)
  then show ?case
    by (simp add: QueryScheduledCall_MarshalToSizedBuffer_def QueryScheduledCall_Size_def QueryScheduledCall_wire_def
        wire_simps) (simp add: ac_simps)
next
  case (3 m)
  show ?case by (simp add: QueryScheduledCall_wire_def QueryScheduledCall_fields_def)
next
  case (4 m)
  show ?case by (simp add: QueryScheduledCall_wire_def QueryScheduledCall_fields_def QueryScheduledCall_zero_def apply_simps)
qed

section \<open>QueryScheduledCallsResponse\<close>

record QueryScheduledCallsResponse =
  qr_Calls :: "QueryScheduledCall list"

definition QueryScheduledCallsResponse_zero :: QueryScheduledCallsResponse where
  "QueryScheduledCallsResponse_zero = \<lparr>qr_Calls = []\<rparr>"

definition QueryScheduledCallsResponse_Size :: "QueryScheduledCallsResponse \<Rightarrow> nat" where
  "QueryScheduledCallsResponse_Size m = (\<Sum>e\<leftarrow>qr_Calls m. size_msg (QueryScheduledCall_Size e))"

definition QueryScheduledCallsResponse_MarshalToSizedBuffer ::
  "QueryScheduledCallsResponse \<Rightarrow> byte list \<Rightarrow> (pb_error, byte list \<times> nat) go" where
  "QueryScheduledCallsResponse_MarshalToSizedBuffer m dAtA =
     (let b = put_start dAtA in
      go_bind (put_msgs 0x0a QueryScheduledCall_MarshalToSizedBuffer (qr_Calls m) b) (\<lambda>b.
      put_done (length dAtA) b))"

definition QueryScheduledCallsResponse_Marshal :: "QueryScheduledCallsResponse \<Rightarrow> (pb_error, byte list) go" where
  "QueryScheduledCallsResponse_Marshal m =
     marshal_with (QueryScheduledCallsResponse_Size m) (QueryScheduledCallsResponse_MarshalToSizedBuffer m)"

definition QueryScheduledCallsResponse_fields :: "int \<Rightarrow> QueryScheduledCallsResponse field option" where
  "QueryScheduledCallsResponse_fields fieldNum =
     (if fieldNum = 1 then Some (FMessage (\<lambda>bs m.
        case QueryScheduledCall_Unmarshal QueryScheduledCall_zero bs of
          Inl e \<Rightarrow> Inl e | Inr x \<Rightarrow> Inr (m\<lparr>qr_Calls := qr_Calls m @ [x]\<rparr>)))
      else None)"

definition QueryScheduledCallsResponse_Unmarshal :: "QueryScheduledCallsResponse \<Rightarrow> byte list \<Rightarrow> pb_error + QueryScheduledCallsResponse" where
  "QueryScheduledCallsResponse_Unmarshal m dAtA = unmarshal QueryScheduledCallsResponse_fields m dAtA"

definition QueryScheduledCallsResponse_wire :: "QueryScheduledCallsResponse \<Rightarrow> wire_fields" where
  "QueryScheduledCallsResponse_wire m = w_msgs 1 (map (\<lambda>x. enc_fields (QueryScheduledCall_wire x)) (qr_Calls m))"

interpretation query_scheduled_calls_response: message_codec QueryScheduledCallsResponse_Size QueryScheduledCallsResponse_wire
  QueryScheduledCallsResponse_MarshalToSizedBuffer QueryScheduledCallsResponse_fields QueryScheduledCallsResponse_zero "\<lambda>_. True"
proof (unfold_locales, goal_cases)
  case (1 m)
  show ?case by (simp add: QueryScheduledCallsResponse_Size_def QueryScheduledCallsResponse_wire_def wire_simps
        query_scheduled_call.size_bytes query_scheduled_call.put_msgs_back size_msgs)
next
  case (2 m d)
  then show ?case
    by (simp add: QueryScheduledCallsResponse_MarshalToSizedBuffer_def QueryScheduledCallsResponse_Size_def QueryScheduledCallsResponse_wire_def
        wire_simps
        query_scheduled_call.size_bytes query_scheduled_call.put_msgs_back size_msgs)
next
  case (3 m)
  show ?case by (simp add: QueryScheduledCallsResponse_wire_def QueryScheduledCallsResponse_fields_def)
next
  case (4 m)
  then have l: "\<forall>x \<in> set (qr_Calls m). length (enc_fields (QueryScheduledCall_wire x)) < 2 ^ 63"
    using embedded_small [of 1 "\<lambda>x. enc_fields (QueryScheduledCall_wire x)" "qr_Calls m"]
    by (simp add: QueryScheduledCallsResponse_wire_def)
  have r: "QueryScheduledCall_Unmarshal QueryScheduledCall_zero
      (enc_fields (QueryScheduledCall_wire x)) = Inr x" if "x \<in> set (qr_Calls m)" for x
    using that l query_scheduled_call.reads_back [of x] by (simp add: QueryScheduledCall_Unmarshal_def)
  let ?add = "\<lambda>x m. m\<lparr>qr_Calls := qr_Calls m @ [x]\<rparr>"
  have "apply_fields QueryScheduledCallsResponse_fields
      (w_msgs 1 (map (\<lambda>x. enc_fields (QueryScheduledCall_wire x)) (qr_Calls m))) g
    = Inr (foldl (\<lambda>m x. ?add x m) g (qr_Calls m))" for g
    by (rule apply_fields_msgs)
       (simp add: QueryScheduledCallsResponse_fields_def, subst r, simp_all)
  moreover have "foldl (\<lambda>m x. ?add x m) g xs = g\<lparr>qr_Calls := qr_Calls g @ xs\<rparr>"
      for g :: QueryScheduledCallsResponse and xs
    by (induction xs arbitrary: g) simp_all
  ultimately show ?case
    by (simp add: QueryScheduledCallsResponse_wire_def QueryScheduledCallsResponse_zero_def)
qed

end
