(* ===== verification/EventCodec.thy ===== *)
theory EventCodec
  imports Coin
begin

text \<open>
  \<^verbatim>\<open>x/schedule/types/event.pb.go\<close>: the typed events the module emits. A \<^verbatim>\<open>*Coin\<close> that may be nil is an option.
\<close>

section \<open>AddScheduledCallEvent\<close>

record AddScheduledCallEvent =
  ae_BlockHeight :: u64
  ae_ScheduledHeight :: u64
  ae_Signer :: string
  ae_Contract :: string
  ae_Balance :: "coin option"
  ae_CallBody :: "byte list"

definition AddScheduledCallEvent_zero :: AddScheduledCallEvent where
  "AddScheduledCallEvent_zero = \<lparr>ae_BlockHeight = 0, ae_ScheduledHeight = 0, ae_Signer = [], ae_Contract = [], ae_Balance = None, ae_CallBody = []\<rparr>"

definition AddScheduledCallEvent_Size :: "coin_codec \<Rightarrow> AddScheduledCallEvent \<Rightarrow> nat" where
  "AddScheduledCallEvent_Size cc m = size_uint (ae_BlockHeight m)
     + size_uint (ae_ScheduledHeight m)
     + size_bytes (length (ae_Signer m))
     + size_bytes (length (ae_Contract m))
     + (case ae_Balance m of None \<Rightarrow> 0 | Some c \<Rightarrow> size_msg (cc_Size cc c))
     + size_bytes (length (ae_CallBody m))"

definition AddScheduledCallEvent_MarshalToSizedBuffer ::
  "coin_codec \<Rightarrow> AddScheduledCallEvent \<Rightarrow> byte list \<Rightarrow> (pb_error, byte list \<times> nat) go" where
  "AddScheduledCallEvent_MarshalToSizedBuffer cc m dAtA =
     (let b = put_start dAtA in
      go_bind (put_bytes 0x32 (ae_CallBody m) b) (\<lambda>b.
      go_bind (case ae_Balance m of None \<Rightarrow> Ret b
        | Some c \<Rightarrow> put_msg 0x2a (cc_MarshalToSizedBuffer cc c) b) (\<lambda>b.
      go_bind (put_bytes 0x22 (string_bytes (ae_Contract m)) b) (\<lambda>b.
      go_bind (put_bytes 0x1a (string_bytes (ae_Signer m)) b) (\<lambda>b.
      go_bind (put_uint 0x10 (ae_ScheduledHeight m) b) (\<lambda>b.
      go_bind (put_uint 0x08 (ae_BlockHeight m) b) (\<lambda>b.
      put_done (length dAtA) b)))))))"

definition AddScheduledCallEvent_Marshal :: "coin_codec \<Rightarrow> AddScheduledCallEvent \<Rightarrow> (pb_error, byte list) go" where
  "AddScheduledCallEvent_Marshal cc m =
     marshal_with (AddScheduledCallEvent_Size cc m) (AddScheduledCallEvent_MarshalToSizedBuffer cc m)"

definition AddScheduledCallEvent_fields :: "coin_codec \<Rightarrow> int \<Rightarrow> AddScheduledCallEvent field option" where
  "AddScheduledCallEvent_fields cc fieldNum =
     (if fieldNum = 1 then Some (FUint64 (\<lambda>v m. m\<lparr>ae_BlockHeight := v\<rparr>))
      else if fieldNum = 2 then Some (FUint64 (\<lambda>v m. m\<lparr>ae_ScheduledHeight := v\<rparr>))
      else if fieldNum = 3 then Some (FBytes (\<lambda>bs m. m\<lparr>ae_Signer := bytes_string bs\<rparr>))
      else if fieldNum = 4 then Some (FBytes (\<lambda>bs m. m\<lparr>ae_Contract := bytes_string bs\<rparr>))
      else if fieldNum = 5 then Some (FMessage (\<lambda>bs m.
        case cc_Unmarshal cc (case ae_Balance m of None \<Rightarrow> coin_zero | Some c \<Rightarrow> c) bs of
          Inl e \<Rightarrow> Inl e | Inr c \<Rightarrow> Inr (m\<lparr>ae_Balance := Some c\<rparr>)))
      else if fieldNum = 6 then Some (FBytes (\<lambda>bs m. m\<lparr>ae_CallBody := bs\<rparr>))
      else None)"

definition AddScheduledCallEvent_Unmarshal :: "coin_codec \<Rightarrow> AddScheduledCallEvent \<Rightarrow> byte list \<Rightarrow> pb_error + AddScheduledCallEvent" where
  "AddScheduledCallEvent_Unmarshal cc m dAtA = unmarshal (AddScheduledCallEvent_fields cc) m dAtA"

definition AddScheduledCallEvent_wire :: "(coin \<Rightarrow> byte list) \<Rightarrow> AddScheduledCallEvent \<Rightarrow> wire_fields" where
  "AddScheduledCallEvent_wire cb m = w_uint 1 (ae_BlockHeight m)
     @ w_uint 2 (ae_ScheduledHeight m)
     @ w_bytes 3 (string_bytes (ae_Signer m))
     @ w_bytes 4 (string_bytes (ae_Contract m))
     @ (case ae_Balance m of None \<Rightarrow> [] | Some c \<Rightarrow> w_msg 5 (cb c))
     @ w_bytes 6 (ae_CallBody m)"

text \<open>The coins it embeds are read back when their own codec does.\<close>

lemma add_scheduled_call_event_codec:
  assumes "coin_contract cc cb cok"
  shows "message_codec (AddScheduledCallEvent_Size cc) (AddScheduledCallEvent_wire cb) (AddScheduledCallEvent_MarshalToSizedBuffer cc)
    (AddScheduledCallEvent_fields cc) AddScheduledCallEvent_zero (\<lambda>m. case_option True cok (ae_Balance m))"
proof -
  have c: "sized_codec (cc_Size cc) cb (cc_MarshalToSizedBuffer cc) (cc_Unmarshal cc) coin_zero cok"
    using assms by (simp add: coin_contract_def)
  note c_simps = sized_codec.size_bytes [OF c] sized_codec.put_msg_back [OF c]
  show ?thesis
  proof (unfold_locales, goal_cases)
    case (1 m)
    show ?case by (simp add: AddScheduledCallEvent_Size_def AddScheduledCallEvent_wire_def wire_simps c_simps split: option.split)
  next
    case (2 m d)
    then show ?case
      by (cases "ae_Balance m"; simp add: AddScheduledCallEvent_MarshalToSizedBuffer_def AddScheduledCallEvent_Size_def AddScheduledCallEvent_wire_def
          wire_simps c_simps) (simp_all add: ac_simps)
  next
    case (3 m)
    show ?case by (simp add: AddScheduledCallEvent_wire_def AddScheduledCallEvent_fields_def split: option.split)
  next
    case (4 m)
    then have "\<forall>c. ae_Balance m = Some c \<longrightarrow> length (cb c) < 2 ^ 63"
      by (auto simp add: AddScheduledCallEvent_wire_def wire_simps size_msg_def)
    with 4 show ?case
      by (cases "ae_Balance m";
          simp add: AddScheduledCallEvent_wire_def AddScheduledCallEvent_fields_def AddScheduledCallEvent_zero_def apply_simps
          sized_codec.reads_back [OF c])
  qed
qed

section \<open>ExecuteScheduledCallEvent\<close>

record ExecuteScheduledCallEvent =
  ee_BlockHeight :: u64
  ee_Gas :: "coin option"
  ee_Signer :: string
  ee_Contract :: string
  ee_BalanceBefore :: "coin option"
  ee_CallBody :: "byte list"

definition ExecuteScheduledCallEvent_zero :: ExecuteScheduledCallEvent where
  "ExecuteScheduledCallEvent_zero = \<lparr>ee_BlockHeight = 0, ee_Gas = None, ee_Signer = [], ee_Contract = [], ee_BalanceBefore = None, ee_CallBody = []\<rparr>"

definition ExecuteScheduledCallEvent_Size :: "coin_codec \<Rightarrow> ExecuteScheduledCallEvent \<Rightarrow> nat" where
  "ExecuteScheduledCallEvent_Size cc m = size_uint (ee_BlockHeight m)
     + (case ee_Gas m of None \<Rightarrow> 0 | Some c \<Rightarrow> size_msg (cc_Size cc c))
     + size_bytes (length (ee_Signer m))
     + size_bytes (length (ee_Contract m))
     + (case ee_BalanceBefore m of None \<Rightarrow> 0 | Some c \<Rightarrow> size_msg (cc_Size cc c))
     + size_bytes (length (ee_CallBody m))"

definition ExecuteScheduledCallEvent_MarshalToSizedBuffer ::
  "coin_codec \<Rightarrow> ExecuteScheduledCallEvent \<Rightarrow> byte list \<Rightarrow> (pb_error, byte list \<times> nat) go" where
  "ExecuteScheduledCallEvent_MarshalToSizedBuffer cc m dAtA =
     (let b = put_start dAtA in
      go_bind (put_bytes 0x32 (ee_CallBody m) b) (\<lambda>b.
      go_bind (case ee_BalanceBefore m of None \<Rightarrow> Ret b
        | Some c \<Rightarrow> put_msg 0x2a (cc_MarshalToSizedBuffer cc c) b) (\<lambda>b.
      go_bind (put_bytes 0x22 (string_bytes (ee_Contract m)) b) (\<lambda>b.
      go_bind (put_bytes 0x1a (string_bytes (ee_Signer m)) b) (\<lambda>b.
      go_bind (case ee_Gas m of None \<Rightarrow> Ret b
        | Some c \<Rightarrow> put_msg 0x12 (cc_MarshalToSizedBuffer cc c) b) (\<lambda>b.
      go_bind (put_uint 0x08 (ee_BlockHeight m) b) (\<lambda>b.
      put_done (length dAtA) b)))))))"

definition ExecuteScheduledCallEvent_Marshal :: "coin_codec \<Rightarrow> ExecuteScheduledCallEvent \<Rightarrow> (pb_error, byte list) go" where
  "ExecuteScheduledCallEvent_Marshal cc m =
     marshal_with (ExecuteScheduledCallEvent_Size cc m) (ExecuteScheduledCallEvent_MarshalToSizedBuffer cc m)"

definition ExecuteScheduledCallEvent_fields :: "coin_codec \<Rightarrow> int \<Rightarrow> ExecuteScheduledCallEvent field option" where
  "ExecuteScheduledCallEvent_fields cc fieldNum =
     (if fieldNum = 1 then Some (FUint64 (\<lambda>v m. m\<lparr>ee_BlockHeight := v\<rparr>))
      else if fieldNum = 2 then Some (FMessage (\<lambda>bs m.
        case cc_Unmarshal cc (case ee_Gas m of None \<Rightarrow> coin_zero | Some c \<Rightarrow> c) bs of
          Inl e \<Rightarrow> Inl e | Inr c \<Rightarrow> Inr (m\<lparr>ee_Gas := Some c\<rparr>)))
      else if fieldNum = 3 then Some (FBytes (\<lambda>bs m. m\<lparr>ee_Signer := bytes_string bs\<rparr>))
      else if fieldNum = 4 then Some (FBytes (\<lambda>bs m. m\<lparr>ee_Contract := bytes_string bs\<rparr>))
      else if fieldNum = 5 then Some (FMessage (\<lambda>bs m.
        case cc_Unmarshal cc (case ee_BalanceBefore m of None \<Rightarrow> coin_zero | Some c \<Rightarrow> c) bs of
          Inl e \<Rightarrow> Inl e | Inr c \<Rightarrow> Inr (m\<lparr>ee_BalanceBefore := Some c\<rparr>)))
      else if fieldNum = 6 then Some (FBytes (\<lambda>bs m. m\<lparr>ee_CallBody := bs\<rparr>))
      else None)"

definition ExecuteScheduledCallEvent_Unmarshal :: "coin_codec \<Rightarrow> ExecuteScheduledCallEvent \<Rightarrow> byte list \<Rightarrow> pb_error + ExecuteScheduledCallEvent" where
  "ExecuteScheduledCallEvent_Unmarshal cc m dAtA = unmarshal (ExecuteScheduledCallEvent_fields cc) m dAtA"

definition ExecuteScheduledCallEvent_wire :: "(coin \<Rightarrow> byte list) \<Rightarrow> ExecuteScheduledCallEvent \<Rightarrow> wire_fields" where
  "ExecuteScheduledCallEvent_wire cb m = w_uint 1 (ee_BlockHeight m)
     @ (case ee_Gas m of None \<Rightarrow> [] | Some c \<Rightarrow> w_msg 2 (cb c))
     @ w_bytes 3 (string_bytes (ee_Signer m))
     @ w_bytes 4 (string_bytes (ee_Contract m))
     @ (case ee_BalanceBefore m of None \<Rightarrow> [] | Some c \<Rightarrow> w_msg 5 (cb c))
     @ w_bytes 6 (ee_CallBody m)"

text \<open>The coins it embeds are read back when their own codec does.\<close>

lemma execute_scheduled_call_event_codec:
  assumes "coin_contract cc cb cok"
  shows "message_codec (ExecuteScheduledCallEvent_Size cc) (ExecuteScheduledCallEvent_wire cb) (ExecuteScheduledCallEvent_MarshalToSizedBuffer cc)
    (ExecuteScheduledCallEvent_fields cc) ExecuteScheduledCallEvent_zero (\<lambda>m. case_option True cok (ee_Gas m) \<and> case_option True cok (ee_BalanceBefore m))"
proof -
  have c: "sized_codec (cc_Size cc) cb (cc_MarshalToSizedBuffer cc) (cc_Unmarshal cc) coin_zero cok"
    using assms by (simp add: coin_contract_def)
  note c_simps = sized_codec.size_bytes [OF c] sized_codec.put_msg_back [OF c]
  show ?thesis
  proof (unfold_locales, goal_cases)
    case (1 m)
    show ?case by (simp add: ExecuteScheduledCallEvent_Size_def ExecuteScheduledCallEvent_wire_def wire_simps c_simps split: option.split)
  next
    case (2 m d)
    then show ?case
      by (cases "ee_Gas m"; cases "ee_BalanceBefore m"; simp add: ExecuteScheduledCallEvent_MarshalToSizedBuffer_def ExecuteScheduledCallEvent_Size_def ExecuteScheduledCallEvent_wire_def
          wire_simps c_simps) (simp_all add: ac_simps)
  next
    case (3 m)
    show ?case by (simp add: ExecuteScheduledCallEvent_wire_def ExecuteScheduledCallEvent_fields_def split: option.split)
  next
    case (4 m)
    then have "\<forall>c. ee_Gas m = Some c \<longrightarrow> length (cb c) < 2 ^ 63" "\<forall>c. ee_BalanceBefore m = Some c \<longrightarrow> length (cb c) < 2 ^ 63"
      by (auto simp add: ExecuteScheduledCallEvent_wire_def wire_simps size_msg_def)
    with 4 show ?case
      by (cases "ee_Gas m"; cases "ee_BalanceBefore m";
          simp add: ExecuteScheduledCallEvent_wire_def ExecuteScheduledCallEvent_fields_def ExecuteScheduledCallEvent_zero_def apply_simps
          sized_codec.reads_back [OF c])
  qed
qed

section \<open>RemoveScheduledCallEvent\<close>

record RemoveScheduledCallEvent =
  re_BlockHeight :: u64
  re_Signer :: string
  re_Contract :: string
  re_Balance :: "coin option"
  re_CallBody :: "byte list"

definition RemoveScheduledCallEvent_zero :: RemoveScheduledCallEvent where
  "RemoveScheduledCallEvent_zero = \<lparr>re_BlockHeight = 0, re_Signer = [], re_Contract = [], re_Balance = None, re_CallBody = []\<rparr>"

definition RemoveScheduledCallEvent_Size :: "coin_codec \<Rightarrow> RemoveScheduledCallEvent \<Rightarrow> nat" where
  "RemoveScheduledCallEvent_Size cc m = size_uint (re_BlockHeight m)
     + size_bytes (length (re_Signer m))
     + size_bytes (length (re_Contract m))
     + (case re_Balance m of None \<Rightarrow> 0 | Some c \<Rightarrow> size_msg (cc_Size cc c))
     + size_bytes (length (re_CallBody m))"

definition RemoveScheduledCallEvent_MarshalToSizedBuffer ::
  "coin_codec \<Rightarrow> RemoveScheduledCallEvent \<Rightarrow> byte list \<Rightarrow> (pb_error, byte list \<times> nat) go" where
  "RemoveScheduledCallEvent_MarshalToSizedBuffer cc m dAtA =
     (let b = put_start dAtA in
      go_bind (put_bytes 0x32 (re_CallBody m) b) (\<lambda>b.
      go_bind (case re_Balance m of None \<Rightarrow> Ret b
        | Some c \<Rightarrow> put_msg 0x2a (cc_MarshalToSizedBuffer cc c) b) (\<lambda>b.
      go_bind (put_bytes 0x22 (string_bytes (re_Contract m)) b) (\<lambda>b.
      go_bind (put_bytes 0x1a (string_bytes (re_Signer m)) b) (\<lambda>b.
      go_bind (put_uint 0x08 (re_BlockHeight m) b) (\<lambda>b.
      put_done (length dAtA) b))))))"

definition RemoveScheduledCallEvent_Marshal :: "coin_codec \<Rightarrow> RemoveScheduledCallEvent \<Rightarrow> (pb_error, byte list) go" where
  "RemoveScheduledCallEvent_Marshal cc m =
     marshal_with (RemoveScheduledCallEvent_Size cc m) (RemoveScheduledCallEvent_MarshalToSizedBuffer cc m)"

definition RemoveScheduledCallEvent_fields :: "coin_codec \<Rightarrow> int \<Rightarrow> RemoveScheduledCallEvent field option" where
  "RemoveScheduledCallEvent_fields cc fieldNum =
     (if fieldNum = 1 then Some (FUint64 (\<lambda>v m. m\<lparr>re_BlockHeight := v\<rparr>))
      else if fieldNum = 3 then Some (FBytes (\<lambda>bs m. m\<lparr>re_Signer := bytes_string bs\<rparr>))
      else if fieldNum = 4 then Some (FBytes (\<lambda>bs m. m\<lparr>re_Contract := bytes_string bs\<rparr>))
      else if fieldNum = 5 then Some (FMessage (\<lambda>bs m.
        case cc_Unmarshal cc (case re_Balance m of None \<Rightarrow> coin_zero | Some c \<Rightarrow> c) bs of
          Inl e \<Rightarrow> Inl e | Inr c \<Rightarrow> Inr (m\<lparr>re_Balance := Some c\<rparr>)))
      else if fieldNum = 6 then Some (FBytes (\<lambda>bs m. m\<lparr>re_CallBody := bs\<rparr>))
      else None)"

definition RemoveScheduledCallEvent_Unmarshal :: "coin_codec \<Rightarrow> RemoveScheduledCallEvent \<Rightarrow> byte list \<Rightarrow> pb_error + RemoveScheduledCallEvent" where
  "RemoveScheduledCallEvent_Unmarshal cc m dAtA = unmarshal (RemoveScheduledCallEvent_fields cc) m dAtA"

definition RemoveScheduledCallEvent_wire :: "(coin \<Rightarrow> byte list) \<Rightarrow> RemoveScheduledCallEvent \<Rightarrow> wire_fields" where
  "RemoveScheduledCallEvent_wire cb m = w_uint 1 (re_BlockHeight m)
     @ w_bytes 3 (string_bytes (re_Signer m))
     @ w_bytes 4 (string_bytes (re_Contract m))
     @ (case re_Balance m of None \<Rightarrow> [] | Some c \<Rightarrow> w_msg 5 (cb c))
     @ w_bytes 6 (re_CallBody m)"

text \<open>The coins it embeds are read back when their own codec does.\<close>

lemma remove_scheduled_call_event_codec:
  assumes "coin_contract cc cb cok"
  shows "message_codec (RemoveScheduledCallEvent_Size cc) (RemoveScheduledCallEvent_wire cb) (RemoveScheduledCallEvent_MarshalToSizedBuffer cc)
    (RemoveScheduledCallEvent_fields cc) RemoveScheduledCallEvent_zero (\<lambda>m. case_option True cok (re_Balance m))"
proof -
  have c: "sized_codec (cc_Size cc) cb (cc_MarshalToSizedBuffer cc) (cc_Unmarshal cc) coin_zero cok"
    using assms by (simp add: coin_contract_def)
  note c_simps = sized_codec.size_bytes [OF c] sized_codec.put_msg_back [OF c]
  show ?thesis
  proof (unfold_locales, goal_cases)
    case (1 m)
    show ?case by (simp add: RemoveScheduledCallEvent_Size_def RemoveScheduledCallEvent_wire_def wire_simps c_simps split: option.split)
  next
    case (2 m d)
    then show ?case
      by (cases "re_Balance m"; simp add: RemoveScheduledCallEvent_MarshalToSizedBuffer_def RemoveScheduledCallEvent_Size_def RemoveScheduledCallEvent_wire_def
          wire_simps c_simps) (simp_all add: ac_simps)
  next
    case (3 m)
    show ?case by (simp add: RemoveScheduledCallEvent_wire_def RemoveScheduledCallEvent_fields_def split: option.split)
  next
    case (4 m)
    then have "\<forall>c. re_Balance m = Some c \<longrightarrow> length (cb c) < 2 ^ 63"
      by (auto simp add: RemoveScheduledCallEvent_wire_def wire_simps size_msg_def)
    with 4 show ?case
      by (cases "re_Balance m";
          simp add: RemoveScheduledCallEvent_wire_def RemoveScheduledCallEvent_fields_def RemoveScheduledCallEvent_zero_def apply_simps
          sized_codec.reads_back [OF c])
  qed
qed

end
