(* ===== verification/ScheduleCodec.thy ===== *)
theory ScheduleCodec
  imports Codec
begin

text \<open>
  \<^verbatim>\<open>x/schedule/types/schedule.pb.go\<close>: the value stored for a scheduled call.
\<close>

record ScheduledCall =
  sc_CallBody :: "byte list"

definition ScheduledCall_zero :: ScheduledCall where
  "ScheduledCall_zero = \<lparr>sc_CallBody = []\<rparr>"

definition ScheduledCall_Size :: "ScheduledCall \<Rightarrow> nat" where
  "ScheduledCall_Size m = size_bytes (length (sc_CallBody m))"

definition ScheduledCall_MarshalToSizedBuffer ::
  "ScheduledCall \<Rightarrow> byte list \<Rightarrow> (pb_error, byte list \<times> nat) go" where
  "ScheduledCall_MarshalToSizedBuffer m dAtA =
     go_bind (put_bytes 0x0a (sc_CallBody m) (put_start dAtA)) (put_done (length dAtA))"

definition ScheduledCall_Marshal :: "ScheduledCall \<Rightarrow> (pb_error, byte list) go" where
  "ScheduledCall_Marshal m =
     marshal_with (ScheduledCall_Size m) (ScheduledCall_MarshalToSizedBuffer m)"

definition ScheduledCall_fields :: "int \<Rightarrow> ScheduledCall field option" where
  "ScheduledCall_fields fieldNum =
     (if fieldNum = 1 then Some (FBytes (\<lambda>bs m. m\<lparr>sc_CallBody := bs\<rparr>)) else None)"

definition ScheduledCall_Unmarshal :: "ScheduledCall \<Rightarrow> byte list \<Rightarrow> pb_error + ScheduledCall" where
  "ScheduledCall_Unmarshal m dAtA = unmarshal ScheduledCall_fields m dAtA"

section \<open>Its codec\<close>

definition ScheduledCall_wire :: "ScheduledCall \<Rightarrow> wire_fields" where
  "ScheduledCall_wire m = w_bytes 1 (sc_CallBody m)"

interpretation scheduled_call: message_codec ScheduledCall_Size ScheduledCall_wire
  ScheduledCall_MarshalToSizedBuffer ScheduledCall_fields ScheduledCall_zero "\<lambda>_. True"
proof (unfold_locales, goal_cases)
  case (1 m)
  show ?case by (simp add: ScheduledCall_Size_def ScheduledCall_wire_def wire_simps)
next
  case (2 m d)
  then show ?case
    by (simp add: ScheduledCall_MarshalToSizedBuffer_def ScheduledCall_Size_def
        ScheduledCall_wire_def wire_simps)
next
  case (3 m)
  show ?case by (simp add: ScheduledCall_wire_def ScheduledCall_fields_def w_bytes_def)
next
  case (4 m)
  show ?case
    by (simp add: ScheduledCall_wire_def ScheduledCall_fields_def ScheduledCall_zero_def w_bytes_def)
qed

end
