(* ===== verification/CoinText.thy ===== *)
theory CoinText
  imports Coin
begin

text \<open>
  A coin codec that meets \<open>coin_contract\<close>: the wire format the SDK documents for
  \<^verbatim>\<open>cosmos.base.v1beta1.Coin\<close>, field 1 the denomination and field 2 the decimal text of the
  amount. It shows that the contract the embedding messages rely on can be met.
\<close>

fun dec_text :: "nat \<Rightarrow> byte list" where
  "dec_text n = (if n < 10 then [word_of_nat (48 + n)]
     else dec_text (n div 10) @ [word_of_nat (48 + n mod 10)])"

declare dec_text.simps [simp del]

lemma dec_text_digit: "n < 10 \<Longrightarrow> dec_text n = [word_of_nat (48 + n)]"
  by (simp add: dec_text.simps)

definition dec_value :: "byte list \<Rightarrow> nat" where
  "dec_value bs = foldl (\<lambda>a b. 10 * a + (unat b - 48)) 0 bs"

lemma dec_value_text: "dec_value (dec_text n) = n"
proof (induction n rule: dec_text.induct)
  case (1 n)
  have digit: "unat (word_of_nat (48 + d) :: byte) - 48 = d" if "d < 10" for d
    using that by (subst unat_of_nat) (simp add: take_bit_nat_eq_self)
  show ?case
  proof (cases "n < 10")
    case True
    then show ?thesis using digit [of n] by (subst dec_text.simps) (simp add: dec_value_def)
  next
    case False
    then have "dec_value (dec_text (n div 10)) = n div 10" using 1 by simp
    then show ?thesis
      using False digit [of "n mod 10"]
      by (subst dec_text.simps) (simp add: dec_value_def)
  qed
qed

definition coin_wire :: "coin \<Rightarrow> wire_fields" where
  "coin_wire c = w_bytes 1 (string_bytes (denom c)) @ w_msg 2 (dec_text (nat (amount c)))"

definition coin_size :: "coin \<Rightarrow> nat" where
  "coin_size c = size_bytes (length (denom c)) + size_msg (length (dec_text (nat (amount c))))"

definition coin_marshal :: "coin \<Rightarrow> byte list \<Rightarrow> (pb_error, byte list \<times> nat) go" where
  "coin_marshal c dAtA =
     (if length dAtA < coin_size c then Panic IndexOutOfRange
      else Ret (take (length dAtA - coin_size c) dAtA @ enc_fields (coin_wire c), coin_size c))"

definition coin_fields :: "int \<Rightarrow> coin field option" where
  "coin_fields fieldNum =
     (if fieldNum = 1 then Some (FBytes (\<lambda>bs c. c\<lparr>denom := bytes_string bs\<rparr>))
      else if fieldNum = 2 then Some (FMessage (\<lambda>bs c. Inr (c\<lparr>amount := int (dec_value bs)\<rparr>)))
      else None)"

definition coin_text_codec :: coin_codec where
  "coin_text_codec = \<lparr>cc_Size = coin_size, cc_MarshalToSizedBuffer = coin_marshal,
     cc_Unmarshal = unmarshal coin_fields\<rparr>"

definition coin_text :: "coin \<Rightarrow> byte list" where
  "coin_text c = enc_fields (coin_wire c)"

definition coin_proper :: "coin \<Rightarrow> bool" where
  "coin_proper c \<longleftrightarrow> 0 \<le> amount c"

interpretation coin_text: message_codec coin_size coin_wire coin_marshal coin_fields coin_zero coin_proper
proof (unfold_locales, goal_cases)
  case (1 c)
  show ?case by (simp add: coin_size_def coin_wire_def size_fields)
next
  case (2 c d)
  then show ?case by (simp add: coin_marshal_def)
next
  case (3 c)
  show ?case by (simp add: coin_wire_def coin_fields_def)
next
  case (4 c)
  then show ?case
    by (simp add: coin_wire_def coin_fields_def coin_zero_def coin_proper_def apply_simps dec_value_text)
qed

lemma coin_text_contract: "coin_contract coin_text_codec coin_text coin_proper"
  using coin_text.sized_codec_axioms
  by (simp add: coin_contract_def coin_text_codec_def coin_text_def [abs_def])

end
