(* ===== verification/BigEndian.thy ===== *)
theory BigEndian
  imports Prelude
begin

text \<open>
  The SDK's \<^verbatim>\<open>Uint64ToBigEndian\<close> and \<^verbatim>\<open>BigEndianToUint64\<close> over Go's
  \<^verbatim>\<open>encoding/binary\<close>: eight bytes, most significant first. Decoding no bytes gives 0,
  decoding one to seven bytes panics, and further bytes are ignored. The order of the
  encodings is the order of the numbers, which is what makes the by-height index scan in
  height order.
\<close>

definition Uint64ToBigEndian :: "u64 \<Rightarrow> byte list" where
  "Uint64ToBigEndian v = map (\<lambda>k. ucast (drop_bit k v)) [56, 48, 40, 32, 24, 16, 8, 0]"

primrec be_val :: "byte list \<Rightarrow> nat" where
  "be_val [] = 0"
| "be_val (b # bs) = unat b * 256 ^ length bs + be_val bs"

definition BigEndianToUint64 :: "byte list \<Rightarrow> ('e, u64) go" where
  "BigEndianToUint64 bz =
     (if bz = [] then Ret 0
      else if length bz < 8 then Panic IndexOutOfRange
      else Ret (word_of_nat (be_val (take 8 bz))))"

lemma length_Uint64ToBigEndian [simp]: "length (Uint64ToBigEndian v) = 8"
  by (simp add: Uint64ToBigEndian_def)

lemma Uint64ToBigEndian_nonempty [simp]: "Uint64ToBigEndian v \<noteq> []"
  by (simp add: Uint64ToBigEndian_def)

lemma unat_byte_at: "unat (ucast (drop_bit k (v :: u64)) :: byte) = unat v div 2 ^ k mod 256"
  by (simp add: unsigned_ucast_eq unat_drop_bit_eq drop_bit_eq_div [where ?'a = nat]
      take_bit_eq_mod [where ?'a = nat] del: drop_bit_eq_div [where ?'a = "64 word"])

lemma be_val_bound: "be_val bs < 256 ^ length bs"
proof (induction bs)
  case (Cons b bs)
  let ?k = "256 ^ length bs :: nat"
  have "unat b * ?k \<le> 255 * ?k"
    using unsigned_less [of b, where ?'a = nat] by (intro mult_right_mono) simp_all
  with Cons have "unat b * ?k + be_val bs < 255 * ?k + ?k" by (intro add_le_less_mono)
  then show ?case by simp
qed simp

lemma be_val_digits:
  "be_val (map (\<lambda>i. word_of_nat (n div 256 ^ i)) (rev [0..<j])) = n mod 256 ^ j"
proof (induction j)
  case (Suc j)
  have "n mod 256 ^ Suc j = 256 ^ j * (n div 256 ^ j mod 256) + n mod 256 ^ j"
    by (simp add: mod_mult2_eq [of n "256 ^ j" 256, simplified mult.commute [of "256 ^ j" 256]])
  with Suc show ?case
    by (simp add: unat_of_nat take_bit_eq_mod mult.commute)
qed simp

lemma Uint64ToBigEndian_digits:
  "Uint64ToBigEndian v = map (\<lambda>i. word_of_nat (unat v div 256 ^ i)) (rev [0..<8])"
proof -
  have "(ucast (drop_bit (8 * i) v) :: byte) = word_of_nat (unat v div 256 ^ i)" for i
    by (simp add: word_unat_eq_iff unat_byte_at unat_of_nat take_bit_eq_mod power_mult)
  moreover have "Uint64ToBigEndian v = map (\<lambda>i. ucast (drop_bit (8 * i) v)) (rev [0..<8])"
    by (simp add: Uint64ToBigEndian_def upt_rec)
  ultimately show ?thesis by simp
qed

lemma be_val_Uint64ToBigEndian [simp]: "be_val (Uint64ToBigEndian v) = unat v"
  using unsigned_less [of v, where ?'a = nat]
  by (simp add: Uint64ToBigEndian_digits be_val_digits)

lemma Uint64ToBigEndian_inject [simp]: "Uint64ToBigEndian v = Uint64ToBigEndian w \<longleftrightarrow> v = w"
  by (metis be_val_Uint64ToBigEndian word_unat_eq_iff)

lemma BigEndian_prefix_back:
  "BigEndianToUint64 (Uint64ToBigEndian v @ rest) = Ret v"
  by (simp add: BigEndianToUint64_def)

lemma BigEndian_back [simp]: "BigEndianToUint64 (Uint64ToBigEndian v) = Ret v"
  using BigEndian_prefix_back [of v "[]"] by simp

lemma BigEndianToUint64_Nil [simp]: "BigEndianToUint64 [] = Ret 0"
  by (simp add: BigEndianToUint64_def)

section \<open>Order\<close>

lemma be_val_less_iff:
  "length xs = length ys \<Longrightarrow> xs < ys \<longleftrightarrow> be_val xs < be_val ys"
proof (induction xs arbitrary: ys)
  case (Cons x xs)
  then obtain y ys' where ys: "ys = y # ys'" and l: "length ys' = length xs"
    by (cases ys) auto
  let ?k = "256 ^ length xs :: nat"
  have b: "be_val xs < ?k" "be_val ys' < ?k"
    using be_val_bound [of xs] be_val_bound [of ys'] l by simp_all
  have less: "unat a * ?k + v < unat c * ?k + w" if "a < c" "v < ?k" for a c :: byte and v w
  proof -
    have "(unat a + 1) * ?k \<le> unat c * ?k"
      using that(1) by (intro mult_right_mono) (simp_all add: word_less_nat_alt)
    with that(2) show ?thesis by simp
  qed
  consider "x < y" | "x = y" | "y < x" by (rule linorder_cases)
  then show ?case
  proof cases
    case 1
    then show ?thesis using less [of x y "be_val xs" "be_val ys'"] b ys l by simp
  next
    case 2
    then show ?thesis using Cons.IH [of ys'] ys l by simp
  next
    case 3
    then show ?thesis using less [of y x "be_val ys'" "be_val xs"] b ys l by auto
  qed
qed simp

lemma Uint64ToBigEndian_less: "Uint64ToBigEndian v < Uint64ToBigEndian w \<longleftrightarrow> v < w"
  by (simp add: be_val_less_iff word_less_nat_alt)

lemma append_less_same_length:
  "length xs = length ys \<Longrightarrow> xs < ys \<Longrightarrow> xs @ us < ys @ (vs :: 'a::order list)"
proof (induction xs arbitrary: ys)
  case (Cons x xs)
  then show ?case by (cases ys) auto
qed auto

lemma be_val_take: "be_val (take 8 bz) < 2 ^ 64"
proof -
  have "(256 :: nat) ^ length (take 8 bz) \<le> 256 ^ 8" by (rule power_increasing) simp_all
  with be_val_bound [of "take 8 bz"] show ?thesis by (simp del: length_take)
qed

lemma take_mono_lex: "xs \<le> ys \<Longrightarrow> take n xs \<le> take n (ys :: 'a::linorder list)"
proof (induction n arbitrary: xs ys)
  case (Suc n)
  then show ?case by (cases xs; cases ys) auto
qed simp

text \<open>Every eight bytes are the encoding of the number they stand for.\<close>

lemma Uint64ToBigEndian_be_val:
  assumes "length bz = 8"
  shows "Uint64ToBigEndian (word_of_nat (be_val bz)) = bz"
proof -
  have "be_val bz < 2 ^ 64" using be_val_bound [of bz] assms by simp
  then have "be_val (Uint64ToBigEndian (word_of_nat (be_val bz))) = be_val bz"
    by (simp add: unat_of_nat take_bit_nat_eq_self)
  then show ?thesis
    using be_val_less_iff [of bz "Uint64ToBigEndian (word_of_nat (be_val bz))"]
      be_val_less_iff [of "Uint64ToBigEndian (word_of_nat (be_val bz))" bz] assms
    by (metis length_Uint64ToBigEndian less_irrefl linorder_less_linear)
qed

end
