(* ===== verification/UnknownFields.thy ===== *)
theory UnknownFields
  imports Codec
begin

text \<open>
  The fields a decoder may meet without knowing them: all the wire types of protobuf, groups
  within groups included. Skipping one takes exactly its bytes, so decoding a message is
  decoding what is left of it without them.
\<close>

section \<open>Every wire type\<close>

datatype any_value =
    AVarint u64
  | AFixed64 "byte list"
  | ALen "byte list"
  | AGroup "(nat \<times> any_value) list"
  | AFixed32 "byte list"

type_synonym any_fields = "(nat \<times> any_value) list"

fun wire_type :: "any_value \<Rightarrow> nat" where
  "wire_type (AVarint v) = 0"
| "wire_type (AFixed64 bs) = 1"
| "wire_type (ALen bs) = 2"
| "wire_type (AGroup us) = 3"
| "wire_type (AFixed32 bs) = 5"

text \<open>The bytes of a value with its tag; a group ends with a tag of its own.\<close>

fun enc_any :: "nat \<Rightarrow> any_value \<Rightarrow> byte list"
  and enc_anys :: "any_fields \<Rightarrow> byte list" where
  "enc_any n (AVarint v) = varint (tag_word n 0) @ varint v"
| "enc_any n (AFixed64 bs) = varint (tag_word n 1) @ bs"
| "enc_any n (ALen bs) = varint (tag_word n 2) @ varint (word_of_nat (length bs)) @ bs"
| "enc_any n (AGroup us) = varint (tag_word n 3) @ enc_anys us @ varint (tag_word n 4)"
| "enc_any n (AFixed32 bs) = varint (tag_word n 5) @ bs"
| "enc_anys [] = []"
| "enc_anys ((n, u) # us) = enc_any n u @ enc_anys us"

text \<open>Field numbers in range, and fixed-width values of their width.\<close>

fun any_ok :: "nat \<Rightarrow> any_value \<Rightarrow> bool"
  and anys_ok :: "any_fields \<Rightarrow> bool" where
  "any_ok n (AVarint v) \<longleftrightarrow> 0 < n \<and> n < 2 ^ 28"
| "any_ok n (AFixed64 bs) \<longleftrightarrow> 0 < n \<and> n < 2 ^ 28 \<and> length bs = 8"
| "any_ok n (ALen bs) \<longleftrightarrow> 0 < n \<and> n < 2 ^ 28"
| "any_ok n (AGroup us) \<longleftrightarrow> 0 < n \<and> n < 2 ^ 28 \<and> anys_ok us"
| "any_ok n (AFixed32 bs) \<longleftrightarrow> 0 < n \<and> n < 2 ^ 28 \<and> length bs = 4"
| "anys_ok [] \<longleftrightarrow> True"
| "anys_ok ((n, u) # us) \<longleftrightarrow> any_ok n u \<and> anys_ok us"

lemma any_ok_number: "any_ok n u \<Longrightarrow> 0 < n \<and> n < 2 ^ 28"
  by (cases u) simp_all

lemma enc_anys_append [simp]: "enc_anys (us @ vs) = enc_anys us @ enc_anys vs"
  by (induction us) auto

lemma enc_any_tag: "\<exists>v. enc_any n u = varint (tag_word n (wire_type u)) @ v"
  by (cases u) auto

lemma enc_any_nonempty [simp]: "enc_any n u \<noteq> []"
  by (cases u) simp_all

lemma wire_type_bounds: "wire_type u < 8" "wire_type u \<noteq> 4"
  by (cases u; simp)+

section \<open>Skipping\<close>

text \<open>Where the skipper goes on after a value that ends at \<open>k\<close> with \<open>depth\<close> groups open.\<close>

definition skipped :: "byte list \<Rightarrow> nat \<Rightarrow> nat \<Rightarrow> pb_error + nat" where
  "skipped d k depth = (if depth = 0 then Inr k else skip_loop d k depth)"

lemma skip_loop_step:
  assumes "read_varint d i = Inr (tag_word n t, j)" "n < 2 ^ 28" "t < 8"
    and "skip_value d j t depth = Inr (Some k, depth')"
  shows "skip_loop d i depth = skipped d k depth'"
  using assms read_varint_advances [OF assms(1)] tag_parts(1) [OF assms(2,3)]
  by (subst skip_loop.simps) (simp add: skipped_def)

lemma skip_value_simps:
  "skip_value (pre @ varint v @ rest) (length pre) 0 depth
    = Inr (Some (length pre + length (varint v)), depth)"
  "length (pre @ varint (word_of_nat (length bs)) @ bs @ rest) < 2 ^ 63 \<Longrightarrow>
    skip_value (pre @ varint (word_of_nat (length bs)) @ bs @ rest) (length pre) 2 depth
      = Inr (Some (length pre + length (varint (word_of_nat (length bs))) + length bs), depth)"
  "j + 8 < 2 ^ 63 \<Longrightarrow> skip_value d j 1 depth = Inr (Some (j + 8), depth)"
  "skip_value d j 3 depth = Inr (Some j, Suc depth)"
  "skip_value d j 4 (Suc depth) = Inr (Some j, depth)"
  "j + 4 < 2 ^ 63 \<Longrightarrow> skip_value d j 5 depth = Inr (Some (j + 4), depth)"
proof -
  let ?v = "word_of_nat (length bs) :: u64"
  assume small: "length (pre @ varint ?v @ bs @ rest) < 2 ^ 63"
  have "unat ?v = length bs"
    using small by (simp add: unat_of_nat take_bit_nat_eq_self)
  moreover from this have "sint ?v = int (length bs)"
    using small by (subst sint_small) simp_all
  ultimately show "skip_value (pre @ varint ?v @ bs @ rest) (length pre) 2 depth
      = Inr (Some (length pre + length (varint ?v) + length bs), depth)"
    using small by (simp add: skip_value_def wire_simps int_add_def)
qed (simp_all add: skip_value_def wire_simps int_add_def)

text \<open>The tag is read first; what follows it decides how far the value goes.\<close>

lemma skip_loop_tag:
  assumes "n < 2 ^ 28" "t < 8"
    and "skip_value (pre @ varint (tag_word n t) @ rest) (length pre + length (varint (tag_word n t))) t depth
      = Inr (Some k, depth')"
  shows "skip_loop (pre @ varint (tag_word n t) @ rest) (length pre) depth
    = skipped (pre @ varint (tag_word n t) @ rest) k depth'"
  using skip_loop_step [OF read_varint_back assms] .

lemma skip_any:
  "any_ok n u \<Longrightarrow> length (pre @ enc_any n u @ rest) < 2 ^ 63 \<Longrightarrow>
    skip_loop (pre @ enc_any n u @ rest) (length pre) depth
      = skipped (pre @ enc_any n u @ rest) (length pre + length (enc_any n u)) depth"
  "anys_ok us \<Longrightarrow> length (pre @ enc_anys us @ rest) < 2 ^ 63 \<Longrightarrow> 0 < depth \<Longrightarrow>
    skip_loop (pre @ enc_anys us @ rest) (length pre) depth
      = skip_loop (pre @ enc_anys us @ rest) (length pre + length (enc_anys us)) depth"
proof (induction n u and us arbitrary: pre rest depth and pre rest depth rule: enc_any_enc_anys.induct)
  case (1 n v)
  let ?t = "varint (tag_word n 0)"
  show ?case
    using 1 skip_value_simps(1) [of "pre @ ?t" v rest depth]
      skip_loop_tag [of n 0 pre "varint v @ rest" depth "length (pre @ ?t) + length (varint v)" depth]
    by (simp add: add.assoc)
next
  case (2 n bs)
  let ?t = "varint (tag_word n 1)"
  show ?case
    using 2 skip_loop_tag [of n 1 pre "bs @ rest" depth "length (pre @ ?t) + 8" depth]
      skip_value_simps(3) [of "length (pre @ ?t)"]
    by (simp add: add.assoc)
next
  case (3 n bs)
  let ?t = "varint (tag_word n 2)" and ?l = "varint (word_of_nat (length bs))"
  show ?case
    using 3 skip_value_simps(2) [of "pre @ ?t" bs rest depth]
      skip_loop_tag [of n 2 pre "?l @ bs @ rest" depth "length (pre @ ?t) + length ?l + length bs" depth]
    by (simp add: add.assoc)
next
  case (4 n us)
  let ?t = "varint (tag_word n 3)" and ?e = "varint (tag_word n 4)"
  let ?d = "pre @ enc_any n (AGroup us) @ rest"
  have "skip_loop ?d (length pre) depth = skip_loop ?d (length (pre @ ?t)) (Suc depth)"
    using 4 skip_loop_tag [of n 3 pre "enc_anys us @ ?e @ rest" depth "length (pre @ ?t)" "Suc depth"]
    by (simp add: skip_value_simps skipped_def)
  also have "\<dots> = skip_loop ?d (length (pre @ ?t @ enc_anys us)) (Suc depth)"
    using "4.IH" [of "pre @ ?t" "?e @ rest" "Suc depth"] "4.prems" by (simp add: add.assoc)
  also have "\<dots> = skipped ?d (length pre + length (enc_any n (AGroup us))) depth"
    using 4 skip_loop_tag [of n 4 "pre @ ?t @ enc_anys us" rest "Suc depth"
        "length (pre @ ?t @ enc_anys us @ ?e)" depth]
    by (simp add: skip_value_simps add.assoc)
  finally show ?case .
next
  case (5 n bs)
  let ?t = "varint (tag_word n 5)"
  show ?case
    using 5 skip_loop_tag [of n 5 pre "bs @ rest" depth "length (pre @ ?t) + 4" depth]
      skip_value_simps(6) [of "length (pre @ ?t)"]
    by (simp add: add.assoc)
next
  case 6
  show ?case by simp
next
  case (7 n u us)
  have "skip_loop (pre @ enc_any n u @ enc_anys us @ rest) (length pre) depth
      = skip_loop (pre @ enc_any n u @ enc_anys us @ rest) (length pre + length (enc_any n u)) depth"
    using "7.IH"(1) [of pre "enc_anys us @ rest" depth] "7.prems" by (simp add: skipped_def)
  also have "\<dots> = skip_loop (pre @ enc_any n u @ enc_anys us @ rest)
      (length pre + length (enc_any n u) + length (enc_anys us)) depth"
    using "7.IH"(2) [of "pre @ enc_any n u" rest depth] "7.prems" by simp
  finally show ?case by (simp add: add.assoc)
qed

lemma skip_field_any:
  "any_ok n u \<Longrightarrow> length (enc_any n u @ rest) < 2 ^ 63 \<Longrightarrow>
    skip_field (enc_any n u @ rest) = Inr (length (enc_any n u))"
  using skip_any(1) [of n u "[]" rest 0] by (simp add: skip_field_def skipped_def)

section \<open>Decoding with unknown fields\<close>

text \<open>What the field loop does with a value it knows: of a wire type it does not expect, an error.\<close>

fun known_value :: "any_value \<Rightarrow> wire_value option" where
  "known_value (AVarint v) = Some (WVarint v)"
| "known_value (ALen bs) = Some (WLen bs)"
| "known_value u = None"

fun apply_any :: "'m field \<Rightarrow> any_value \<Rightarrow> 'm \<Rightarrow> pb_error + 'm" where
  "apply_any f u m = (case known_value u of None \<Rightarrow> Inl WrongWireType | Some w \<Rightarrow> apply_value f w m)"

fun apply_anys :: "(int \<Rightarrow> 'm field option) \<Rightarrow> any_fields \<Rightarrow> 'm \<Rightarrow> pb_error + 'm" where
  "apply_anys F [] m = Inr m"
| "apply_anys F ((n, u) # us) m =
     (case F (int n) of
        None \<Rightarrow> apply_anys F us m
      | Some f \<Rightarrow> (case apply_any f u m of Inl e \<Rightarrow> Inl e | Inr m' \<Rightarrow> apply_anys F us m'))"

lemma known_value_enc: "known_value u = Some w \<Longrightarrow> enc_any n u = enc_value n w"
  by (cases u) auto

lemma unmarshal_loop_any_known:
  assumes small: "length (pre @ enc_any n u @ rest) < 2 ^ 63" and ok: "any_ok n u"
    and known: "F (int n) = Some f"
  shows "unmarshal_loop F (pre @ enc_any n u @ rest) (length pre) m
    = (case apply_any f u m of
         Inl e \<Rightarrow> Inl e
       | Inr m' \<Rightarrow> unmarshal_loop F (pre @ enc_any n u @ rest) (length pre + length (enc_any n u)) m')"
proof (cases "known_value u")
  case (Some w)
  then show ?thesis
    using unmarshal_loop_value [of pre n w rest F f m] assms any_ok_number [OF ok]
    by (simp add: known_value_enc [OF Some] split: sum.split)
next
  case None
  let ?t = "wire_type u"
  obtain v where e: "enc_any n u = varint (tag_word n ?t) @ v" using enc_any_tag by blast
  let ?d = "pre @ enc_any n u @ rest"
  have tag: "read_varint ?d (length pre) = Inr (tag_word n ?t, length pre + length (varint (tag_word n ?t)))"
    using read_varint_back [of pre "tag_word n ?t" "v @ rest"] by (simp add: e)
  have lt: "length pre < length ?d" by simp
  have "read_field f ?t ?d j m = Inl WrongWireType" for j
    using None by (cases u; cases f) simp_all
  then show ?thesis
    using None lt tag known any_ok_number [OF ok] wire_type_bounds [of u]
      tag_parts [of n ?t]
    by (subst unmarshal_loop.simps) (simp add: Let_def)
qed

lemma unmarshal_loop_any_unknown:
  assumes small: "length (pre @ enc_any n u @ rest) < 2 ^ 63" and ok: "any_ok n u"
    and unknown: "F (int n) = None"
  shows "unmarshal_loop F (pre @ enc_any n u @ rest) (length pre) m
    = unmarshal_loop F (pre @ enc_any n u @ rest) (length pre + length (enc_any n u)) m"
proof -
  let ?t = "wire_type u" and ?d = "pre @ enc_any n u @ rest"
  obtain v where e: "enc_any n u = varint (tag_word n ?t) @ v" using enc_any_tag by blast
  have tag: "read_varint ?d (length pre) = Inr (tag_word n ?t, length pre + length (varint (tag_word n ?t)))"
    using read_varint_back [of pre "tag_word n ?t" "v @ rest"] by (simp add: e)
  have lt: "length pre < length ?d" by simp
  have "skip_unknown ?d (length pre) m = Inr (m, length pre + length (enc_any n u))"
    using skip_field_any [OF ok, of rest] small by (simp add: skip_unknown_def int_add_def)
  then show ?thesis
    using lt tag unknown any_ok_number [OF ok] wire_type_bounds [of u] tag_parts [of n ?t]
    by (subst unmarshal_loop.simps) (simp add: Let_def)
qed

lemma unmarshal_loop_anys:
  "anys_ok us \<Longrightarrow> length (pre @ enc_anys us) < 2 ^ 63 \<Longrightarrow>
    unmarshal_loop F (pre @ enc_anys us) (length pre) m = apply_anys F us m"
proof (induction us arbitrary: pre m)
  case Nil
  then show ?case by (subst unmarshal_loop.simps) simp
next
  case (Cons a us)
  obtain n u where a: "a = (n, u)" by (cases a)
  have rest: "unmarshal_loop F ((pre @ enc_any n u) @ enc_anys us) (length (pre @ enc_any n u)) m'
      = apply_anys F us m'" for m'
    using Cons.prems a by (intro Cons.IH) simp_all
  show ?case
  proof (cases "F (int n)")
    case None
    then show ?thesis
      using unmarshal_loop_any_unknown [of pre n u "enc_anys us" F m] Cons.prems a rest [of m] by simp
  next
    case (Some f)
    then show ?thesis
      using unmarshal_loop_any_known [of pre n u "enc_anys us" F f m] Cons.prems a rest
      by (cases "apply_any f u m") simp_all
  qed
qed

lemma unmarshal_anys:
  "anys_ok us \<Longrightarrow> length (enc_anys us) < 2 ^ 63 \<Longrightarrow> unmarshal F m (enc_anys us) = apply_anys F us m"
  using unmarshal_loop_anys [of us "[]" F m] by (simp add: unmarshal_def)

text \<open>Leaving out what the table does not know changes nothing.\<close>

lemma unmarshal_leave_out:
  assumes "anys_ok us" "length (enc_anys us) < 2 ^ 63" "\<And>n. n \<notin> N \<Longrightarrow> F (int n) = None"
  shows "unmarshal F m (enc_anys us) = unmarshal F m (enc_anys (filter (\<lambda>(n, u). n \<in> N) us))"
proof -
  let ?known = "filter (\<lambda>(n, u). n \<in> N) us"
  have "anys_ok ?known \<and> length (enc_anys ?known) \<le> length (enc_anys us)"
    using assms(1) by (induction us) auto
  moreover have "apply_anys F us m = apply_anys F ?known m"
  proof (induction us arbitrary: m)
    case (Cons a us)
    obtain n u where a: "a = (n, u)" by (cases a)
    show ?case
      using Cons a assms(3) [of n] by (cases "n \<in> N") (simp_all split: option.split sum.split)
  qed simp
  ultimately show ?thesis using assms(1,2) by (simp add: unmarshal_anys)
qed

end
