(* ===== verification/CodecProps.thy ===== *)
theory CodecProps
  imports TxCodec GenesisCodec QueryCodec EventCodec ScheduleCodec CoinText BigEndian
    UnknownFields
begin

text \<open>
  The properties of the generated codecs: what is marshalled has the computed size and is
  read back, unknown fields are skipped, and malformed input is an error.
\<close>

section \<open>Varints\<close>

text \<open>\<open>encodeVarint\<close> moves the offset back by exactly \<open>sov v\<close> bytes (between 1 and 10),
  leaves the bytes before it alone, and the decoding loop reads the value back from there.\<close>
theorem varint_roundtrip:
  assumes "k \<le> length d" "sov v \<le> k"
  shows "\<exists>d' i. (encodeVarint (take k d @ suf) k v :: ('e, _) go) = Ret (d', i) \<and>
    i + sov v = k \<and> 1 \<le> sov v \<and> sov v \<le> 10 \<and> take i d' = take i d \<and> drop k d' = suf \<and>
    read_varint d' i = Inr (v, k)"
proof -
  have r: "read_varint (take (k - sov v) d @ varint v @ suf) (k - sov v) = Inr (v, k)"
    using read_varint_back [of "take (k - sov v) d" v suf] assms
    by (simp add: sov_varint min.absorb2)
  show ?thesis
    using assms sov_bounds [of v] r by (simp add: encodeVarint_back sov_varint min.absorb2)
qed

theorem varint_roundtrip_witness:
  "\<exists>d' i. (encodeVarint (take 3 [0, 0, 0] @ [9]) 3 300 :: (pb_error, _) go) = Ret (d', i) \<and>
    i + sov 300 = 3 \<and> 1 \<le> sov 300 \<and> sov 300 \<le> 10 \<and> take i d' = take i [0, 0, 0] \<and>
    drop 3 d' = [9] \<and> read_varint d' i = Inr (300, 3)"
proof (rule varint_roundtrip)
  show "sov 300 \<le> 3" by (simp add: sov_def bit_len.simps)
qed simp

text \<open>Ten continuation bytes are an integer overflow, however long the input is.\<close>
theorem varint_overflow:
  assumes "10 \<le> length bs" "\<forall>b \<in> set (take 10 bs). 0x80 \<le> b"
  shows "read_varint bs 0 = Inl ErrIntOverflow"
proof -
  have "\<not> bs ! i < 0x80" if "i < 10" for i
    using assms that nth_mem [of i "take 10 bs"] by (auto simp: not_less)
  moreover have "bs \<noteq> []" using assms(1) by auto
  ultimately show ?thesis
    using assms(1) by (simp add: read_varint_def varint_loop.simps Let_def)
qed

theorem varint_overflow_witness: "read_varint (replicate 12 0xFF) 0 = Inl ErrIntOverflow"
  by (rule varint_overflow) simp_all

section \<open>Messages\<close>

text \<open>C37: The two transactions of the module: \<open>Marshal\<close> never fails or panics, fills exactly
  \<open>Size\<close> bytes, and \<open>Unmarshal\<close> gives the message back, for every message of less than
  2^63 bytes.\<close>
theorem tx_roundtrip:
  assumes "MsgAddSchedule_Size m < 2 ^ 63" "MsgRemoveSchedule_Size m' < 2 ^ 63"
  shows "(\<exists>bz. MsgAddSchedule_Marshal m = Ret bz \<and> length bz = MsgAddSchedule_Size m \<and>
      MsgAddSchedule_Unmarshal MsgAddSchedule_zero bz = Inr m) \<and>
    (\<exists>bz. MsgRemoveSchedule_Marshal m' = Ret bz \<and> length bz = MsgRemoveSchedule_Size m' \<and>
      MsgRemoveSchedule_Unmarshal MsgRemoveSchedule_zero bz = Inr m')"
  using msg_add_schedule.codec_roundtrip [of m] msg_remove_schedule.codec_roundtrip [of m'] assms
  by (simp add: MsgAddSchedule_Marshal_def MsgAddSchedule_Unmarshal_def
      MsgRemoveSchedule_Marshal_def MsgRemoveSchedule_Unmarshal_def)

theorem tx_roundtrip_witness:
  "let m = \<lparr>ma_Signer = ''burnt1a'', ma_Contract = ''burnt1b'', ma_CallBody = [1, 2], ma_BlockHeight = 100\<rparr>;
       m' = \<lparr>mr_Signer = ''burnt1a'', mr_Contract = []\<rparr>
   in (\<exists>bz. MsgAddSchedule_Marshal m = Ret bz \<and> length bz = MsgAddSchedule_Size m \<and>
        MsgAddSchedule_Unmarshal MsgAddSchedule_zero bz = Inr m) \<and>
      (\<exists>bz. MsgRemoveSchedule_Marshal m' = Ret bz \<and> length bz = MsgRemoveSchedule_Size m' \<and>
        MsgRemoveSchedule_Unmarshal MsgRemoveSchedule_zero bz = Inr m')"
  unfolding Let_def
  by (rule tx_roundtrip)
     (simp_all add: MsgAddSchedule_Size_def MsgRemoveSchedule_Size_def size_bytes_def size_uint_def
       sov_small)

text \<open>The value stored for a scheduled call: it is read back, and an empty call body is
  stored as no bytes at all.\<close>
theorem scheduled_call_roundtrip:
  assumes "ScheduledCall_Size m < 2 ^ 63"
  shows "\<exists>bz. ScheduledCall_Marshal m = Ret bz \<and> length bz = ScheduledCall_Size m \<and>
    ScheduledCall_Unmarshal ScheduledCall_zero bz = Inr m \<and> (bz = [] \<longleftrightarrow> sc_CallBody m = [])"
proof -
  obtain bz where bz: "ScheduledCall_Marshal m = Ret bz" "length bz = ScheduledCall_Size m"
    "ScheduledCall_Unmarshal ScheduledCall_zero bz = Inr m"
    using scheduled_call.codec_roundtrip [of m] assms
    by (auto simp: ScheduledCall_Marshal_def ScheduledCall_Unmarshal_def)
  moreover have "ScheduledCall_Size m = 0 \<longleftrightarrow> sc_CallBody m = []"
    by (simp add: ScheduledCall_Size_def size_bytes_def)
  ultimately show ?thesis by (metis length_0_conv)
qed

theorem scheduled_call_roundtrip_witness:
  "\<exists>bz. ScheduledCall_Marshal \<lparr>sc_CallBody = [7, 8]\<rparr> = Ret bz \<and>
    length bz = ScheduledCall_Size \<lparr>sc_CallBody = [7, 8]\<rparr> \<and>
    ScheduledCall_Unmarshal ScheduledCall_zero bz = Inr \<lparr>sc_CallBody = [7, 8]\<rparr> \<and>
    (bz = [] \<longleftrightarrow> sc_CallBody \<lparr>sc_CallBody = [7, 8]\<rparr> = [])"
  by (rule scheduled_call_roundtrip)
     (simp add: ScheduledCall_Size_def size_bytes_def sov_def bit_len.simps)

text \<open>C38: The genesis state with its embedded parameters, coin and repeated messages, given any
  coin codec that meets its contract.\<close>
theorem genesis_state_roundtrip:
  assumes "coin_contract cc cb cok" "cok (p_MinimumBalance (gs_Params gs))"
    and "GenesisState_Size cc gs < 2 ^ 63"
  shows "\<exists>bz. GenesisState_Marshal cc gs = Ret bz \<and> length bz = GenesisState_Size cc gs \<and>
    GenesisState_Unmarshal cc GenesisState_zero bz = Inr gs"
  using sized_codec.codec_roundtrip [OF message_codec_sized [OF genesis_state_codec [OF assms(1)]]]
    assms(2,3)
  by (simp add: GenesisState_Marshal_def GenesisState_Unmarshal_def)

definition sample_genesis :: GenesisState where
  "sample_genesis = \<lparr>gs_Params = \<lparr>p_MinimumBalance = \<lparr>denom = ''uturnt'', amount = 7\<rparr>, p_UpperBound = 100\<rparr>,
     gs_ScheduledCalls = [\<lparr>ma_Signer = ''a'', ma_Contract = ''b'', ma_CallBody = [1], ma_BlockHeight = 9\<rparr>]\<rparr>"

theorem genesis_state_roundtrip_witness:
  "\<exists>bz. GenesisState_Marshal coin_text_codec sample_genesis = Ret bz \<and>
    length bz = GenesisState_Size coin_text_codec sample_genesis \<and>
    GenesisState_Unmarshal coin_text_codec GenesisState_zero bz = Inr sample_genesis"
  by (rule genesis_state_roundtrip [OF coin_text_contract])
     (simp_all add: coin_proper_def sample_genesis_def GenesisState_Size_def Params_Size_def
       MsgAddSchedule_Size_def coin_text_codec_def coin_size_def
       size_msg_def size_bytes_def size_uint_def sov_small dec_text_digit)

text \<open>The query answers: the parameters, and the list of scheduled calls, however long.\<close>
theorem query_roundtrip:
  assumes "coin_contract cc cb cok" "cok (p_MinimumBalance (qp_Params r))"
    and "QueryParamsResponse_Size cc r < 2 ^ 63" "QueryScheduledCallsResponse_Size r' < 2 ^ 63"
  shows "(\<exists>bz. QueryParamsResponse_Marshal cc r = Ret bz \<and> length bz = QueryParamsResponse_Size cc r \<and>
      QueryParamsResponse_Unmarshal cc QueryParamsResponse_zero bz = Inr r) \<and>
    (\<exists>bz. QueryScheduledCallsResponse_Marshal r' = Ret bz \<and>
      length bz = QueryScheduledCallsResponse_Size r' \<and>
      QueryScheduledCallsResponse_Unmarshal QueryScheduledCallsResponse_zero bz = Inr r')"
  using sized_codec.codec_roundtrip [OF message_codec_sized [OF query_params_response_codec [OF assms(1)]]]
    query_scheduled_calls_response.codec_roundtrip [of r'] assms(2-4)
  by (simp add: QueryParamsResponse_Marshal_def QueryParamsResponse_Unmarshal_def
      QueryScheduledCallsResponse_Marshal_def QueryScheduledCallsResponse_Unmarshal_def)

definition sample_calls :: QueryScheduledCallsResponse where
  "sample_calls = \<lparr>qr_Calls =
     [\<lparr>qc_Contract = ''c'', qc_CallBody = [1, 2], qc_Height = 5, qc_Signer = [9]\<rparr>,
      \<lparr>qc_Contract = [], qc_CallBody = [], qc_Height = 0, qc_Signer = []\<rparr>]\<rparr>"

theorem query_roundtrip_witness:
  "let r = \<lparr>qp_Params = gs_Params sample_genesis\<rparr> in
   (\<exists>bz. QueryParamsResponse_Marshal coin_text_codec r = Ret bz \<and>
      length bz = QueryParamsResponse_Size coin_text_codec r \<and>
      QueryParamsResponse_Unmarshal coin_text_codec QueryParamsResponse_zero bz = Inr r) \<and>
   (\<exists>bz. QueryScheduledCallsResponse_Marshal sample_calls = Ret bz \<and>
      length bz = QueryScheduledCallsResponse_Size sample_calls \<and>
      QueryScheduledCallsResponse_Unmarshal QueryScheduledCallsResponse_zero bz = Inr sample_calls)"
  unfolding Let_def
  by (rule query_roundtrip [OF coin_text_contract])
     (simp_all add: coin_proper_def sample_genesis_def sample_calls_def QueryParamsResponse_Size_def Params_Size_def
       QueryScheduledCallsResponse_Size_def QueryScheduledCall_Size_def coin_text_codec_def coin_size_def
       size_msg_def size_bytes_def size_uint_def sov_small dec_text_digit)

text \<open>The three typed events, whose coins may be nil.\<close>
theorem event_roundtrip:
  assumes "coin_contract cc cb cok"
    and "case_option True cok (ae_Balance a)" "case_option True cok (ee_Gas e)"
      "case_option True cok (ee_BalanceBefore e)" "case_option True cok (re_Balance r)"
    and "AddScheduledCallEvent_Size cc a < 2 ^ 63" "ExecuteScheduledCallEvent_Size cc e < 2 ^ 63"
      "RemoveScheduledCallEvent_Size cc r < 2 ^ 63"
  shows "(\<exists>bz. AddScheduledCallEvent_Marshal cc a = Ret bz \<and>
      AddScheduledCallEvent_Unmarshal cc AddScheduledCallEvent_zero bz = Inr a) \<and>
    (\<exists>bz. ExecuteScheduledCallEvent_Marshal cc e = Ret bz \<and>
      ExecuteScheduledCallEvent_Unmarshal cc ExecuteScheduledCallEvent_zero bz = Inr e) \<and>
    (\<exists>bz. RemoveScheduledCallEvent_Marshal cc r = Ret bz \<and>
      RemoveScheduledCallEvent_Unmarshal cc RemoveScheduledCallEvent_zero bz = Inr r)"
proof (intro conjI)
  show "\<exists>bz. AddScheduledCallEvent_Marshal cc a = Ret bz \<and>
      AddScheduledCallEvent_Unmarshal cc AddScheduledCallEvent_zero bz = Inr a"
    using sized_codec.codec_roundtrip [OF message_codec_sized
        [OF add_scheduled_call_event_codec [OF assms(1)]], of a] assms(2,6)
    by (auto simp: AddScheduledCallEvent_Marshal_def AddScheduledCallEvent_Unmarshal_def)
next
  show "\<exists>bz. ExecuteScheduledCallEvent_Marshal cc e = Ret bz \<and>
      ExecuteScheduledCallEvent_Unmarshal cc ExecuteScheduledCallEvent_zero bz = Inr e"
    using sized_codec.codec_roundtrip [OF message_codec_sized
        [OF execute_scheduled_call_event_codec [OF assms(1)]], of e] assms(3,4,7)
    by (auto simp: ExecuteScheduledCallEvent_Marshal_def ExecuteScheduledCallEvent_Unmarshal_def)
next
  show "\<exists>bz. RemoveScheduledCallEvent_Marshal cc r = Ret bz \<and>
      RemoveScheduledCallEvent_Unmarshal cc RemoveScheduledCallEvent_zero bz = Inr r"
    using sized_codec.codec_roundtrip [OF message_codec_sized
        [OF remove_scheduled_call_event_codec [OF assms(1)]], of r] assms(5,8)
    by (auto simp: RemoveScheduledCallEvent_Marshal_def RemoveScheduledCallEvent_Unmarshal_def)
qed

definition sample_add :: AddScheduledCallEvent where
  "sample_add = AddScheduledCallEvent_zero\<lparr>ae_BlockHeight := 5, ae_Balance := Some \<lparr>denom = ''t'', amount = 3\<rparr>\<rparr>"

theorem event_roundtrip_witness:
  "(\<exists>bz. AddScheduledCallEvent_Marshal coin_text_codec sample_add = Ret bz \<and>
      AddScheduledCallEvent_Unmarshal coin_text_codec AddScheduledCallEvent_zero bz = Inr sample_add) \<and>
   (\<exists>bz. ExecuteScheduledCallEvent_Marshal coin_text_codec ExecuteScheduledCallEvent_zero = Ret bz \<and>
      ExecuteScheduledCallEvent_Unmarshal coin_text_codec ExecuteScheduledCallEvent_zero bz
        = Inr ExecuteScheduledCallEvent_zero) \<and>
   (\<exists>bz. RemoveScheduledCallEvent_Marshal coin_text_codec RemoveScheduledCallEvent_zero = Ret bz \<and>
      RemoveScheduledCallEvent_Unmarshal coin_text_codec RemoveScheduledCallEvent_zero bz
        = Inr RemoveScheduledCallEvent_zero)"
  by (rule event_roundtrip [OF coin_text_contract])
     (simp_all add: coin_proper_def sample_add_def AddScheduledCallEvent_zero_def ExecuteScheduledCallEvent_zero_def
       RemoveScheduledCallEvent_zero_def AddScheduledCallEvent_Size_def
       ExecuteScheduledCallEvent_Size_def RemoveScheduledCallEvent_Size_def coin_text_codec_def coin_size_def
       size_msg_def size_bytes_def size_uint_def sov_small dec_text_digit)

section \<open>Unknown fields and malformed input\<close>

text \<open>C40: A message written by a newer version, with fields of other numbers anywhere and of any
  wire type, groups within groups included, is decoded to the message with those fields left
  out; a field it does know, of a wire type it does not expect, fails either way.\<close>
theorem unknown_fields_skipped:
  assumes "anys_ok us" "length (enc_anys us) < 2 ^ 63"
  shows "MsgAddSchedule_Unmarshal m (enc_anys us)
    = MsgAddSchedule_Unmarshal m (enc_anys (filter (\<lambda>(n, u). n \<in> {1, 2, 3, 5}) us))"
  unfolding MsgAddSchedule_Unmarshal_def
  by (rule unmarshal_leave_out [OF assms]) (auto simp: MsgAddSchedule_fields_def)

theorem unknown_fields_skipped_witness:
  "MsgAddSchedule_Unmarshal MsgAddSchedule_zero (enc_anys
      [(4, AVarint 9), (1, ALen [0x61]), (77, AGroup [(1, AFixed32 [1, 2, 3, 4]), (3, AGroup [])])])
    = MsgAddSchedule_Unmarshal MsgAddSchedule_zero (enc_anys [(1, ALen [0x61])])"
  using unknown_fields_skipped [of "[(4, AVarint 9), (1, ALen [0x61]),
      (77, AGroup [(1, AFixed32 [1, 2, 3, 4]), (3, AGroup [])])]" MsgAddSchedule_zero]
  by (simp add: varint.simps tag_word_def)

end
