(* ===== verification/Json.thy ===== *)
theory Json
  imports Prelude
begin

text \<open>
  What the keeper uses of Go's \<^verbatim>\<open>encoding/json\<close>: the text of the owner query, and
  \<^verbatim>\<open>json.Unmarshal\<close> into \<^verbatim>\<open>isOwnerResponse\<close>, a struct with the single field
  \<^verbatim>\<open>IsOwner bool `json:"is_owner"`\<close>. The text is first checked to be one JSON value, then
  decoded. The guards that compare lengths are always true; they make the recursion
  visibly terminate.
\<close>

datatype json =
    JNull
  | JBool bool
  | JNumber
  | JString "byte list"
  | JArray "json list"
  | JObject "(byte list \<times> json) list"

datatype json_error = SyntaxError | UnmarshalTypeError

section \<open>Strings and numbers\<close>

definition skip_ws :: "byte list \<Rightarrow> byte list" where
  "skip_ws = dropWhile (\<lambda>b. b = 0x20 \<or> b = 0x09 \<or> b = 0x0A \<or> b = 0x0D)"

definition is_digit :: "byte \<Rightarrow> bool" where
  "is_digit b \<longleftrightarrow> 0x30 \<le> b \<and> b \<le> 0x39"

definition hex_digit :: "byte \<Rightarrow> nat option" where
  "hex_digit b =
     (if is_digit b then Some (unat b - 0x30)
      else if 0x61 \<le> b \<and> b \<le> 0x66 then Some (unat b - 0x61 + 10)
      else if 0x41 \<le> b \<and> b \<le> 0x46 then Some (unat b - 0x41 + 10)
      else None)"

definition hex4 :: "byte list \<Rightarrow> (nat \<times> byte list) option" where
  "hex4 bs =
     (case map hex_digit (take 4 bs) of
        [Some a, Some b, Some c, Some d] \<Rightarrow>
          Some (((a * 16 + b) * 16 + c) * 16 + d, drop 4 bs)
      | _ \<Rightarrow> None)"

definition utf8 :: "nat \<Rightarrow> byte list" where
  "utf8 r =
     (if r < 0x80 then [word_of_nat r]
      else if r < 0x800 then map word_of_nat [0xC0 + r div 64, 0x80 + r mod 64]
      else if r < 0x10000
        then map word_of_nat [0xE0 + r div 4096, 0x80 + r div 64 mod 64, 0x80 + r mod 64]
      else map word_of_nat
        [0xF0 + r div 262144, 0x80 + r div 4096 mod 64, 0x80 + r div 64 mod 64, 0x80 + r mod 64])"

text \<open>
  A \<^verbatim>\<open>\u\<close> escape: a surrogate that is not the first of a pair becomes U+FFFD.
\<close>

definition json_rune :: "byte list \<Rightarrow> (byte list \<times> byte list) option" where
  "json_rune bs =
     (case hex4 bs of
        None \<Rightarrow> None
      | Some (r, rest) \<Rightarrow>
          if r < 0xD800 \<or> 0xE000 \<le> r then Some (utf8 r, rest)
          else if r < 0xDC00 \<and> take 2 rest = [0x5C, 0x75]
          then (case hex4 (drop 2 rest) of
                  Some (l, rest') \<Rightarrow>
                    if 0xDC00 \<le> l \<and> l < 0xE000
                    then Some (utf8 ((r - 0xD800) * 0x400 + (l - 0xDC00) + 0x10000), rest')
                    else Some (utf8 0xFFFD, rest)
                | None \<Rightarrow> None)
          else Some (utf8 0xFFFD, rest))"

definition json_escape :: "byte \<Rightarrow> byte option" where
  "json_escape e =
     map_of [(0x22, 0x22), (0x5C, 0x5C), (0x2F, 0x2F), (0x62, 0x08), (0x66, 0x0C),
             (0x6E, 0x0A), (0x72, 0x0D), (0x74, 0x09)] e"

text \<open>What follows an opening quote: the bytes of the string and the text after it.\<close>

function json_string :: "byte list \<Rightarrow> (byte list \<times> byte list) option" where
  "json_string [] = None"
| "json_string (b # bs) =
     (if b = 0x22 then Some ([], bs)
      else if b < 0x20 then None
      else if b \<noteq> 0x5C then map_option (\<lambda>(s, rest). (b # s, rest)) (json_string bs)
      else case bs of
        [] \<Rightarrow> None
      | e # bs' \<Rightarrow>
          if e = 0x75
          then (case json_rune bs' of
                  None \<Rightarrow> None
                | Some (r, rest) \<Rightarrow>
                    if length rest \<le> length bs'
                    then map_option (\<lambda>(s, rest). (r @ s, rest)) (json_string rest)
                    else None)
          else (case json_escape e of
                  None \<Rightarrow> None
                | Some c \<Rightarrow> map_option (\<lambda>(s, rest). (c # s, rest)) (json_string bs')))"
  by pat_completeness auto
termination by (relation "measure length") auto

text \<open>\<open>-?(0|[1-9][0-9]*)([.][0-9]+)?([eE][+-]?[0-9]+)?\<close>\<close>

definition json_digits :: "byte list \<Rightarrow> byte list option" where
  "json_digits bs = (case bs of b # _ \<Rightarrow> if is_digit b then Some (dropWhile is_digit bs) else None | [] \<Rightarrow> None)"

definition json_int :: "byte list \<Rightarrow> byte list option" where
  "json_int bs = (case bs of b # r \<Rightarrow> if b = 0x30 then Some r else json_digits bs | [] \<Rightarrow> None)"

definition json_frac :: "byte list \<Rightarrow> byte list option" where
  "json_frac bs = (case bs of b # r \<Rightarrow> if b = 0x2E then json_digits r else Some bs | [] \<Rightarrow> Some bs)"

definition json_exp :: "byte list \<Rightarrow> byte list option" where
  "json_exp bs =
     (case bs of
        b # r \<Rightarrow>
          if b = 0x65 \<or> b = 0x45
          then json_digits (case r of s # r' \<Rightarrow> if s = 0x2B \<or> s = 0x2D then r' else r | [] \<Rightarrow> r)
          else Some bs
      | [] \<Rightarrow> Some bs)"

definition json_number :: "byte list \<Rightarrow> byte list option" where
  "json_number bs =
     Option.bind (json_int (case bs of b # r \<Rightarrow> if b = 0x2D then r else bs | [] \<Rightarrow> bs))
       (\<lambda>r. Option.bind (json_frac r) json_exp)"

section \<open>Values\<close>

text \<open>Arrays and objects nest at most 10000 deep.\<close>

definition json_word :: "string \<Rightarrow> byte list \<Rightarrow> byte list option" where
  "json_word w bs =
     (if take (length w) bs = string_bytes w then Some (drop (length w) bs) else None)"

definition json_literal :: "byte list \<Rightarrow> (json \<times> byte list) option" where
  "json_literal bs =
     (case json_word ''null'' bs of
        Some r \<Rightarrow> Some (JNull, r)
      | None \<Rightarrow> (case json_word ''true'' bs of
          Some r \<Rightarrow> Some (JBool True, r)
        | None \<Rightarrow> (case json_word ''false'' bs of
            Some r \<Rightarrow> Some (JBool False, r)
          | None \<Rightarrow> map_option (Pair JNumber) (json_number bs))))"

text \<open>
  \<open>json_value d bs\<close> reads a value at depth \<open>d\<close>; \<open>json_elems\<close> reads the elements of an array
  and \<open>json_members\<close> the members of an object up to the closing bracket.
\<close>

function (sequential)
    json_value :: "nat \<Rightarrow> byte list \<Rightarrow> (json \<times> byte list) option"
and json_elems :: "nat \<Rightarrow> byte list \<Rightarrow> (json list \<times> byte list) option"
and json_members :: "nat \<Rightarrow> byte list \<Rightarrow> ((byte list \<times> json) list \<times> byte list) option" where
  "json_value d bs =
     (case bs of
        [] \<Rightarrow> None
      | b # r \<Rightarrow>
          if b = 0x22 then map_option (\<lambda>(s, rest). (JString s, rest)) (json_string r)
          else if b = 0x5B
          then (if 10000 \<le> d then None
                else if take 1 (skip_ws r) = [0x5D] then Some (JArray [], drop 1 (skip_ws r))
                else if length (skip_ws r) \<le> length r
                then map_option (\<lambda>(vs, rest). (JArray vs, rest)) (json_elems (d + 1) (skip_ws r))
                else None)
          else if b = 0x7B
          then (if 10000 \<le> d then None
                else if take 1 (skip_ws r) = [0x7D] then Some (JObject [], drop 1 (skip_ws r))
                else if length (skip_ws r) \<le> length r
                then map_option (\<lambda>(ms, rest). (JObject ms, rest)) (json_members (d + 1) (skip_ws r))
                else None)
          else json_literal bs)"
| "json_elems d bs =
     (case json_value d bs of
        None \<Rightarrow> None
      | Some (v, rest) \<Rightarrow>
          (case skip_ws rest of
             c # more \<Rightarrow>
               if c = 0x5D then Some ([v], more)
               else if c = 0x2C \<and> length (skip_ws more) < length bs
               then map_option (\<lambda>(vs, r). (v # vs, r)) (json_elems d (skip_ws more))
               else None
           | [] \<Rightarrow> None))"
| "json_members d bs =
     (case bs of
        q # r \<Rightarrow>
          if q \<noteq> 0x22 then None
          else (case json_string r of
            None \<Rightarrow> None
          | Some (key, rest) \<Rightarrow>
              (case skip_ws rest of
                 c # vs \<Rightarrow>
                   if c \<noteq> 0x3A \<or> length bs \<le> length (skip_ws vs) then None
                   else (case json_value d (skip_ws vs) of
                     None \<Rightarrow> None
                   | Some (v, rest') \<Rightarrow>
                       (case skip_ws rest' of
                          c' # more \<Rightarrow>
                            if c' = 0x7D then Some ([(key, v)], more)
                            else if c' = 0x2C \<and> length (skip_ws more) < length bs
                            then map_option (\<lambda>(ms, r). ((key, v) # ms, r))
                                   (json_members d (skip_ws more))
                            else None
                        | [] \<Rightarrow> None))
               | [] \<Rightarrow> None))
      | [] \<Rightarrow> None)"
  by pat_completeness auto
termination
  by (relation "measure (\<lambda>x. case x of
        Inl (d, bs) \<Rightarrow> 2 * length bs
      | Inr (Inl (d, bs)) \<Rightarrow> 2 * length bs + 1
      | Inr (Inr (d, bs)) \<Rightarrow> 2 * length bs + 1)") auto

declare json_value.simps [simp del] json_elems.simps [simp del] json_members.simps [simp del]

definition json_parse :: "byte list \<Rightarrow> json option" where
  "json_parse bs =
     (case json_value 0 (skip_ws bs) of
        Some (v, rest) \<Rightarrow> if skip_ws rest = [] then Some v else None
      | None \<Rightarrow> None)"

section \<open>Decoding isOwnerResponse\<close>

text \<open>
  A key matches a field name up to the case of its letters; for an \<open>s\<close> the long s (U+017F,
  bytes C5 BF) counts as well.
\<close>

fun fold_match :: "byte list \<Rightarrow> byte list \<Rightarrow> bool" where
  "fold_match [] t = (t = [])"
| "fold_match (sb # s) [] = False"
| "fold_match (sb # s) (tb # t) =
     (if tb < 0x80
      then (sb = tb \<or> 0x41 \<le> sb AND 0xDF \<and> sb AND 0xDF \<le> 0x5A \<and> sb AND 0xDF = tb AND 0xDF)
           \<and> fold_match s t
      else sb AND 0xDF = 0x53 \<and> tb = 0xC5 \<and> take 1 t = [0xBF] \<and> fold_match s (drop 1 t))"

record isOwnerResponse =
  io_IsOwner :: bool

text \<open>
  Members that do not match are ignored, null leaves the field as it is, and a value of
  another type is an error that is reported after the rest has been decoded.
\<close>

definition decode_member :: "isOwnerResponse \<times> bool \<Rightarrow> byte list \<times> json \<Rightarrow> isOwnerResponse \<times> bool" where
  "decode_member st m =
     (case (st, m) of
        ((r, ok), (key, v)) \<Rightarrow>
          if \<not> fold_match (string_bytes ''is_owner'') key then (r, ok)
          else (case v of
            JNull \<Rightarrow> (r, ok)
          | JBool b \<Rightarrow> (r\<lparr>io_IsOwner := b\<rparr>, ok)
          | _ \<Rightarrow> (r, False)))"

definition json_Unmarshal_isOwner :: "byte list \<Rightarrow> json_error + isOwnerResponse" where
  "json_Unmarshal_isOwner bs =
     (case json_parse bs of
        None \<Rightarrow> Inl SyntaxError
      | Some JNull \<Rightarrow> Inr \<lparr>io_IsOwner = False\<rparr>
      | Some (JObject ms) \<Rightarrow>
          (case foldl decode_member (\<lparr>io_IsOwner = False\<rparr>, True) ms of
             (r, ok) \<Rightarrow> if ok then Inr r else Inl UnmarshalTypeError)
      | Some _ \<Rightarrow> Inl UnmarshalTypeError)"

section \<open>Encoding the owner query\<close>

text \<open>
  \<^verbatim>\<open>json.Marshal\<close> of the nested map with the signer's address, whose text is its bech32 form;
  no character of it needs an escape.
\<close>

definition json_Marshal_isOwner :: "string \<Rightarrow> byte list" where
  "json_Marshal_isOwner address =
     string_bytes (''{'' @ [CHR 0x22] @ ''is_owner'' @ [CHR 0x22] @ '':{'' @ [CHR 0x22]
       @ ''address'' @ [CHR 0x22] @ '':'' @ [CHR 0x22] @ address @ [CHR 0x22] @ ''}}'')"

text \<open>A contract's usual answers.\<close>

definition owner_answer :: "bool \<Rightarrow> byte list" where
  "owner_answer b =
     string_bytes (''{'' @ [CHR 0x22] @ ''is_owner'' @ [CHR 0x22] @ '':''
       @ (if b then ''true'' else ''false'') @ ''}'')"

lemmas json_eval = json_value.simps json_elems.simps json_members.simps json_Unmarshal_isOwner_def
  json_parse_def json_literal_def json_word_def json_number_def json_int_def skip_ws_def
  string_bytes_def decode_member_def

lemma owner_answer_decoded:
  "json_Unmarshal_isOwner (owner_answer b) = Inr \<lparr>io_IsOwner = b\<rparr>"
  by (cases b) (simp_all add: owner_answer_def json_eval)

text \<open>C34: Nothing but a JSON object with a member \<^verbatim>\<open>is_owner\<close> (up to case) that is the literal true
  confirms an owner: malformed text, other types, other members and null do not.\<close>
theorem owner_needs_true:
  assumes "json_Unmarshal_isOwner bs = Inr r" "io_IsOwner r"
  shows "\<exists>members key. json_parse bs = Some (JObject members) \<and> (key, JBool True) \<in> set members \<and>
    fold_match (string_bytes ''is_owner'') key"
proof -
  let ?match = "fold_match (string_bytes ''is_owner'')"
  have fold: "io_IsOwner (fst st) \<or> (\<exists>key. (key, JBool True) \<in> set ms \<and> ?match key)"
    if "io_IsOwner (fst (foldl decode_member st ms))" for st ms
    using that
  proof (induction ms arbitrary: st)
    case (Cons m ms)
    have "io_IsOwner (fst (decode_member st m)) \<Longrightarrow>
        io_IsOwner (fst st) \<or> (\<exists>key. m = (key, JBool True) \<and> ?match key)"
      by (auto simp: decode_member_def split: prod.splits json.splits if_splits)
    with Cons show ?case by fastforce
  qed simp
  from assms obtain ms where ms: "json_parse bs = Some (JObject ms)"
    "r = fst (foldl decode_member (\<lparr>io_IsOwner = False\<rparr>, True) ms)"
    by (auto simp: json_Unmarshal_isOwner_def split: option.splits json.splits prod.splits if_splits)
  with fold [of "(\<lparr>io_IsOwner = False\<rparr>, True)" ms] assms(2) show ?thesis by auto
qed

theorem owner_needs_true_witness:
  "\<exists>members key. json_parse (owner_answer True) = Some (JObject members) \<and>
    (key, JBool True) \<in> set members \<and> fold_match (string_bytes ''is_owner'') key"
  by (rule owner_needs_true [OF owner_answer_decoded]) simp

end
