(* ===== verification/Keys.thy ===== *)
theory Keys
  imports BigEndian
begin

text \<open>
  \<^verbatim>\<open>x/schedule/types/keys.go\<close>: the two indexes of the scheduled calls, by height and by
  signer and contract, and how the keeper takes an iterator's key apart again.
\<close>

section \<open>Making keys\<close>

definition ModuleName :: string where
  "ModuleName = ''schedule''"

definition StoreKey :: string where
  "StoreKey = ModuleName"

definition RouterKey :: string where
  "RouterKey = ModuleName"

definition QuerierRoute :: string where
  "QuerierRoute = ModuleName"

definition MemStoreKey :: string where
  "MemStoreKey = ''mem_schedule''"

definition ScheduledCallByBlockHeightKeyPrefix :: byte where
  "ScheduledCallByBlockHeightKeyPrefix = 1"

definition ScheduledCallByNameKeyPrefix :: byte where
  "ScheduledCallByNameKeyPrefix = 2"

definition KeyPrefix :: "string \<Rightarrow> byte list" where
  "KeyPrefix p = string_bytes p"

definition MakeScheduledCallByBlockHeightPrefixKey :: "u64 \<Rightarrow> byte list" where
  "MakeScheduledCallByBlockHeightPrefixKey blockHeight =
     concat [[ScheduledCallByBlockHeightKeyPrefix], Uint64ToBigEndian blockHeight]"

definition MakeScheduledCallByBlockHeightKey :: "u64 \<Rightarrow> addr \<Rightarrow> addr \<Rightarrow> byte list" where
  "MakeScheduledCallByBlockHeightKey blockHeight signer contract =
     concat [MakeScheduledCallByBlockHeightPrefixKey blockHeight, signer, contract]"

definition MakeScheduledCallBySignerContractKey :: "addr \<Rightarrow> addr \<Rightarrow> byte list" where
  "MakeScheduledCallBySignerContractKey signer contract =
     concat [[ScheduledCallByNameKeyPrefix], signer, contract]"

section \<open>Taking keys apart\<close>

text \<open>
  Go's \<^verbatim>\<open>bytes.TrimPrefix\<close>, and \<^verbatim>\<open>bytes.Buffer.Next\<close>, which gives fewer bytes when the
  buffer is shorter.
\<close>

definition TrimPrefix :: "byte list \<Rightarrow> byte list \<Rightarrow> byte list" where
  "TrimPrefix s p = (if take (length p) s = p then drop (length p) s else s)"

definition buf_Next :: "nat \<Rightarrow> byte list \<Rightarrow> byte list \<times> byte list" where
  "buf_Next n buf = (take n buf, drop n buf)"

text \<open>The two decodings, of an iterator key whose prefix the prefix store has removed.\<close>

definition decode_consume_key :: "u64 \<Rightarrow> byte list \<Rightarrow> addr \<times> addr" where
  "decode_consume_key blockHeight key =
     (let keyPair = TrimPrefix key (MakeScheduledCallByBlockHeightPrefixKey blockHeight);
          (signer, keyPair) = buf_Next 20 keyPair;
          (contract, keyPair) = buf_Next 32 keyPair
      in (signer, contract))"

definition decode_iterate_key :: "byte list \<Rightarrow> ('e, u64 \<times> addr \<times> addr) go" where
  "decode_iterate_key key =
     (let keyPair = TrimPrefix key [ScheduledCallByBlockHeightKeyPrefix];
          (height, keyPair) = buf_Next 8 keyPair
      in go_bind (BigEndianToUint64 height) (\<lambda>blockHeight.
           let (signer, keyPair) = buf_Next 20 keyPair;
               (contract, keyPair) = buf_Next 32 keyPair
           in Ret (blockHeight, signer, contract)))"

section \<open>Properties of keys\<close>

text \<open>Both indexes are functions of the concatenation of signer and contract.\<close>

definition height_key :: "u64 \<Rightarrow> byte list \<Rightarrow> byte list" where
  "height_key h sc = MakeScheduledCallByBlockHeightPrefixKey h @ sc"

definition name_key :: "byte list \<Rightarrow> byte list" where
  "name_key sc = ScheduledCallByNameKeyPrefix # sc"

lemma keys_concat:
  "MakeScheduledCallByBlockHeightKey h signer contract = height_key h (signer @ contract)"
  "MakeScheduledCallBySignerContractKey signer contract = name_key (signer @ contract)"
  by (simp_all add: MakeScheduledCallByBlockHeightKey_def height_key_def
      MakeScheduledCallBySignerContractKey_def name_key_def)

lemma keys_distinct [simp]:
  "height_key h sc \<noteq> name_key sc'" "name_key sc' \<noteq> height_key h sc"
  by (simp_all add: height_key_def name_key_def MakeScheduledCallByBlockHeightPrefixKey_def
      ScheduledCallByBlockHeightKeyPrefix_def ScheduledCallByNameKeyPrefix_def)

lemma keys_inject [simp]:
  "height_key h sc = height_key h' sc' \<longleftrightarrow> h = h' \<and> sc = sc'"
  "name_key sc = name_key sc' \<longleftrightarrow> sc = sc'"
  by (simp_all add: height_key_def name_key_def MakeScheduledCallByBlockHeightPrefixKey_def)

lemma height_prefix_inject:
  "MakeScheduledCallByBlockHeightPrefixKey h @ k = height_key h' sc \<longleftrightarrow> h = h' \<and> k = sc"
  using keys_inject(1) [of h k h' sc] by (simp add: height_key_def)

lemma length_height_prefix [simp]: "length (MakeScheduledCallByBlockHeightPrefixKey h) = 9"
  by (simp add: MakeScheduledCallByBlockHeightPrefixKey_def)

lemma height_key_byte: "height_key h sc = ScheduledCallByBlockHeightKeyPrefix # Uint64ToBigEndian h @ sc"
  by (simp add: height_key_def MakeScheduledCallByBlockHeightPrefixKey_def)

lemma TrimPrefix_absent: "\<not> prefix p s \<Longrightarrow> TrimPrefix s p = s"
  by (metis TrimPrefix_def append_take_drop_id prefixI)

text \<open>
  The iterator's key has no prefix left to trim, so trimming it is harmless only as long as
  what follows does not happen to start with the prefix once more.
\<close>

lemma decode_consume_back:
  assumes "length signer = 20" "length contract \<le> 32"
    and "\<not> prefix (MakeScheduledCallByBlockHeightPrefixKey h) signer"
  shows "decode_consume_key h (signer @ contract) = (signer, contract)"
proof -
  have "\<not> prefix (MakeScheduledCallByBlockHeightPrefixKey h) (signer @ contract)"
    using assms prefix_length_prefix [of "MakeScheduledCallByBlockHeightPrefixKey h"
        "signer @ contract" signer] by auto
  then show ?thesis
    using assms by (simp add: decode_consume_key_def TrimPrefix_absent buf_Next_def)
qed

lemma decode_consume_length:
  "decode_consume_key h key = (signer, contract) \<Longrightarrow> length signer \<le> 20 \<and> length contract \<le> 32"
  by (auto simp: decode_consume_key_def buf_Next_def Let_def)

lemma decode_iterate_back:
  assumes "length signer = 20" "length contract \<le> 32" "unat h < 2 ^ 56"
  shows "decode_iterate_key (Uint64ToBigEndian h @ signer @ contract) = Ret (h, signer, contract)"
proof -
  have "hd (Uint64ToBigEndian h) = 0"
    using assms(3) by (simp add: Uint64ToBigEndian_def word_unat_eq_iff unat_byte_at)
  then have "\<not> prefix [ScheduledCallByBlockHeightKeyPrefix] (Uint64ToBigEndian h @ signer @ contract)"
    by (cases "Uint64ToBigEndian h") (simp_all add: ScheduledCallByBlockHeightKeyPrefix_def)
  then show ?thesis
    using assms by (simp add: decode_iterate_key_def TrimPrefix_absent buf_Next_def)
qed

end
