(* ===== verification/Types.thy ===== *)
theory Types
  imports ParamsCodec GenesisCodec EventCodec Json Keys
begin

text \<open>
  \<^verbatim>\<open>x/schedule/types\<close>: the module's errors, parameters, messages and genesis state, with
  their stateless checks (\<^verbatim>\<open>errors.go\<close>, \<^verbatim>\<open>params.go\<close>, \<^verbatim>\<open>message_add_schedule.go\<close>,
  \<^verbatim>\<open>message_remove_schedule.go\<close>, \<^verbatim>\<open>genesis.go\<close>). Bech32 and the denomination check belong
  to the SDK and are arguments.
\<close>

section \<open>Errors\<close>

text \<open>
  The module's sentinel errors, the SDK's errors it returns or wraps, and errors of other
  components, which carry their text.
\<close>

datatype gerror =
    ErrInvalidScheduledBlockHeight
  | ErrUnmetMinimumBalance
  | ErrUnauthorized
  | ErrTooFarInFuture
  | ErrEmptyCallBody
  | SdkErrInvalidAddress
  | SdkErrUnknownRequest
  | SdkErrOutOfGas
  | GrpcInvalidArgument string
  | JsonError json_error
  | TextError string
  | Wrapped gerror string

text \<open>\<^verbatim>\<open>sdkerrors.Register\<close>: the codespace, the code and the text of a sentinel error.\<close>

fun registered :: "gerror \<Rightarrow> (string \<times> nat \<times> string) option" where
  "registered ErrInvalidScheduledBlockHeight =
     Some (ModuleName, 1100, ''invalid scheduled block height'')"
| "registered ErrUnmetMinimumBalance = Some (ModuleName, 1101, ''unmet minimum balance'')"
| "registered ErrUnauthorized = Some (ModuleName, 1102, ''unauthorized'')"
| "registered ErrTooFarInFuture =
     Some (ModuleName, 1103, ''scheduled block height exceeds upper bound into future'')"
| "registered ErrEmptyCallBody = Some (ModuleName, 1104, ''empty scheduled call body'')"
| "registered e = None"

section \<open>Parameters\<close>

text \<open>A value passed as \<^verbatim>\<open>interface{}\<close>, with its dynamic type.\<close>

datatype iface = ICoin coin | IUint64 u64 | IOther string

definition ParamsStoreKeyMinimumBalance :: "byte list" where
  "ParamsStoreKeyMinimumBalance = string_bytes ''MinimumBalance''"

definition ParamsStoreKeyUpperBound :: "byte list" where
  "ParamsStoreKeyUpperBound = string_bytes ''UpperBound''"

definition NewParams :: "coin \<Rightarrow> u64 \<Rightarrow> Params" where
  "NewParams gasMin upperBound = \<lparr>p_MinimumBalance = gasMin, p_UpperBound = upperBound\<rparr>"

definition DefaultParams :: Params where
  "DefaultParams = NewParams \<lparr>denom = ''default-token'', amount = 100\<rparr> 1000"

definition validateMinimumBalance :: "(string \<Rightarrow> gerror option) \<Rightarrow> iface \<Rightarrow> (gerror, unit) go" where
  "validateMinimumBalance ValidateDenom i =
     (case i of
        ICoin v \<Rightarrow>
          (case ValidateDenom (denom v) of
             Some err \<Rightarrow> Err err
           | None \<Rightarrow> go_bind (int_Uint64 (amount v)) (\<lambda>n.
               if n = 0 then Err (TextError ''cannot provide empty minimum gas amount'')
               else Ret ()))
      | _ \<Rightarrow> Err (TextError ''invalid parameter type''))"

definition validateUpperBound :: "iface \<Rightarrow> (gerror, unit) go" where
  "validateUpperBound i =
     (case i of
        IUint64 val \<Rightarrow>
          if val = 0 then Err (TextError ''invalid value for upper bound, can't be zero'') else Ret ()
      | _ \<Rightarrow> Err (TextError ''invalid parameter type''))"

text \<open>\<^verbatim>\<open>sdkerrors.Wrap\<close> of the error of a check.\<close>

definition wrap_err :: "string \<Rightarrow> (gerror, 'a) go \<Rightarrow> (gerror, 'a) go" where
  "wrap_err t r = (case r of Err e \<Rightarrow> Err (Wrapped e t) | _ \<Rightarrow> r)"

definition Params_Validate :: "(string \<Rightarrow> gerror option) \<Rightarrow> Params \<Rightarrow> (gerror, unit) go" where
  "Params_Validate ValidateDenom p =
     go_bind (wrap_err ''minimum balance''
       (validateMinimumBalance ValidateDenom (ICoin (p_MinimumBalance p)))) (\<lambda>_.
     go_bind (wrap_err ''upper bound'' (validateUpperBound (IUint64 (p_UpperBound p)))) (\<lambda>_.
     Ret ()))"

type_synonym param_set_pair = "byte list \<times> iface \<times> (iface \<Rightarrow> (gerror, unit) go)"

definition ParamSetPairs :: "(string \<Rightarrow> gerror option) \<Rightarrow> Params \<Rightarrow> param_set_pair list" where
  "ParamSetPairs ValidateDenom p =
     [(ParamsStoreKeyMinimumBalance, ICoin (p_MinimumBalance p), validateMinimumBalance ValidateDenom),
      (ParamsStoreKeyUpperBound, IUint64 (p_UpperBound p), validateUpperBound)]"

text \<open>The YAML of the parameters; the error of \<^verbatim>\<open>yaml.Marshal\<close> is dropped.\<close>

definition Params_String :: "(Params \<Rightarrow> byte list \<times> gerror option) \<Rightarrow> Params \<Rightarrow> string" where
  "Params_String yaml_Marshal p = (case yaml_Marshal p of (out, _) \<Rightarrow> bytes_string out)"

lemma wrap_err_Ret [simp]: "wrap_err t r = Ret a \<longleftrightarrow> r = Ret a"
  by (cases r) (simp_all add: wrap_err_def)

lemma validateMinimumBalance_Ret:
  "validateMinimumBalance V (ICoin c) = Ret ()
    \<longleftrightarrow> V (denom c) = None \<and> 0 < amount c \<and> amount c < 2 ^ 64"
proof -
  have "(word_of_int (amount c) :: u64) = 0 \<longleftrightarrow> amount c = 0" if "0 \<le> amount c" "amount c < 2 ^ 64"
    using that by (simp add: word_eq_iff_unsigned [where ?'a = int] unsigned_of_int
        take_bit_int_eq_self)
  then show ?thesis
    by (auto simp: validateMinimumBalance_def int_Uint64_def go_simps split: option.splits if_splits)
qed

lemma Params_Validate_Ret:
  "Params_Validate V p = Ret ()
    \<longleftrightarrow> V (denom (p_MinimumBalance p)) = None \<and> 0 < amount (p_MinimumBalance p)
      \<and> amount (p_MinimumBalance p) < 2 ^ 64 \<and> p_UpperBound p \<noteq> 0"
  by (auto simp: Params_Validate_def go_simps validateMinimumBalance_Ret validateUpperBound_def)

section \<open>Messages\<close>

type_synonym bech32_from = "string \<Rightarrow> string + addr"

definition TypeMsgAddSchedule :: string where
  "TypeMsgAddSchedule = ''add_schedule''"

definition TypeMsgRemoveSchedule :: string where
  "TypeMsgRemoveSchedule = ''remove_schedule''"

definition NewMsgAddSchedule :: "(addr \<Rightarrow> string) \<Rightarrow> addr \<Rightarrow> addr \<Rightarrow> byte list \<Rightarrow> u64 \<Rightarrow> MsgAddSchedule" where
  "NewMsgAddSchedule String signer contract callBody blockHeight =
     \<lparr>ma_Signer = String signer, ma_Contract = String contract,
      ma_CallBody = callBody, ma_BlockHeight = blockHeight\<rparr>"

definition NewMsgRemoveSchedule :: "(addr \<Rightarrow> string) \<Rightarrow> addr \<Rightarrow> addr \<Rightarrow> MsgRemoveSchedule" where
  "NewMsgRemoveSchedule String signer contract =
     \<lparr>mr_Signer = String signer, mr_Contract = String contract\<rparr>"

definition MsgAddSchedule_Route :: "MsgAddSchedule \<Rightarrow> string" where
  "MsgAddSchedule_Route msg = RouterKey"

definition MsgAddSchedule_Type :: "MsgAddSchedule \<Rightarrow> string" where
  "MsgAddSchedule_Type msg = TypeMsgAddSchedule"

definition MsgRemoveSchedule_Route :: "MsgRemoveSchedule \<Rightarrow> string" where
  "MsgRemoveSchedule_Route msg = RouterKey"

definition MsgRemoveSchedule_Type :: "MsgRemoveSchedule \<Rightarrow> string" where
  "MsgRemoveSchedule_Type msg = TypeMsgRemoveSchedule"

definition signers_of :: "bech32_from \<Rightarrow> string \<Rightarrow> ('e, addr list) go" where
  "signers_of AccAddressFromBech32 s =
     (case AccAddressFromBech32 s of Inl err \<Rightarrow> Panic (ForeignPanic err) | Inr signer \<Rightarrow> Ret [signer])"

definition MsgAddSchedule_GetSigners :: "bech32_from \<Rightarrow> MsgAddSchedule \<Rightarrow> ('e, addr list) go" where
  "MsgAddSchedule_GetSigners AccAddressFromBech32 msg = signers_of AccAddressFromBech32 (ma_Signer msg)"

definition MsgRemoveSchedule_GetSigners :: "bech32_from \<Rightarrow> MsgRemoveSchedule \<Rightarrow> ('e, addr list) go" where
  "MsgRemoveSchedule_GetSigners AccAddressFromBech32 msg = signers_of AccAddressFromBech32 (mr_Signer msg)"

text \<open>
  The bytes to sign: the message's JSON with sorted keys. \<^verbatim>\<open>ModuleCdc.MustMarshalJSON\<close> and
  \<^verbatim>\<open>sdk.MustSortJSON\<close> panic on what they cannot write or read.
\<close>

definition MsgAddSchedule_GetSignBytes ::
  "(MsgAddSchedule \<Rightarrow> ('e, byte list) go) \<Rightarrow> (byte list \<Rightarrow> ('e, byte list) go) \<Rightarrow> MsgAddSchedule
    \<Rightarrow> ('e, byte list) go" where
  "MsgAddSchedule_GetSignBytes MustMarshalJSON MustSortJSON msg =
     go_bind (MustMarshalJSON msg) (\<lambda>bz. MustSortJSON bz)"

definition MsgRemoveSchedule_GetSignBytes ::
  "(MsgRemoveSchedule \<Rightarrow> ('e, byte list) go) \<Rightarrow> (byte list \<Rightarrow> ('e, byte list) go) \<Rightarrow> MsgRemoveSchedule
    \<Rightarrow> ('e, byte list) go" where
  "MsgRemoveSchedule_GetSignBytes MustMarshalJSON MustSortJSON msg =
     go_bind (MustMarshalJSON msg) (\<lambda>bz. MustSortJSON bz)"

definition address_error :: "string \<Rightarrow> string \<Rightarrow> gerror" where
  "address_error what err =
     Wrapped SdkErrInvalidAddress (''invalid '' @ what @ '' address ('' @ err @ '')'')"

definition MsgAddSchedule_ValidateBasic :: "bech32_from \<Rightarrow> MsgAddSchedule \<Rightarrow> (gerror, unit) go" where
  "MsgAddSchedule_ValidateBasic AccAddressFromBech32 msg =
     (case AccAddressFromBech32 (ma_Signer msg) of
        Inl err \<Rightarrow> Err (address_error ''signer'' err)
      | Inr _ \<Rightarrow>
          (case AccAddressFromBech32 (ma_Contract msg) of
             Inl err \<Rightarrow> Err (address_error ''contract'' err)
           | Inr _ \<Rightarrow>
               if length (ma_CallBody msg) = 0
               then Err (Wrapped ErrEmptyCallBody ''call body can't be empty'')
               else Ret ()))"

definition MsgRemoveSchedule_ValidateBasic :: "bech32_from \<Rightarrow> MsgRemoveSchedule \<Rightarrow> (gerror, unit) go" where
  "MsgRemoveSchedule_ValidateBasic AccAddressFromBech32 msg =
     (case AccAddressFromBech32 (mr_Signer msg) of
        Inl err \<Rightarrow> Err (address_error ''signer'' err)
      | Inr _ \<Rightarrow>
          (case AccAddressFromBech32 (mr_Contract msg) of
             Inl err \<Rightarrow> Err (address_error ''contract'' err)
           | Inr _ \<Rightarrow> Ret ()))"

section \<open>Genesis state\<close>

definition DefaultIndex :: u64 where
  "DefaultIndex = 1"

definition DefaultGenesis :: GenesisState where
  "DefaultGenesis = \<lparr>gs_Params = DefaultParams, gs_ScheduledCalls = []\<rparr>"

fun validate_calls :: "bech32_from \<Rightarrow> MsgAddSchedule list \<Rightarrow> (gerror, unit) go" where
  "validate_calls AccAddressFromBech32 [] = Ret ()"
| "validate_calls AccAddressFromBech32 (call # calls) =
     go_bind (MsgAddSchedule_ValidateBasic AccAddressFromBech32 call) (\<lambda>_.
       validate_calls AccAddressFromBech32 calls)"

definition GenesisState_Validate ::
  "(string \<Rightarrow> gerror option) \<Rightarrow> bech32_from \<Rightarrow> GenesisState \<Rightarrow> (gerror, unit) go" where
  "GenesisState_Validate ValidateDenom AccAddressFromBech32 gs =
     go_bind (Params_Validate ValidateDenom (gs_Params gs)) (\<lambda>_.
       validate_calls AccAddressFromBech32 (gs_ScheduledCalls gs))"

lemma ValidateBasic_Ret:
  "MsgAddSchedule_ValidateBasic B msg = Ret ()
    \<longleftrightarrow> isl (B (ma_Signer msg)) = False \<and> isl (B (ma_Contract msg)) = False \<and> ma_CallBody msg \<noteq> []"
  by (auto simp: MsgAddSchedule_ValidateBasic_def split: sum.splits)

lemma validate_calls_Ret:
  "validate_calls B calls = Ret () \<longleftrightarrow> (\<forall>c \<in> set calls. MsgAddSchedule_ValidateBasic B c = Ret ())"
  by (induction calls) (auto simp: go_simps)

section \<open>Events\<close>

datatype event =
    EvAdd AddScheduledCallEvent
  | EvExecute ExecuteScheduledCallEvent
  | EvRemove RemoveScheduledCallEvent

end
