(* ===== verification/KVStore.thy ===== *)
theory KVStore
  imports Prelude
begin

text \<open>
  The SDK's \<^verbatim>\<open>KVStore\<close> as the keeper uses it: a record of operations, which the keeper's
  definitions take as an argument, and the contract the SDK documents for them, as the
  locale \<open>kv_store\<close>. Everything the keeper's lemmas need is proved here from the contract.
  The store kept as a key-ordered list, at the end, satisfies it.
\<close>

section \<open>Operations\<close>

text \<open>
  \<open>kv_Get\<close> gives \<open>None\<close> for a nil slice. \<open>kv_Iterate p\<close> is
  \<^verbatim>\<open>prefix.NewStore(store, p).Iterator(nil, nil)\<close> read to its end: the entries under the
  prefix, with the prefix taken off their keys.
\<close>

record 's kv_ops =
  kv_Get :: "byte list \<Rightarrow> 's \<Rightarrow> byte list option"
  kv_Set :: "byte list \<Rightarrow> byte list \<Rightarrow> 's \<Rightarrow> 's"
  kv_Delete :: "byte list \<Rightarrow> 's \<Rightarrow> 's"
  kv_Iterate :: "byte list \<Rightarrow> 's \<Rightarrow> (byte list \<times> byte list) list"

text \<open>A nil slice and an empty one have the same bytes.\<close>

definition slice_of :: "byte list option \<Rightarrow> byte list" where
  "slice_of v = (case v of None \<Rightarrow> [] | Some bz \<Rightarrow> bz)"

lemma slice_of_simps [simp]: "slice_of None = []" "slice_of (Some bz) = bz"
  by (simp_all add: slice_of_def)

lemma alist_keys: "distinct (map fst xs) \<Longrightarrow> map (\<lambda>k. (k, the (map_of xs k))) (map fst xs) = xs"
  by (auto simp: comp_def intro: map_idI)

lemma alist_eqI:
  assumes "map fst xs = map fst ys" "set xs = set ys" "distinct (map fst xs)"
  shows "xs = ys"
proof -
  have "map_of xs = map_of ys"
    using assms map_of_inject_set [of xs ys] by metis
  then show ?thesis
    using assms alist_keys [of xs] alist_keys [of ys] by metis
qed

section \<open>Contract\<close>

locale kv_store =
  fixes K :: "'s kv_ops"
  assumes get_set: "kv_Get K k (kv_Set K k' v s) = (if k = k' then Some v else kv_Get K k s)"
    and get_delete: "kv_Get K k (kv_Delete K k' s) = (if k = k' then None else kv_Get K k s)"
    and iterate_entries: "set (kv_Iterate K p s) = {(k, v). kv_Get K (p @ k) s = Some v}"
    and iterate_ascending: "sorted_wrt (<) (map fst (kv_Iterate K p s))"
begin

lemma get_set_same [kv_simps]: "kv_Get K k (kv_Set K k v s) = Some v"
  by (simp add: get_set)

lemma get_set_other [kv_simps]: "k \<noteq> k' \<Longrightarrow> kv_Get K k (kv_Set K k' v s) = kv_Get K k s"
  by (simp add: get_set)

lemma in_iterate: "(k, v) \<in> set (kv_Iterate K p s) \<longleftrightarrow> kv_Get K (p @ k) s = Some v"
  by (simp add: iterate_entries)

lemma iterate_distinct: "distinct (map fst (kv_Iterate K p s))"
  using iterate_ascending [of p s] unfolding strict_sorted_iff by simp

text \<open>What an iterator yields is determined by the lookups under its prefix.\<close>

lemma iterate_cong:
  assumes "\<And>k. kv_Get K (p @ k) s = kv_Get K (p @ k) t"
  shows "kv_Iterate K p s = kv_Iterate K p t"
proof -
  have same: "set (kv_Iterate K p s) = set (kv_Iterate K p t)"
    using assms by (simp add: iterate_entries)
  have "map fst (kv_Iterate K p s) = map fst (kv_Iterate K p t)"
    using iterate_ascending [of p s] iterate_ascending [of p t] same
    by (metis list.set_map strict_sorted_equal)
  then show ?thesis
    using same iterate_distinct [of p s] iterate_distinct [of p t]
    by (intro alist_eqI) simp_all
qed

lemma iterate_single:
  assumes "\<And>k. kv_Get K (p @ k) s = (if k = k0 then Some v else None)"
  shows "kv_Iterate K p s = [(k0, v)]"
proof -
  have one: "set (kv_Iterate K p s) = {(k0, v)}"
    by (auto simp: iterate_entries assms split: if_splits)
  have "distinct (kv_Iterate K p s)"
    using iterate_distinct [of p s] by (simp add: distinct_map)
  then have "length (kv_Iterate K p s) = 1"
    using distinct_card one by fastforce
  with one show ?thesis by (cases "kv_Iterate K p s") auto
qed

lemma iterate_Nil_iff: "kv_Iterate K p s = [] \<longleftrightarrow> (\<forall>k. kv_Get K (p @ k) s = None)"
proof -
  have "kv_Iterate K p s = [] \<longleftrightarrow> (\<forall>k v. (k, v) \<notin> set (kv_Iterate K p s))"
    by (cases "kv_Iterate K p s") auto
  also have "\<dots> \<longleftrightarrow> (\<forall>k. kv_Get K (p @ k) s = None)" by (simp add: in_iterate)
  finally show ?thesis .
qed

end

section \<open>A store kept in key order\<close>

typedef kvlist = "{xs :: (byte list \<times> byte list) list. sorted_wrt (<) (map fst xs)}"
  morphisms kvl_entries Kvlist
  by (rule exI [of _ "[]"]) simp

fun put_entry :: "byte list \<Rightarrow> byte list \<Rightarrow> (byte list \<times> byte list) list \<Rightarrow> (byte list \<times> byte list) list"
where
  "put_entry k v [] = [(k, v)]"
| "put_entry k v ((k', v') # xs) =
     (if k < k' then (k, v) # (k', v') # xs
      else if k = k' then (k, v) # xs
      else (k', v') # put_entry k v xs)"

definition under_prefix :: "byte list \<Rightarrow> (byte list \<times> byte list) list \<Rightarrow> (byte list \<times> byte list) list"
where
  "under_prefix p xs =
     map (\<lambda>(k, v). (drop (length p) k, v)) (filter (\<lambda>(k, v). take (length p) k = p) xs)"

lemma keys_put_entry: "fst ` set (put_entry k v xs) = insert k (fst ` set xs)"
  by (induction k v xs rule: put_entry.induct) auto

lemma sorted_put_entry:
  "sorted_wrt (<) (map fst xs) \<Longrightarrow> sorted_wrt (<) (map fst (put_entry k v xs))"
proof (induction k v xs rule: put_entry.induct)
  case (2 k v k' v' xs)
  have below: "\<forall>y \<in> fst ` set xs. k' < y" using 2 by simp
  consider "k < k'" | "k = k'" | "k' < k" by (rule linorder_cases)
  then show ?case
  proof cases
    case 1
    then have "\<forall>y \<in> fst ` set xs. k < y" using below less_trans by blast
    with 1 2 show ?thesis by simp
  next
    case 2
    with below "2.prems" show ?thesis by simp
  next
    case 3
    then have "\<forall>y \<in> fst ` set (put_entry k v xs). k' < y"
      using below by (simp add: keys_put_entry)
    with 3 2 show ?thesis by (simp add: less_not_sym)
  qed
qed simp

lemma map_of_put_entry:
  "map_of (put_entry k v xs) k' = (if k' = k then Some v else map_of xs k')"
  by (induction k v xs rule: put_entry.induct) auto

lemma append_less_cancel: "p @ xs < p @ ys \<longleftrightarrow> xs < (ys :: byte list)"
  by (induction p) simp_all

lemma sorted_under_prefix:
  "sorted_wrt (<) (map fst xs) \<Longrightarrow> sorted_wrt (<) (map fst (under_prefix p xs))"
proof (induction xs)
  case (Cons x xs)
  have "drop (length p) (fst x) < drop (length p) k"
    if "take (length p) (fst x) = p" "take (length p) k = p" "fst x < k" for k
    using that append_less_cancel [of p "drop (length p) (fst x)" "drop (length p) k"]
    by (metis append_take_drop_id)
  then have "drop (length p) (fst x) < drop (length p) (fst y)"
    if "take (length p) (fst x) = p" "y \<in> set xs" "take (length p) (fst y) = p" for y
    using that Cons.prems by simp
  with Cons show ?case by (auto simp: under_prefix_def split_beta)
qed (simp add: under_prefix_def)

lemma set_under_prefix: "(k, v) \<in> set (under_prefix p xs) \<longleftrightarrow> (p @ k, v) \<in> set xs"
proof -
  have "take (length p) k' = p \<longleftrightarrow> (\<exists>l. k' = p @ l)" for k'
    by (metis append_eq_conv_conj append_take_drop_id)
  then show ?thesis by (force simp: under_prefix_def)
qed

lemma kvl_abstype [code abstype]: "Kvlist (kvl_entries s) = s"
  by (fact kvl_entries_inverse)

lemma kvl_entries_sorted: "sorted_wrt (<) (map fst (kvl_entries s))"
  using kvl_entries [of s] by simp

definition kvl_empty :: kvlist where
  "kvl_empty = Kvlist []"

definition kvl_get :: "byte list \<Rightarrow> kvlist \<Rightarrow> byte list option" where
  "kvl_get k s = map_of (kvl_entries s) k"

definition kvl_set :: "byte list \<Rightarrow> byte list \<Rightarrow> kvlist \<Rightarrow> kvlist" where
  "kvl_set k v s = Kvlist (put_entry k v (kvl_entries s))"

definition kvl_delete :: "byte list \<Rightarrow> kvlist \<Rightarrow> kvlist" where
  "kvl_delete k s = Kvlist (filter (\<lambda>(k', v). k' \<noteq> k) (kvl_entries s))"

definition kvl_iterate :: "byte list \<Rightarrow> kvlist \<Rightarrow> (byte list \<times> byte list) list" where
  "kvl_iterate p s = under_prefix p (kvl_entries s)"

lemma entries_kvl_empty [code abstract]: "kvl_entries kvl_empty = []"
  by (simp add: kvl_empty_def Kvlist_inverse)

lemma entries_kvl_set [code abstract]:
  "kvl_entries (kvl_set k v s) = put_entry k v (kvl_entries s)"
  by (simp add: kvl_set_def Kvlist_inverse sorted_put_entry kvl_entries_sorted)

lemma entries_kvl_delete [code abstract]:
  "kvl_entries (kvl_delete k s) = filter (\<lambda>(k', v). k' \<noteq> k) (kvl_entries s)"
proof -
  have "sorted_wrt (<) (map fst (filter (\<lambda>(k', v). k' \<noteq> k) (kvl_entries s)))"
    using kvl_entries_sorted [of s] by (simp add: sorted_wrt_map sorted_wrt_filter)
  then show ?thesis by (simp add: kvl_delete_def Kvlist_inverse)
qed

definition kvl :: "kvlist kv_ops" where
  "kvl = \<lparr>kv_Get = kvl_get, kv_Set = kvl_set, kv_Delete = kvl_delete, kv_Iterate = kvl_iterate\<rparr>"

lemma kvl_get_empty [simp]: "kv_Get kvl k kvl_empty = None"
  by (simp add: kvl_def kvl_get_def entries_kvl_empty)

interpretation kvl: kv_store kvl
proof (unfold_locales, goal_cases)
  case (1 k k' v s)
  show ?case by (simp add: kvl_def kvl_get_def entries_kvl_set map_of_put_entry)
next
  case (2 k k' s)
  have "map_of (filter (\<lambda>(k'', v). k'' \<noteq> k') xs) k = (if k = k' then None else map_of xs k)"
    for xs :: "(byte list \<times> byte list) list"
    by (induction xs) auto
  then show ?case by (simp add: kvl_def kvl_get_def entries_kvl_delete)
next
  case (3 p s)
  have "distinct (map fst (kvl_entries s))"
    using kvl_entries_sorted [of s] unfolding strict_sorted_iff by simp
  then show ?case
    by (auto simp: kvl_def kvl_get_def kvl_iterate_def set_under_prefix)
next
  case (4 p s)
  show ?case
    by (simp add: kvl_def kvl_iterate_def sorted_under_prefix kvl_entries_sorted)
qed

end
