(* ===== verification/Keeper.thy ===== *)
theory Keeper
  imports Keys KVStore ScheduleCodec
begin

text \<open>
  \<^verbatim>\<open>x/schedule/keeper/keeper.go\<close>: the store operations of the keeper. Every operation takes
  the store's operations \<open>K\<close> and the store; one that can panic returns a \<open>go\<close> outcome.
\<close>

section \<open>Operations\<close>

definition BlockHeightForSignerContract :: "'s kv_ops \<Rightarrow> addr \<Rightarrow> addr \<Rightarrow> 's \<Rightarrow> ('e, u64) go" where
  "BlockHeightForSignerContract K signer contract store =
     (let bySignerContractKey = MakeScheduledCallBySignerContractKey signer contract
      in BigEndianToUint64 (slice_of (kv_Get K bySignerContractKey store)))"

definition AddScheduledCall ::
  "'s kv_ops \<Rightarrow> addr \<Rightarrow> addr \<Rightarrow> byte list \<Rightarrow> u64 \<Rightarrow> 's \<Rightarrow> ('e, 's) go" where
  "AddScheduledCall K signer contract callBody blockHeight store =
     (let byHeightKey = MakeScheduledCallByBlockHeightKey blockHeight signer contract;
          bySignerContractKey = MakeScheduledCallBySignerContractKey signer contract;
          value = \<lparr>sc_CallBody = callBody\<rparr>;
          store = kv_Set K bySignerContractKey (Uint64ToBigEndian blockHeight) store
      in go_bind (must_marshal (ScheduledCall_Marshal value)) (\<lambda>bz.
           Ret (kv_Set K byHeightKey bz store)))"

definition removeScheduledCallWithBlockHeight ::
  "'s kv_ops \<Rightarrow> addr \<Rightarrow> addr \<Rightarrow> u64 \<Rightarrow> 's \<Rightarrow> 's" where
  "removeScheduledCallWithBlockHeight K signer contract blockHeight store =
     (let byNameKey = MakeScheduledCallBySignerContractKey signer contract;
          store = kv_Delete K byNameKey store;
          byHeightKey = MakeScheduledCallByBlockHeightKey blockHeight signer contract
      in kv_Delete K byHeightKey store)"

definition ReScheduleCall ::
  "'s kv_ops \<Rightarrow> addr \<Rightarrow> addr \<Rightarrow> byte list \<Rightarrow> u64 \<Rightarrow> u64 \<Rightarrow> 's \<Rightarrow> ('e, 's) go" where
  "ReScheduleCall K signer contract callBody oldBlockHeight newBlockHeight store =
     (let store = removeScheduledCallWithBlockHeight K signer contract oldBlockHeight store;
          newByHeightKey = MakeScheduledCallByBlockHeightKey newBlockHeight signer contract;
          newBySignerContractKey = MakeScheduledCallBySignerContractKey signer contract;
          value = \<lparr>sc_CallBody = callBody\<rparr>;
          store = kv_Set K newByHeightKey (Uint64ToBigEndian newBlockHeight) store
      in go_bind (must_marshal (ScheduledCall_Marshal value)) (\<lambda>bz.
           Ret (kv_Set K newBySignerContractKey bz store)))"

definition RemoveScheduledCall :: "'s kv_ops \<Rightarrow> addr \<Rightarrow> addr \<Rightarrow> 's \<Rightarrow> ('e, 's) go" where
  "RemoveScheduledCall K signer contract store =
     (let byNameKey = MakeScheduledCallBySignerContractKey signer contract
      in go_bind (BigEndianToUint64 (slice_of (kv_Get K byNameKey store))) (\<lambda>blockHeight.
           let store = kv_Delete K byNameKey store;
               byHeightKey = MakeScheduledCallByBlockHeightKey blockHeight signer contract
           in Ret (kv_Delete K byHeightKey store)))"

text \<open>
  \<open>iterateScheduledCalls\<close> threads the state \<open>a\<close> that its callback closes over; the callback
  says whether to stop.
\<close>

fun iterate_loop ::
  "(u64 \<Rightarrow> addr \<Rightarrow> addr \<Rightarrow> ScheduledCall \<Rightarrow> 'a \<Rightarrow> bool \<times> 'a)
    \<Rightarrow> (byte list \<times> byte list) list \<Rightarrow> 'a \<Rightarrow> ('e, 'a) go" where
  "iterate_loop cb [] a = Ret a"
| "iterate_loop cb ((key, bz) # iter) a =
     go_bind (decode_iterate_key key) (\<lambda>(blockHeight, signer, contract).
       go_bind (must_unmarshal (ScheduledCall_Unmarshal ScheduledCall_zero bz)) (\<lambda>call.
         case cb blockHeight signer contract call a of
           (stop, a') \<Rightarrow> if stop then Ret a' else iterate_loop cb iter a'))"

definition iterateScheduledCalls ::
  "'s kv_ops \<Rightarrow> (u64 \<Rightarrow> addr \<Rightarrow> addr \<Rightarrow> ScheduledCall \<Rightarrow> 'a \<Rightarrow> bool \<times> 'a) \<Rightarrow> 's \<Rightarrow> 'a \<Rightarrow> ('e, 'a) go"
where
  "iterateScheduledCalls K cb store a =
     iterate_loop cb (kv_Iterate K [ScheduledCallByBlockHeightKeyPrefix] store) a"

text \<open>
  \<open>ConsumeScheduledCallsByHeight\<close>: the iterator runs over the entries the store held when it
  was created, while the loop deletes them and the callback adds others. The state \<open>c\<close> is
  whatever the callback works on; \<open>put\<close> and \<open>get\<close> give access to the store inside it.
\<close>

fun consume_loop ::
  "'s kv_ops \<Rightarrow> (('s \<Rightarrow> 's) \<Rightarrow> 'c \<Rightarrow> 'c) \<Rightarrow> u64
    \<Rightarrow> (addr \<Rightarrow> addr \<Rightarrow> ScheduledCall \<Rightarrow> 'c \<Rightarrow> ('e, bool \<times> 'c) go)
    \<Rightarrow> (byte list \<times> byte list) list \<Rightarrow> 'c \<Rightarrow> ('e, 'c) go" where
  "consume_loop K upd blockHeight cb [] c = Ret c"
| "consume_loop K upd blockHeight cb ((key, bz) # iter) c =
     (case decode_consume_key blockHeight key of (signer, contract) \<Rightarrow>
       go_bind (must_unmarshal (ScheduledCall_Unmarshal ScheduledCall_zero bz)) (\<lambda>call.
         let c = upd (removeScheduledCallWithBlockHeight K signer contract blockHeight) c
         in go_bind (cb signer contract call c) (\<lambda>(stop, c').
              if stop then Ret c' else consume_loop K upd blockHeight cb iter c')))"

definition ConsumeScheduledCallsByHeight ::
  "'s kv_ops \<Rightarrow> ('c \<Rightarrow> 's) \<Rightarrow> (('s \<Rightarrow> 's) \<Rightarrow> 'c \<Rightarrow> 'c) \<Rightarrow> u64
    \<Rightarrow> (addr \<Rightarrow> addr \<Rightarrow> ScheduledCall \<Rightarrow> 'c \<Rightarrow> ('e, bool \<times> 'c) go) \<Rightarrow> 'c \<Rightarrow> ('e, 'c) go" where
  "ConsumeScheduledCallsByHeight K get upd blockHeight cb c =
     (let prefixKey = MakeScheduledCallByBlockHeightPrefixKey blockHeight
      in consume_loop K upd blockHeight cb (kv_Iterate K prefixKey (get c)) c)"

definition countOfScheduledCallsAtHeight :: "'s kv_ops \<Rightarrow> u64 \<Rightarrow> 's \<Rightarrow> u64" where
  "countOfScheduledCallsAtHeight K blockHeight store =
     (let prefixKey = MakeScheduledCallByBlockHeightPrefixKey blockHeight
      in foldl (\<lambda>count _. count + 1) 0 (kv_Iterate K prefixKey store))"

section \<open>The stored encoding of a call\<close>

definition enc_call :: "byte list \<Rightarrow> byte list" where
  "enc_call body = enc_fields (ScheduledCall_wire \<lparr>sc_CallBody = body\<rparr>)"

lemma ScheduledCall_Marshal_enc: "ScheduledCall_Marshal \<lparr>sc_CallBody = body\<rparr> = Ret (enc_call body)"
  by (simp add: ScheduledCall_Marshal_def scheduled_call.marshal_bytes enc_call_def)

lemma ScheduledCall_Unmarshal_enc:
  "length (enc_call body) < 2 ^ 63 \<Longrightarrow>
    ScheduledCall_Unmarshal ScheduledCall_zero (enc_call body) = Inr \<lparr>sc_CallBody = body\<rparr>"
  using scheduled_call.reads_back [of "\<lparr>sc_CallBody = body\<rparr>"]
  by (simp add: ScheduledCall_Unmarshal_def enc_call_def)

lemma enc_call_Nil [simp]: "enc_call [] = []"
  by (simp add: enc_call_def ScheduledCall_wire_def w_bytes_def)

lemma enc_call_Cons:
  "body \<noteq> [] \<Longrightarrow> enc_call body = 0x0a # varint (word_of_nat (length body)) @ body"
  using one_byte_tag [of 1 2] by (simp add: enc_call_def ScheduledCall_wire_def w_bytes_def)

text \<open>A height below \<open>2 ^ 56\<close> starts with a zero byte, which no message does.\<close>

lemma hd_Uint64ToBigEndian: "unat h < 2 ^ 56 \<Longrightarrow> hd (Uint64ToBigEndian h) = 0"
  by (simp add: Uint64ToBigEndian_def word_unat_eq_iff unat_byte_at)

lemma enc_call_not_height: "unat h < 2 ^ 56 \<Longrightarrow> enc_call body \<noteq> Uint64ToBigEndian h"
  using hd_Uint64ToBigEndian [of h] Uint64ToBigEndian_nonempty [of h]
  by (cases "body = []") (metis enc_call_Nil, auto simp: enc_call_Cons dest: arg_cong [where f = hd])

lemma unmarshal_zero_tag: "unmarshal F m (0 # bs) = Inl IllegalTag"
proof -
  have "read_varint (0 # bs) 0 = Inr (0, 1)"
    using read_varint_back [of "[]" 0 bs] by (simp add: varint.simps)
  then show ?thesis
    by (simp add: unmarshal_def unmarshal_loop.simps field_num_def Let_def)
qed

lemma height_is_no_call:
  "unat h < 2 ^ 56 \<Longrightarrow> ScheduledCall_Unmarshal m (Uint64ToBigEndian h) = Inl IllegalTag"
  using hd_Uint64ToBigEndian [of h] unmarshal_zero_tag
  by (cases "Uint64ToBigEndian h") (auto simp: ScheduledCall_Unmarshal_def)

end
