(* ===== verification/KeeperSpec.thy ===== *)
theory KeeperSpec
  imports Keeper
begin

text \<open>
  What the keeper's store promises: a map from signer and contract to one height and one
  call body. \<open>represents\<close> relates a store to that map, and every operation but
  \<open>ReScheduleCall\<close> is shown to be the obvious update of it. \<open>ReScheduleCall\<close> writes the two
  values under each other's key, so no map is represented afterwards.
\<close>

type_synonym schedule = "byte list \<Rightarrow> (u64 \<times> byte list) option"

definition name_value :: "schedule \<Rightarrow> byte list \<Rightarrow> byte list option" where
  "name_value m sc = map_option (\<lambda>(h, body). Uint64ToBigEndian h) (m sc)"

definition height_value :: "schedule \<Rightarrow> u64 \<Rightarrow> byte list \<Rightarrow> byte list option" where
  "height_value m h sc =
     (case m sc of None \<Rightarrow> None | Some (h', body) \<Rightarrow> if h' = h then Some (enc_call body) else None)"

definition represents :: "'s kv_ops \<Rightarrow> 's \<Rightarrow> schedule \<Rightarrow> bool" where
  "represents K store m \<longleftrightarrow>
     (\<forall>sc. kv_Get K (name_key sc) store = name_value m sc) \<and>
     (\<forall>h sc. kv_Get K (height_key h sc) store = height_value m h sc) \<and>
     (\<forall>k. length k < 8 \<longrightarrow> kv_Get K (ScheduledCallByBlockHeightKeyPrefix # k) store = None)"

lemma name_value_upd:
  "name_value (m(sc := e)) sc' = (if sc' = sc then name_value (\<lambda>_. e) sc' else name_value m sc')"
  by (simp add: name_value_def)

lemma height_value_upd:
  "height_value (m(sc := e)) h sc' =
    (if sc' = sc then height_value (\<lambda>_. e) h sc' else height_value m h sc')"
  by (simp add: height_value_def)

lemma index_values:
  "name_value (\<lambda>_. Some (h, body)) sc = Some (Uint64ToBigEndian h)"
  "name_value (\<lambda>_. None) sc = None"
  "height_value (\<lambda>_. Some (h, body)) h' sc = (if h = h' then Some (enc_call body) else None)"
  "height_value (\<lambda>_. None) h' sc = None"
  by (simp_all add: name_value_def height_value_def)

lemma height_value_None:
  "\<forall>h' body'. m sc = Some (h', body') \<longrightarrow> h' = h \<Longrightarrow> h \<noteq> h' \<Longrightarrow> height_value m h' sc = None"
  by (auto simp: height_value_def split: option.splits)

text \<open>The entries whose key the keeper's fixed-width decoding takes apart correctly.\<close>

definition decodable :: "schedule \<Rightarrow> bool" where
  "decodable m \<longleftrightarrow>
     (\<forall>sc h body. m sc = Some (h, body) \<longrightarrow>
        20 \<le> length sc \<and> length sc \<le> 52 \<and> length (enc_call body) < 2 ^ 63 \<and>
        \<not> prefix (MakeScheduledCallByBlockHeightPrefixKey h) sc)"

lemma decodable_upd:
  "decodable m \<Longrightarrow> 20 \<le> length sc \<Longrightarrow> length sc \<le> 52 \<Longrightarrow> length (enc_call body) < 2 ^ 63 \<Longrightarrow>
    \<not> prefix (MakeScheduledCallByBlockHeightPrefixKey h) sc \<Longrightarrow> decodable (m(sc \<mapsto> (h, body)))"
  by (simp add: decodable_def)

lemma decodable_del: "decodable m \<Longrightarrow> decodable (m(sc := None))"
  by (simp add: decodable_def)

lemma decodable_consume:
  assumes "decodable m" "m sc = Some (h, body)"
  shows "decode_consume_key h sc = (take 20 sc, drop 20 sc)"
proof -
  have l: "20 \<le> length sc" "length sc \<le> 52"
    and np: "\<not> prefix (MakeScheduledCallByBlockHeightPrefixKey h) sc"
    using assms by (auto simp: decodable_def)
  have "\<not> prefix (MakeScheduledCallByBlockHeightPrefixKey h) (take 20 sc)"
    using np take_is_prefix prefix_order.trans by blast
  then show ?thesis using decode_consume_back [of "take 20 sc" "drop 20 sc" h] l by simp
qed

lemma represents_name:
  "represents K s m \<Longrightarrow>
    kv_Get K (name_key sc) s = map_option (\<lambda>(h, body). Uint64ToBigEndian h) (m sc)"
  by (simp add: represents_def name_value_def)

lemma represents_height:
  "represents K s m \<Longrightarrow> kv_Get K (height_key h sc) s = Some bz
    \<longleftrightarrow> (\<exists>body. m sc = Some (h, body) \<and> bz = enc_call body)"
  by (auto simp: represents_def height_value_def split: option.splits if_splits)

lemma height_key_short: "length k < 8 \<Longrightarrow> ScheduledCallByBlockHeightKeyPrefix # k \<noteq> height_key h sc"
  by (auto simp: height_key_byte dest: arg_cong [where f = length])

lemma name_key_not_height:
  "ScheduledCallByBlockHeightKeyPrefix # k \<noteq> name_key sc"
  by (simp add: name_key_def ScheduledCallByBlockHeightKeyPrefix_def ScheduledCallByNameKeyPrefix_def)

lemma BlockHeightForSignerContract_represents:
  "represents K s m \<Longrightarrow>
    BlockHeightForSignerContract K signer contract s
      = Ret (case m (signer @ contract) of None \<Rightarrow> 0 | Some (h, body) \<Rightarrow> h)"
  by (cases "m (signer @ contract)")
     (auto simp: BlockHeightForSignerContract_def keys_concat represents_name)

section \<open>The turns of the consume loop\<close>

text \<open>One turn of the consume loop: the call is decoded and removed, and the callback runs.\<close>

lemma consume_loop_turn:
  assumes "consume_loop K upd h cb ((key, bz) # rest) c = Ret c'"
  obtains s t call stop c1 where "decode_consume_key h key = (s, t)"
    "must_unmarshal (ScheduledCall_Unmarshal ScheduledCall_zero bz) = (Ret call :: ('e, _) go)"
    "(cb s t call (upd (removeScheduledCallWithBlockHeight K s t h) c) :: ('e, _) go) = Ret (stop, c1)"
    "(if stop then Ret c1 else consume_loop K upd h cb rest c1) = Ret c'"
  using assms by (auto simp: go_simps Let_def split: prod.splits)

text \<open>What every turn keeps, from the start of the loop to its end, is \<open>R\<close>.\<close>

lemma consume_loop_keeps:
  assumes "consume_loop K upd h cb iter c = Ret c'"
    and goes_on: "\<And>s t call c0 stop c1. cb s t call c0 = Ret (stop, c1) \<Longrightarrow> \<not> stop"
    and "\<And>key s t call c0 stop c1. key \<in> fst ` set iter \<Longrightarrow> decode_consume_key h key = (s, t) \<Longrightarrow>
      cb s t call (upd (removeScheduledCallWithBlockHeight K s t h) c0) = Ret (stop, c1) \<Longrightarrow> R c0 c1"
    and R: "reflp R" "transp R"
  shows "R c c'"
  using assms(1,3)
proof (induction iter arbitrary: c)
  case Nil
  then show ?case using R(1) by (simp add: reflpD)
next
  case (Cons e iter)
  obtain key bz where e: "e = (key, bz)" by (cases e)
  obtain s t call stop c1 where d: "decode_consume_key h key = (s, t)"
    and turn: "cb s t call (upd (removeScheduledCallWithBlockHeight K s t h) c) = Ret (stop, c1)"
    and rest: "(if stop then Ret c1 else consume_loop K upd h cb iter c1) = Ret c'"
    using Cons.prems(1) [unfolded e] by (rule consume_loop_turn)
  from goes_on [OF turn] rest have rest: "consume_loop K upd h cb iter c1 = Ret c'" by simp
  have "R c c1" using Cons.prems(2) [OF _ d turn] e by simp
  moreover have "R c1 c'"
  proof (rule Cons.IH [OF rest])
    fix key s t call c0 stop c1
    assume "key \<in> fst ` set iter" "decode_consume_key h key = (s, t)"
      "cb s t call (upd (removeScheduledCallWithBlockHeight K s t h) c0) = Ret (stop, c1)"
    then show "R c0 c1" using Cons.prems(2) [of key] by simp
  qed
  ultimately show ?case using R(2) by (meson transpD)
qed

text \<open>The call the entry of a key stands for: signer, contract and body.\<close>

definition due_call :: "schedule \<Rightarrow> byte list \<Rightarrow> addr \<times> addr \<times> byte list" where
  "due_call m k = (take 20 k, drop 20 k, snd (the (m k)))"

context kv_store
begin

section \<open>The operations as updates of the map\<close>

lemma AddScheduledCall_eq:
  "AddScheduledCall K signer contract body h s
    = Ret (kv_Set K (height_key h (signer @ contract)) (enc_call body)
        (kv_Set K (name_key (signer @ contract)) (Uint64ToBigEndian h) s))"
  by (simp add: AddScheduledCall_def ScheduledCall_Marshal_enc keys_concat Let_def)

lemma ReScheduleCall_eq:
  "ReScheduleCall K signer contract body h h' s
    = Ret (kv_Set K (name_key (signer @ contract)) (enc_call body)
        (kv_Set K (height_key h' (signer @ contract)) (Uint64ToBigEndian h')
          (kv_Delete K (height_key h (signer @ contract))
            (kv_Delete K (name_key (signer @ contract)) s))))"
  by (simp add: ReScheduleCall_def removeScheduledCallWithBlockHeight_def
      ScheduledCall_Marshal_enc keys_concat Let_def)

lemma remove_with_height_eq:
  "removeScheduledCallWithBlockHeight K signer contract h s
    = kv_Delete K (height_key h (signer @ contract)) (kv_Delete K (name_key (signer @ contract)) s)"
  by (simp add: removeScheduledCallWithBlockHeight_def keys_concat Let_def)

lemmas index_simps = represents_def name_value_upd height_value_upd index_values
  height_key_short name_key_not_height

lemma AddScheduledCall_represents:
  assumes "represents K s m"
    and "\<forall>h' body'. m (signer @ contract) = Some (h', body') \<longrightarrow> h' = h"
    and "AddScheduledCall K signer contract body h s = Ret s'"
  shows "represents K s' (m(signer @ contract \<mapsto> (h, body)))"
  using assms height_value_None [of m "signer @ contract" h]
  by (auto simp: AddScheduledCall_eq index_simps get_set)

lemma remove_with_height_represents:
  assumes "represents K s m"
    and "\<forall>h' body'. m (signer @ contract) = Some (h', body') \<longrightarrow> h' = h"
  shows "represents K (removeScheduledCallWithBlockHeight K signer contract h s)
    (m(signer @ contract := None))"
  using assms height_value_None [of m "signer @ contract" h]
  by (auto simp: remove_with_height_eq index_simps get_delete)

lemma RemoveScheduledCall_represents:
  assumes "represents K s m"
  shows "\<exists>s'. (RemoveScheduledCall K signer contract s :: ('e, 's) go) = Ret s' \<and>
    represents K s' (m(signer @ contract := None))"
proof -
  let ?h = "case m (signer @ contract) of None \<Rightarrow> 0 | Some (h, body) \<Rightarrow> h"
  have "(BigEndianToUint64 (slice_of (kv_Get K (name_key (signer @ contract)) s)) :: ('e, u64) go)
      = Ret ?h"
    using assms by (cases "m (signer @ contract)") (auto simp: represents_name)
  then have "(RemoveScheduledCall K signer contract s :: ('e, 's) go)
      = Ret (removeScheduledCallWithBlockHeight K signer contract ?h s)"
    by (simp only: RemoveScheduledCall_def remove_with_height_eq keys_concat Let_def go_bind.simps)
  then show ?thesis
    using remove_with_height_represents [OF assms, of signer contract ?h] by auto
qed

section \<open>ReScheduleCall\<close>

text \<open>
  The by-height entry it leaves holds the new height, the by-name entry the call body.
\<close>

lemma ReScheduleCall_swaps:
  assumes "ReScheduleCall K signer contract body h h' s = Ret s'"
  shows "kv_Get K (height_key h' (signer @ contract)) s' = Some (Uint64ToBigEndian h')"
    and "kv_Get K (name_key (signer @ contract)) s' = Some (enc_call body)"
  using assms by (auto simp: ReScheduleCall_eq get_set)

lemma ReScheduleCall_represents_nothing:
  assumes "ReScheduleCall K signer contract body h h' s = Ret s'" "unat h' < 2 ^ 56"
  shows "\<not> represents K s' m"
proof
  assume "represents K s' m"
  then obtain b where "Uint64ToBigEndian h' = enc_call b"
    using ReScheduleCall_swaps(1) [OF assms(1)] by (auto simp: represents_height)
  then show False using enc_call_not_height [OF assms(2), of b] by simp
qed

section \<open>Iterators\<close>

lemma iterate_at_height:
  "represents K s m \<Longrightarrow>
    (sc, bz) \<in> set (kv_Iterate K (MakeScheduledCallByBlockHeightPrefixKey h) s)
      \<longleftrightarrow> (\<exists>body. m sc = Some (h, body) \<and> bz = enc_call body)"
  by (simp add: in_iterate represents_height flip: height_key_def)

text \<open>
  The consume loop: what holds before an entry and is kept by one turn holds at the end
  (partial form), and if every turn gets through, the loop does (total form).
\<close>

lemma consume_loop_rule:
  assumes "consume_loop K upd h cb iter c = (Ret c' :: ('e, _) go)" and "I iter c"
    and "\<And>key bz rest c c' call signer contract stop.
      I ((key, bz) # rest) c \<Longrightarrow> decode_consume_key h key = (signer, contract) \<Longrightarrow>
      ScheduledCall_Unmarshal ScheduledCall_zero bz = Inr call \<Longrightarrow>
      cb signer contract call (upd (removeScheduledCallWithBlockHeight K signer contract h) c)
        = Ret (stop, c') \<Longrightarrow> \<not> stop \<and> I rest c'"
  shows "I [] c'"
  using assms(1,2)
proof (induction iter arbitrary: c)
  case (Cons e rest)
  obtain key bz where e: "e = (key, bz)" by (cases e)
  obtain signer contract call stop c1 where d: "decode_consume_key h key = (signer, contract)"
    and "must_unmarshal (ScheduledCall_Unmarshal ScheduledCall_zero bz) = (Ret call :: ('e, _) go)"
    and turn: "(cb signer contract call
      (upd (removeScheduledCallWithBlockHeight K signer contract h) c) :: ('e, _) go) = Ret (stop, c1)"
    and rest: "(if stop then Ret c1 else consume_loop K upd h cb rest c1) = Ret c'"
    using Cons.prems(1) [unfolded e] by (rule consume_loop_turn)
  then have "ScheduledCall_Unmarshal ScheduledCall_zero bz = Inr call"
    by (auto simp: must_unmarshal_def split: sum.splits)
  note step = this turn
  have "\<not> stop \<and> I rest c1"
    using assms(3) [OF Cons.prems(2) [unfolded e] d step] .
  with rest show ?case by (simp add: Cons.IH)
qed simp

lemma consume_loop_total:
  assumes "I iter c"
    and "\<And>key bz rest c signer contract.
      I ((key, bz) # rest) c \<Longrightarrow> decode_consume_key h key = (signer, contract) \<Longrightarrow>
      \<exists>call c'. ScheduledCall_Unmarshal ScheduledCall_zero bz = Inr call \<and>
        cb signer contract call (upd (removeScheduledCallWithBlockHeight K signer contract h) c)
          = Ret (False, c') \<and> I rest c'"
  shows "\<exists>c'. consume_loop K upd h cb iter c = Ret c' \<and> I [] c'"
  using assms(1)
proof (induction iter arbitrary: c)
  case (Cons e rest)
  obtain key bz where e: "e = (key, bz)" by (cases e)
  obtain signer contract where d: "decode_consume_key h key = (signer, contract)"
    by (cases "decode_consume_key h key")
  from assms(2) [OF Cons.prems [unfolded e] d] obtain call c1 where
    "ScheduledCall_Unmarshal ScheduledCall_zero bz = Inr call" "I rest c1"
    "cb signer contract call (upd (removeScheduledCallWithBlockHeight K signer contract h) c)
      = Ret (False, c1)" by blast
  then show ?case using Cons.IH [of c1] e d by simp
qed simp

text \<open>An entry whose value is not a call makes the loop panic, wherever it stands.\<close>

lemma consume_loop_panics:
  assumes "(key, bz) \<in> set iter" "ScheduledCall_Unmarshal ScheduledCall_zero bz = Inl e"
    and "\<And>signer contract call c c'. cb signer contract call c \<noteq> Ret (True, c')"
    and "\<And>signer contract call c e. cb signer contract call c \<noteq> Err e"
  shows "panics (consume_loop K upd h cb iter c)"
  using assms(1)
proof (induction iter arbitrary: c)
  case (Cons x rest)
  obtain k v where x: "x = (k, v)" by (cases x)
  obtain signer contract where d: "decode_consume_key h k = (signer, contract)"
    by (cases "decode_consume_key h k")
  show ?case
  proof (cases "ScheduledCall_Unmarshal ScheduledCall_zero v")
    case (Inl e')
    then show ?thesis using x d by simp
  next
    case (Inr call)
    with assms(2) Cons.prems x have r: "(key, bz) \<in> set rest" by auto
    show ?thesis
    proof (cases "cb signer contract call
        (upd (removeScheduledCallWithBlockHeight K signer contract h) c)")
      case (Ret sc)
      with assms(3) obtain c1 where "sc = (False, c1)" by (metis (full_types) surj_pair)
      then show ?thesis using Ret Cons.IH [OF r] x d Inr by simp
    qed (use assms(4) x d Inr in simp_all)
  qed
qed simp

section \<open>Counting and delivering the due calls\<close>

lemma due_keys:
  assumes "represents K s m"
  shows "set (map fst (kv_Iterate K (MakeScheduledCallByBlockHeightPrefixKey h) s))
    = {sc. \<exists>body. m sc = Some (h, body)}"
proof -
  have "k \<in> set (map fst (kv_Iterate K (MakeScheduledCallByBlockHeightPrefixKey h) s))
      \<longleftrightarrow> (\<exists>bz. (k, bz) \<in> set (kv_Iterate K (MakeScheduledCallByBlockHeightPrefixKey h) s))" for k
    by force
  then show ?thesis by (auto simp: iterate_at_height [OF assms])
qed

lemma count_due:
  assumes "represents K s m"
  shows "countOfScheduledCallsAtHeight K h s = word_of_nat (card {sc. \<exists>body. m sc = Some (h, body)})"
proof -
  let ?iter = "kv_Iterate K (MakeScheduledCallByBlockHeightPrefixKey h) s"
  have "foldl (\<lambda>count _. count + 1) n xs = n + (word_of_nat (length xs) :: u64)"
    for n and xs :: "(byte list \<times> byte list) list"
    by (induction xs arbitrary: n) simp_all
  moreover have "length ?iter = card {sc. \<exists>body. m sc = Some (h, body)}"
    using distinct_card [OF iterate_distinct [of "MakeScheduledCallByBlockHeightPrefixKey h" s]]
    by (simp only: due_keys [OF assms] length_map)
  ultimately show ?thesis by (simp add: countOfScheduledCallsAtHeight_def)
qed

text \<open>One entry of the iterator is removed: the calls before it are gone already.\<close>

lemma due_entry_removed:
  assumes rep: "represents K s m" and dec: "decodable m"
    and iter: "kv_Iterate K (MakeScheduledCallByBlockHeightPrefixKey h) s = past @ (key, bz) # rest"
    and st: "represents K st (\<lambda>sc. if sc \<in> fst ` set past then None else m sc)"
    and d: "decode_consume_key h key = (signer, contract)"
  obtains body where "m key = Some (h, body)" "signer = take 20 key" "contract = drop 20 key"
    "ScheduledCall_Unmarshal ScheduledCall_zero bz = Inr \<lparr>sc_CallBody = body\<rparr>"
    "represents K (removeScheduledCallWithBlockHeight K signer contract h st)
       (\<lambda>sc. if sc \<in> fst ` set (past @ [(key, bz)]) then None else m sc)"
proof -
  have "(key, bz) \<in> set (kv_Iterate K (MakeScheduledCallByBlockHeightPrefixKey h) s)" by (simp add: iter)
  then obtain body where body: "m key = Some (h, body)" "bz = enc_call body"
    using iterate_at_height [OF rep] by blast
  have small: "length (enc_call body) < 2 ^ 63" using body(1) dec by (simp add: decodable_def)
  have sc: "signer = take 20 key" "contract = drop 20 key"
    using decodable_consume [OF dec body(1)] d by simp_all
  have "key \<notin> fst ` set past"
    using iterate_distinct [of "MakeScheduledCallByBlockHeightPrefixKey h" s] iter by auto
  moreover have "(\<lambda>sc. if sc \<in> fst ` set past then None else m sc)(key := None)
      = (\<lambda>sc. if sc \<in> fst ` set (past @ [(key, bz)]) then None else m sc)" by auto
  ultimately have "represents K (removeScheduledCallWithBlockHeight K signer contract h st)
      (\<lambda>sc. if sc \<in> fst ` set (past @ [(key, bz)]) then None else m sc)"
    using remove_with_height_represents [OF st, of signer contract h] body sc by simp
  with body sc show thesis using that ScheduledCall_Unmarshal_enc [OF small] by simp
qed

text \<open>The calls that are due, in the order of the iterator, are the entries of the height, once each.\<close>

lemma due_calls:
  assumes "represents K s m"
  shows "distinct (map (due_call m) (map fst (kv_Iterate K (MakeScheduledCallByBlockHeightPrefixKey h) s)))"
    "set (map (due_call m) (map fst (kv_Iterate K (MakeScheduledCallByBlockHeightPrefixKey h) s)))
      = {(take 20 sc, drop 20 sc, body) |sc body. m sc = Some (h, body)}"
proof -
  have "inj_on (due_call m) A" for A
    by (rule inj_onI) (metis due_call_def append_take_drop_id fst_conv snd_conv)
  then show "distinct (map (due_call m) (map fst (kv_Iterate K (MakeScheduledCallByBlockHeightPrefixKey h) s)))"
    using iterate_distinct by (simp add: distinct_map del: map_map)
  show "set (map (due_call m) (map fst (kv_Iterate K (MakeScheduledCallByBlockHeightPrefixKey h) s)))
      = {(take 20 sc, drop 20 sc, body) |sc body. m sc = Some (h, body)}"
    unfolding set_map [of "due_call m"] due_keys [OF assms] by (force simp: due_call_def)
qed

text \<open>The callback that only writes down what it is given.\<close>

lemma consume_records:
  fixes s :: 's
  assumes rep: "represents K s m" and dec: "decodable m"
  shows "\<exists>s' calls. (ConsumeScheduledCallsByHeight K fst (\<lambda>f (s, l). (f s, l)) h
        (\<lambda>signer contract call (s, l). Ret (False, (s, l @ [(signer, contract, sc_CallBody call)])))
        (s, []) :: ('e, _) go) = Ret (s', calls) \<and>
    represents K s' (\<lambda>sc. if \<exists>body. m sc = Some (h, body) then None else m sc) \<and>
    distinct calls \<and>
    set calls = {(take 20 sc, drop 20 sc, body) |sc body. m sc = Some (h, body)}"
proof -
  let ?iter = "kv_Iterate K (MakeScheduledCallByBlockHeightPrefixKey h) s"
  let ?upd = "\<lambda>f (s, l). (f s, l)"
  let ?cb = "\<lambda>signer contract call (s, l). Ret (False, (s, l @ [(signer, contract, sc_CallBody call)]))"
  define I where "I rest sl \<longleftrightarrow> (\<exists>past. ?iter = past @ rest \<and>
      represents K (fst sl) (\<lambda>sc. if sc \<in> fst ` set past then None else m sc) \<and>
      snd sl = map (due_call m) (map fst past))"
    for rest and sl :: "'s \<times> (addr \<times> addr \<times> byte list) list"
  have "\<exists>sl. (consume_loop K ?upd h ?cb ?iter (s, []) :: ('e, _) go) = Ret sl \<and> I [] sl"
  proof (rule consume_loop_total)
    show "I ?iter (s, [])" using rep by (simp add: I_def)
  next
    fix key bz rest signer contract and sl :: "'s \<times> (addr \<times> addr \<times> byte list) list"
    assume i: "I ((key, bz) # rest) sl" and d: "decode_consume_key h key = (signer, contract)"
    then obtain past where past: "?iter = past @ (key, bz) # rest"
      "represents K (fst sl) (\<lambda>sc. if sc \<in> fst ` set past then None else m sc)"
      "snd sl = map (due_call m) (map fst past)" by (auto simp: I_def)
    from due_entry_removed [OF rep dec past(1,2) d] obtain body where
      body: "m key = Some (h, body)" "signer = take 20 key" "contract = drop 20 key"
        "ScheduledCall_Unmarshal ScheduledCall_zero bz = Inr \<lparr>sc_CallBody = body\<rparr>"
      and "represents K (removeScheduledCallWithBlockHeight K signer contract h (fst sl))
        (\<lambda>sc. if sc \<in> fst ` set (past @ [(key, bz)]) then None else m sc)" by blast
    then have "I rest (removeScheduledCallWithBlockHeight K signer contract h (fst sl),
        snd sl @ [(signer, contract, body)])"
      using past(1,3) unfolding I_def
      by (intro exI [of _ "past @ [(key, bz)]"]) (simp add: due_call_def)
    then show "\<exists>call sl'. ScheduledCall_Unmarshal ScheduledCall_zero bz = Inr call \<and>
        (?cb signer contract call (?upd (removeScheduledCallWithBlockHeight K signer contract h) sl)
          :: ('e, _) go) = Ret (False, sl') \<and> I rest sl'"
      using body(4) by (auto simp: split_beta)
  qed
  then obtain s' calls where run: "(consume_loop K ?upd h ?cb ?iter (s, []) :: ('e, _) go) = Ret (s', calls)"
    and calls: "calls = map (due_call m) (map fst ?iter)"
    and rep': "represents K s' (\<lambda>sc. if sc \<in> fst ` set ?iter then None else m sc)"
    by (auto simp: I_def)
  have "represents K s' (\<lambda>sc. if \<exists>body. m sc = Some (h, body) then None else m sc)"
    using rep' due_keys [OF rep, of h] by simp
  with run calls due_calls [OF rep, of h] show ?thesis
    unfolding ConsumeScheduledCallsByHeight_def Let_def fst_conv by blast
qed

end

end
