(* ===== verification/Chain.thy ===== *)
theory Chain
  imports Types KeeperSpec
begin

text \<open>
  The state a handler works on, the other modules it calls, and \<^verbatim>\<open>keeper/params.go\<close>.
  The bank, the wasm keeper, bech32 and the event manager are fields of \<open>env\<close> and their
  state is the type variable \<open>'w\<close>; the height is \<^verbatim>\<open>uint64(ctx.BlockHeight())\<close>.
\<close>

section \<open>State and environment\<close>

type_synonym param_space = "byte list \<Rightarrow> iface option"

record ('s, 'w) chain =
  c_store :: 's
  c_params :: param_space
  c_world :: 'w
  c_height :: u64
  c_events :: "event list"

text \<open>
  What running a contract under a gas meter leaves behind: the state of the other modules,
  the gas the meter has counted, and a result with an error, or a panic.
\<close>

datatype exec_out = Returned "byte list" "gerror option" | Panicked panic

record 'w exec =
  ex_world :: 'w
  ex_gas :: u64
  ex_out :: exec_out

record 'w env =
  AccAddressFromBech32 :: "string \<Rightarrow> string + addr"
  AccAddress_String :: "addr \<Rightarrow> string"
  ValidateDenom :: "string \<Rightarrow> gerror option"
  QuerySmart :: "'w \<Rightarrow> addr \<Rightarrow> byte list \<Rightarrow> (gerror, byte list) go"
  GetBalance :: "'w \<Rightarrow> addr \<Rightarrow> string \<Rightarrow> coin"
  SendCoinsFromAccountToModule :: "'w \<Rightarrow> addr \<Rightarrow> string \<Rightarrow> coin list \<Rightarrow> gerror option \<times> 'w"
  Execute :: "'w \<Rightarrow> u64 \<Rightarrow> addr \<Rightarrow> addr \<Rightarrow> byte list \<Rightarrow> coin list \<Rightarrow> 'w exec"
  EmitTypedEvent :: "event \<Rightarrow> gerror option"

section \<open>Parameters\<close>

text \<open>
  The SDK's subspace: \<open>SetParamSet\<close> validates and stores pair after pair and panics on an
  invalid value, \<open>GetParamSet\<close> reads every pair and panics on a missing one.
\<close>

fun SetParamSet :: "param_set_pair list \<Rightarrow> param_space \<Rightarrow> ('e, param_space) go" where
  "SetParamSet [] ps = Ret ps"
| "SetParamSet ((key, v, validate) # pairs) ps =
     (case validate v of
        Ret _ \<Rightarrow> SetParamSet pairs (ps(key \<mapsto> v))
      | Err e \<Rightarrow> Panic InvalidParamSetPair
      | Panic p \<Rightarrow> Panic p)"

definition SetParams :: "'w env \<Rightarrow> Params \<Rightarrow> ('s, 'w) chain \<Rightarrow> ('e, ('s, 'w) chain) go" where
  "SetParams env params c =
     go_bind (SetParamSet (ParamSetPairs (ValidateDenom env) params) (c_params c)) (\<lambda>ps.
       Ret (c\<lparr>c_params := ps\<rparr>))"

definition GetParams :: "('s, 'w) chain \<Rightarrow> ('e, Params) go" where
  "GetParams c =
     (case (c_params c ParamsStoreKeyMinimumBalance, c_params c ParamsStoreKeyUpperBound) of
        (Some (ICoin minimum), Some (IUint64 bound)) \<Rightarrow>
          Ret \<lparr>p_MinimumBalance = minimum, p_UpperBound = bound\<rparr>
      | _ \<Rightarrow> Panic (ForeignPanic ''parameter not set''))"

lemma param_keys_distinct [simp]:
  "ParamsStoreKeyUpperBound \<noteq> ParamsStoreKeyMinimumBalance"
  "ParamsStoreKeyMinimumBalance \<noteq> ParamsStoreKeyUpperBound"
  by (simp_all add: ParamsStoreKeyUpperBound_def ParamsStoreKeyMinimumBalance_def string_bytes_def)

lemma SetParams_Ret:
  "SetParams env p c = Ret c' \<longleftrightarrow> Params_Validate (ValidateDenom env) p = Ret () \<and>
    c' = c\<lparr>c_params := (c_params c)(ParamsStoreKeyMinimumBalance \<mapsto> ICoin (p_MinimumBalance p),
            ParamsStoreKeyUpperBound \<mapsto> IUint64 (p_UpperBound p))\<rparr>"
  by (auto simp: SetParams_def ParamSetPairs_def Params_Validate_def go_simps
      validateUpperBound_def split: go.splits if_splits)

lemma SetParams_not_Ret:
  "SetParams env p c = Panic q \<Longrightarrow> Params_Validate (ValidateDenom env) p \<noteq> Ret ()"
  by (auto simp: SetParams_def ParamSetPairs_def Params_Validate_def go_simps
      split: go.splits)

lemma GetParams_set:
  "c_params c ParamsStoreKeyMinimumBalance = Some (ICoin (p_MinimumBalance p)) \<Longrightarrow>
   c_params c ParamsStoreKeyUpperBound = Some (IUint64 (p_UpperBound p)) \<Longrightarrow> GetParams c = Ret p"
  by (simp add: GetParams_def)

lemma GetParams_cong: "c_params c = c_params c' \<Longrightarrow> GetParams c = GetParams c'"
  by (simp add: GetParams_def)

lemma SetParams_GetParams: "SetParams env p c = Ret c' \<Longrightarrow> GetParams c' = Ret p"
  by (simp add: SetParams_Ret GetParams_def)

section \<open>Shared steps of the handlers\<close>

text \<open>
  The ownership check: query the contract and decode its answer.
\<close>

definition query_is_owner :: "'w env \<Rightarrow> 'w \<Rightarrow> addr \<Rightarrow> addr \<Rightarrow> (gerror, isOwnerResponse) go" where
  "query_is_owner env w contract signer =
     (let ownerQueryMsg = json_Marshal_isOwner (AccAddress_String env signer)
      in go_bind (QuerySmart env w contract ownerQueryMsg) (\<lambda>ownerQueryRes.
           case json_Unmarshal_isOwner ownerQueryRes of
             Inl err \<Rightarrow> Err (JsonError err)
           | Inr isOwner \<Rightarrow> Ret isOwner))"

text \<open>\<^verbatim>\<open>ctx.EventManager().EmitTypedEvent\<close>.\<close>

definition emit :: "'w env \<Rightarrow> event \<Rightarrow> ('s, 'w) chain \<Rightarrow> (gerror, ('s, 'w) chain) go" where
  "emit env ev c =
     (case EmitTypedEvent env ev of
        Some err \<Rightarrow> Err err
      | None \<Rightarrow> Ret (c\<lparr>c_events := c_events c @ [ev]\<rparr>))"

lemma emit_Ret: "emit env ev c = Ret c' \<longleftrightarrow> EmitTypedEvent env ev = None \<and> c' = c\<lparr>c_events := c_events c @ [ev]\<rparr>"
  by (auto simp: emit_def split: option.splits)

lemma emit_not_panics [simp]: "\<not> panics (emit env ev c)" "emit env ev c \<noteq> Panic p"
  by (simp_all add: emit_def split: option.split)

end
