(* ===== verification/Samples.thy ===== *)
theory Samples
  imports Chain
begin

text \<open>
  Concrete stores, a concrete environment and a concrete chain, on which the properties'
  hypotheses are shown to hold.
\<close>

section \<open>Sample stores\<close>

definition sample_signer :: addr where
  "sample_signer = replicate 20 0x61"

definition sample_contract :: addr where
  "sample_contract = replicate 32 0x62"

definition sample_key :: "byte list" where
  "sample_key = sample_signer @ sample_contract"

definition no_calls :: schedule where
  "no_calls = (\<lambda>_. None)"

definition one_call :: schedule where
  "one_call = no_calls(sample_key \<mapsto> (12, [1, 2, 3]))"

definition one_call_store :: kvlist where
  "one_call_store = kv_Set kvl (height_key 12 sample_key) (enc_call [1, 2, 3])
     (kv_Set kvl (name_key sample_key) (Uint64ToBigEndian 12) kvl_empty)"

lemma represents_empty: "represents kvl kvl_empty no_calls"
  by (simp add: represents_def no_calls_def name_value_def height_value_def)

lemma one_call_added:
  "AddScheduledCall kvl sample_signer sample_contract [1, 2, 3] 12 kvl_empty = Ret one_call_store"
  by (simp add: kvl.AddScheduledCall_eq one_call_store_def sample_key_def)

lemma represents_one: "represents kvl one_call_store one_call"
  using kvl.AddScheduledCall_represents [OF represents_empty, of sample_signer sample_contract 12]
    one_call_added
  by (simp add: one_call_def sample_key_def no_calls_def)

lemma one_call_due:
  "kv_Iterate kvl (MakeScheduledCallByBlockHeightPrefixKey 12) one_call_store
    = [(sample_key, enc_call [1, 2, 3])]"
  by (rule kvl.iterate_single)
     (simp add: one_call_store_def kvl.get_set height_prefix_inject height_key_def [symmetric])

lemma enc_call_small: "length body < 100 \<Longrightarrow> length (enc_call body) < 2 ^ 63"
  using length_varint_bounds [of "word_of_nat (length body)"]
  by (cases "body = []") (simp_all add: enc_call_Cons)

lemma sample_key_plain: "\<not> prefix (MakeScheduledCallByBlockHeightPrefixKey h) sample_key"
proof -
  have key: "sample_key = 0x61 # replicate 19 0x61 @ sample_contract"
    by (simp add: sample_key_def sample_signer_def flip: replicate_Suc append_Cons)
  show ?thesis
    unfolding key MakeScheduledCallByBlockHeightPrefixKey_def ScheduledCallByBlockHeightKeyPrefix_def
    by simp
qed

lemma decodable_one: "decodable one_call"
  using sample_key_plain enc_call_small [of "[1, 2, 3]"]
  by (simp add: decodable_def one_call_def no_calls_def sample_key_def sample_signer_def
      sample_contract_def)

section \<open>A sample chain\<close>

text \<open>
  An environment in which addresses are written as their bytes, every contract confirms its
  owner, holds 500 tokens, and on execution consumes 5 gas and asks for the block
  \<open>next\<close>.
\<close>

definition sample_env :: "u64 \<Rightarrow> unit env" where
  "sample_env next = \<lparr>
     AccAddressFromBech32 = (\<lambda>s. if s = [] then Inl ''empty address string is not allowed'' else Inr (string_bytes s)),
     AccAddress_String = bytes_string,
     ValidateDenom = (\<lambda>d. if d = [] then Some (TextError ''invalid denom'') else None),
     QuerySmart = (\<lambda>w contract req. Ret (owner_answer True)),
     GetBalance = (\<lambda>w contract d. \<lparr>denom = d, amount = 500\<rparr>),
     SendCoinsFromAccountToModule = (\<lambda>w sender recipient amt. (None, w)),
     Execute = (\<lambda>w gasLimit contract caller msg coins.
       \<lparr>ex_world = w, ex_gas = 5, ex_out = Returned (Uint64ToBigEndian next) None\<rparr>),
     EmitTypedEvent = (\<lambda>ev. None)\<rparr>"

definition sample_params :: Params where
  "sample_params = \<lparr>p_MinimumBalance = \<lparr>denom = ''uturnt'', amount = 100\<rparr>, p_UpperBound = 1000\<rparr>"

definition sample_chain :: "kvlist \<Rightarrow> u64 \<Rightarrow> (kvlist, unit) chain" where
  "sample_chain store height = \<lparr>c_store = store,
     c_params = [ParamsStoreKeyMinimumBalance \<mapsto> ICoin (p_MinimumBalance sample_params),
                 ParamsStoreKeyUpperBound \<mapsto> IUint64 (p_UpperBound sample_params)],
     c_world = (), c_height = height, c_events = []\<rparr>"

lemma sample_chain_simps [simp]:
  "c_store (sample_chain store height) = store"
  "c_height (sample_chain store height) = height"
  "GetParams (sample_chain store height) = Ret sample_params"
  by (simp_all add: sample_chain_def GetParams_def)

lemma sample_env_simps [simp]:
  "bs \<noteq> [] \<Longrightarrow> AccAddressFromBech32 (sample_env next) (bytes_string bs) = Inr bs"
  "AccAddress_String (sample_env next) = bytes_string"
  "query_is_owner (sample_env next) w contract signer = Ret \<lparr>io_IsOwner = True\<rparr>"
  "GetBalance (sample_env next) w contract d = \<lparr>denom = d, amount = 500\<rparr>"
  "EmitTypedEvent (sample_env next) ev = None"
  by (simp_all add: sample_env_def query_is_owner_def owner_answer_decoded)

lemma sample_addresses:
  "AccAddressFromBech32 (sample_env next) (bytes_string sample_signer) = Inr sample_signer"
  "AccAddressFromBech32 (sample_env next) (bytes_string sample_contract) = Inr sample_contract"
  by (simp_all add: sample_signer_def sample_contract_def)

text \<open>
  What the samples need of an environment, and the sample chain with other modules in the
  state \<open>w\<close>.
\<close>

definition sample_like :: "'w env \<Rightarrow> bool" where
  "sample_like env \<longleftrightarrow>
     (\<forall>bs. bs \<noteq> [] \<longrightarrow> AccAddressFromBech32 env (bytes_string bs) = Inr bs) \<and>
     ValidateDenom env ''uturnt'' = None \<and> (\<forall>ev. EmitTypedEvent env ev = None) \<and>
     (\<forall>w contract signer. query_is_owner env w contract signer = Ret \<lparr>io_IsOwner = True\<rparr>) \<and>
     (\<forall>w contract d. GetBalance env w contract d = \<lparr>denom = d, amount = 500\<rparr>)"

definition chain_in :: "'w \<Rightarrow> kvlist \<Rightarrow> u64 \<Rightarrow> (kvlist, 'w) chain" where
  "chain_in w store height = \<lparr>c_store = store, c_params = c_params (sample_chain store height),
     c_world = w, c_height = height, c_events = []\<rparr>"

lemma chain_in_simps [simp]:
  "c_store (chain_in w store height) = store"
  "c_height (chain_in w store height) = height"
  "c_world (chain_in w store height) = w"
  "c_params (chain_in w store height) = c_params (sample_chain store height)"
  "GetParams (chain_in w store height) = Ret sample_params"
  by (simp_all add: chain_in_def sample_chain_def GetParams_def)

lemma sample_chain_in: "sample_chain store height = chain_in () store height"
  by (simp add: chain_in_def sample_chain_def)

lemma sample_env_like: "sample_like (sample_env next)"
  by (simp add: sample_like_def) (simp add: sample_env_def)

lemma sample_like_addresses:
  assumes "sample_like env"
  shows "AccAddressFromBech32 env (bytes_string sample_signer) = Inr sample_signer"
    "AccAddressFromBech32 env (bytes_string sample_contract) = Inr sample_contract"
  using assms by (simp_all add: sample_like_def sample_signer_def sample_contract_def)

definition sample_add_msg :: "u64 \<Rightarrow> MsgAddSchedule" where
  "sample_add_msg height = NewMsgAddSchedule bytes_string sample_signer sample_contract [7] height"

definition sample_remove_msg :: MsgRemoveSchedule where
  "sample_remove_msg = NewMsgRemoveSchedule bytes_string sample_signer sample_contract"

end
