(* ===== verification/StoreKeys.thy ===== *)
theory StoreKeys
  imports KeeperSpec "HOL-Library.Product_Lexorder"
begin

text \<open>
  The keys of the store as a type of their own, with the order in which the store keeps them:
  by height first, then by signer and contract; the index by name comes after. The bytes that
  \<^verbatim>\<open>types/keys.go\<close> makes of a key reflect this order exactly, because heights are written
  big-endian.
\<close>

section \<open>Typed keys\<close>

datatype store_key = ByHeight u64 "byte list" | ByName "byte list"

fun encode_key :: "store_key \<Rightarrow> byte list" where
  "encode_key (ByHeight h sc) = height_key h sc"
| "encode_key (ByName sc) = name_key sc"

fun key_rank :: "store_key \<Rightarrow> nat \<times> u64 \<times> byte list" where
  "key_rank (ByHeight h sc) = (0, h, sc)"
| "key_rank (ByName sc) = (1, 0, sc)"

lemma key_rank_inject [simp]: "key_rank a = key_rank b \<longleftrightarrow> a = b"
  by (cases a; cases b) auto

instantiation store_key :: linorder
begin

definition less_eq_store_key :: "store_key \<Rightarrow> store_key \<Rightarrow> bool" where
  "less_eq_store_key a b \<longleftrightarrow> key_rank a \<le> key_rank b"

definition less_store_key :: "store_key \<Rightarrow> store_key \<Rightarrow> bool" where
  "less_store_key a b \<longleftrightarrow> key_rank a < key_rank b"

instance
  by standard (auto simp: less_eq_store_key_def less_store_key_def less_le_not_le)

end

lemma store_key_less [simp]:
  "ByHeight h sc < ByHeight h' sc' \<longleftrightarrow> h < h' \<or> h = h' \<and> sc < sc'"
  "ByName sc < ByName sc' \<longleftrightarrow> sc < sc'"
  "ByHeight h sc < ByName sc'"
  "\<not> ByName sc < ByHeight h sc'"
  by (auto simp: less_store_key_def)

section \<open>The bytes reflect the order\<close>

lemma append_less_split:
  "length xs = length ys \<Longrightarrow>
    xs @ us < ys @ (vs :: 'a::linorder list) \<longleftrightarrow> xs < ys \<or> xs = ys \<and> us < vs"
proof (induction xs arbitrary: ys)
  case (Cons x xs)
  then show ?case by (cases ys) auto
qed auto

lemma encode_key_less [simp]: "encode_key a < encode_key b \<longleftrightarrow> a < b"
  by (cases a; cases b)
     (simp_all add: height_key_byte name_key_def append_less_split Uint64ToBigEndian_less
       ScheduledCallByBlockHeightKeyPrefix_def ScheduledCallByNameKeyPrefix_def)

lemma encode_key_inject [simp]: "encode_key a = encode_key b \<longleftrightarrow> a = b"
  by (cases a; cases b) auto

lemma sorted_encode_keys: "sorted_wrt (<) (map encode_key ks) \<longleftrightarrow> sorted_wrt (<) ks"
  by (simp add: sorted_wrt_map)

text \<open>A strictly sorted list of keys is determined by the typed keys it encodes.\<close>

lemma encoded_keys_in_order:
  assumes "sorted_wrt (<) bs" "set bs = encode_key ` A"
  shows "finite A \<and> bs = map encode_key (sorted_list_of_set A)"
proof -
  have "finite (encode_key ` A)" using assms(2) by (metis List.finite_set)
  then have "finite A" by (rule finite_imageD) (simp add: inj_on_def)
  moreover from this have "sorted_wrt (<) (map encode_key (sorted_list_of_set A))"
    unfolding sorted_encode_keys by simp
  ultimately show ?thesis
    using assms by (simp add: strict_sorted_equal)
qed

section \<open>The two indexes of a store\<close>

definition height_index :: "schedule \<Rightarrow> store_key set" where
  "height_index m = {ByHeight h sc |h sc body. m sc = Some (h, body)}"

definition name_index :: "schedule \<Rightarrow> store_key set" where
  "name_index m = ByName ` dom m"

context kv_store
begin

lemma iterate_with_prefix: "sorted_wrt (<) (map (\<lambda>(k, v). p # k) (kv_Iterate K [p] s))"
  using iterate_ascending [of "[p]" s] by (simp add: sorted_wrt_map split_beta)

lemma height_index_in_order:
  assumes "represents K s m"
  shows "finite (height_index m) \<and>
    map (\<lambda>(k, v). ScheduledCallByBlockHeightKeyPrefix # k) (kv_Iterate K [ScheduledCallByBlockHeightKeyPrefix] s)
      = map encode_key (sorted_list_of_set (height_index m))"
proof (rule encoded_keys_in_order [OF iterate_with_prefix], intro set_eqI iffI)
  fix b
  assume "b \<in> set (map (\<lambda>(k, v). ScheduledCallByBlockHeightKeyPrefix # k)
    (kv_Iterate K [ScheduledCallByBlockHeightKeyPrefix] s))"
  then obtain k v where b: "b = ScheduledCallByBlockHeightKeyPrefix # k" and v: "kv_Get K b s = Some v"
    by (auto simp: in_iterate)
  then have "8 \<le> length k"
    using assms by (metis represents_def option.distinct(1) not_le)
  then have key: "b = height_key (word_of_nat (be_val (take 8 k))) (drop 8 k)"
    using Uint64ToBigEndian_be_val [of "take 8 k"] by (simp add: b height_key_byte)
  with v represents_height [OF assms] show "b \<in> encode_key ` height_index m"
    by (fastforce simp: height_index_def image_iff)
next
  fix b
  assume "b \<in> encode_key ` height_index m"
  then obtain h sc body where b: "b = height_key h sc" and m: "m sc = Some (h, body)"
    by (auto simp: height_index_def)
  then have "(Uint64ToBigEndian h @ sc, enc_call body) \<in> set (kv_Iterate K [ScheduledCallByBlockHeightKeyPrefix] s)"
    using represents_height [OF assms, of h sc] by (simp add: in_iterate height_key_byte)
  then show "b \<in> set (map (\<lambda>(k, v). ScheduledCallByBlockHeightKeyPrefix # k)
      (kv_Iterate K [ScheduledCallByBlockHeightKeyPrefix] s))"
    unfolding b height_key_byte by force
qed

lemma name_index_in_order:
  assumes "represents K s m"
  shows "finite (name_index m) \<and>
    map (\<lambda>(k, v). ScheduledCallByNameKeyPrefix # k) (kv_Iterate K [ScheduledCallByNameKeyPrefix] s)
      = map encode_key (sorted_list_of_set (name_index m))"
proof (rule encoded_keys_in_order [OF iterate_with_prefix], intro set_eqI iffI)
  fix b
  assume "b \<in> set (map (\<lambda>(k, v). ScheduledCallByNameKeyPrefix # k)
    (kv_Iterate K [ScheduledCallByNameKeyPrefix] s))"
  then obtain k v where b: "b = name_key k" and "kv_Get K (name_key k) s = Some v"
    by (auto simp: in_iterate name_key_def)
  then show "b \<in> encode_key ` name_index m"
    by (auto simp: represents_name [OF assms] name_index_def image_image image_iff)
next
  fix b
  assume "b \<in> encode_key ` name_index m"
  then obtain sc h body where b: "b = name_key sc" and m: "m sc = Some (h, body)"
    by (auto simp: name_index_def)
  then have "(sc, Uint64ToBigEndian h) \<in> set (kv_Iterate K [ScheduledCallByNameKeyPrefix] s)"
    using represents_name [OF assms, of sc] by (simp add: in_iterate name_key_def)
  then show "b \<in> set (map (\<lambda>(k, v). ScheduledCallByNameKeyPrefix # k)
      (kv_Iterate K [ScheduledCallByNameKeyPrefix] s))"
    unfolding b name_key_def by force
qed

end

end
