(* ===== verification/KeeperProps.thy ===== *)
theory KeeperProps
  imports Samples StoreKeys
begin

text \<open>
  The properties of the keeper's store operations, for every store that meets the contract
  \<open>kv_store\<close>. The witnesses use the stores of \<open>Samples\<close>.
\<close>

section \<open>Keys\<close>

text \<open>Two by-name keys are equal exactly when the concatenations of signer and contract are,
  so for signers of one length the index is injective; without a length prefix, shifting a
  byte from the contract to the signer gives the same key.\<close>
theorem name_keys:
  "(MakeScheduledCallBySignerContractKey s c = MakeScheduledCallBySignerContractKey s' c'
     \<longleftrightarrow> s @ c = s' @ c') \<and>
   (length s = length s' \<longrightarrow>
     (MakeScheduledCallBySignerContractKey s c = MakeScheduledCallBySignerContractKey s' c'
       \<longleftrightarrow> s = s' \<and> c = c')) \<and>
   MakeScheduledCallBySignerContractKey (s @ [b]) c = MakeScheduledCallBySignerContractKey s (b # c)"
  by (simp add: MakeScheduledCallBySignerContractKey_def)

theorem name_keys_witness:
  "MakeScheduledCallBySignerContractKey sample_signer sample_contract
     \<noteq> MakeScheduledCallBySignerContractKey sample_signer sample_signer"
  using name_keys [THEN conjunct2, THEN conjunct1, rule_format, of sample_signer sample_signer]
  by (simp add: sample_signer_def sample_contract_def)

text \<open>C36: The store keeps its entries in the order of the schedule: read from its first key to its
  last, the index by height holds exactly one key for every call, by height and then by signer
  and contract, and the index by name one for every signer and contract that has a call. All
  keys by height come before all keys by name.\<close>
theorem store_keys_in_order:
  assumes "kv_store K" "represents K s m"
  shows "map (\<lambda>(k, v). ScheduledCallByBlockHeightKeyPrefix # k)
      (kv_Iterate K [ScheduledCallByBlockHeightKeyPrefix] s)
      = map encode_key (sorted_list_of_set (height_index m)) \<and>
    map (\<lambda>(k, v). ScheduledCallByNameKeyPrefix # k) (kv_Iterate K [ScheduledCallByNameKeyPrefix] s)
      = map encode_key (sorted_list_of_set (name_index m)) \<and>
    (MakeScheduledCallByBlockHeightKey h sg ct < MakeScheduledCallByBlockHeightKey h' sg' ct'
      \<longleftrightarrow> h < h' \<or> h = h' \<and> sg @ ct < sg' @ ct') \<and>
    MakeScheduledCallByBlockHeightKey h sg ct < MakeScheduledCallBySignerContractKey sg' ct'"
  using kv_store.height_index_in_order [OF assms] kv_store.name_index_in_order [OF assms]
    encode_key_less [of "ByHeight h (sg @ ct)" "ByHeight h' (sg' @ ct')"]
    encode_key_less [of "ByHeight h (sg @ ct)" "ByName (sg' @ ct')"]
  by (simp add: keys_concat del: encode_key_less)

theorem store_keys_in_order_witness:
  "map (\<lambda>(k, v). ScheduledCallByBlockHeightKeyPrefix # k)
      (kv_Iterate kvl [ScheduledCallByBlockHeightKeyPrefix] one_call_store) = [height_key 12 sample_key]"
proof -
  have "height_index one_call = {ByHeight 12 sample_key}"
    by (auto simp: height_index_def one_call_def no_calls_def split: if_splits)
  then show ?thesis
    using store_keys_in_order [OF kvl.kv_store_axioms represents_one] by simp
qed

text \<open>C35: Of the addresses the chain accepts, which have 20 or 32 bytes, the consume loop decodes a
  key correctly exactly when the signer has 20 and does not itself start with the index prefix:
  it reads 20 bytes for every signer, and the iterator has already removed the prefix once when
  \<open>TrimPrefix\<close> removes it again.\<close>
theorem consume_key_decoding:
  assumes "length signer \<in> {20, 32}" "length contract \<in> {20, 32}"
  shows "decode_consume_key h (signer @ contract) = (signer, contract)
    \<longleftrightarrow> length signer = 20 \<and> \<not> prefix (MakeScheduledCallByBlockHeightPrefixKey h) signer"
proof
  assume d: "decode_consume_key h (signer @ contract) = (signer, contract)"
  have short: "length signer = 20"
    using decode_consume_length [OF d] assms(1) by auto
  moreover have "\<not> prefix (MakeScheduledCallByBlockHeightPrefixKey h) signer"
  proof
    assume "prefix (MakeScheduledCallByBlockHeightPrefixKey h) signer"
    then obtain r where "signer = MakeScheduledCallByBlockHeightPrefixKey h @ r"
      by (auto simp: prefix_def)
    then have "length (fst (decode_consume_key h (signer @ contract)))
        + length (snd (decode_consume_key h (signer @ contract))) < 20 + length contract"
      using assms short by (auto simp: decode_consume_key_def TrimPrefix_def buf_Next_def)
    with d short show False by simp
  qed
  ultimately show "length signer = 20 \<and> \<not> prefix (MakeScheduledCallByBlockHeightPrefixKey h) signer" ..
qed (use assms decode_consume_back in auto)

theorem consume_key_decoding_witness:
  "decode_consume_key 5 (sample_signer @ sample_contract) = (sample_signer, sample_contract)
    \<longleftrightarrow> length sample_signer = 20 \<and> \<not> prefix (MakeScheduledCallByBlockHeightPrefixKey 5) sample_signer"
  by (rule consume_key_decoding) (simp_all add: sample_signer_def sample_contract_def)

section \<open>Refinement of the schedule\<close>

text \<open>\<open>AddScheduledCall\<close> refines the update of one entry of the schedule, provided the signer
  has no call on that contract at another height.\<close>
theorem add_refines:
  assumes "kv_store K" "represents K s m"
    and "\<forall>h' body'. m (signer @ contract) = Some (h', body') \<longrightarrow> h' = h"
  shows "\<exists>s'. (AddScheduledCall K signer contract body h s :: (gerror, _) go) = Ret s' \<and>
    represents K s' (m(signer @ contract \<mapsto> (h, body)))"
  using kv_store.AddScheduledCall_represents [OF assms] kv_store.AddScheduledCall_eq [OF assms(1)]
  by metis

theorem add_refines_witness:
  "\<exists>s'. (AddScheduledCall kvl sample_signer sample_contract [7] 12 one_call_store :: (gerror, _) go)
      = Ret s' \<and> represents kvl s' (one_call(sample_signer @ sample_contract \<mapsto> (12, [7])))"
  by (rule add_refines [OF kvl.kv_store_axioms represents_one])
     (simp add: one_call_def sample_key_def)

text \<open>\<open>RemoveScheduledCall\<close> refines the deletion of the entry, whether or not it exists, and
  so undoes \<open>AddScheduledCall\<close> for a signer that had no call.\<close>
theorem remove_refines:
  assumes "kv_store K" "represents K s m"
  shows "\<exists>s'. (RemoveScheduledCall K signer contract s :: (gerror, _) go) = Ret s' \<and>
    represents K s' (m(signer @ contract := None))"
  using kv_store.RemoveScheduledCall_represents [OF assms] .

theorem remove_refines_witness:
  "\<exists>s'. (RemoveScheduledCall kvl sample_signer sample_contract one_call_store :: (gerror, _) go)
      = Ret s' \<and> represents kvl s' (one_call(sample_signer @ sample_contract := None))"
  by (rule remove_refines [OF kvl.kv_store_axioms represents_one])

text \<open>\<open>BlockHeightForSignerContract\<close> gives the height the schedule has for the signer and the
  contract, and 0 when there is none.\<close>
theorem lookup_refines:
  assumes "represents K s m"
  shows "(BlockHeightForSignerContract K signer contract s :: (gerror, _) go)
    = Ret (case m (signer @ contract) of None \<Rightarrow> 0 | Some (h, body) \<Rightarrow> h)"
  using BlockHeightForSignerContract_represents [OF assms] .

theorem lookup_refines_witness:
  "(BlockHeightForSignerContract kvl sample_signer sample_contract one_call_store :: (gerror, _) go)
    = Ret (case one_call (sample_signer @ sample_contract) of None \<Rightarrow> 0 | Some (h, body) \<Rightarrow> h)"
  by (rule lookup_refines [OF represents_one])

text \<open>\<open>ReScheduleCall\<close> does not refine any update: the by-height entry holds the new height
  instead of the call, which does not decode, and no schedule is represented; looking the
  signer up afterwards gives 0 for an empty body and panics for one of 1 to 5 bytes.\<close>
theorem reschedule_breaks:
  assumes "kv_store K" "unat h' < 2 ^ 56"
  shows "\<exists>s'. (ReScheduleCall K signer contract body h h' s :: (gerror, _) go) = Ret s' \<and>
    kv_Get K (MakeScheduledCallByBlockHeightKey h' signer contract) s' = Some (Uint64ToBigEndian h') \<and>
    ScheduledCall_Unmarshal ScheduledCall_zero (Uint64ToBigEndian h') = Inl IllegalTag \<and>
    (\<forall>m. \<not> represents K s' m) \<and>
    (BlockHeightForSignerContract K signer contract s' :: (gerror, _) go)
      = (if body = [] then Ret 0
         else if length body \<le> 5 then Panic IndexOutOfRange
         else BigEndianToUint64 (enc_call body))"
proof -
  obtain s' where run: "(ReScheduleCall K signer contract body h h' s :: (gerror, _) go) = Ret s'"
    using kv_store.ReScheduleCall_eq [OF assms(1)] by metis
  note swapped = kv_store.ReScheduleCall_swaps [OF assms(1) run]
  have "length body \<le> 5 \<Longrightarrow> body \<noteq> [] \<Longrightarrow> length (enc_call body) < 8 \<and> enc_call body \<noteq> []"
    using sov_small [of "word_of_nat (length body)"]
    by (simp add: enc_call_Cons word_less_nat_alt unat_of_nat take_bit_nat_eq_self flip: sov_varint)
  then have "(BlockHeightForSignerContract K signer contract s' :: (gerror, _) go)
      = (if body = [] then Ret 0
         else if length body \<le> 5 then Panic IndexOutOfRange
         else BigEndianToUint64 (enc_call body))"
    using swapped(2)
    by (auto simp: BlockHeightForSignerContract_def keys_concat BigEndianToUint64_def)
  with run swapped(1) height_is_no_call [OF assms(2), of ScheduledCall_zero]
    kv_store.ReScheduleCall_represents_nothing [OF assms(1) run assms(2)]
  show ?thesis by (intro exI [of _ s']) (simp add: keys_concat)
qed

theorem reschedule_breaks_witness:
  "\<exists>s'. (ReScheduleCall kvl sample_signer sample_contract [1, 2, 3] 12 15 one_call_store
      :: (gerror, _) go) = Ret s' \<and>
    kv_Get kvl (MakeScheduledCallByBlockHeightKey 15 sample_signer sample_contract) s'
      = Some (Uint64ToBigEndian 15) \<and>
    ScheduledCall_Unmarshal ScheduledCall_zero (Uint64ToBigEndian 15) = Inl IllegalTag \<and>
    (\<forall>m. \<not> represents kvl s' m) \<and>
    (BlockHeightForSignerContract kvl sample_signer sample_contract s' :: (gerror, _) go)
      = Panic IndexOutOfRange"
  using reschedule_breaks [OF kvl.kv_store_axioms, of 15 sample_signer sample_contract "[1, 2, 3]" 12
      one_call_store] by simp

section \<open>Consuming\<close>

text \<open>C14: \<open>ConsumeScheduledCallsByHeight\<close> hands every call that is due at the height to its callback
  exactly once, with its signer, contract and body, hands over nothing else, and leaves the
  schedule without the due calls and otherwise unchanged.\<close>
theorem consume_delivers:
  assumes "kv_store K" "represents K s m" "decodable m"
  shows "\<exists>s' calls. (ConsumeScheduledCallsByHeight K fst (\<lambda>f (s, l). (f s, l)) h
        (\<lambda>signer contract call (s, l). Ret (False, (s, l @ [(signer, contract, sc_CallBody call)])))
        (s, []) :: (gerror, _) go) = Ret (s', calls) \<and>
    represents K s' (\<lambda>sc. if \<exists>body. m sc = Some (h, body) then None else m sc) \<and>
    distinct calls \<and>
    set calls = {(take 20 sc, drop 20 sc, body) |sc body. m sc = Some (h, body)}"
  using kv_store.consume_records [OF assms] .

theorem consume_delivers_witness:
  "\<exists>s' calls. (ConsumeScheduledCallsByHeight kvl fst (\<lambda>f (s, l). (f s, l)) 12
        (\<lambda>signer contract call (s, l). Ret (False, (s, l @ [(signer, contract, sc_CallBody call)])))
        (one_call_store, []) :: (gerror, _) go) = Ret (s', calls) \<and>
    represents kvl s' (\<lambda>sc. if \<exists>body. one_call sc = Some (12, body) then None else one_call sc) \<and>
    distinct calls \<and>
    set calls = {(take 20 sc, drop 20 sc, body) |sc body. one_call sc = Some (12, body)}"
  by (rule consume_delivers [OF kvl.kv_store_axioms represents_one decodable_one])

text \<open>\<open>countOfScheduledCallsAtHeight\<close> is the number of calls due at the height (modulo 2^64).\<close>
theorem count_is_number_due:
  assumes "kv_store K" "represents K s m"
  shows "countOfScheduledCallsAtHeight K h s = word_of_nat (card {sc. \<exists>body. m sc = Some (h, body)})"
  using kv_store.count_due [OF assms] .

theorem count_is_number_due_witness: "countOfScheduledCallsAtHeight kvl 12 one_call_store = 1"
proof -
  have "{sc. \<exists>body. one_call sc = Some (12, body)} = {sample_key}"
    by (auto simp: one_call_def no_calls_def)
  then show ?thesis
    using count_is_number_due [OF kvl.kv_store_axioms represents_one, of 12] by simp
qed

end
