(* ===== verification/MsgServer.thy ===== *)
theory MsgServer
  imports Chain TxCodec
begin

text \<open>
  \<^verbatim>\<open>keeper/msg_server_add_schedule.go\<close> and \<^verbatim>\<open>keeper/msg_server_remove_schedule.go\<close>. A
  handler that fails returns only the error, because the SDK drops the state of a failed
  transaction.
\<close>

definition AddSchedule ::
  "'s kv_ops \<Rightarrow> 'w env \<Rightarrow> MsgAddSchedule \<Rightarrow> ('s, 'w) chain
    \<Rightarrow> (gerror, MsgAddScheduleResponse \<times> ('s, 'w) chain) go" where
  "AddSchedule K env msg c =
     (if ma_BlockHeight msg \<le> c_height c then Err ErrInvalidScheduledBlockHeight
      else go_bind (GetParams c) (\<lambda>params.
        if ma_BlockHeight msg > c_height c + p_UpperBound params then Err ErrTooFarInFuture
        else case AccAddressFromBech32 env (ma_Signer msg) of
          Inl err \<Rightarrow> Err (TextError err)
        | Inr signer \<Rightarrow> (case AccAddressFromBech32 env (ma_Contract msg) of
            Inl err \<Rightarrow> Err (TextError err)
          | Inr contract \<Rightarrow>
              go_bind (query_is_owner env (c_world c) contract signer) (\<lambda>isOwner.
              if \<not> io_IsOwner isOwner then Err ErrUnauthorized
              else
                let gasMinimum = p_MinimumBalance params;
                    balance = GetBalance env (c_world c) contract (denom gasMinimum)
                in if amount balance < amount gasMinimum then Err ErrUnmetMinimumBalance
                   else
                     go_bind (BlockHeightForSignerContract K signer contract (c_store c)) (\<lambda>existing.
                     go_bind (if existing \<noteq> 0
                         then ReScheduleCall K signer contract (ma_CallBody msg) existing
                                (ma_BlockHeight msg) (c_store c)
                         else AddScheduledCall K signer contract (ma_CallBody msg)
                                (ma_BlockHeight msg) (c_store c)) (\<lambda>store.
                     go_bind (emit env (EvAdd
                         \<lparr>ae_BlockHeight = c_height c, ae_ScheduledHeight = ma_BlockHeight msg,
                          ae_Signer = AccAddress_String env signer,
                          ae_Contract = AccAddress_String env contract,
                          ae_Balance = Some balance, ae_CallBody = ma_CallBody msg\<rparr>)
                         (c\<lparr>c_store := store\<rparr>)) (\<lambda>c'.
                     Ret (MsgAddScheduleResponse, c'))))))))"

definition RemoveSchedule ::
  "'s kv_ops \<Rightarrow> 'w env \<Rightarrow> MsgRemoveSchedule \<Rightarrow> ('s, 'w) chain
    \<Rightarrow> (gerror, MsgRemoveScheduleResponse \<times> ('s, 'w) chain) go" where
  "RemoveSchedule K env msg c =
     (case AccAddressFromBech32 env (mr_Signer msg) of
        Inl err \<Rightarrow> Err (TextError err)
      | Inr signer \<Rightarrow> (case AccAddressFromBech32 env (mr_Contract msg) of
          Inl err \<Rightarrow> Err (TextError err)
        | Inr contract \<Rightarrow>
            go_bind (query_is_owner env (c_world c) contract signer) (\<lambda>isOwner.
            if \<not> io_IsOwner isOwner then Err ErrUnauthorized
            else go_bind (GetParams c) (\<lambda>params.
              let gasMinimum = p_MinimumBalance params;
                  balance = GetBalance env (c_world c) contract (denom gasMinimum)
              in go_bind (RemoveScheduledCall K signer contract (c_store c)) (\<lambda>store.
                 go_bind (emit env (EvRemove
                     \<lparr>re_BlockHeight = c_height c,
                      re_Signer = AccAddress_String env signer,
                      re_Contract = AccAddress_String env contract,
                      re_Balance = Some balance, re_CallBody = []\<rparr>)
                     (c\<lparr>c_store := store\<rparr>)) (\<lambda>c'.
                 Ret (MsgRemoveScheduleResponse, c')))))))"

end
