(* ===== verification/EndBlocker.thy ===== *)
theory EndBlocker
  imports Chain
begin

text \<open>
  \<^verbatim>\<open>keeper/abci.go\<close>: what the module does at the end of a block. The callback of
  \<open>ConsumeScheduledCallsByHeight\<close> is the definition \<open>run_scheduled_call\<close>; each of its
  early \<^verbatim>\<open>return false\<close> is a branch that goes on with the next call.
\<close>

section \<open>Running a contract under its own gas limit\<close>

definition FeeCollectorName :: string where
  "FeeCollectorName = ''fee_collector''"

text \<open>
  The deferred function recovers from \<open>ErrorOutOfGas\<close> alone and raises every other panic
  again. The result is the state of the other modules, \<open>gasConsumed\<close>, \<open>nextBlock\<close> and \<open>err\<close>.
\<close>

definition executeMsgWithGasLimit ::
  "'w env \<Rightarrow> 'w \<Rightarrow> addr \<Rightarrow> byte list \<Rightarrow> u64 \<Rightarrow> ('e, 'w \<times> u64 \<times> u64 \<times> gerror option) go" where
  "executeMsgWithGasLimit env w contract msg gasLimit =
     (let r = Execute env w gasLimit contract contract msg [];
          body = (case ex_out r of
              Panicked p \<Rightarrow> Panic p
            | Returned result err \<Rightarrow>
                go_bind (BigEndianToUint64 result) (\<lambda>nextBlock. Ret (ex_gas r, nextBlock, err)))
      in case body of
           Panic p \<Rightarrow>
             if p = ErrorOutOfGas
             then Ret (ex_world r, gasLimit, 0,
                       Some (Wrapped SdkErrOutOfGas ''scheduled call hit gas limit''))
             else Panic p
         | Ret (gasConsumed, nextBlock, err) \<Rightarrow> Ret (ex_world r, gasConsumed, nextBlock, err)
         | Err e \<Rightarrow> Err e)"

section \<open>One scheduled call\<close>

text \<open>An event that cannot be emitted is only logged here.\<close>

definition emit_or_log :: "'w env \<Rightarrow> event \<Rightarrow> ('s, 'w) chain \<Rightarrow> ('s, 'w) chain" where
  "emit_or_log env ev c = (case emit env ev c of Ret c' \<Rightarrow> c' | _ \<Rightarrow> c)"

text \<open>
  What follows the execution: the event, the second balance check, and the next call at the
  height the contract has returned.
\<close>

definition schedule_next ::
  "'s kv_ops \<Rightarrow> 'w env \<Rightarrow> Params \<Rightarrow> addr \<Rightarrow> addr \<Rightarrow> ScheduledCall \<Rightarrow> u64 \<Rightarrow> ('s, 'w) chain
    \<Rightarrow> (gerror, bool \<times> ('s, 'w) chain) go" where
  "schedule_next K env params signer contract call nextBlock c =
     (let contractBalance = GetBalance env (c_world c) contract (denom (p_MinimumBalance params))
      in go_bind (coin_IsLT contractBalance (p_MinimumBalance params)) (\<lambda>lt.
           if lt then Ret (False, c)
           else if nextBlock \<le> c_height c then Ret (False, c)
           else if nextBlock > c_height c + p_UpperBound params then Ret (False, c)
           else go_bind (AddScheduledCall K signer contract (sc_CallBody call) nextBlock (c_store c))
             (\<lambda>store.
               let c = c\<lparr>c_store := store\<rparr>;
                   addEvent = \<lparr>ae_BlockHeight = c_height c, ae_ScheduledHeight = nextBlock,
                     ae_Signer = AccAddress_String env signer,
                     ae_Contract = AccAddress_String env contract,
                     ae_Balance = Some contractBalance, ae_CallBody = sc_CallBody call\<rparr>
               in Ret (False, emit_or_log env (EvAdd addEvent) c))))"

definition run_scheduled_call ::
  "'s kv_ops \<Rightarrow> 'w env \<Rightarrow> Params \<Rightarrow> addr \<Rightarrow> addr \<Rightarrow> ScheduledCall \<Rightarrow> ('s, 'w) chain
    \<Rightarrow> (gerror, bool \<times> ('s, 'w) chain) go" where
  "run_scheduled_call K env params signer contract call c =
     (case query_is_owner env (c_world c) contract signer of
        Panic p \<Rightarrow> Panic p
      | Err err \<Rightarrow> Ret (False, c)
      | Ret isOwner \<Rightarrow>
          if \<not> io_IsOwner isOwner then Ret (False, c)
          else
            let minimum = p_MinimumBalance params;
                contractBalance = GetBalance env (c_world c) contract (denom minimum)
            in go_bind (coin_IsLT contractBalance minimum) (\<lambda>lt.
              if lt then Ret (False, c)
              else
                go_bind (int_Uint64 (amount contractBalance)) (\<lambda>gasLimit.
                go_bind (executeMsgWithGasLimit env (c_world c) contract (sc_CallBody call) gasLimit)
                  (\<lambda>(w, gasConsumed, nextBlock, err).
                    let gasCoin = \<lparr>denom = denom minimum, amount = int_of_Uint64 gasConsumed\<rparr>;
                        (sendErr, w) =
                          SendCoinsFromAccountToModule env w contract FeeCollectorName [gasCoin];
                        c = c\<lparr>c_world := w\<rparr>
                    in if err \<noteq> None then Ret (False, c)
                       else
                         let executedEvent =
                               \<lparr>ee_BlockHeight = c_height c, ee_Gas = Some gasCoin,
                                ee_Signer = AccAddress_String env signer,
                                ee_Contract = AccAddress_String env contract,
                                ee_BalanceBefore = Some contractBalance,
                                ee_CallBody = sc_CallBody call\<rparr>
                         in schedule_next K env params signer contract call nextBlock
                              (emit_or_log env (EvExecute executedEvent) c)))))"

section \<open>The end of a block\<close>

definition upd_store :: "('s \<Rightarrow> 's) \<Rightarrow> ('s, 'w) chain \<Rightarrow> ('s, 'w) chain" where
  "upd_store f c = c\<lparr>c_store := f (c_store c)\<rparr>"

definition EndBlocker :: "'s kv_ops \<Rightarrow> 'w env \<Rightarrow> ('s, 'w) chain \<Rightarrow> (gerror, ('s, 'w) chain) go" where
  "EndBlocker K env c =
     go_bind (GetParams c) (\<lambda>params.
       ConsumeScheduledCallsByHeight K c_store upd_store (c_height c)
         (run_scheduled_call K env params) c)"

section \<open>What one call does\<close>

lemma emit_or_log_simps [simp]:
  "c_store (emit_or_log env ev c) = c_store c"
  "c_params (emit_or_log env ev c) = c_params c"
  "c_world (emit_or_log env ev c) = c_world c"
  "c_height (emit_or_log env ev c) = c_height c"
  by (simp_all add: emit_or_log_def emit_def split: option.split)

lemma upd_store_simps [simp]:
  "c_store (upd_store f c) = f (c_store c)"
  "c_params (upd_store f c) = c_params c"
  "c_world (upd_store f c) = c_world c"
  "c_height (upd_store f c) = c_height c"
  by (simp_all add: upd_store_def)

lemma run_scheduled_call_cases:
  assumes "run_scheduled_call K env params signer contract call c = Ret (stop, c')"
  obtains (skipped) "\<not> stop" "c' = c"
  | (failed) w where "\<not> stop" "c' = c\<lparr>c_world := w\<rparr>"
  | (ran) w ev nextBlock where
      "schedule_next K env params signer contract call nextBlock
         (emit_or_log env ev (c\<lparr>c_world := w\<rparr>)) = Ret (stop, c')"
proof (cases "query_is_owner env (c_world c) contract signer")
  case (Ret isOwner)
  let ?b = "GetBalance env (c_world c) contract (denom (p_MinimumBalance params))"
  show thesis
  proof (cases "io_IsOwner isOwner \<and> coin_IsLT ?b (p_MinimumBalance params) = (Ret False :: (gerror, bool) go)")
    case True
    with assms Ret obtain g where g: "int_Uint64 (amount ?b) = (Ret g :: (gerror, u64) go)"
      by (auto simp: run_scheduled_call_def Let_def go_simps)
    with assms Ret True obtain w gas nb err where x:
      "executeMsgWithGasLimit env (c_world c) contract (sc_CallBody call) g
         = (Ret (w, gas, nb, err) :: (gerror, _) go)"
      by (auto simp: run_scheduled_call_def Let_def go_simps)
    show thesis
    proof (cases err)
      case None
      with assms Ret True g x show thesis
        by (simp add: run_scheduled_call_def split_beta Let_def, elim ran)
    next
      case (Some e)
      with assms Ret True g x show thesis
        by (intro failed) (auto simp: run_scheduled_call_def split_beta Let_def)
    qed
  next
    case False
    with assms Ret show thesis
      by (intro skipped) (auto simp: run_scheduled_call_def go_simps Let_def split: if_splits)
  qed
qed (use assms skipped in \<open>simp_all add: run_scheduled_call_def\<close>)

context kv_store
begin

text \<open>
  A call either leaves the store as it is or schedules its own body once more, at a height
  that is later than the block and within the bound.
\<close>

lemma schedule_next_effect:
  assumes "schedule_next K env params signer contract call nextBlock c = Ret (stop, c')"
  shows "\<not> stop \<and> c_height c' = c_height c \<and> c_params c' = c_params c \<and>
    (c_store c' = c_store c
     \<or> c_height c < nextBlock \<and> nextBlock \<le> c_height c + p_UpperBound params \<and>
       AddScheduledCall K signer contract (sc_CallBody call) nextBlock (c_store c)
         = (Ret (c_store c') :: (gerror, 's) go))"
  using assms
  by (auto simp: schedule_next_def go_simps Let_def AddScheduledCall_eq split: if_splits)

lemma run_scheduled_call_effect:
  assumes "run_scheduled_call K env params signer contract call c = Ret (stop, c')"
  shows "\<not> stop \<and> c_height c' = c_height c \<and> c_params c' = c_params c \<and>
    (c_store c' = c_store c
     \<or> (\<exists>nextBlock. c_height c < nextBlock \<and> nextBlock \<le> c_height c + p_UpperBound params \<and>
          AddScheduledCall K signer contract (sc_CallBody call) nextBlock (c_store c)
            = (Ret (c_store c') :: (gerror, 's) go)))"
  using assms
proof (cases rule: run_scheduled_call_cases)
  case (ran w ev nextBlock)
  then show ?thesis using schedule_next_effect [OF ran] by auto
qed simp_all

end

end
