(* ===== verification/Module.thy ===== *)
theory Module
  imports MsgServer EndBlocker QueryCodec
begin

text \<open>
  How the module is wired to the application: the queries (\<^verbatim>\<open>grpc_query_params.go\<close>,
  \<^verbatim>\<open>grpc_query_scheduled_calls.go\<close>), genesis (\<^verbatim>\<open>genesis.go\<close>), the message handler
  (\<^verbatim>\<open>handler.go\<close>), the codec registrations (\<^verbatim>\<open>types/codec.go\<close>) and \<^verbatim>\<open>module.go\<close>.
\<close>

section \<open>Queries\<close>

definition Params_query ::
  "QueryParamsRequest option \<Rightarrow> ('s, 'w) chain \<Rightarrow> (gerror, QueryParamsResponse) go" where
  "Params_query req c =
     (case req of
        None \<Rightarrow> Err (GrpcInvalidArgument ''invalid request'')
      | Some _ \<Rightarrow> go_bind (GetParams c) (\<lambda>params. Ret \<lparr>qp_Params = params\<rparr>))"

definition append_call ::
  "'w env \<Rightarrow> u64 \<Rightarrow> addr \<Rightarrow> addr \<Rightarrow> ScheduledCall \<Rightarrow> QueryScheduledCall list
    \<Rightarrow> bool \<times> QueryScheduledCall list" where
  "append_call env height signer contract call scheduledCalls =
     (let scheduledCall = \<lparr>qc_Contract = AccAddress_String env contract,
            qc_CallBody = sc_CallBody call, qc_Height = height, qc_Signer = signer\<rparr>
      in (False, scheduledCalls @ [scheduledCall]))"

definition ScheduledCalls ::
  "'s kv_ops \<Rightarrow> 'w env \<Rightarrow> QueryScheduledCallsRequest option \<Rightarrow> ('s, 'w) chain
    \<Rightarrow> (gerror, QueryScheduledCallsResponse) go" where
  "ScheduledCalls K env req c =
     (case req of
        None \<Rightarrow> Err (GrpcInvalidArgument ''invalid request'')
      | Some _ \<Rightarrow>
          go_bind (iterateScheduledCalls K (append_call env) (c_store c) []) (\<lambda>scheduledCalls.
            Ret \<lparr>qr_Calls = scheduledCalls\<rparr>))"

section \<open>Genesis\<close>

definition InitGenesis :: "'w env \<Rightarrow> GenesisState \<Rightarrow> ('s, 'w) chain \<Rightarrow> (gerror, ('s, 'w) chain) go" where
  "InitGenesis env genState c = SetParams env (gs_Params genState) c"

definition ExportGenesis :: "('s, 'w) chain \<Rightarrow> (gerror, GenesisState) go" where
  "ExportGenesis c =
     (let genesis = DefaultGenesis
      in go_bind (GetParams c) (\<lambda>params. Ret (genesis\<lparr>gs_Params := params\<rparr>)))"

section \<open>Messages\<close>

text \<open>A transaction message, with its Go type: the two of this module, or another.\<close>

datatype sdk_msg =
    MAddSchedule MsgAddSchedule
  | MRemoveSchedule MsgRemoveSchedule
  | MOther string

datatype handler_result = ResAddSchedule MsgAddScheduleResponse

definition go_type :: "sdk_msg \<Rightarrow> string" where
  "go_type msg =
     (case msg of
        MAddSchedule _ \<Rightarrow> ''*types.MsgAddSchedule''
      | MRemoveSchedule _ \<Rightarrow> ''*types.MsgRemoveSchedule''
      | MOther t \<Rightarrow> t)"

definition NewHandler ::
  "'s kv_ops \<Rightarrow> 'w env \<Rightarrow> sdk_msg \<Rightarrow> ('s, 'w) chain
    \<Rightarrow> (gerror, handler_result \<times> ('s, 'w) chain) go" where
  "NewHandler K env msg c =
     (let c = c\<lparr>c_events := []\<rparr>
      in case msg of
           MAddSchedule msg \<Rightarrow>
             go_bind (AddSchedule K env msg c) (\<lambda>(res, c'). Ret (ResAddSchedule res, c'))
         | _ \<Rightarrow>
             Err (Wrapped SdkErrUnknownRequest
               (''unrecognized '' @ ModuleName @ '' message type: '' @ go_type msg)))"

text \<open>
  The registrations: the amino name of a message, the implementations of \<^verbatim>\<open>sdk.Msg\<close>, and the
  gRPC services the module offers to the configurator.
\<close>

definition RegisterCodec :: "(string \<times> string) list \<Rightarrow> (string \<times> string) list" where
  "RegisterCodec cdc = cdc @ [(''*types.MsgAddSchedule'', ''schedule/AddSchedule'')]"

text \<open>
  The methods of the generated service descriptor with their request types.
  \<^verbatim>\<open>msgservice.RegisterMsgServiceDesc\<close> registers the request types of a service as messages.
\<close>

definition Msg_serviceDesc :: "(string \<times> string) list" where
  "Msg_serviceDesc =
     [(''AddSchedule'', ''*types.MsgAddSchedule''), (''RemoveSchedule'', ''*types.MsgRemoveSchedule'')]"

definition RegisterInterfaces :: "string list \<Rightarrow> string list" where
  "RegisterInterfaces registry =
     (let registry = registry @ [''*types.MsgAddSchedule'']
      in registry @ map snd Msg_serviceDesc)"

datatype service = QueryService | MsgService

definition RegisterServices :: "service list \<Rightarrow> service list" where
  "RegisterServices cfg = cfg @ [QueryService]"

section \<open>The application module\<close>

definition AppModuleBasic_Name :: string where
  "AppModuleBasic_Name = ModuleName"

definition AppModule_Name :: string where
  "AppModule_Name = AppModuleBasic_Name"

definition AppModule_Route :: string where
  "AppModule_Route = RouterKey"

definition AppModule_QuerierRoute :: string where
  "AppModule_QuerierRoute = QuerierRoute"

definition ConsensusVersion :: u64 where
  "ConsensusVersion = 2"

definition ValidateGenesis ::
  "('j \<Rightarrow> string + GenesisState) \<Rightarrow> 'w env \<Rightarrow> 'j \<Rightarrow> (gerror, unit) go" where
  "ValidateGenesis UnmarshalJSON env bz =
     (case UnmarshalJSON bz of
        Inl err \<Rightarrow>
          Err (TextError (''failed to unmarshal '' @ ModuleName @ '' genesis state: '' @ err))
      | Inr genState \<Rightarrow> GenesisState_Validate (ValidateDenom env) (AccAddressFromBech32 env) genState)"

definition AppModule_InitGenesis ::
  "('j \<Rightarrow> string + GenesisState) \<Rightarrow> 'w env \<Rightarrow> 'j \<Rightarrow> ('s, 'w) chain
    \<Rightarrow> (gerror, 'v list \<times> ('s, 'w) chain) go" where
  "AppModule_InitGenesis UnmarshalJSON env gs c =
     (case UnmarshalJSON gs of
        Inl err \<Rightarrow> Panic (ForeignPanic err)
      | Inr genState \<Rightarrow> go_bind (InitGenesis env genState c) (\<lambda>c'. Ret ([], c')))"

definition AppModule_ExportGenesis ::
  "(GenesisState \<Rightarrow> 'j) \<Rightarrow> ('s, 'w) chain \<Rightarrow> (gerror, 'j) go" where
  "AppModule_ExportGenesis MarshalJSON c =
     go_bind (ExportGenesis c) (\<lambda>genState. Ret (MarshalJSON genState))"

definition BeginBlock :: "('s, 'w) chain \<Rightarrow> ('s, 'w) chain" where
  "BeginBlock c = c"

definition EndBlock ::
  "'s kv_ops \<Rightarrow> 'w env \<Rightarrow> ('s, 'w) chain \<Rightarrow> (gerror, 'v list \<times> ('s, 'w) chain) go" where
  "EndBlock K env c = go_bind (EndBlocker K env c) (\<lambda>c'. Ret ([], c'))"

end
