(* ===== verification/BlockSpec.thy ===== *)
theory BlockSpec
  imports EndBlocker
begin

text \<open>
  What the end of a block does to the schedule that the store represents, when it gets
  through, and when it panics.
\<close>

section \<open>The schedule before and after\<close>

text \<open>
  The entry of one signer and contract: a due call is gone or scheduled once more with the
  same body, later and within the bound; any other entry is untouched.
\<close>

definition after_block_at ::
  "u64 \<Rightarrow> u64 \<Rightarrow> (u64 \<times> byte list) option \<Rightarrow> (u64 \<times> byte list) option \<Rightarrow> bool" where
  "after_block_at h ub e e' \<longleftrightarrow>
     (case e of
        None \<Rightarrow> e' = None
      | Some (h0, body) \<Rightarrow>
          if h0 \<noteq> h then e' = e
          else (case e' of
                  None \<Rightarrow> True
                | Some (h', body') \<Rightarrow> body' = body \<and> h < h' \<and> h' \<le> h + ub))"

definition after_block :: "u64 \<Rightarrow> u64 \<Rightarrow> schedule \<Rightarrow> schedule \<Rightarrow> bool" where
  "after_block h ub m m' \<longleftrightarrow> (\<forall>sc. after_block_at h ub (m sc) (m' sc))"

lemma after_block_at_other: "\<forall>body. e \<noteq> Some (h, body) \<Longrightarrow> after_block_at h ub e e"
  by (auto simp: after_block_at_def split: option.split)

lemma after_block_not_due: "after_block h ub m m' \<Longrightarrow> m' sc \<noteq> Some (h, body)"
proof
  assume "after_block h ub m m'" "m' sc = Some (h, body)"
  then have "after_block_at h ub (m sc) (Some (h, body))" by (metis after_block_def)
  then show False by (cases "m sc") (auto simp: after_block_at_def split: if_splits)
qed

text \<open>
  What holds while the due entries \<open>rest\<close> are still to come: they are as at the start, the
  others are as the block leaves them.
\<close>

definition consume_inv ::
  "'s kv_ops \<Rightarrow> u64 \<Rightarrow> u64 \<Rightarrow> schedule \<Rightarrow> (byte list \<times> byte list) list \<Rightarrow> ('s, 'w) chain \<Rightarrow> bool" where
  "consume_inv K h ub m rest c \<longleftrightarrow>
     c_height c = h \<and> distinct (map fst rest) \<and>
     (\<forall>(k, bz) \<in> set rest. \<exists>body. m k = Some (h, body) \<and> bz = enc_call body) \<and>
     (\<exists>m'. represents K (c_store c) m' \<and>
        (\<forall>sc. if sc \<in> fst ` set rest then m' sc = m sc else after_block_at h ub (m sc) (m' sc)))"

lemma consume_inv_entry:
  assumes "consume_inv K h ub m ((key, bz) # rest) c" "decodable m"
  obtains body where "m key = Some (h, body)" "bz = enc_call body"
    "decode_consume_key h key = (take 20 key, drop 20 key)"
    "ScheduledCall_Unmarshal ScheduledCall_zero bz = Inr \<lparr>sc_CallBody = body\<rparr>"
proof -
  from assms(1) obtain body where b: "m key = Some (h, body)" "bz = enc_call body"
    by (auto simp: consume_inv_def)
  moreover from b(1) assms(2) have "length (enc_call body) < 2 ^ 63"
    by (simp add: decodable_def)
  ultimately show thesis
    using that decodable_consume [OF assms(2) b(1)] ScheduledCall_Unmarshal_enc by simp
qed

section \<open>What keeps the other modules from making it panic\<close>

text \<open>
  Documented behaviour of the bank and wasm keepers: a balance has the denomination asked
  for. And what is not guaranteed by them: every balance fits 64 bits, queries do not panic,
  a contract panics only by running out of gas, and returns no result of one to seven bytes.
\<close>

definition benign :: "'w env \<Rightarrow> Params \<Rightarrow> bool" where
  "benign env params \<longleftrightarrow>
     (\<forall>w contract req. \<not> panics (QuerySmart env w contract req)) \<and>
     (\<forall>w contract. denom (GetBalance env w contract (denom (p_MinimumBalance params)))
                      = denom (p_MinimumBalance params) \<and>
                   0 \<le> amount (GetBalance env w contract (denom (p_MinimumBalance params))) \<and>
                   amount (GetBalance env w contract (denom (p_MinimumBalance params))) < 2 ^ 64) \<and>
     (\<forall>w gasLimit contract caller msg coins.
        case ex_out (Execute env w gasLimit contract caller msg coins) of
          Panicked p \<Rightarrow> p = ErrorOutOfGas
        | Returned result err \<Rightarrow> result = [] \<or> 8 \<le> length result)"

lemma executeMsg_total:
  assumes "benign env params"
  shows "\<exists>w' gas nb err. executeMsgWithGasLimit env w contract msg g
    = (Ret (w', gas, nb, err) :: ('e, _) go)"
proof -
  let ?o = "ex_out (Execute env w g contract contract msg [])"
  have "case ?o of Panicked p \<Rightarrow> p = ErrorOutOfGas
      | Returned result err \<Rightarrow> result = [] \<or> 8 \<le> length result"
    using assms unfolding benign_def by blast
  then show ?thesis
    by (cases ?o) (auto simp: executeMsgWithGasLimit_def BigEndianToUint64_def Let_def)
qed

lemma benign_query: "benign env params \<Longrightarrow> query_is_owner env w contract signer \<noteq> Panic p"
proof -
  assume "benign env params"
  then have "\<not> panics (QuerySmart env w contract (json_Marshal_isOwner (AccAddress_String env signer)))"
    unfolding benign_def by blast
  then show ?thesis
    by (cases "QuerySmart env w contract (json_Marshal_isOwner (AccAddress_String env signer))")
       (auto simp: query_is_owner_def Let_def split: sum.split)
qed

lemma executeMsg_no_error: "executeMsgWithGasLimit env w contract msg g \<noteq> Err e"
  by (auto simp: executeMsgWithGasLimit_def BigEndianToUint64_def Let_def split: exec_out.split)

context kv_store
begin

lemma consume_inv_start:
  assumes "represents K (c_store c) m" "c_height c = h"
  shows "consume_inv K h ub m (kv_Iterate K (MakeScheduledCallByBlockHeightPrefixKey h) (c_store c)) c"
proof -
  let ?iter = "kv_Iterate K (MakeScheduledCallByBlockHeightPrefixKey h) (c_store c)"
  have "after_block_at h ub (m sc) (m sc)" if "sc \<notin> fst ` set ?iter" for sc
  proof (rule after_block_at_other, rule allI, rule notI)
    fix body
    assume "m sc = Some (h, body)"
    then have "(sc, enc_call body) \<in> set ?iter"
      using iterate_at_height [OF assms(1)] by blast
    with that show False by force
  qed
  then show ?thesis
    using assms iterate_distinct iterate_at_height [OF assms(1)]
    by (auto simp: consume_inv_def)
qed

lemma consume_inv_turn:
  assumes inv: "consume_inv K h ub m ((key, bz) # rest) c" and dec: "decodable m"
    and ub: "p_UpperBound params = ub"
    and d: "decode_consume_key h key = (signer, contract)"
    and call: "ScheduledCall_Unmarshal ScheduledCall_zero bz = Inr call"
    and run: "run_scheduled_call K env params signer contract call
      (upd_store (removeScheduledCallWithBlockHeight K signer contract h) c) = Ret (stop, c')"
  shows "\<not> stop \<and> consume_inv K h ub m rest c'"
proof -
  from consume_inv_entry [OF inv dec] obtain body where
    body: "m key = Some (h, body)" "call = \<lparr>sc_CallBody = body\<rparr>" "signer @ contract = key"
    using d call by (metis Inr_inject append_take_drop_id prod.inject)
  from inv obtain m' where rep: "represents K (c_store c) m'" and m': "m' key = m key"
    and rest: "\<forall>sc. if sc \<in> insert key (fst ` set rest) then m' sc = m sc
      else after_block_at h ub (m sc) (m' sc)"
    by (auto simp: consume_inv_def)
  let ?s = "removeScheduledCallWithBlockHeight K signer contract h (c_store c)"
  have removed: "represents K ?s (m'(key := None))"
    using remove_with_height_represents [OF rep, of signer contract h] body m' by simp
  note eff = run_scheduled_call_effect [OF run, simplified]
  have step: "consume_inv K h ub m rest c'"
    if "represents K (c_store c') (m'(key := e))" "after_block_at h ub (m key) e" for e
  proof -
    have "key \<notin> fst ` set rest" using inv by (auto simp: consume_inv_def)
    then have "\<forall>sc. if sc \<in> fst ` set rest then (m'(key := e)) sc = m sc
        else after_block_at h ub (m sc) ((m'(key := e)) sc)"
      using rest that(2) by auto
    with that(1) have "\<exists>m'. represents K (c_store c') m' \<and> (\<forall>sc. if sc \<in> fst ` set rest
        then m' sc = m sc else after_block_at h ub (m sc) (m' sc))" by blast
    then show ?thesis using inv eff unfolding consume_inv_def by auto
  qed
  from eff consider "c_store c' = ?s"
    | nb where "h < nb" "nb \<le> h + ub"
      "AddScheduledCall K signer contract body nb ?s = (Ret (c_store c') :: (gerror, _) go)"
    using inv ub body(2) by (auto simp: consume_inv_def)
  then show ?thesis
  proof cases
    case 1
    then show ?thesis
      using step [of None] removed body(1) eff by (simp add: after_block_at_def)
  next
    case (2 nb)
    have "represents K (c_store c') (m'(key \<mapsto> (nb, body)))"
      using AddScheduledCall_represents [OF removed _ 2(3)] body(3) by simp
    then show ?thesis
      using step [of "Some (nb, body)"] 2 body(1) eff by (simp add: after_block_at_def)
  qed
qed

theorem EndBlocker_effect:
  assumes rep: "represents K (c_store c) m" and dec: "decodable m"
    and params: "GetParams c = (Ret params :: (gerror, Params) go)"
    and run: "EndBlocker K env c = Ret c'"
  shows "\<exists>m'. represents K (c_store c') m' \<and> after_block (c_height c) (p_UpperBound params) m m'"
proof -
  let ?inv = "consume_inv K (c_height c) (p_UpperBound params) m"
  have "consume_loop K upd_store (c_height c) (run_scheduled_call K env params)
      (kv_Iterate K (MakeScheduledCallByBlockHeightPrefixKey (c_height c)) (c_store c)) c = Ret c'"
    using run params by (simp add: EndBlocker_def ConsumeScheduledCallsByHeight_def)
  then have "?inv [] c'"
  proof (rule consume_loop_rule [where I = ?inv])
    show "?inv (kv_Iterate K (MakeScheduledCallByBlockHeightPrefixKey (c_height c)) (c_store c)) c"
      by (rule consume_inv_start [OF rep]) simp
  qed (rule consume_inv_turn [OF _ dec refl])
  then show ?thesis by (auto simp: consume_inv_def after_block_def)
qed

section \<open>When the block gets through\<close>

lemma schedule_next_total:
  assumes "denom (GetBalance env (c_world c) contract (denom (p_MinimumBalance params)))
    = denom (p_MinimumBalance params)"
  shows "\<exists>c'. schedule_next K env params signer contract call nextBlock c = Ret (False, c')"
  using assms by (simp add: schedule_next_def coin_IsLT_def AddScheduledCall_eq Let_def)

lemma run_scheduled_call_total:
  assumes "benign env params"
  shows "\<exists>c'. run_scheduled_call K env params signer contract call c = Ret (False, c')"
proof (cases "query_is_owner env (c_world c) contract signer")
  case (Panic p)
  then show ?thesis using benign_query [OF assms] by metis
next
  case (Ret isOwner)
  let ?b = "GetBalance env (c_world c) contract (denom (p_MinimumBalance params))"
  have b: "denom ?b = denom (p_MinimumBalance params)" "0 \<le> amount ?b" "amount ?b < 2 ^ 64"
    using assms by (auto simp: benign_def)
  obtain w gas nb err where x: "executeMsgWithGasLimit env (c_world c) contract (sc_CallBody call)
      (word_of_int (amount ?b)) = (Ret (w, gas, nb, err) :: (gerror, _) go)"
    using executeMsg_total [OF assms] by metis
  show ?thesis
  proof (cases "\<not> io_IsOwner isOwner \<or> amount ?b < amount (p_MinimumBalance params) \<or> err \<noteq> None")
    case True
    then show ?thesis
      using Ret b x by (auto simp: run_scheduled_call_def coin_IsLT_def int_Uint64_def split_beta Let_def)
  next
    case False
    with Ret b x assms show ?thesis
      by (auto simp: run_scheduled_call_def coin_IsLT_def int_Uint64_def split_beta Let_def
          benign_def intro: schedule_next_total)
  qed
qed (simp add: run_scheduled_call_def)

theorem EndBlocker_total:
  fixes c :: "('s, 'b) chain"
  assumes rep: "represents K (c_store c) m" and dec: "decodable m"
    and params: "GetParams c = (Ret params :: (gerror, Params) go)" and env: "benign env params"
  shows "\<exists>c'. EndBlocker K env c = Ret c'"
proof -
  let ?h = "c_height c" and ?inv = "consume_inv K (c_height c) (p_UpperBound params) m"
  have "\<exists>c'. consume_loop K upd_store ?h (run_scheduled_call K env params)
      (kv_Iterate K (MakeScheduledCallByBlockHeightPrefixKey ?h) (c_store c)) c = Ret c' \<and> ?inv [] c'"
  proof (rule consume_loop_total)
    show "?inv (kv_Iterate K (MakeScheduledCallByBlockHeightPrefixKey ?h) (c_store c)) c"
      by (rule consume_inv_start [OF rep]) simp
  next
    fix key bz rest signer contract and d :: "('s, 'b) chain"
    assume i: "?inv ((key, bz) # rest) d" and k: "decode_consume_key ?h key = (signer, contract)"
    from consume_inv_entry [OF i dec] obtain call where
      u: "ScheduledCall_Unmarshal ScheduledCall_zero bz = Inr call" by metis
    obtain d' where r: "run_scheduled_call K env params signer contract call
        (upd_store (removeScheduledCallWithBlockHeight K signer contract ?h) d) = Ret (False, d')"
      using run_scheduled_call_total [OF env] by metis
    show "\<exists>call d'. ScheduledCall_Unmarshal ScheduledCall_zero bz = Inr call \<and>
        run_scheduled_call K env params signer contract call
          (upd_store (removeScheduledCallWithBlockHeight K signer contract ?h) d) = Ret (False, d')
        \<and> ?inv rest d'"
      using u r consume_inv_turn [OF i dec refl k u r] by blast
  qed
  then show ?thesis
    using params by (auto simp: EndBlocker_def ConsumeScheduledCallsByHeight_def)
qed

section \<open>When the block panics\<close>

lemma run_never_stops: "run_scheduled_call K env params signer contract call c \<noteq> Ret (True, c')"
  using run_scheduled_call_effect [of env params signer contract call c True c'] by auto

lemma run_goes_on: "run_scheduled_call K env params signer contract call c = Ret (stop, c') \<Longrightarrow> \<not> stop"
  using run_scheduled_call_effect by blast

lemma run_never_errs: "run_scheduled_call K env params signer contract call c \<noteq> Err e"
  by (auto simp: run_scheduled_call_def schedule_next_def coin_IsLT_def int_Uint64_def
      executeMsg_no_error AddScheduledCall_eq go_simps split_beta Let_def split: go.splits if_splits)

theorem EndBlocker_panics_on_entry:
  assumes "GetParams c = (Ret params :: (gerror, Params) go)"
    and "kv_Get K (height_key (c_height c) sc) (c_store c) = Some bz"
    and "ScheduledCall_Unmarshal ScheduledCall_zero bz = Inl e"
  shows "panics (EndBlocker K env c)"
proof -
  have "(sc, bz) \<in> set (kv_Iterate K (MakeScheduledCallByBlockHeightPrefixKey (c_height c)) (c_store c))"
    using assms(2) by (simp add: in_iterate height_key_def)
  then have "panics (consume_loop K upd_store (c_height c) (run_scheduled_call K env params)
      (kv_Iterate K (MakeScheduledCallByBlockHeightPrefixKey (c_height c)) (c_store c)) c)"
    by (rule consume_loop_panics [OF _ assms(3) run_never_stops run_never_errs])
  with assms(1) show ?thesis
    by (simp add: EndBlocker_def ConsumeScheduledCallsByHeight_def)
qed

section \<open>What the block cannot reach\<close>

text \<open>
  The loop takes at most 52 bytes of a key for the signer and the contract, so an entry under
  a longer one is never removed, nor written by the call that comes next.
\<close>

lemma EndBlocker_long_keys:
  assumes "EndBlocker K env c = Ret c'" "52 < length sc"
  shows "kv_Get K (height_key h sc) (c_store c') = kv_Get K (height_key h sc) (c_store c) \<and>
    kv_Get K (name_key sc) (c_store c') = kv_Get K (name_key sc) (c_store c)"
proof -
  let ?same = "\<lambda>c c'. kv_Get K (height_key h sc) (c_store c') = kv_Get K (height_key h sc) (c_store c) \<and>
    kv_Get K (name_key sc) (c_store c') = kv_Get K (name_key sc) (c_store c)"
  from assms(1) obtain params where
    run: "consume_loop K upd_store (c_height c) (run_scheduled_call K env params)
      (kv_Iterate K (MakeScheduledCallByBlockHeightPrefixKey (c_height c)) (c_store c)) c = Ret c'"
    by (auto simp: EndBlocker_def ConsumeScheduledCallsByHeight_def go_simps)
  show "?same c c'"
  proof (rule consume_loop_keeps [OF run run_goes_on])
    fix key s t call c0 stop c1
    assume d: "decode_consume_key (c_height c) key = (s, t)"
      and turn: "run_scheduled_call K env params s t call
        (upd_store (removeScheduledCallWithBlockHeight K s t (c_height c)) c0) = Ret (stop, c1)"
    have "sc \<noteq> s @ t" using decode_consume_length [OF d] assms(2) by auto
    with run_scheduled_call_effect [OF turn] show "?same c0 c1"
      by (auto simp: AddScheduledCall_eq remove_with_height_eq get_set get_delete
          dest!: sym [of "kv_Set K _ _ _"])
  qed (auto simp: reflp_def transp_def)
qed

end

end
