(* ===== verification/HandlerSpec.thy ===== *)
theory HandlerSpec
  imports MsgServer Module BlockSpec
begin

text \<open>
  What the message handlers and the queries do to, and see of, the schedule the store
  represents.
\<close>

section \<open>AddSchedule\<close>

text \<open>The ways through \<open>AddSchedule\<close>, up to the write.\<close>

lemma AddSchedule_cases:
  assumes "AddSchedule K env msg c = Ret (r, c')"
  obtains params signer contract isOwner existing store where
    "c_height c < ma_BlockHeight msg"
    "GetParams c = (Ret params :: (gerror, Params) go)"
    "ma_BlockHeight msg \<le> c_height c + p_UpperBound params"
    "AccAddressFromBech32 env (ma_Signer msg) = Inr signer"
    "AccAddressFromBech32 env (ma_Contract msg) = Inr contract"
    "query_is_owner env (c_world c) contract signer = Ret isOwner" "io_IsOwner isOwner"
    "amount (p_MinimumBalance params)
      \<le> amount (GetBalance env (c_world c) contract (denom (p_MinimumBalance params)))"
    "BlockHeightForSignerContract K signer contract (c_store c) = (Ret existing :: (gerror, u64) go)"
    "(if existing \<noteq> 0
      then ReScheduleCall K signer contract (ma_CallBody msg) existing (ma_BlockHeight msg) (c_store c)
      else AddScheduledCall K signer contract (ma_CallBody msg) (ma_BlockHeight msg) (c_store c))
        = (Ret store :: (gerror, _) go)"
    "c_store c' = store" "c_world c' = c_world c" "c_params c' = c_params c" "c_height c' = c_height c"
    "c_events c' = c_events c @ [EvAdd
       \<lparr>ae_BlockHeight = c_height c, ae_ScheduledHeight = ma_BlockHeight msg,
        ae_Signer = AccAddress_String env signer, ae_Contract = AccAddress_String env contract,
        ae_Balance = Some (GetBalance env (c_world c) contract (denom (p_MinimumBalance params))),
        ae_CallBody = ma_CallBody msg\<rparr>]"
proof -
  from assms have h: "\<not> ma_BlockHeight msg \<le> c_height c"
    by (auto simp: AddSchedule_def split: if_splits)
  with assms obtain params where p: "GetParams c = (Ret params :: (gerror, Params) go)"
    by (auto simp: AddSchedule_def go_simps)
  with assms h have u: "\<not> ma_BlockHeight msg > c_height c + p_UpperBound params"
    by (auto simp: AddSchedule_def split: if_splits)
  with assms h p obtain signer contract where
    a: "AccAddressFromBech32 env (ma_Signer msg) = Inr signer"
      "AccAddressFromBech32 env (ma_Contract msg) = Inr contract"
    by (auto simp: AddSchedule_def split: sum.splits)
  with assms h p u obtain isOwner where
    o: "query_is_owner env (c_world c) contract signer = Ret isOwner" "io_IsOwner isOwner"
    by (auto simp: AddSchedule_def go_simps split: if_splits)
  let ?b = "GetBalance env (c_world c) contract (denom (p_MinimumBalance params))"
  from assms h p u a o have m: "\<not> amount ?b < amount (p_MinimumBalance params)"
    by (auto simp: AddSchedule_def Let_def split: if_splits)
  with assms h p u a o obtain existing store where e:
    "BlockHeightForSignerContract K signer contract (c_store c) = (Ret existing :: (gerror, u64) go)"
    "(if existing \<noteq> 0
      then ReScheduleCall K signer contract (ma_CallBody msg) existing (ma_BlockHeight msg) (c_store c)
      else AddScheduledCall K signer contract (ma_CallBody msg) (ma_BlockHeight msg) (c_store c))
        = (Ret store :: (gerror, _) go)"
    by (auto simp: AddSchedule_def Let_def go_simps)
  show thesis
    using assms h p u a o m e
    by (intro that [OF _ p _ a o _ e]) (auto simp: AddSchedule_def Let_def go_simps emit_Ret)
qed

section \<open>RemoveSchedule\<close>

lemma RemoveSchedule_cases:
  assumes "RemoveSchedule K env msg c = Ret (r, c')"
  obtains params signer contract isOwner store where
    "AccAddressFromBech32 env (mr_Signer msg) = Inr signer"
    "AccAddressFromBech32 env (mr_Contract msg) = Inr contract"
    "query_is_owner env (c_world c) contract signer = Ret isOwner" "io_IsOwner isOwner"
    "GetParams c = (Ret params :: (gerror, Params) go)"
    "RemoveScheduledCall K signer contract (c_store c) = (Ret store :: (gerror, _) go)"
    "c_store c' = store" "c_world c' = c_world c" "c_params c' = c_params c" "c_height c' = c_height c"
proof -
  from assms obtain signer contract where
    a: "AccAddressFromBech32 env (mr_Signer msg) = Inr signer"
      "AccAddressFromBech32 env (mr_Contract msg) = Inr contract"
    by (auto simp: RemoveSchedule_def split: sum.splits)
  with assms obtain isOwner where
    o: "query_is_owner env (c_world c) contract signer = Ret isOwner" "io_IsOwner isOwner"
    by (auto simp: RemoveSchedule_def go_simps split: if_splits)
  with assms a obtain params where p: "GetParams c = (Ret params :: (gerror, Params) go)"
    by (auto simp: RemoveSchedule_def go_simps)
  with assms a o obtain store where
    e: "RemoveScheduledCall K signer contract (c_store c) = (Ret store :: (gerror, _) go)"
    by (auto simp: RemoveSchedule_def Let_def go_simps)
  show thesis
    using assms a o p e
    by (intro that [OF a o p e]) (auto simp: RemoveSchedule_def Let_def go_simps emit_Ret)
qed

context kv_store
begin

section \<open>The handlers on the schedule\<close>

lemma scheduled_height:
  assumes "represents K s m"
  shows "(BlockHeightForSignerContract K signer contract s :: (gerror, u64) go)
    = Ret (case m (signer @ contract) of None \<Rightarrow> 0 | Some (h, body) \<Rightarrow> h)"
  by (rule BlockHeightForSignerContract_represents [OF assms])

lemma AddSchedule_fresh:
  assumes rep: "represents K (c_store c) m"
    and run: "AddSchedule K env msg c = Ret (r, c')"
    and s: "AccAddressFromBech32 env (ma_Signer msg) = Inr signer"
    and t: "AccAddressFromBech32 env (ma_Contract msg) = Inr contract"
    and new: "m (signer @ contract) = None"
  shows "represents K (c_store c') (m(signer @ contract \<mapsto> (ma_BlockHeight msg, ma_CallBody msg)))"
  using run
proof (cases rule: AddSchedule_cases)
  case (1 params s' t' isOwner existing store)
  with s t have e: "s' = signer" "t' = contract" by simp_all
  with 1 new have "existing = 0"
    using scheduled_height [OF rep, of signer contract] by simp
  with 1 e show ?thesis
    using AddScheduledCall_represents [OF rep, of signer contract] new by simp
qed

lemma AddSchedule_again:
  assumes rep: "represents K (c_store c) m"
    and run: "AddSchedule K env msg c = Ret (r, c')"
    and s: "AccAddressFromBech32 env (ma_Signer msg) = Inr signer"
    and t: "AccAddressFromBech32 env (ma_Contract msg) = Inr contract"
    and old: "m (signer @ contract) = Some (h, body)" "h \<noteq> 0"
  shows "ReScheduleCall K signer contract (ma_CallBody msg) h (ma_BlockHeight msg) (c_store c)
    = (Ret (c_store c') :: (gerror, _) go)"
  using run
proof (cases rule: AddSchedule_cases)
  case (1 params s' t' isOwner existing store)
  with s t have e: "s' = signer" "t' = contract" by simp_all
  with 1 old have "existing = h"
    using scheduled_height [OF rep, of signer contract] by simp
  with 1 e old show ?thesis by simp
qed

lemma RemoveSchedule_effect:
  assumes rep: "represents K (c_store c) m"
    and run: "RemoveSchedule K env msg c = Ret (r, c')"
    and s: "AccAddressFromBech32 env (mr_Signer msg) = Inr signer"
    and t: "AccAddressFromBech32 env (mr_Contract msg) = Inr contract"
  shows "represents K (c_store c') (m(signer @ contract := None))"
  using run
proof (cases rule: RemoveSchedule_cases)
  case (1 params s' t' isOwner store)
  with s t have e: "s' = signer" "t' = contract" by simp_all
  obtain store' where r: "RemoveScheduledCall K signer contract (c_store c) = (Ret store' :: (gerror, _) go)"
    "represents K store' (m(signer @ contract := None))"
    using RemoveScheduledCall_represents [OF rep] by metis
  with 1 e show ?thesis by simp
qed

lemma AddSchedule_accepts_iff:
  assumes rep: "represents K (c_store c) m"
    and params: "GetParams c = (Ret params :: (gerror, Params) go)"
    and s: "AccAddressFromBech32 env (ma_Signer msg) = Inr signer"
    and t: "AccAddressFromBech32 env (ma_Contract msg) = Inr contract"
    and owner: "query_is_owner env (c_world c) contract signer = Ret isOwner"
    and emits: "\<forall>ev. EmitTypedEvent env ev = None"
  shows "(\<exists>r c'. AddSchedule K env msg c = Ret (r, c')) \<longleftrightarrow>
    c_height c < ma_BlockHeight msg \<and> ma_BlockHeight msg \<le> c_height c + p_UpperBound params \<and>
    io_IsOwner isOwner \<and>
    amount (p_MinimumBalance params)
      \<le> amount (GetBalance env (c_world c) contract (denom (p_MinimumBalance params)))"
  using scheduled_height [OF rep, of signer contract]
  by (auto simp: AddSchedule_def params s t owner Let_def emit_def emits AddScheduledCall_eq
      ReScheduleCall_eq not_le not_less)

end

end
