(* ===== verification/QuerySpec.thy ===== *)
theory QuerySpec
  imports Module KeeperSpec
begin

text \<open>
  The query \<open>ScheduledCalls\<close> lists the represented schedule, in the order of the heights.
\<close>

text \<open>The entries the iteration over all heights takes apart correctly.\<close>

definition listable :: "schedule \<Rightarrow> bool" where
  "listable m \<longleftrightarrow>
     (\<forall>sc h body. m sc = Some (h, body) \<longrightarrow>
        20 \<le> length sc \<and> length sc \<le> 52 \<and> length (enc_call body) < 2 ^ 63 \<and> unat h < 2 ^ 56)"

definition listed :: "'w env \<Rightarrow> byte list \<Rightarrow> u64 \<Rightarrow> byte list \<Rightarrow> QueryScheduledCall" where
  "listed env sc h body =
     \<lparr>qc_Contract = AccAddress_String env (drop 20 sc), qc_CallBody = body, qc_Height = h,
      qc_Signer = take 20 sc\<rparr>"

text \<open>What one iterator entry, a height followed by signer and contract, contributes.\<close>

definition entry_listed :: "'w env \<Rightarrow> byte list \<times> byte list \<Rightarrow> QueryScheduledCall" where
  "entry_listed env e = (case e of (k, bz) \<Rightarrow>
     listed env (drop 8 k) (word_of_nat (be_val (take 8 k)))
       (case ScheduledCall_Unmarshal ScheduledCall_zero bz of Inl _ \<Rightarrow> [] | Inr call \<Rightarrow> sc_CallBody call))"

lemma iterate_loop_append:
  assumes "\<forall>(k, bz) \<in> set iter. \<exists>h sc body. k = Uint64ToBigEndian h @ sc \<and> bz = enc_call body \<and>
    20 \<le> length sc \<and> length sc \<le> 52 \<and> length (enc_call body) < 2 ^ 63 \<and> unat h < 2 ^ 56"
  shows "(iterate_loop (append_call env) iter calls :: ('e, _) go)
    = Ret (calls @ map (entry_listed env) iter)"
  using assms
proof (induction iter arbitrary: calls)
  case (Cons e iter)
  obtain k bz where e: "e = (k, bz)" by (cases e)
  with Cons.prems obtain h sc body where k: "k = Uint64ToBigEndian h @ sc" "bz = enc_call body"
    "20 \<le> length sc" "length sc \<le> 52" "length (enc_call body) < 2 ^ 63" "unat h < 2 ^ 56" by auto
  have "(decode_iterate_key k :: ('e, _) go) = Ret (h, take 20 sc, drop 20 sc)"
    using decode_iterate_back [of "take 20 sc" "drop 20 sc" h] k
    by (simp add: le_diff_conv)
  with Cons e k show ?case
    by (simp add: ScheduledCall_Unmarshal_enc append_call_def entry_listed_def listed_def)
qed simp

context kv_store
begin

lemma iterate_all_heights:
  assumes "represents K s m"
  shows "(k, bz) \<in> set (kv_Iterate K [ScheduledCallByBlockHeightKeyPrefix] s)
    \<longleftrightarrow> (\<exists>h sc body. k = Uint64ToBigEndian h @ sc \<and> m sc = Some (h, body) \<and> bz = enc_call body)"
    (is "?l \<longleftrightarrow> ?r")
proof
  assume ?l
  then have g: "kv_Get K (ScheduledCallByBlockHeightKeyPrefix # k) s = Some bz"
    by (simp add: in_iterate)
  then have "8 \<le> length k"
    using assms by (metis represents_def option.distinct(1) not_le)
  then have k: "k = Uint64ToBigEndian (word_of_nat (be_val (take 8 k))) @ drop 8 k"
    using Uint64ToBigEndian_be_val [of "take 8 k"] by simp
  then have "kv_Get K (height_key (word_of_nat (be_val (take 8 k))) (drop 8 k)) s = Some bz"
    using g by (simp add: height_key_byte)
  then show ?r
    using k represents_height [OF assms] by blast
next
  assume ?r
  then obtain h sc body where k: "k = Uint64ToBigEndian h @ sc" "m sc = Some (h, body)"
    "bz = enc_call body" by blast
  then have "kv_Get K (height_key h sc) s = Some bz"
    using represents_height [OF assms] by blast
  with k show ?l by (simp add: in_iterate height_key_byte)
qed

text \<open>What the entries contribute: each call once, in the order of their heights.\<close>

lemma listable_entry:
  assumes "listable m" "m sc = Some (h, body)"
  shows "entry_listed env (Uint64ToBigEndian h @ sc, enc_call body) = listed env sc h body"
  using assms by (simp add: entry_listed_def ScheduledCall_Unmarshal_enc listable_def)

lemma entries_listed:
  assumes rep: "represents K s m" and ok: "listable m"
  shows "entry_listed env ` set (kv_Iterate K [ScheduledCallByBlockHeightKeyPrefix] s)
    = {listed env sc h body |sc h body. m sc = Some (h, body)}"
proof (intro set_eqI iffI)
  fix x
  assume "x \<in> entry_listed env ` set (kv_Iterate K [ScheduledCallByBlockHeightKeyPrefix] s)"
  then obtain k bz where "(k, bz) \<in> set (kv_Iterate K [ScheduledCallByBlockHeightKeyPrefix] s)"
    "x = entry_listed env (k, bz)" by auto
  then show "x \<in> {listed env sc h body |sc h body. m sc = Some (h, body)}"
    using listable_entry [OF ok] unfolding iterate_all_heights [OF rep] by blast
next
  fix x
  assume "x \<in> {listed env sc h body |sc h body. m sc = Some (h, body)}"
  then obtain sc h body where x: "x = listed env sc h body" "m sc = Some (h, body)" by auto
  then have "(Uint64ToBigEndian h @ sc, enc_call body) \<in> set (kv_Iterate K [ScheduledCallByBlockHeightKeyPrefix] s)"
    by (auto simp: iterate_all_heights [OF rep])
  with x listable_entry [OF ok x(2), of env] show "x \<in> entry_listed env ` set (kv_Iterate K [ScheduledCallByBlockHeightKeyPrefix] s)"
    by force
qed

lemma be_val_take_mono:
  "x \<le> y \<Longrightarrow> 8 \<le> length x \<Longrightarrow> 8 \<le> length y \<Longrightarrow> be_val (take 8 x) \<le> be_val (take 8 y)"
  using take_mono_lex [of x y 8] be_val_less_iff [of "take 8 x" "take 8 y"]
  by (cases "take 8 x = take 8 y") auto

lemma entries_sorted:
  assumes "\<forall>(k, bz) \<in> set (kv_Iterate K p s). 8 \<le> length k"
  shows "sorted (map qc_Height (map (entry_listed env) (kv_Iterate K p s)))"
proof -
  have "sorted (map fst (kv_Iterate K p s))"
    using iterate_ascending strict_sorted_imp_sorted by blast
  then have "sorted_wrt (\<lambda>x y. be_val (take 8 (fst x)) \<le> be_val (take 8 (fst y))) (kv_Iterate K p s)"
    unfolding sorted_map
    by (rule sorted_wrt_mono_rel [rotated]) (use assms be_val_take_mono in \<open>force simp: split_beta\<close>)
  moreover have "word_of_nat (be_val (take 8 x)) \<le> (word_of_nat (be_val (take 8 y)) :: u64)"
    if "be_val (take 8 x) \<le> be_val (take 8 y)" for x y
    using that be_val_take [of x] be_val_take [of y]
    by (simp add: word_le_nat_alt unat_of_nat take_bit_nat_eq_self)
  ultimately show ?thesis
    by (auto simp: sorted_map entry_listed_def listed_def split_beta elim!: sorted_wrt_mono_rel [rotated])
qed

lemma ScheduledCalls_lists:
  assumes rep: "represents K (c_store c) m" and ok: "listable m"
  shows "\<exists>resp. ScheduledCalls K env (Some req) c = Ret resp \<and>
    set (qr_Calls resp) = {listed env sc h body |sc h body. m sc = Some (h, body)} \<and>
    sorted (map qc_Height (qr_Calls resp))"
proof -
  let ?iter = "kv_Iterate K [ScheduledCallByBlockHeightKeyPrefix] (c_store c)"
  have entries: "\<forall>(k, bz) \<in> set ?iter. \<exists>h sc body. k = Uint64ToBigEndian h @ sc \<and> bz = enc_call body \<and>
      20 \<le> length sc \<and> length sc \<le> 52 \<and> length (enc_call body) < 2 ^ 63 \<and> unat h < 2 ^ 56"
    using ok unfolding listable_def by (fastforce simp: iterate_all_heights [OF rep])
  then have "iterate_loop (append_call env) ?iter [] = (Ret ([] @ map (entry_listed env) ?iter) :: (gerror, _) go)"
    by (rule iterate_loop_append)
  then have "ScheduledCalls K env (Some req) c = Ret \<lparr>qr_Calls = map (entry_listed env) ?iter\<rparr>"
    by (simp add: ScheduledCalls_def iterateScheduledCalls_def)
  moreover have "sorted (map qc_Height (map (entry_listed env) ?iter))"
    by (rule entries_sorted) (use entries in fastforce)
  ultimately show ?thesis using entries_listed [OF rep ok, of env] by simp
qed

end

end
