(* ===== verification/HandlerProps.thy ===== *)
theory HandlerProps
  imports HandlerSpec QuerySpec Samples
begin

text \<open>
  The properties of the message handlers, the queries, the parameters and the genesis state.
\<close>

section \<open>Scheduling\<close>

text \<open>C8: A successful \<open>AddSchedule\<close> for a signer without a call on the contract refines the
  insertion of exactly the message's height and body; it touches neither the other modules
  nor the parameters, and emits one event with the balance it has checked.\<close>
theorem add_schedule_refines:
  assumes "kv_store K" "represents K (c_store c) m" "AddSchedule K env msg c = Ret (r, c')"
    and "AccAddressFromBech32 env (ma_Signer msg) = Inr signer"
    and "AccAddressFromBech32 env (ma_Contract msg) = Inr contract"
    and "m (signer @ contract) = None"
  shows "represents K (c_store c') (m(signer @ contract \<mapsto> (ma_BlockHeight msg, ma_CallBody msg))) \<and>
    c_world c' = c_world c \<and> c_params c' = c_params c \<and> c_height c' = c_height c \<and>
    (\<exists>ev. c_events c' = c_events c @ [EvAdd ev] \<and> ae_ScheduledHeight ev = ma_BlockHeight msg \<and>
      ae_CallBody ev = ma_CallBody msg)"
  using kv_store.AddSchedule_fresh [OF assms] assms(3)
  by (auto elim!: AddSchedule_cases)

theorem add_schedule_refines_witness:
  "\<exists>r c'. AddSchedule kvl (sample_env 0) (sample_add_msg 15) (sample_chain kvl_empty 10) = Ret (r, c') \<and>
    represents kvl (c_store c') (no_calls(sample_signer @ sample_contract \<mapsto> (15, [7])))"
proof -
  let ?run = "AddSchedule kvl (sample_env 0) (sample_add_msg 15) (sample_chain kvl_empty 10)"
  obtain c' where run: "?run = Ret (MsgAddScheduleResponse, c')"
    by (simp add: AddSchedule_def sample_add_msg_def NewMsgAddSchedule_def sample_params_def
        sample_addresses Let_def BlockHeightForSignerContract_def kvl.AddScheduledCall_eq emit_def)
  have "represents kvl (c_store c') (no_calls(sample_signer @ sample_contract
      \<mapsto> (ma_BlockHeight (sample_add_msg 15), ma_CallBody (sample_add_msg 15))))"
    using add_schedule_refines [OF kvl.kv_store_axioms, of "sample_chain kvl_empty 10" no_calls,
        OF _ run, of sample_signer sample_contract] represents_empty
    by (simp add: sample_add_msg_def NewMsgAddSchedule_def sample_addresses no_calls_def)
  with run show ?thesis by (simp add: sample_add_msg_def NewMsgAddSchedule_def)
qed

text \<open>C11: Whether \<open>AddSchedule\<close> succeeds depends on nothing but the height window, the contract's
  confirmation and its balance: heights up to the current one and beyond the upper bound
  (added in 64 bits) are refused.\<close>
theorem add_schedule_accepts:
  assumes "kv_store K" "represents K (c_store c) m"
    and "GetParams c = (Ret params :: (gerror, Params) go)"
    and "AccAddressFromBech32 env (ma_Signer msg) = Inr signer"
    and "AccAddressFromBech32 env (ma_Contract msg) = Inr contract"
    and "query_is_owner env (c_world c) contract signer = Ret isOwner"
    and "\<forall>ev. EmitTypedEvent env ev = None"
  shows "(\<exists>r c'. AddSchedule K env msg c = Ret (r, c')) \<longleftrightarrow>
    c_height c < ma_BlockHeight msg \<and> ma_BlockHeight msg \<le> c_height c + p_UpperBound params \<and>
    io_IsOwner isOwner \<and>
    amount (p_MinimumBalance params)
      \<le> amount (GetBalance env (c_world c) contract (denom (p_MinimumBalance params)))"
  using kv_store.AddSchedule_accepts_iff [OF assms] .

theorem add_schedule_accepts_witness:
  "(\<exists>r c'. AddSchedule kvl (sample_env 0) (sample_add_msg 1011) (sample_chain kvl_empty 10) = Ret (r, c'))
    \<longleftrightarrow> False"
  using add_schedule_accepts [OF kvl.kv_store_axioms, of "sample_chain kvl_empty 10" no_calls
      sample_params "sample_env 0" "sample_add_msg 1011" sample_signer sample_contract
      "\<lparr>io_IsOwner = True\<rparr>"] represents_empty
  by (simp add: sample_add_msg_def NewMsgAddSchedule_def sample_addresses sample_params_def)

text \<open>C12: A schedule changes only on behalf of a signer whom the contract itself confirms as its
  owner: if \<open>AddSchedule\<close> or \<open>RemoveSchedule\<close> succeeds, the contract's answer to the owner
  query of that signer decodes to true.\<close>
theorem only_owners_schedule:
  assumes "AddSchedule K env msg c = Ret (r, c') \<or> RemoveSchedule K env msg' c = Ret (r', c')"
  shows "\<exists>signer contract res.
    (AccAddressFromBech32 env (ma_Signer msg) = Inr signer \<and>
       AccAddressFromBech32 env (ma_Contract msg) = Inr contract \<or>
     AccAddressFromBech32 env (mr_Signer msg') = Inr signer \<and>
       AccAddressFromBech32 env (mr_Contract msg') = Inr contract) \<and>
    QuerySmart env (c_world c) contract (json_Marshal_isOwner (AccAddress_String env signer)) = Ret res \<and>
    json_Unmarshal_isOwner res = Inr \<lparr>io_IsOwner = True\<rparr>"
proof -
  have asked: "\<exists>res. QuerySmart env w contract (json_Marshal_isOwner (AccAddress_String env signer)) = Ret res
      \<and> json_Unmarshal_isOwner res = Inr \<lparr>io_IsOwner = True\<rparr>"
    if "query_is_owner env w contract signer = Ret isOwner" "io_IsOwner isOwner"
    for w contract signer isOwner
  proof -
    from that(1) obtain res where "QuerySmart env w contract
        (json_Marshal_isOwner (AccAddress_String env signer)) = Ret res"
      by (auto simp: query_is_owner_def go_simps)
    with that show ?thesis
      by (cases "json_Unmarshal_isOwner res"; cases isOwner) (simp_all add: query_is_owner_def)
  qed
  from assms show ?thesis
    by (elim disjE AddSchedule_cases RemoveSchedule_cases) (use asked in blast)+
qed

theorem only_owners_schedule_witness:
  "\<exists>signer contract res.
    QuerySmart (sample_env 0) () contract (json_Marshal_isOwner (bytes_string signer)) = Ret res \<and>
    json_Unmarshal_isOwner res = Inr \<lparr>io_IsOwner = True\<rparr>"
proof -
  have "\<exists>c'. AddSchedule kvl (sample_env 0) (sample_add_msg 15) (sample_chain kvl_empty 10)
      = Ret (MsgAddScheduleResponse, c')"
    by (simp add: AddSchedule_def sample_add_msg_def NewMsgAddSchedule_def sample_params_def
        sample_addresses Let_def BlockHeightForSignerContract_def kvl.AddScheduledCall_eq emit_def)
  then obtain c' where "AddSchedule kvl (sample_env 0) (sample_add_msg 15) (sample_chain kvl_empty 10)
      = Ret (MsgAddScheduleResponse, c')" by blast
  from only_owners_schedule [OF disjI1 [OF this], of sample_remove_msg] show ?thesis
    by (auto simp: sample_chain_def)
qed

text \<open>Scheduling again for the same signer and contract does not move the call: the handler
  reports success, but the store no longer represents any schedule.\<close>
theorem add_schedule_twice_breaks:
  assumes "kv_store K" "represents K (c_store c) m" "AddSchedule K env msg c = Ret (r, c')"
    and "AccAddressFromBech32 env (ma_Signer msg) = Inr signer"
    and "AccAddressFromBech32 env (ma_Contract msg) = Inr contract"
    and "m (signer @ contract) = Some (h, body)" "h \<noteq> 0" "unat (ma_BlockHeight msg) < 2 ^ 56"
  shows "\<not> represents K (c_store c') m' \<and>
    kv_Get K (MakeScheduledCallByBlockHeightKey (ma_BlockHeight msg) signer contract) (c_store c')
      = Some (Uint64ToBigEndian (ma_BlockHeight msg))"
proof -
  note run = kv_store.AddSchedule_again [OF assms(1-7)]
  show ?thesis
    using kv_store.ReScheduleCall_represents_nothing [OF assms(1) run assms(8)]
      kv_store.ReScheduleCall_swaps(1) [OF assms(1) run]
    by (simp add: keys_concat)
qed

theorem add_schedule_twice_breaks_witness:
  "\<exists>r c'. AddSchedule kvl (sample_env 0) (sample_add_msg 15) (sample_chain one_call_store 10) = Ret (r, c') \<and>
    \<not> represents kvl (c_store c') one_call \<and>
    kv_Get kvl (MakeScheduledCallByBlockHeightKey 15 sample_signer sample_contract) (c_store c')
      = Some (Uint64ToBigEndian 15)"
proof -
  have "(BlockHeightForSignerContract kvl sample_signer sample_contract one_call_store :: (gerror, _) go)
      = Ret 12"
    by (simp add: BlockHeightForSignerContract_represents [OF represents_one] one_call_def sample_key_def)
  then have "\<exists>c'. AddSchedule kvl (sample_env 0) (sample_add_msg 15) (sample_chain one_call_store 10)
      = Ret (MsgAddScheduleResponse, c')"
    by (simp add: AddSchedule_def sample_add_msg_def NewMsgAddSchedule_def sample_params_def
        sample_addresses Let_def kvl.ReScheduleCall_eq emit_def)
  then obtain c' where run: "AddSchedule kvl (sample_env 0) (sample_add_msg 15)
      (sample_chain one_call_store 10) = Ret (MsgAddScheduleResponse, c')" by blast
  show ?thesis
    using run add_schedule_twice_breaks [OF kvl.kv_store_axioms _ run, of one_call sample_signer
        sample_contract 12 "[1, 2, 3]" one_call] represents_one
    by (simp add: sample_add_msg_def NewMsgAddSchedule_def sample_addresses one_call_def sample_key_def)
qed

text \<open>C9: A successful \<open>RemoveSchedule\<close> refines the deletion of the entry of its signer and
  contract; a signer without a call gets the same success and nothing changes.\<close>
theorem remove_schedule_refines:
  assumes "kv_store K" "represents K (c_store c) m" "RemoveSchedule K env msg c = Ret (r, c')"
    and "AccAddressFromBech32 env (mr_Signer msg) = Inr signer"
    and "AccAddressFromBech32 env (mr_Contract msg) = Inr contract"
  shows "represents K (c_store c') (m(signer @ contract := None))"
  using kv_store.RemoveSchedule_effect [OF assms] .

theorem remove_schedule_refines_witness:
  "\<exists>r c'. RemoveSchedule kvl (sample_env 0) sample_remove_msg (sample_chain one_call_store 10) = Ret (r, c') \<and>
    represents kvl (c_store c') (one_call(sample_signer @ sample_contract := None))"
proof -
  obtain s' where "(RemoveScheduledCall kvl sample_signer sample_contract one_call_store :: (gerror, _) go)
      = Ret s'"
    using kvl.RemoveScheduledCall_represents [OF represents_one] by metis
  then have "\<exists>c'. RemoveSchedule kvl (sample_env 0) sample_remove_msg (sample_chain one_call_store 10)
      = Ret (MsgRemoveScheduleResponse, c')"
    by (simp add: RemoveSchedule_def sample_remove_msg_def NewMsgRemoveSchedule_def sample_addresses
        Let_def emit_def)
  then obtain c' where run: "RemoveSchedule kvl (sample_env 0) sample_remove_msg
      (sample_chain one_call_store 10) = Ret (MsgRemoveScheduleResponse, c')" by blast
  show ?thesis
    using run remove_schedule_refines [OF kvl.kv_store_axioms _ run, of one_call sample_signer
        sample_contract] represents_one
    by (simp add: sample_remove_msg_def NewMsgRemoveSchedule_def sample_addresses)
qed

text \<open>The upper bound is added to the height in 64 bits: with a bound that passes validation
  but reaches past 2^64, every height is refused, however near.\<close>
theorem bound_wraps:
  assumes "GetParams c = (Ret params :: (gerror, Params) go)"
    and "2 ^ 64 \<le> unat (c_height c) + unat (p_UpperBound params)"
  shows "AddSchedule K env msg c = Err ErrInvalidScheduledBlockHeight
    \<or> AddSchedule K env msg c = Err ErrTooFarInFuture"
proof -
  let ?s = "unat (c_height c) + unat (p_UpperBound params)"
  have "unat (c_height c + p_UpperBound params) = ?s mod 2 ^ 64"
    by (simp add: unat_word_ariths)
  also have "\<dots> = (?s - 2 ^ 64) mod 2 ^ 64"
    using assms(2) by (rule le_mod_geq)
  also have "\<dots> \<le> ?s - 2 ^ 64" by simp
  also have "\<dots> < unat (c_height c)"
    using assms(2) unsigned_less [of "p_UpperBound params", where ?'a = nat]
      unsigned_less [of "c_height c", where ?'a = nat] by simp
  finally have "c_height c + p_UpperBound params < c_height c"
    by (simp add: word_less_nat_alt)
  then show ?thesis
    using assms(1) by (auto simp: AddSchedule_def)
qed

theorem bound_wraps_witness:
  "let p = \<lparr>p_MinimumBalance = \<lparr>denom = ''uturnt'', amount = 100\<rparr>, p_UpperBound = 0xFFFFFFFFFFFFFFFF\<rparr>;
       c = (sample_chain kvl_empty 10)\<lparr>c_params := [ParamsStoreKeyMinimumBalance \<mapsto> ICoin (p_MinimumBalance p),
             ParamsStoreKeyUpperBound \<mapsto> IUint64 (p_UpperBound p)]\<rparr>
   in Params_Validate (ValidateDenom (sample_env 0)) p = Ret () \<and>
      (AddSchedule kvl (sample_env 0) (sample_add_msg 11) c = Err ErrInvalidScheduledBlockHeight
       \<or> AddSchedule kvl (sample_env 0) (sample_add_msg 11) c = Err ErrTooFarInFuture)"
  unfolding Let_def
proof (rule conjI)
  show "Params_Validate (ValidateDenom (sample_env 0))
      \<lparr>p_MinimumBalance = \<lparr>denom = ''uturnt'', amount = 100\<rparr>, p_UpperBound = 0xFFFFFFFFFFFFFFFF\<rparr> = Ret ()"
    by (simp add: Params_Validate_Ret sample_env_def)
qed (rule bound_wraps [where params = "\<lparr>p_MinimumBalance = \<lparr>denom = ''uturnt'', amount = 100\<rparr>,
    p_UpperBound = 0xFFFFFFFFFFFFFFFF\<rparr>"]; simp add: GetParams_def)

end
