(* ===== verification/ModuleProps.thy ===== *)
theory ModuleProps
  imports QuerySpec HandlerSpec Samples
begin

text \<open>
  The properties of the module's parameters, messages, queries, genesis and registrations.
\<close>

section \<open>Parameters\<close>

text \<open>\<open>SetParams\<close> stores exactly the parameters \<open>Validate\<close> accepts, which \<open>GetParams\<close> then
  returns; it panics on all others, and nothing but the parameters changes.\<close>
theorem params_set_get:
  "(\<forall>c'. SetParams env p c = (Ret c' :: (gerror, ('s, 'w) chain) go) \<longrightarrow>
     Params_Validate (ValidateDenom env) p = Ret () \<and> GetParams c' = (Ret p :: (gerror, _) go) \<and>
     c_store c' = c_store c \<and> c_world c' = c_world c) \<and>
   ((\<exists>q. SetParams env p c = (Panic q :: (gerror, ('s, 'w) chain) go)) \<longleftrightarrow>
     Params_Validate (ValidateDenom env) p \<noteq> Ret ())"
proof (intro conjI allI impI)
  show "(\<exists>q. SetParams env p c = (Panic q :: (gerror, ('s, 'w) chain) go)) \<longleftrightarrow>
     Params_Validate (ValidateDenom env) p \<noteq> Ret ()"
  proof (cases "SetParams env p c :: (gerror, ('s, 'w) chain) go")
    case (Err e)
    then show ?thesis
      by (auto simp: SetParams_def ParamSetPairs_def go_simps split: go.splits)
  qed (auto simp: SetParams_Ret dest: SetParams_not_Ret)
qed (auto simp: SetParams_Ret GetParams_def)

theorem params_set_get_witness:
  "GetParams (sample_chain kvl_empty 0) = (Ret sample_params :: (gerror, _) go) \<and>
   Params_Validate (ValidateDenom (sample_env 0)) sample_params = Ret ()"
proof -
  have "SetParams (sample_env 0) sample_params (sample_chain kvl_empty 0)
      = (Ret (sample_chain kvl_empty 0) :: (gerror, (kvlist, unit) chain) go)"
    by (simp add: SetParams_def ParamSetPairs_def sample_params_def sample_chain_def sample_env_def
        validateMinimumBalance_def validateUpperBound_def int_Uint64_def)
  then show ?thesis using params_set_get [where env = "sample_env 0"] by blast
qed

text \<open>C20: The parameters that pass validation are those with a valid denomination, a minimum
  balance from 1 to 2^64 - 1 and a non-zero upper bound; the check of a larger or negative
  minimum does not return an error but panics. \<open>SetParams\<close> returns on exactly the valid ones, and
  then \<open>GetParams\<close> gives them back and nothing else has changed; on all others it panics.\<close>
theorem params_validate:
  "(Params_Validate (ValidateDenom env) p = Ret () \<longleftrightarrow>
      ValidateDenom env (denom (p_MinimumBalance p)) = None \<and> 0 < amount (p_MinimumBalance p) \<and>
      amount (p_MinimumBalance p) < 2 ^ 64 \<and> p_UpperBound p \<noteq> 0) \<and>
   (panics (Params_Validate (ValidateDenom env) p) \<longleftrightarrow>
      ValidateDenom env (denom (p_MinimumBalance p)) = None \<and>
      (amount (p_MinimumBalance p) < 0 \<or> 2 ^ 64 \<le> amount (p_MinimumBalance p))) \<and>
   ((\<exists>ps. SetParams env p c = (Ret (c\<lparr>c_params := ps\<rparr>) :: (gerror, ('s, 'w) chain) go) \<and>
        GetParams (c\<lparr>c_params := ps\<rparr>) = (Ret p :: (gerror, _) go)) \<longleftrightarrow>
      Params_Validate (ValidateDenom env) p = Ret ()) \<and>
   (panics (SetParams env p c :: (gerror, ('s, 'w) chain) go) \<longleftrightarrow>
      Params_Validate (ValidateDenom env) p \<noteq> Ret ()) \<and>
   Params_Validate (\<lambda>_. None) DefaultParams = Ret ()"
proof (intro conjI)
  show "panics (Params_Validate (ValidateDenom env) p) \<longleftrightarrow>
      ValidateDenom env (denom (p_MinimumBalance p)) = None \<and>
      (amount (p_MinimumBalance p) < 0 \<or> 2 ^ 64 \<le> amount (p_MinimumBalance p))"
    by (auto simp: Params_Validate_def validateMinimumBalance_def validateUpperBound_def int_Uint64_def
        wrap_err_def split: option.splits)
  show "(\<exists>ps. SetParams env p c = (Ret (c\<lparr>c_params := ps\<rparr>) :: (gerror, ('s, 'w) chain) go) \<and>
        GetParams (c\<lparr>c_params := ps\<rparr>) = (Ret p :: (gerror, _) go)) \<longleftrightarrow>
      Params_Validate (ValidateDenom env) p = Ret ()"
    by (auto simp: SetParams_Ret GetParams_def)
  show "panics (SetParams env p c :: (gerror, ('s, 'w) chain) go) \<longleftrightarrow>
      Params_Validate (ValidateDenom env) p \<noteq> Ret ()"
    using params_set_get [where env = env and p = p and c = c] by (simp add: panics_def)
qed (simp_all add: Params_Validate_Ret DefaultParams_def NewParams_def)

section \<open>Messages\<close>

text \<open>A message made from addresses whose text decodes again is well formed exactly when its
  call body is not empty, and its only signer is the given one; its block height is not
  looked at.\<close>
theorem new_message_valid:
  assumes "AccFrom (String signer) = Inr signer" "AccFrom (String contract) = Inr contract"
  shows "(MsgAddSchedule_ValidateBasic AccFrom (NewMsgAddSchedule String signer contract body h) = Ret ()
      \<longleftrightarrow> body \<noteq> []) \<and>
    MsgAddSchedule_GetSigners AccFrom (NewMsgAddSchedule String signer contract body h)
      = (Ret [signer] :: (gerror, _) go) \<and>
    MsgRemoveSchedule_ValidateBasic AccFrom (NewMsgRemoveSchedule String signer contract) = Ret () \<and>
    MsgRemoveSchedule_GetSigners AccFrom (NewMsgRemoveSchedule String signer contract)
      = (Ret [signer] :: (gerror, _) go)"
  using assms
  by (simp add: MsgAddSchedule_ValidateBasic_def NewMsgAddSchedule_def MsgAddSchedule_GetSigners_def
      MsgRemoveSchedule_ValidateBasic_def NewMsgRemoveSchedule_def MsgRemoveSchedule_GetSigners_def
      signers_of_def)

theorem new_message_valid_witness:
  "MsgAddSchedule_ValidateBasic (AccAddressFromBech32 (sample_env 0))
      (NewMsgAddSchedule bytes_string sample_signer sample_contract [] 0) \<noteq> Ret ()"
  using new_message_valid [of "AccAddressFromBech32 (sample_env 0)" bytes_string sample_signer
      sample_contract "[]" 0]
  by (simp add: sample_addresses)

section \<open>Genesis\<close>

text \<open>A genesis state is valid when its parameters are and every scheduled call in it has
  addresses that decode and a body; the module's zero state is not valid, because its
  denomination is empty.\<close>
theorem genesis_validate:
  "(GenesisState_Validate V B gs = Ret () \<longleftrightarrow>
      Params_Validate V (gs_Params gs) = Ret () \<and>
      (\<forall>call \<in> set (gs_ScheduledCalls gs).
         \<not> isl (B (ma_Signer call)) \<and> \<not> isl (B (ma_Contract call)) \<and> ma_CallBody call \<noteq> [])) \<and>
   (V [] = Some err \<longrightarrow> GenesisState_Validate V B GenesisState_zero = Err (Wrapped err ''minimum balance''))"
  by (auto simp: GenesisState_Validate_def go_simps validate_calls_Ret ValidateBasic_Ret
      GenesisState_zero_def Params_zero_def coin_zero_def Params_Validate_def validateMinimumBalance_def
      wrap_err_def)

theorem genesis_validate_witness:
  "GenesisState_Validate (ValidateDenom (sample_env 0)) (AccAddressFromBech32 (sample_env 0)) GenesisState_zero
    = Err (Wrapped (TextError ''invalid denom'') ''minimum balance'')"
  using genesis_validate [THEN conjunct2, rule_format, of "ValidateDenom (sample_env 0)"
      "TextError ''invalid denom''" "AccAddressFromBech32 (sample_env 0)"]
  by (simp add: sample_env_def)

text \<open>C21: Export followed by import keeps the parameters and loses the schedule: the exported
  state never lists a scheduled call, and importing a state never writes one, so the new
  chain's store is the empty one it started with, whatever the genesis state lists.\<close>
theorem genesis_loses_schedule:
  assumes "InitGenesis env gs fresh = Ret c"
  shows "c_store c = c_store fresh \<and>
    ExportGenesis c = Ret \<lparr>gs_Params = gs_Params gs, gs_ScheduledCalls = []\<rparr> \<and>
    InitGenesis env \<lparr>gs_Params = gs_Params gs, gs_ScheduledCalls = []\<rparr> fresh = Ret c"
proof -
  have set: "SetParams env (gs_Params gs) fresh = (Ret c :: (gerror, _) go)"
    using assms by (simp add: InitGenesis_def)
  then have "GetParams c = (Ret (gs_Params gs) :: (gerror, _) go)"
    by (rule SetParams_GetParams)
  then show ?thesis
    using set by (simp add: ExportGenesis_def DefaultGenesis_def InitGenesis_def)
      (simp add: SetParams_Ret)
qed

theorem genesis_loses_schedule_witness:
  "\<exists>c. InitGenesis (sample_env 0) \<lparr>gs_Params = sample_params, gs_ScheduledCalls = [sample_add_msg 15]\<rparr>
      (sample_chain kvl_empty 0) = Ret c \<and> c_store c = kvl_empty \<and>
    ExportGenesis c = Ret \<lparr>gs_Params = sample_params, gs_ScheduledCalls = []\<rparr>"
proof -
  have "\<exists>c. InitGenesis (sample_env 0) \<lparr>gs_Params = sample_params, gs_ScheduledCalls = [sample_add_msg 15]\<rparr>
      (sample_chain kvl_empty 0) = Ret c"
    by (simp add: InitGenesis_def SetParams_Ret Params_Validate_Ret sample_params_def sample_env_def)
  then obtain c where run: "InitGenesis (sample_env 0)
      \<lparr>gs_Params = sample_params, gs_ScheduledCalls = [sample_add_msg 15]\<rparr> (sample_chain kvl_empty 0) = Ret c"
    by blast
  show ?thesis using genesis_loses_schedule [OF run] run by simp
qed

section \<open>Queries and messages\<close>

text \<open>C19: The query \<open>ScheduledCalls\<close> lists exactly the schedule, ordered by height; a nil request
  is an error.\<close>
theorem query_lists_schedule:
  assumes "kv_store K" "represents K (c_store c) m" "listable m"
  shows "(\<exists>resp. ScheduledCalls K env (Some req) c = Ret resp \<and>
      set (qr_Calls resp) = {listed env sc h body |sc h body. m sc = Some (h, body)} \<and>
      sorted (map qc_Height (qr_Calls resp))) \<and>
    ScheduledCalls K env None c = Err (GrpcInvalidArgument ''invalid request'')"
  using kv_store.ScheduledCalls_lists [OF assms] by (simp add: ScheduledCalls_def)

theorem query_lists_schedule_witness:
  "\<exists>resp. ScheduledCalls kvl (sample_env 0) (Some QueryScheduledCallsRequest) (sample_chain one_call_store 10)
      = Ret resp \<and>
    set (qr_Calls resp) = {\<lparr>qc_Contract = bytes_string sample_contract, qc_CallBody = [1, 2, 3],
      qc_Height = 12, qc_Signer = sample_signer\<rparr>}"
proof -
  have "listable one_call"
    using enc_call_small [of "[1, 2, 3]"]
    by (simp add: listable_def one_call_def no_calls_def sample_key_def sample_signer_def sample_contract_def)
  moreover have "{listed (sample_env 0) sc h body |sc h body. one_call sc = Some (h, body)}
      = {listed (sample_env 0) sample_key 12 [1, 2, 3]}"
    by (auto simp: one_call_def no_calls_def split: if_splits)
  moreover have "listed (sample_env 0) sample_key 12 [1, 2, 3] = \<lparr>qc_Contract = bytes_string sample_contract,
      qc_CallBody = [1, 2, 3], qc_Height = 12, qc_Signer = sample_signer\<rparr>"
    by (simp add: listed_def sample_key_def sample_signer_def)
  ultimately show ?thesis
    using query_lists_schedule [OF kvl.kv_store_axioms, of "sample_chain one_call_store 10" one_call
        "sample_env 0" QueryScheduledCallsRequest] represents_one
    by auto
qed

text \<open>What one \<open>AddSchedule\<close> writes concerns its own signer and contract alone.\<close>

lemma AddSchedule_others_kept:
  assumes "kv_store K" "AddSchedule K env msg c = Ret (r, c')"
    and "\<forall>signer contract. AccAddressFromBech32 env (ma_Signer msg) = Inr signer \<and>
      AccAddressFromBech32 env (ma_Contract msg) = Inr contract \<longrightarrow> signer @ contract \<noteq> sc"
  shows "kv_Get K (height_key h sc) (c_store c') = kv_Get K (height_key h sc) (c_store c) \<and>
    kv_Get K (name_key sc) (c_store c') = kv_Get K (name_key sc) (c_store c)"
  using assms(2)
proof (cases rule: AddSchedule_cases)
  case (1 params signer contract isOwner existing store)
  with assms(3) have "sc \<noteq> signer @ contract" by auto
  with 1 show ?thesis
    by (auto simp: kv_store.ReScheduleCall_eq [OF assms(1)] kv_store.AddScheduledCall_eq [OF assms(1)]
        kv_store.get_set [OF assms(1)] kv_store.get_delete [OF assms(1)]
        split: if_splits dest!: sym [of "kv_Set K _ _ _"])
qed

text \<open>C26: No transaction cancels a scheduled call. The module's handler refuses \<open>MsgRemoveSchedule\<close>,
  which the keeper implements and the interface registry accepts in transactions, as an unknown
  request in every state; the message has no amino name, and no message service is registered
  that could serve it. Whatever message the handler does accept leaves both entries of a call of
  another signer or contract as they are.\<close>
theorem no_transaction_cancels:
  assumes "kv_store K" "represents K (c_store c) m" "m sc = Some (h, body)"
    and "NewHandler K env msg c = Ret (res, c')"
    and "\<forall>add signer contract. msg = MAddSchedule add \<and>
      AccAddressFromBech32 env (ma_Signer add) = Inr signer \<and>
      AccAddressFromBech32 env (ma_Contract add) = Inr contract \<longrightarrow> signer @ contract \<noteq> sc"
  shows "kv_Get K (height_key h sc) (c_store c') = Some (enc_call body) \<and>
    kv_Get K (name_key sc) (c_store c') = Some (Uint64ToBigEndian h) \<and>
    NewHandler K env (MRemoveSchedule rm) c' = Err (Wrapped SdkErrUnknownRequest
      ''unrecognized schedule message type: *types.MsgRemoveSchedule'') \<and>
    go_type (MRemoveSchedule rm) \<in> set (RegisterInterfaces []) \<and>
    go_type (MRemoveSchedule rm) \<notin> fst ` set (RegisterCodec []) \<and>
    MsgService \<notin> set (RegisterServices [])"
proof -
  from assms(4) obtain add r where msg: "msg = MAddSchedule add"
    and run: "AddSchedule K env add (c\<lparr>c_events := []\<rparr>) = Ret (r, c')"
    by (cases msg) (auto simp: NewHandler_def go_simps)
  have "kv_Get K (height_key h sc) (c_store c') = kv_Get K (height_key h sc) (c_store c) \<and>
    kv_Get K (name_key sc) (c_store c') = kv_Get K (name_key sc) (c_store c)"
    using AddSchedule_others_kept [OF assms(1) run, of sc h] assms(5) msg by auto
  then show ?thesis
    using assms(2,3)
    by (auto simp: represents_height represents_name NewHandler_def go_type_def RegisterInterfaces_def
        Msg_serviceDesc_def RegisterCodec_def RegisterServices_def ModuleName_def)
qed

definition other_add :: MsgAddSchedule where
  "other_add = NewMsgAddSchedule bytes_string sample_signer (replicate 32 0x63) [7] 15"

theorem no_transaction_cancels_witness:
  "\<exists>r c'. NewHandler kvl (sample_env 0) (MAddSchedule other_add) (sample_chain one_call_store 10) = Ret (r, c') \<and>
    kv_Get kvl (height_key 12 sample_key) (c_store c') = Some (enc_call [1, 2, 3])"
proof -
  have addr: "AccAddressFromBech32 (sample_env 0) (bytes_string sample_signer) = Inr sample_signer"
    "AccAddressFromBech32 (sample_env 0) (bytes_string (replicate 32 0x63)) = Inr (replicate 32 0x63)"
    by (simp_all add: sample_addresses)
  have quiet: "(sample_chain one_call_store 10)\<lparr>c_events := []\<rparr> = sample_chain one_call_store 10"
    by (simp add: sample_chain_def)
  have ne: "sample_signer @ replicate 32 0x63 \<noteq> sample_key"
    by (simp add: sample_key_def sample_contract_def)
  have "(BlockHeightForSignerContract kvl sample_signer (replicate 32 0x63) one_call_store :: (gerror, _) go)
      = Ret 0"
    using ne by (simp add: BlockHeightForSignerContract_represents [OF represents_one] one_call_def no_calls_def)
  then obtain c' where run: "NewHandler kvl (sample_env 0) (MAddSchedule other_add)
      (sample_chain one_call_store 10) = Ret (ResAddSchedule MsgAddScheduleResponse, c')"
    by (simp add: NewHandler_def AddSchedule_def other_add_def NewMsgAddSchedule_def sample_params_def
        addr quiet Let_def kvl.AddScheduledCall_eq emit_def)
  have "kv_Get kvl (height_key 12 sample_key) (c_store c') = Some (enc_call [1, 2, 3])"
    by (rule no_transaction_cancels [OF kvl.kv_store_axioms _ _ run, of one_call, THEN conjunct1])
       (use ne in \<open>auto simp: represents_one represents_one [unfolded one_call_def] one_call_def other_add_def NewMsgAddSchedule_def addr\<close>)
  with run show ?thesis by blast
qed

end
