(* ===== verification/BlockProps.thy ===== *)
theory BlockProps
  imports HandlerSpec Samples
begin

text \<open>
  The properties of the end of a block: what it does to the schedule, when it gets through,
  what it charges, and the inputs on which it panics, which halts the chain.
\<close>

section \<open>The schedule over a block\<close>

text \<open>C7: The end of a block refines one step of the schedule: a call that is due is dropped, or
  scheduled once more with the same body at a later height within the upper bound; every
  other entry is untouched and no entry appears from nowhere.\<close>
theorem end_block_refines:
  assumes "kv_store K" "represents K (c_store c) m" "decodable m"
    and "GetParams c = (Ret params :: (gerror, Params) go)" "EndBlocker K env c = Ret c'"
  shows "\<exists>m'. represents K (c_store c') m' \<and> after_block (c_height c) (p_UpperBound params) m m'"
  using kv_store.EndBlocker_effect [OF assms] .

text \<open>If the store represents a schedule and the other modules are benign (balances fit 64
  bits, contracts panic only by running out of gas and return no result of 1 to 7 bytes), the
  end of the block gets through, and afterwards no call is left at the block's height.\<close>
theorem end_block_completes:
  assumes "kv_store K" "represents K (c_store c) m" "decodable m"
    and "GetParams c = (Ret params :: (gerror, Params) go)" "benign env params"
  shows "\<exists>c'. EndBlocker K env c = Ret c' \<and>
    countOfScheduledCallsAtHeight K (c_height c) (c_store c') = 0"
proof -
  obtain c' where run: "EndBlocker K env c = Ret c'"
    using kv_store.EndBlocker_total [OF assms] by blast
  obtain m' where rep: "represents K (c_store c') m'"
    and m': "after_block (c_height c) (p_UpperBound params) m m'"
    using kv_store.EndBlocker_effect [OF assms(1-4) run] by blast
  have "{sc. \<exists>body. m' sc = Some (c_height c, body)} = {}"
    using after_block_not_due [OF m'] by auto
  then show ?thesis
    using run kv_store.count_due [OF assms(1) rep, of "c_height c"] by simp
qed

lemma sample_benign: "benign (sample_env n) sample_params"
  by (simp add: benign_def) (simp add: sample_env_def)

theorem end_block_completes_witness:
  "\<exists>c'. EndBlocker kvl (sample_env 20) (sample_chain one_call_store 12) = Ret c' \<and>
    countOfScheduledCallsAtHeight kvl 12 (c_store c') = 0"
  using end_block_completes [OF kvl.kv_store_axioms, of "sample_chain one_call_store 12" one_call
      sample_params "sample_env 20"] represents_one decodable_one sample_benign
  by simp

theorem end_block_refines_witness:
  "\<exists>c' m'. EndBlocker kvl (sample_env 20) (sample_chain one_call_store 12) = Ret c' \<and>
    represents kvl (c_store c') m' \<and> after_block 12 1000 one_call m'"
proof -
  obtain c' where run: "EndBlocker kvl (sample_env 20) (sample_chain one_call_store 12) = Ret c'"
    using kvl.EndBlocker_total [of "sample_chain one_call_store 12" one_call sample_params "sample_env 20"]
      represents_one decodable_one sample_benign by auto
  show ?thesis
    using end_block_refines [OF kvl.kv_store_axioms _ _ _ run, of one_call sample_params]
      represents_one decodable_one run
    by (auto simp: sample_params_def)
qed

section \<open>Running a contract\<close>

text \<open>C15: The gas charged for a call never exceeds its limit, given that the gas meter panics
  beyond the limit; running out of gas charges the whole limit, schedules nothing and is an
  error; any other panic is raised again.\<close>
theorem gas_within_limit:
  assumes "\<forall>w. case ex_out (Execute env w limit contract contract msg []) of
      Returned result err \<Rightarrow> ex_gas (Execute env w limit contract contract msg []) \<le> limit
    | Panicked p \<Rightarrow> True"
  shows "(\<forall>w' gas nb err. executeMsgWithGasLimit env w contract msg limit
        = (Ret (w', gas, nb, err) :: (gerror, _) go) \<longrightarrow> gas \<le> limit) \<and>
    (ex_out (Execute env w limit contract contract msg []) = Panicked ErrorOutOfGas \<longrightarrow>
      (\<exists>w' e. executeMsgWithGasLimit env w contract msg limit
        = (Ret (w', limit, 0, Some e) :: (gerror, _) go))) \<and>
    (\<forall>p. ex_out (Execute env w limit contract contract msg []) = Panicked p \<and> p \<noteq> ErrorOutOfGas \<longrightarrow>
      executeMsgWithGasLimit env w contract msg limit = (Panic p :: (gerror, _) go))"
  using assms [THEN spec, of w]
  by (cases "ex_out (Execute env w limit contract contract msg [])")
     (auto simp: executeMsgWithGasLimit_def BigEndianToUint64_def Let_def split: if_splits)

theorem gas_within_limit_witness:
  "\<exists>w' gas nb err. executeMsgWithGasLimit (sample_env 20) () sample_contract [7] 500
    = (Ret (w', gas, nb, err) :: (gerror, _) go) \<and> gas \<le> 500"
proof -
  obtain nb where run: "executeMsgWithGasLimit (sample_env 20) () sample_contract [7] 500
      = (Ret ((), 5, nb, None) :: (gerror, _) go)"
    by (simp add: executeMsgWithGasLimit_def sample_env_def BigEndianToUint64_def Let_def
        Uint64ToBigEndian_def)
  have "\<forall>w' gas nb err. executeMsgWithGasLimit (sample_env 20) () sample_contract [7] 500
      = (Ret (w', gas, nb, err) :: (gerror, _) go) \<longrightarrow> gas \<le> 500"
    by (rule gas_within_limit [THEN conjunct1]) (simp add: sample_env_def)
  with run show ?thesis by blast
qed

text \<open>What the first call that is due meets decides about the whole block.\<close>

lemma first_due_panics:
  assumes "kv_store K" "represents K (c_store c) m" "decodable m"
    and "GetParams c = (Ret params :: (gerror, Params) go)"
    and "kv_Iterate K (MakeScheduledCallByBlockHeightPrefixKey (c_height c)) (c_store c) = (key, bz) # rest"
    and "\<And>body c0. m key = Some (c_height c, body) \<Longrightarrow> c_world c0 = c_world c \<Longrightarrow>
      run_scheduled_call K env params (take 20 key) (drop 20 key) \<lparr>sc_CallBody = body\<rparr> c0 = Panic p"
  shows "EndBlocker K env c = Panic p"
proof -
  have "consume_inv K (c_height c) 0 m ((key, bz) # rest) c"
    using kv_store.consume_inv_start [OF assms(1,2) refl, of 0] assms(5) by simp
  from consume_inv_entry [OF this assms(3)] obtain body where
    "m key = Some (c_height c, body)"
    "decode_consume_key (c_height c) key = (take 20 key, drop 20 key)"
    "ScheduledCall_Unmarshal ScheduledCall_zero bz = Inr \<lparr>sc_CallBody = body\<rparr>" by metis
  with assms(4-6) show ?thesis
    by (simp add: EndBlocker_def ConsumeScheduledCallsByHeight_def)
qed





section \<open>Scheduling twice\<close>

text \<open>C13: Scheduling twice halts the chain: after a second \<open>AddSchedule\<close> for the same signer and
  contract has been accepted, the end of the block at the height it asked for panics, in any
  environment, as long as the entry it wrote is still there.\<close>
theorem scheduling_twice_halts:
  assumes "kv_store K" "represents K (c_store c) m" "AddSchedule K env msg c = Ret (r, c1)"
    and "AccAddressFromBech32 env (ma_Signer msg) = Inr signer"
    and "AccAddressFromBech32 env (ma_Contract msg) = Inr contract"
    and "m (signer @ contract) = Some (h, body)" "h \<noteq> 0" "unat (ma_BlockHeight msg) < 2 ^ 56"
    and "c_height c2 = ma_BlockHeight msg" "GetParams c2 = (Ret params :: (gerror, Params) go)"
    and "\<forall>k. kv_Get K (MakeScheduledCallByBlockHeightPrefixKey (c_height c2) @ k) (c_store c2)
      = kv_Get K (MakeScheduledCallByBlockHeightPrefixKey (c_height c2) @ k) (c_store c1)"
  shows "panics (EndBlocker K env' c2)"
proof -
  note run = kv_store.AddSchedule_again [OF assms(1-7)]
  have "kv_Get K (height_key (c_height c2) (signer @ contract)) (c_store c2)
      = Some (Uint64ToBigEndian (c_height c2))"
    using kv_store.ReScheduleCall_swaps(1) [OF assms(1) run] assms(9,11) by (simp add: height_key_def)
  then show ?thesis
    using kv_store.EndBlocker_panics_on_entry [OF assms(1,10)] height_is_no_call [OF assms(8)] assms(9)
    by simp
qed

theorem scheduling_twice_halts_witness:
  "\<exists>r c1. AddSchedule kvl (sample_env 0) (sample_add_msg 15) (sample_chain one_call_store 10) = Ret (r, c1) \<and>
    panics (EndBlocker kvl (sample_env 20) (sample_chain (c_store c1) 15))"
proof -
  have "(BlockHeightForSignerContract kvl sample_signer sample_contract one_call_store :: (gerror, _) go)
      = Ret 12"
    by (simp add: BlockHeightForSignerContract_represents [OF represents_one] one_call_def sample_key_def)
  then have "\<exists>c1. AddSchedule kvl (sample_env 0) (sample_add_msg 15) (sample_chain one_call_store 10)
      = Ret (MsgAddScheduleResponse, c1)"
    by (simp add: AddSchedule_def sample_add_msg_def NewMsgAddSchedule_def sample_params_def
        sample_addresses Let_def kvl.ReScheduleCall_eq emit_def)
  then obtain c1 where run: "AddSchedule kvl (sample_env 0) (sample_add_msg 15)
      (sample_chain one_call_store 10) = Ret (MsgAddScheduleResponse, c1)" by blast
  have "panics (EndBlocker kvl (sample_env 20) (sample_chain (c_store c1) 15))"
    by (rule scheduling_twice_halts [OF kvl.kv_store_axioms _ run, of one_call sample_signer
          sample_contract 12 "[1, 2, 3]" _ sample_params])
       (simp_all add: represents_one [unfolded one_call_def sample_key_def] sample_add_msg_def
         NewMsgAddSchedule_def sample_addresses one_call_def sample_key_def)
  with run show ?thesis by blast
qed

section \<open>Long addresses\<close>

text \<open>C17: A call whose signer and contract have more than 52 bytes together, such as two addresses
  of 32 bytes, which the chain accepts, is scheduled like any other and never consumed: both of
  its entries outlast the end of every block, that of its own height included.\<close>
theorem long_signer_stuck:
  assumes "kv_store K" "represents K (c_store c) m" "AddSchedule K env msg c = Ret (r, c1)"
    and "AccAddressFromBech32 env (ma_Signer msg) = Inr signer"
    and "AccAddressFromBech32 env (ma_Contract msg) = Inr contract"
    and "m (signer @ contract) = None" "52 < length signer + length contract"
  shows "kv_Get K (height_key (ma_BlockHeight msg) (signer @ contract)) (c_store c1)
      = Some (enc_call (ma_CallBody msg)) \<and>
    (\<forall>env' c2 c3. EndBlocker K env' c2 = Ret c3 \<longrightarrow>
      kv_Get K (height_key (ma_BlockHeight msg) (signer @ contract)) (c_store c3)
        = kv_Get K (height_key (ma_BlockHeight msg) (signer @ contract)) (c_store (c2 :: ('s, 'w) chain)) \<and>
      kv_Get K (name_key (signer @ contract)) (c_store c3)
        = kv_Get K (name_key (signer @ contract)) (c_store c2))"
proof (intro conjI allI impI)
  show "kv_Get K (height_key (ma_BlockHeight msg) (signer @ contract)) (c_store c1)
      = Some (enc_call (ma_CallBody msg))"
    using kv_store.AddSchedule_fresh [OF assms(1-6)] by (auto simp: represents_height)
qed (use kv_store.EndBlocker_long_keys [OF assms(1), of _ _ _ "signer @ contract"] assms(7) in auto)

theorem long_signer_stuck_witness:
  "\<exists>c1 c2. AddSchedule kvl (sample_env 20) (NewMsgAddSchedule bytes_string (replicate 32 0x63)
        sample_contract [7] 15) (sample_chain kvl_empty 10) = Ret (MsgAddScheduleResponse, c1) \<and>
    EndBlocker kvl (sample_env 20) (sample_chain (c_store c1) 15) = Ret c2 \<and>
    kv_Get kvl (height_key 15 (replicate 32 0x63 @ sample_contract)) (c_store c2) = Some (enc_call [7])"
proof -
  let ?signer = "replicate 32 0x63 :: byte list" and ?env = "sample_env 20"
  let ?msg = "NewMsgAddSchedule bytes_string ?signer sample_contract [7] 15"
  let ?sc = "?signer @ sample_contract"
  have addr: "AccAddressFromBech32 ?env (ma_Signer ?msg) = Inr ?signer"
    "AccAddressFromBech32 ?env (ma_Contract ?msg) = Inr sample_contract"
    by (simp_all add: NewMsgAddSchedule_def sample_addresses)
  have "(BlockHeightForSignerContract kvl ?signer sample_contract kvl_empty :: (gerror, _) go) = Ret 0"
    by (simp add: BlockHeightForSignerContract_represents [OF represents_empty] no_calls_def)
  then obtain c1 where run: "AddSchedule kvl ?env ?msg (sample_chain kvl_empty 10) = Ret (MsgAddScheduleResponse, c1)"
    using addr by (simp add: AddSchedule_def NewMsgAddSchedule_def sample_params_def Let_def
        kvl.AddScheduledCall_eq emit_def)
  have rep: "represents kvl (c_store c1) (no_calls(?sc \<mapsto> (ma_BlockHeight ?msg, ma_CallBody ?msg)))"
    by (rule kvl.AddSchedule_fresh [OF _ run addr]) (simp_all add: represents_empty, simp add: no_calls_def)
  then have due: "kv_Iterate kvl (MakeScheduledCallByBlockHeightPrefixKey 15) (c_store c1) = [(?sc, enc_call [7])]"
    by (intro kvl.iterate_single)
       (simp add: represents_def height_value_def no_calls_def NewMsgAddSchedule_def flip: height_key_def)
  obtain signer contract where d: "decode_consume_key 15 ?sc = (signer, contract)"
    by (cases "decode_consume_key 15 ?sc")
  obtain c2 where "run_scheduled_call kvl ?env sample_params signer contract \<lparr>sc_CallBody = [7]\<rparr>
      (upd_store (removeScheduledCallWithBlockHeight kvl signer contract 15) (sample_chain (c_store c1) 15))
      = Ret (False, c2)"
    using kvl.run_scheduled_call_total [OF sample_benign] by blast
  then have run2: "EndBlocker kvl ?env (sample_chain (c_store c1) 15) = Ret c2"
    using due d ScheduledCall_Unmarshal_enc [OF enc_call_small, of "[7]"]
    by (simp add: EndBlocker_def ConsumeScheduledCallsByHeight_def)
  have "52 < length ?signer + length sample_contract" by (simp add: sample_contract_def)
  moreover have "represents kvl (c_store (sample_chain kvl_empty 10)) no_calls" "no_calls ?sc = None"
    by (simp add: represents_empty) (simp add: no_calls_def)
  ultimately have stuck: "kv_Get kvl (height_key (ma_BlockHeight ?msg) ?sc) (c_store c1)
      = Some (enc_call (ma_CallBody ?msg)) \<and>
    (\<forall>env' c2 c3. EndBlocker kvl env' c2 = Ret c3 \<longrightarrow>
      kv_Get kvl (height_key (ma_BlockHeight ?msg) ?sc) (c_store c3)
        = kv_Get kvl (height_key (ma_BlockHeight ?msg) ?sc) (c_store (c2 :: (kvlist, unit) chain)) \<and>
      kv_Get kvl (name_key ?sc) (c_store c3) = kv_Get kvl (name_key ?sc) (c_store c2))"
    using long_signer_stuck [OF kvl.kv_store_axioms _ run addr] by blast
  have "kv_Get kvl (height_key 15 ?sc) (c_store c2) = Some (enc_call [7])"
    using stuck [THEN conjunct1] stuck [THEN conjunct2, rule_format, OF run2]
    by (simp add: NewMsgAddSchedule_def)
  with run run2 show ?thesis by blast
qed

section \<open>One call\<close>

text \<open>A due call is dropped without any effect, and without charging gas, when the contract
  cannot be asked for its owner, does not confirm the signer, or holds less than the minimum
  balance.\<close>
theorem disqualified_call_dropped:
  assumes "denom (GetBalance env (c_world c) contract (denom (p_MinimumBalance params)))
      = denom (p_MinimumBalance params)"
    and "(\<exists>e. query_is_owner env (c_world c) contract signer = Err e) \<or>
      query_is_owner env (c_world c) contract signer = Ret \<lparr>io_IsOwner = False\<rparr> \<or>
      (\<exists>o'. query_is_owner env (c_world c) contract signer = Ret o') \<and>
      amount (GetBalance env (c_world c) contract (denom (p_MinimumBalance params)))
        < amount (p_MinimumBalance params)"
  shows "run_scheduled_call K env params signer contract call c = Ret (False, c)"
  using assms by (auto simp: run_scheduled_call_def coin_IsLT_def Let_def)

theorem disqualified_call_dropped_witness:
  "run_scheduled_call kvl (sample_env 20) (NewParams \<lparr>denom = ''uturnt'', amount = 501\<rparr> 10) sample_signer
      sample_contract \<lparr>sc_CallBody = [7]\<rparr> (sample_chain kvl_empty 12)
    = Ret (False, sample_chain kvl_empty 12)"
  by (rule disqualified_call_dropped) (simp_all add: NewParams_def)



end
