(* ===== verification/GasLimit.thy ===== *)
theory GasLimit
  imports Types
begin

text \<open>
  \<^verbatim>\<open>determineGasLimit\<close> of \<^verbatim>\<open>keeper/abci.go\<close>: how much a granter allows a grantee to spend,
  by the kind of the fee allowance. The allowances are the types of the SDK's feegrant
  module; the grant lookup and the addition of coins are arguments.
\<close>

text \<open>
  \<^verbatim>\<open>AllowedMsgAllowance\<close> wraps another allowance, which may fail to unpack and may be nil.
\<close>

datatype allowance =
    BasicAllowance "coin list"
  | AllowedMsgAllowance "gerror + allowance option"
  | PeriodicAllowance "coin list" "coin list"
  | OtherAllowance

text \<open>
  The loop: a wrapped allowance becomes the next \<^verbatim>\<open>allowance\<close>, until it is nil.
\<close>

fun gas_limit_loop :: "(coin list \<Rightarrow> coin list \<Rightarrow> coin list) \<Rightarrow> allowance option \<Rightarrow> gerror + coin list" where
  "gas_limit_loop coins_Add None = Inl ErrUnmetMinimumBalance"
| "gas_limit_loop coins_Add (Some (BasicAllowance spendLimit)) = Inr spendLimit"
| "gas_limit_loop coins_Add (Some (AllowedMsgAllowance (Inl err))) = Inl err"
| "gas_limit_loop coins_Add (Some (AllowedMsgAllowance (Inr allowance))) =
     gas_limit_loop coins_Add allowance"
| "gas_limit_loop coins_Add (Some (PeriodicAllowance periodCanSpend basicSpendLimit)) =
     Inr (coins_Add periodCanSpend basicSpendLimit)"
| "gas_limit_loop coins_Add (Some OtherAllowance) = Inl ErrUnmetMinimumBalance"

definition determineGasLimit ::
  "(addr \<Rightarrow> addr \<Rightarrow> gerror + allowance option) \<Rightarrow> (coin list \<Rightarrow> coin list \<Rightarrow> coin list)
    \<Rightarrow> addr \<Rightarrow> addr \<Rightarrow> gerror + coin list" where
  "determineGasLimit GetAllowance coins_Add granter grantee =
     (case GetAllowance granter grantee of
        Inl err \<Rightarrow> Inl err
      | Inr allowance \<Rightarrow> gas_limit_loop coins_Add allowance)"

text \<open>An allowance behind \<open>n\<close> message filters.\<close>

fun filtered :: "nat \<Rightarrow> allowance option \<Rightarrow> allowance option" where
  "filtered 0 a = a"
| "filtered (Suc n) a = Some (AllowedMsgAllowance (Inr (filtered n a)))"

lemma gas_limit_filtered: "gas_limit_loop add (filtered n a) = gas_limit_loop add a"
  by (induction n) simp_all

text \<open>The gas limit sees through any number of message filters: it is the spend limit of a
  basic allowance, the sum of both limits of a periodic one, and an unmet minimum balance for
  no allowance or one of another kind.\<close>
theorem gas_limit_of_grant:
  assumes "GetAllowance granter grantee = Inr (filtered n a)"
  shows "determineGasLimit GetAllowance add granter grantee =
    (case a of
       None \<Rightarrow> Inl ErrUnmetMinimumBalance
     | Some (BasicAllowance l) \<Rightarrow> Inr l
     | Some (PeriodicAllowance p l) \<Rightarrow> Inr (add p l)
     | Some OtherAllowance \<Rightarrow> Inl ErrUnmetMinimumBalance
     | Some (AllowedMsgAllowance (Inl err)) \<Rightarrow> Inl err
     | Some (AllowedMsgAllowance (Inr a')) \<Rightarrow> determineGasLimit (\<lambda>_ _. Inr a') add granter grantee)"
  using assms
  by (simp add: determineGasLimit_def gas_limit_filtered split: option.split allowance.split sum.split)

theorem gas_limit_of_grant_witness:
  "determineGasLimit (\<lambda>_ _. Inr (filtered 3 (Some (PeriodicAllowance [] [\<lparr>denom = ''t'', amount = 4\<rparr>]))))
     (@) [1] [2] = Inr [\<lparr>denom = ''t'', amount = 4\<rparr>]"
  using gas_limit_of_grant [of "\<lambda>_ _. Inr (filtered 3 (Some (PeriodicAllowance [] [\<lparr>denom = ''t'', amount = 4\<rparr>])))"
      "[1]" "[2]" 3 "Some (PeriodicAllowance [] [\<lparr>denom = ''t'', amount = 4\<rparr>])" "(@)"]
  by simp

end
