(* ===== verification/Cli.thy ===== *)
theory Cli
  imports Types
begin

text \<open>
  \<^verbatim>\<open>x/schedule/client/cli/tx_add_schedule.go\<close> and \<^verbatim>\<open>tx_remove_schedule.go\<close>: from the arguments of
  a command to the message that is handed to \<^verbatim>\<open>GenerateOrBroadcastTxCLI\<close>. The client context
  is an argument: its sender, or the error of getting it.
\<close>

section \<open>Arguments\<close>

text \<open>\<^verbatim>\<open>cobra.ExactArgs(n)\<close>, and indexing the argument slice, which panics out of range.\<close>

definition ExactArgs :: "nat \<Rightarrow> string list \<Rightarrow> (gerror, unit) go" where
  "ExactArgs n args =
     (if length args \<noteq> n then Err (TextError ''accepts a fixed number of args'') else Ret ())"

definition arg :: "string list \<Rightarrow> nat \<Rightarrow> ('e, string) go" where
  "arg args i = (if i < length args then Ret (args ! i) else Panic IndexOutOfRange)"

text \<open>
  \<^verbatim>\<open>strconv.ParseUint(s, 10, 0)\<close>: one or more decimal digits, the value of which fits 64 bits.
\<close>

definition digit_value :: "char \<Rightarrow> nat option" where
  "digit_value c = (let n = of_char c in if 48 \<le> n \<and> n \<le> 57 then Some (n - 48) else None)"

fun parse_digits :: "nat \<Rightarrow> string \<Rightarrow> nat option" where
  "parse_digits n [] = Some n"
| "parse_digits n (c # cs) =
     (case digit_value c of None \<Rightarrow> None | Some d \<Rightarrow> parse_digits (10 * n + d) cs)"

definition ParseUint :: "string \<Rightarrow> gerror + u64" where
  "ParseUint s =
     (if s = [] then Inl (TextError ''invalid syntax'')
      else case parse_digits 0 s of
        None \<Rightarrow> Inl (TextError ''invalid syntax'')
      | Some n \<Rightarrow> if n < 2 ^ 64 then Inr (word_of_nat n) else Inl (TextError ''value out of range''))"

definition or_err :: "('e \<Rightarrow> gerror) \<Rightarrow> 'e + 'a \<Rightarrow> (gerror, 'a) go" where
  "or_err f r = (case r of Inl e \<Rightarrow> Err (f e) | Inr a \<Rightarrow> Ret a)"

section \<open>Commands\<close>

definition CmdAddSchedule ::
  "bech32_from \<Rightarrow> (addr \<Rightarrow> string) \<Rightarrow> gerror + addr \<Rightarrow> string list \<Rightarrow> (gerror, MsgAddSchedule) go" where
  "CmdAddSchedule AccAddressFromBech32 String clientCtx args =
     go_bind (ExactArgs 3 args) (\<lambda>_.
     go_bind (arg args 0) (\<lambda>a0.
     go_bind (or_err TextError (AccAddressFromBech32 a0)) (\<lambda>argContract.
     go_bind (arg args 1) (\<lambda>argCallBody.
     go_bind (arg args 3) (\<lambda>a3.
     go_bind (or_err id (ParseUint a3)) (\<lambda>argBlockHeight.
     go_bind (or_err id clientCtx) (\<lambda>from.
       let msg = NewMsgAddSchedule String from argContract (string_bytes argCallBody) argBlockHeight
       in go_bind (MsgAddSchedule_ValidateBasic AccAddressFromBech32 msg) (\<lambda>_. Ret msg))))))))"

definition CmdRemoveSchedule ::
  "bech32_from \<Rightarrow> (addr \<Rightarrow> string) \<Rightarrow> gerror + addr \<Rightarrow> string list \<Rightarrow> (gerror, MsgRemoveSchedule) go" where
  "CmdRemoveSchedule AccAddressFromBech32 String clientCtx args =
     go_bind (ExactArgs 1 args) (\<lambda>_.
     go_bind (arg args 0) (\<lambda>a0.
     go_bind (or_err TextError (AccAddressFromBech32 a0)) (\<lambda>argContract.
     go_bind (or_err id clientCtx) (\<lambda>from.
       let msg = NewMsgRemoveSchedule String from argContract
       in go_bind (MsgRemoveSchedule_ValidateBasic AccAddressFromBech32 msg) (\<lambda>_. Ret msg)))))"

text \<open>
  The query commands take no arguments, ask the query client and print its answer. The client
  and the printing are arguments.
\<close>

definition NoArgs :: "string list \<Rightarrow> (gerror, unit) go" where
  "NoArgs args = (if args \<noteq> [] then Err (TextError ''unknown command'') else Ret ())"

definition CmdQueryParams :: "gerror + 'p \<Rightarrow> ('p \<Rightarrow> gerror + 'out) \<Rightarrow> string list \<Rightarrow> (gerror, 'out) go" where
  "CmdQueryParams Params PrintProto args =
     go_bind (NoArgs args) (\<lambda>_.
     go_bind (or_err id Params) (\<lambda>res.
     or_err id (PrintProto res)))"

definition CmdQueryScheduledCalls ::
  "gerror + 'c \<Rightarrow> ('c \<Rightarrow> gerror + 'out) \<Rightarrow> string list \<Rightarrow> (gerror, 'out) go" where
  "CmdQueryScheduledCalls ScheduledCalls PrintProto args =
     go_bind (NoArgs args) (\<lambda>_.
     go_bind (or_err id ScheduledCalls) (\<lambda>res.
     or_err id (PrintProto res)))"

text \<open>The module's commands, under its name.\<close>

datatype schedule_command = AddScheduleCmd | RemoveScheduleCmd | QueryParamsCmd | QueryScheduledCallsCmd

definition GetTxCmd :: "string \<times> schedule_command list" where
  "GetTxCmd = (ModuleName, [AddScheduleCmd, RemoveScheduleCmd])"

definition GetQueryCmd :: "string \<times> schedule_command list" where
  "GetQueryCmd = (ModuleName, [QueryParamsCmd, QueryScheduledCallsCmd])"

text \<open>C33: The command that adds a schedule never sends a message: it accepts exactly three
  arguments and then reads a fourth, so it fails on the argument count or the contract
  address, and panics on every call that is written as its usage says. The command that
  removes one sends the message of the sender and the given contract.\<close>
theorem add_schedule_command_panics:
  "(\<forall>msg. CmdAddSchedule B String ctx args \<noteq> Ret msg) \<and>
   (panics (CmdAddSchedule B String ctx args) \<longleftrightarrow> length args = 3 \<and> \<not> isl (B (args ! 0))) \<and>
   (B a = Inr contract \<and> B (String from) = Inr from \<and> B (String contract) = Inr contract \<longrightarrow>
     CmdRemoveSchedule B String (Inr from) [a]
       = Ret \<lparr>mr_Signer = String from, mr_Contract = String contract\<rparr>)"
  by (cases "B (args ! 0)")
     (auto simp: CmdAddSchedule_def CmdRemoveSchedule_def ExactArgs_def arg_def or_err_def go_simps
       NewMsgRemoveSchedule_def MsgRemoveSchedule_ValidateBasic_def)

theorem add_schedule_command_panics_witness:
  "panics (CmdAddSchedule (\<lambda>s. Inr (string_bytes s)) bytes_string (Inr [1]) [''contract'', ''body'', ''12''])
   \<and> CmdRemoveSchedule (\<lambda>s. Inr (string_bytes s)) bytes_string (Inr [1]) [''c'']
       = Ret \<lparr>mr_Signer = bytes_string [1], mr_Contract = bytes_string (string_bytes ''c'')\<rparr>"
  using add_schedule_command_panics [of "\<lambda>s. Inr (string_bytes s)" bytes_string "Inr [1]"
      "[''contract'', ''body'', ''12'']" "''c''" "string_bytes ''c''" "[1]"]
  by simp

end
