(* ===== verification/Paths.thy ===== *)
theory Paths
  imports Prelude
begin

text \<open>
  The lexical part of Go's \<^verbatim>\<open>path\<close> and \<^verbatim>\<open>path/filepath\<close> on a Unix system, from which the daemon and
  the tests make the names of their files: \<^verbatim>\<open>Clean\<close>, \<^verbatim>\<open>Join\<close> and \<^verbatim>\<open>Dir\<close>; and \<^verbatim>\<open>fmt\<close>'s \<^verbatim>\<open>%d\<close>.
\<close>

section \<open>Decimal numbers\<close>

fun show_nat :: "nat \<Rightarrow> string" where
  "show_nat n = (if n < 10 then [char_of (48 + n)] else show_nat (n div 10) @ [char_of (48 + n mod 10)])"

declare show_nat.simps [simp del]

definition show_int :: "int \<Rightarrow> string" where
  "show_int i = (if i < 0 then ''-'' @ show_nat (nat (- i)) else show_nat (nat i))"

definition read_nat :: "string \<Rightarrow> nat" where
  "read_nat s = foldl (\<lambda>a c. 10 * a + (of_char c - 48)) 0 s"

lemma of_char_digit: "d < 10 \<Longrightarrow> (of_char (char_of (48 + d) :: char) :: nat) = 48 + d"
  by simp

lemma read_show_nat: "read_nat (show_nat n) = n"
proof (induction n rule: show_nat.induct)
  case (1 n)
  show ?case
  proof (cases "n < 10")
    case True
    then show ?thesis
      using of_char_digit [of n] by (subst show_nat.simps) (simp add: read_nat_def del: of_char_of)
  next
    case False
    with 1 have "read_nat (show_nat (n div 10)) = n div 10" by simp
    with False show ?thesis
      using of_char_digit [of "n mod 10"]
      by (subst show_nat.simps) (simp add: read_nat_def del: of_char_of)
  qed
qed

lemma show_nat_inject [simp]: "show_nat m = show_nat n \<longleftrightarrow> m = n"
proof
  assume "show_nat m = show_nat n"
  from arg_cong [OF this, of read_nat] show "m = n" by (simp only: read_show_nat)
qed simp

lemma show_nat_slash: "CHR ''/'' \<notin> set (show_nat n)"
proof (induction n rule: show_nat.induct)
  case (1 n)
  have digit: "CHR ''/'' \<noteq> char_of (48 + d)" if "d < 10" for d :: nat
  proof
    assume "CHR ''/'' = char_of (48 + d)"
    from arg_cong [OF this, of "of_char :: char \<Rightarrow> nat"] of_char_digit [OF that] show False by simp
  qed
  show ?case
  proof (cases "n < 10")
    case True
    then show ?thesis using digit [of n] by (subst show_nat.simps) simp
  next
    case False
    then show ?thesis using 1 digit [of "n mod 10"] by (subst show_nat.simps) simp
  qed
qed

section \<open>Paths\<close>

text \<open>A path cut at its slashes, and put together again.\<close>

fun segments :: "string \<Rightarrow> string list" where
  "segments [] = [[]]"
| "segments (c # cs) =
     (if c = CHR ''/'' then [] # segments cs
      else (case segments cs of [] \<Rightarrow> [[c]] | s # ss \<Rightarrow> (c # s) # ss))"

fun slashed :: "string list \<Rightarrow> string" where
  "slashed [] = []"
| "slashed [s] = s"
| "slashed (s # ss) = s @ ''/'' @ slashed ss"

text \<open>
  \<^verbatim>\<open>Clean\<close> goes through the elements: empty ones and dots are dropped, and two dots take back
  the element before, if it is not itself two dots; at the root they are dropped. \<open>out\<close> is the
  result so far, backwards.
\<close>

fun clean_segments :: "bool \<Rightarrow> string list \<Rightarrow> string list \<Rightarrow> string list" where
  "clean_segments rooted out [] = rev out"
| "clean_segments rooted out (s # ss) =
     (if s = [] \<or> s = ''.'' then clean_segments rooted out ss
      else if s = ''..'' then
        (case out of
           [] \<Rightarrow> clean_segments rooted (if rooted then [] else [s]) ss
         | prev # rest \<Rightarrow>
             if prev = ''..'' then clean_segments rooted (s # out) ss
             else clean_segments rooted rest ss)
      else clean_segments rooted (s # out) ss)"

definition path_Clean :: "string \<Rightarrow> string" where
  "path_Clean p =
     (let rooted = (take 1 p = ''/'');
          out = (if rooted then ''/'' else []) @ slashed (clean_segments rooted [] (segments p))
      in if out = [] then ''.'' else out)"

definition path_Join :: "string list \<Rightarrow> string" where
  "path_Join elems =
     (case dropWhile (\<lambda>e. e = []) elems of [] \<Rightarrow> [] | es \<Rightarrow> path_Clean (slashed es))"

definition path_Dir :: "string \<Rightarrow> string" where
  "path_Dir p = path_Clean (rev (dropWhile (\<lambda>c. c \<noteq> CHR ''/'') (rev p)))"

section \<open>Clean paths stay as they are\<close>

text \<open>What \<open>clean_segments\<close> leaves: proper names, after two dots at most at the start of a relative path.\<close>

definition clean_list :: "bool \<Rightarrow> string list \<Rightarrow> bool" where
  "clean_list rooted ss \<longleftrightarrow> [] \<notin> set ss \<and> ''.'' \<notin> set ss \<and>
     (\<exists>n names. ss = replicate n ''..'' @ names \<and> ''..'' \<notin> set names \<and> (rooted \<longrightarrow> n = 0))"

lemma clean_list_parts:
  assumes "clean_list rooted (rev out)"
  obtains n names where "rev out = replicate n ''..'' @ names" "''..'' \<notin> set names" "rooted \<longrightarrow> n = 0"
    "[] \<notin> set out" "''.'' \<notin> set out" "[] \<notin> set names" "''.'' \<notin> set names"
proof -
  from assms obtain n names where out: "rev out = replicate n ''..'' @ names"
    "''..'' \<notin> set names" "rooted \<longrightarrow> n = 0" "[] \<notin> set out" "''.'' \<notin> set out"
    by (auto simp: clean_list_def)
  moreover have "set names \<subseteq> set out" using arg_cong [OF out(1), of set] by auto
  ultimately show thesis using that by blast
qed

lemma clean_list_name:
  assumes "clean_list rooted (rev out)" "s \<noteq> []" "s \<noteq> ''.''" "s \<noteq> ''..''"
  shows "clean_list rooted (rev (s # out))"
proof -
  from assms(1) obtain n names where out: "rev out = replicate n ''..'' @ names" "''..'' \<notin> set names"
    "rooted \<longrightarrow> n = 0" "[] \<notin> set names" "''.'' \<notin> set names" by (rule clean_list_parts)
  with assms(2-) show ?thesis
    unfolding clean_list_def by (intro conjI exI [of _ n] exI [of _ "names @ [s]"]) auto
qed

lemma clean_list_dots:
  assumes "clean_list rooted (rev (''..'' # rest))"
  shows "clean_list rooted (rev (''..'' # ''..'' # rest))"
proof -
  from assms obtain n names where out: "rev (''..'' # rest) = replicate n ''..'' @ names"
    "''..'' \<notin> set names" "rooted \<longrightarrow> n = 0" "[] \<notin> set (''..'' # rest)" "''.'' \<notin> set (''..'' # rest)"
    by (rule clean_list_parts)
  from out(1,2) have names: "names = []" by (cases names rule: rev_cases) auto
  with out(1) have "rev (''..'' # ''..'' # rest) = replicate (Suc n) ''..'' @ []"
    by (simp add: replicate_append_same)
  moreover have "\<not> rooted" using out(1,3) names by auto
  ultimately show ?thesis
    using out(4,5) unfolding clean_list_def
    by (intro conjI exI [of _ "Suc n"] exI [of _ "[]"]) (auto simp del: rev.simps replicate.simps)
qed

lemma clean_list_up:
  assumes "clean_list rooted (rev (prev # rest))" "prev \<noteq> ''..''"
  shows "clean_list rooted (rev rest)"
proof -
  from assms(1) obtain n names where out: "rev (prev # rest) = replicate n ''..'' @ names"
    "''..'' \<notin> set names" "rooted \<longrightarrow> n = 0" "[] \<notin> set names" "''.'' \<notin> set names"
    by (rule clean_list_parts)
  have "names \<noteq> []"
  proof
    assume "names = []"
    with out(1) have "prev \<in> set (replicate n ''..'')" by (metis append_Nil2 list.set_intros(1) set_rev)
    with assms(2) show False by simp
  qed
  with out(1) obtain names' where "names = names' @ [prev]" by (cases names rule: rev_cases) auto
  with out show ?thesis
    unfolding clean_list_def by (intro conjI exI [of _ n] exI [of _ names']) auto
qed

lemma clean_list_first: "clean_list rooted (rev (if rooted then [] else [''..'']))"
  by (auto simp: clean_list_def intro: exI [of _ 0] exI [of _ "Suc 0"])

lemma clean_segments_clean:
  "clean_list rooted (rev out) \<Longrightarrow> clean_list rooted (clean_segments rooted out ss)"
proof (induction rooted out ss rule: clean_segments.induct)
  case (2 rooted out s ss)
  show ?case
  proof (cases "s = [] \<or> s = ''.'' \<or> s \<noteq> ''..''")
    case True
    with 2 clean_list_name [of rooted out s] show ?thesis by auto
  next
    case dots: False
    show ?thesis
    proof (cases out)
      case Nil
      with 2 dots clean_list_first [of rooted] show ?thesis by (cases rooted) simp_all
    next
      case (Cons prev rest)
      with 2 dots clean_list_dots [of rooted rest] clean_list_up [of rooted prev rest] show ?thesis
        by (cases "prev = ''..''") simp_all
    qed
  qed
qed simp

lemma clean_segments_prefix:
  "\<not> rooted \<Longrightarrow> set out \<subseteq> {''..''} \<Longrightarrow>
    clean_segments rooted out (replicate n ''..'' @ ss) = clean_segments rooted (replicate n ''..'' @ out) ss"
  by (induction n arbitrary: out)
     (auto simp: replicate_app_Cons_same split: list.split)

lemma clean_segments_names:
  "''..'' \<notin> set ss \<Longrightarrow> [] \<notin> set ss \<Longrightarrow> ''.'' \<notin> set ss \<Longrightarrow>
    clean_segments rooted out ss = rev out @ ss"
  by (induction ss arbitrary: out) auto

lemma clean_segments_same:
  assumes "clean_list rooted ss"
  shows "clean_segments rooted [] ss = ss"
proof -
  from assms obtain n names where ss: "ss = replicate n ''..'' @ names" "''..'' \<notin> set names"
    "rooted \<longrightarrow> n = 0" "[] \<notin> set names" "''.'' \<notin> set names"
    unfolding clean_list_def by (metis Un_iff set_append)
  then show ?thesis
    using clean_segments_prefix [of rooted "[]" n names] clean_segments_names [of names rooted "replicate n ''..''"]
      clean_segments_names [of names rooted "[]"]
    by (cases rooted) simp_all
qed

lemma segments_no_slash: "s \<in> set (segments p) \<Longrightarrow> CHR ''/'' \<notin> set s"
  by (induction p arbitrary: s rule: segments.induct) (force split: if_splits list.splits)+

lemma segments_plain: "CHR ''/'' \<notin> set s \<Longrightarrow> segments s = [s]"
  by (induction s) auto

lemma segments_append: "CHR ''/'' \<notin> set s \<Longrightarrow> segments (s @ ''/'' @ t) = s # segments t"
  by (induction s) auto

lemma segments_slashed: "ss \<noteq> [] \<Longrightarrow> \<forall>s \<in> set ss. CHR ''/'' \<notin> set s \<Longrightarrow> segments (slashed ss) = ss"
  by (induction ss rule: slashed.induct) (simp_all add: segments_plain segments_append [simplified])

lemma clean_segments_subset: "set (clean_segments rooted out ss) \<subseteq> set out \<union> set ss"
  by (induction rooted out ss rule: clean_segments.induct) (auto split: list.splits if_splits)

lemma slashed_start: "[] \<notin> set ss \<Longrightarrow> \<forall>s \<in> set ss. CHR ''/'' \<notin> set s \<Longrightarrow> take 1 (slashed ss) \<noteq> ''/''"
proof (cases ss rule: slashed.cases)
  case (2 s)
  assume "[] \<notin> set ss" "\<forall>s \<in> set ss. CHR ''/'' \<notin> set s"
  with 2 show ?thesis by (cases s) auto
next
  case (3 s t ts)
  assume "[] \<notin> set ss" "\<forall>s \<in> set ss. CHR ''/'' \<notin> set s"
  with 3 show ?thesis by (cases s) auto
qed simp

lemma slashed_Nil: "[] \<notin> set ss \<Longrightarrow> slashed ss = [] \<longleftrightarrow> ss = []"
  by (cases ss rule: slashed.cases) auto

theorem path_Clean_idempotent: "path_Clean (path_Clean p) = path_Clean p"
proof -
  define rooted where "rooted = (take 1 p = ''/'')"
  define out where "out = clean_segments rooted [] (segments p)"
  have clean: "clean_list rooted out"
    unfolding out_def by (rule clean_segments_clean) (auto simp: clean_list_def intro: exI [of _ 0])
  then have ne: "[] \<notin> set out" by (simp add: clean_list_def)
  have plain: "\<forall>s \<in> set out. CHR ''/'' \<notin> set s"
    using clean_segments_subset [of rooted "[]" "segments p"] segments_no_slash
    by (auto simp: out_def)
  have p: "path_Clean p = (if rooted then ''/'' @ slashed out else if out = [] then ''.'' else slashed out)"
    using ne by (simp add: path_Clean_def rooted_def out_def slashed_Nil Let_def)
  show ?thesis
  proof (cases "out = []")
    case True
    then show ?thesis
      using p by (cases rooted) (simp_all add: path_Clean_def)
  next
    case False
    then have "clean_segments rooted [] (segments (slashed out)) = out"
      by (simp add: segments_slashed plain clean_segments_same clean)
    then show ?thesis
      using p slashed_start [OF ne plain] False ne
      by (cases rooted) (simp_all add: path_Clean_def Let_def slashed_Nil)
  qed
qed

end
