(* ===== verification/App.thy ===== *)
theory App
  imports Module BlockSpec Samples Paths "HOL-Library.Multiset"
begin

text \<open>
  \<^verbatim>\<open>app/app.go\<close>: how the application is put together - which modules it has, in which order
  they run, which stores, parameter subspaces and module accounts exist - and the choice of
  the enabled wasm proposals. A module is named by its \<^verbatim>\<open>ModuleName\<close> constant.
\<close>

section \<open>Names\<close>

datatype app_module =
    ModAuth | ModGenutil | ModBank | ModCapability | ModStaking | ModMint | ModDistr | ModGov
  | ModParams | ModCrisis | ModSlashing | ModFeegrant | ModAuthz | ModIbc | ModUpgrade
  | ModEvidence | ModTransfer | ModVesting | ModWasm | ModIca | ModInterTx | ModIbcFee | ModSchedule

text \<open>Store keys and subspaces; interchain accounts have two of each.\<close>

datatype store_name =
    OfModule app_module | IcaHost | IcaController | MemStore app_module | TransientStore app_module

text \<open>Module accounts and their permissions.\<close>

datatype account_name =
    FeeCollector | ModuleAccount app_module | BondedPool | NotBondedPool

datatype permission = Minter | Burner | Staking

section \<open>Modules and their order\<close>

definition ModuleBasics :: "app_module list" where
  "ModuleBasics =
     [ModAuth, ModGenutil, ModBank, ModCapability, ModStaking, ModMint, ModDistr, ModGov, ModParams,
      ModCrisis, ModSlashing, ModFeegrant, ModAuthz, ModIbc, ModUpgrade, ModEvidence, ModTransfer,
      ModVesting, ModWasm, ModIca, ModInterTx, ModIbcFee, ModSchedule]"

definition module_manager :: "app_module list" where
  "module_manager =
     [ModGenutil, ModAuth, ModVesting, ModBank, ModCapability, ModGov, ModMint, ModSlashing, ModDistr,
      ModStaking, ModUpgrade, ModWasm, ModEvidence, ModFeegrant, ModAuthz, ModIbc, ModParams,
      ModTransfer, ModIbcFee, ModIca, ModInterTx, ModSchedule, ModCrisis]"

definition OrderBeginBlockers :: "app_module list" where
  "OrderBeginBlockers =
     [ModUpgrade, ModCapability, ModMint, ModDistr, ModSlashing, ModEvidence, ModStaking, ModAuth,
      ModBank, ModGov, ModCrisis, ModGenutil, ModAuthz, ModFeegrant, ModParams, ModVesting,
      ModSchedule, ModTransfer, ModIbc, ModIca, ModIbcFee, ModInterTx, ModWasm]"

definition OrderEndBlockers :: "app_module list" where
  "OrderEndBlockers =
     [ModCrisis, ModGov, ModStaking, ModCapability, ModAuth, ModBank, ModDistr, ModSlashing, ModMint,
      ModGenutil, ModEvidence, ModAuthz, ModFeegrant, ModParams, ModUpgrade, ModVesting,
      ModSchedule, ModTransfer, ModIbc, ModIca, ModIbcFee, ModInterTx, ModWasm]"

definition OrderInitGenesis :: "app_module list" where
  "OrderInitGenesis =
     [ModCapability, ModAuth, ModBank, ModDistr, ModStaking, ModSlashing, ModGov, ModMint, ModCrisis,
      ModGenutil, ModEvidence, ModAuthz, ModFeegrant, ModParams, ModUpgrade, ModVesting,
      ModTransfer, ModIbc, ModIca, ModIbcFee, ModInterTx, ModSchedule, ModWasm]"

text \<open>
  The application's \<open>BeginBlocker\<close> and \<open>EndBlocker\<close> run the modules' in order; a panic of one
  ends the block. What a module other than the scheduler does is an argument.
\<close>

fun run_in_order :: "(app_module \<Rightarrow> 'c \<Rightarrow> ('e, 'c) go) \<Rightarrow> app_module list \<Rightarrow> 'c \<Rightarrow> ('e, 'c) go" where
  "run_in_order hook [] c = Ret c"
| "run_in_order hook (md # mds) c = go_bind (hook md c) (run_in_order hook mds)"

definition app_BeginBlocker ::
  "(app_module \<Rightarrow> ('s, 'w) chain \<Rightarrow> (gerror, ('s, 'w) chain) go) \<Rightarrow> ('s, 'w) chain
    \<Rightarrow> (gerror, ('s, 'w) chain) go" where
  "app_BeginBlocker others =
     run_in_order (\<lambda>md c. if md = ModSchedule then Ret (BeginBlock c) else others md c)
       OrderBeginBlockers"

definition app_EndBlocker ::
  "'s kv_ops \<Rightarrow> 'w env \<Rightarrow> (app_module \<Rightarrow> ('s, 'w) chain \<Rightarrow> (gerror, ('s, 'w) chain) go)
    \<Rightarrow> ('s, 'w) chain \<Rightarrow> (gerror, ('s, 'w) chain) go" where
  "app_EndBlocker K env others =
     run_in_order (\<lambda>md c. if md = ModSchedule
       then go_bind (EndBlock K env c) (\<lambda>r. Ret (snd (r :: unit list \<times> ('s, 'w) chain))) else others md c)
       OrderEndBlockers"

section \<open>Stores, subspaces and accounts\<close>

definition kv_store_keys :: "store_name list" where
  "kv_store_keys =
     map OfModule
       [ModAuth, ModBank, ModStaking, ModMint, ModDistr, ModSlashing, ModGov, ModParams, ModIbc,
        ModUpgrade, ModEvidence, ModTransfer, ModCapability, ModFeegrant, ModAuthz, ModWasm]
     @ [IcaHost, IcaController, OfModule ModInterTx, OfModule ModIbcFee, OfModule ModSchedule]"

definition GetKey :: "store_name \<Rightarrow> store_name option" where
  "GetKey storeKey = (if storeKey \<in> set kv_store_keys then Some storeKey else None)"

definition param_subspaces :: "store_name list" where
  "param_subspaces =
     map OfModule
       [ModAuth, ModBank, ModStaking, ModMint, ModDistr, ModSlashing, ModGov, ModCrisis, ModTransfer,
        ModIbc]
     @ [IcaHost, IcaController, OfModule ModSchedule, OfModule ModWasm]"

definition GetSubspace :: "store_name \<Rightarrow> store_name option" where
  "GetSubspace moduleName = (if moduleName \<in> set param_subspaces then Some moduleName else None)"

text \<open>The keys and the subspace the scheduler's keeper is made with.\<close>

definition schedule_keeper_args :: "store_name option \<times> store_name option \<times> store_name option" where
  "schedule_keeper_args =
     (GetKey (OfModule ModSchedule), GetKey (MemStore ModSchedule), GetSubspace (OfModule ModSchedule))"

definition maccPerms :: "(account_name \<times> permission list) list" where
  "maccPerms =
     [(FeeCollector, []),
      (ModuleAccount ModDistr, []),
      (ModuleAccount ModMint, [Minter]),
      (BondedPool, [Burner, Staking]),
      (NotBondedPool, [Burner, Staking]),
      (ModuleAccount ModGov, [Burner]),
      (ModuleAccount ModTransfer, [Minter, Burner]),
      (ModuleAccount ModIbcFee, []),
      (ModuleAccount ModIca, []),
      (ModuleAccount ModSchedule, [Burner]),
      (ModuleAccount ModWasm, [Burner])]"

definition GetMaccPerms :: "(account_name \<times> permission list) list" where
  "GetMaccPerms = maccPerms"

definition ModuleAccountAddrs :: "(account_name \<Rightarrow> string) \<Rightarrow> (string \<times> bool) list" where
  "ModuleAccountAddrs NewModuleAddress = map (\<lambda>(acc, perms). (NewModuleAddress acc, True)) maccPerms"

section \<open>Enabled proposals\<close>

text \<open>
  \<^verbatim>\<open>strings.Split(s, ",")\<close>; the wasm module's lists and the conversion are arguments.
\<close>

fun split_comma :: "string \<Rightarrow> string list" where
  "split_comma [] = [[]]"
| "split_comma (c # cs) =
     (if c = CHR 0x2C then [] # split_comma cs
      else (case split_comma cs of [] \<Rightarrow> [[c]] | p # ps \<Rightarrow> (c # p) # ps))"

definition GetEnabledProposals ::
  "'p list \<Rightarrow> 'p list \<Rightarrow> (string list \<Rightarrow> string + 'p list) \<Rightarrow> string \<Rightarrow> string \<Rightarrow> ('e, 'p list) go" where
  "GetEnabledProposals EnableAll DisableAll Convert EnableSpecificProposals ProposalsEnabled =
     (if EnableSpecificProposals = []
      then (if ProposalsEnabled = ''true'' then Ret EnableAll else Ret DisableAll)
      else case Convert (split_comma EnableSpecificProposals) of
        Inl err \<Rightarrow> Panic (ForeignPanic err)
      | Inr proposals \<Rightarrow> Ret proposals)"

text \<open>The settings the application is built with, and the node's home directory.\<close>

definition default_ProposalsEnabled :: string where
  "default_ProposalsEnabled = ''true''"

definition default_EnableSpecificProposals :: string where
  "default_EnableSpecificProposals = []"

definition Bech32Prefix :: string where
  "Bech32Prefix = ''burnt''"

definition app_Name :: string where
  "app_Name = ''burnt''"

definition NodeDir :: string where
  "NodeDir = ''.burntd''"

text \<open>
  \<^verbatim>\<open>DefaultNodeHome\<close> is first made from \<open>NodeDir\<close>, then \<^verbatim>\<open>init()\<close> sets it from the
  application's name; a process without a home directory does not start.
\<close>

definition DefaultNodeHome_var :: "string \<Rightarrow> string" where
  "DefaultNodeHome_var HOME = HOME @ ''/'' @ NodeDir"

definition os_UserHomeDir :: "string \<Rightarrow> string + string" where
  "os_UserHomeDir HOME = (if HOME = [] then Inl ''$HOME is not defined'' else Inr HOME)"

definition DefaultNodeHome_init :: "string \<Rightarrow> (gerror, string) go" where
  "DefaultNodeHome_init HOME =
     (case os_UserHomeDir HOME of
        Inl err \<Rightarrow> Panic (ForeignPanic err)
      | Inr userHomeDir \<Rightarrow> Ret (path_Join [userHomeDir, ''.'' @ app_Name]))"

section \<open>Lemmas\<close>

lemma run_in_order_append:
  "run_in_order hook (xs @ ys) c = go_bind (run_in_order hook xs c) (run_in_order hook ys)"
  by (induction xs arbitrary: c) (auto simp: go_bind_assoc intro!: go_bind_cong)

lemma mset_eq_distinct:
  "distinct xs \<Longrightarrow> distinct ys \<Longrightarrow> set xs = set ys \<Longrightarrow> mset xs = mset ys"
  by (simp add: set_eq_iff_mset_eq_distinct)

lemma orders_distinct:
  "distinct module_manager" "distinct OrderBeginBlockers" "distinct OrderEndBlockers"
  "distinct OrderInitGenesis" "distinct ModuleBasics"
  by (simp_all add: module_manager_def OrderBeginBlockers_def OrderEndBlockers_def
      OrderInitGenesis_def ModuleBasics_def)

lemma orders_mset:
  "mset OrderBeginBlockers = mset module_manager" "mset OrderEndBlockers = mset module_manager"
  "mset OrderInitGenesis = mset module_manager" "mset ModuleBasics = mset module_manager"
proof -
  show "mset OrderBeginBlockers = mset module_manager"
    by (rule mset_eq_distinct) (auto simp: orders_distinct OrderBeginBlockers_def module_manager_def)
  show "mset OrderEndBlockers = mset module_manager"
    by (rule mset_eq_distinct) (auto simp: orders_distinct OrderEndBlockers_def module_manager_def)
  show "mset OrderInitGenesis = mset module_manager"
    by (rule mset_eq_distinct) (auto simp: orders_distinct OrderInitGenesis_def module_manager_def)
  show "mset ModuleBasics = mset module_manager"
    by (rule mset_eq_distinct) (auto simp: orders_distinct ModuleBasics_def module_manager_def)
qed

section \<open>Properties\<close>

text \<open>Every module of the application is initialized, begins and ends each block exactly once:
  the three orders and the basic manager are permutations of the module manager. On genesis
  the capability module comes first, genutil after staking, and wasm last; the scheduler
  ends its block after staking and before wasm.\<close>
theorem module_orders:
  "mset OrderBeginBlockers = mset module_manager \<and> mset OrderEndBlockers = mset module_manager \<and>
   mset OrderInitGenesis = mset module_manager \<and> mset ModuleBasics = mset module_manager \<and>
   distinct module_manager \<and>
   hd OrderInitGenesis = ModCapability \<and> last OrderInitGenesis = ModWasm \<and>
   ModGenutil \<in> set (tl (dropWhile (\<lambda>md. md \<noteq> ModStaking) OrderInitGenesis)) \<and>
   ModSchedule \<in> set (tl (dropWhile (\<lambda>md. md \<noteq> ModStaking) OrderEndBlockers)) \<and>
   ModWasm \<in> set (tl (dropWhile (\<lambda>md. md \<noteq> ModSchedule) OrderEndBlockers))"
  unfolding orders_mset
  by (simp add: orders_distinct) (simp add: OrderInitGenesis_def OrderEndBlockers_def)

text \<open>The accounts the bank refuses as recipients are exactly the addresses of the module
  accounts; the scheduler's account may burn but not mint; and the scheduler's keeper gets a
  store and a subspace but no memory store, whose key is not among the application's, and the
  fee module gets no subspace.\<close>
theorem module_accounts:
  "((a, b) \<in> set (ModuleAccountAddrs addr_of) \<longleftrightarrow>
     b \<and> a \<in> addr_of ` fst ` set GetMaccPerms) \<and>
   map_of GetMaccPerms (ModuleAccount ModSchedule) = Some [Burner] \<and>
   map_of GetMaccPerms FeeCollector = Some [] \<and>
   schedule_keeper_args = (Some (OfModule ModSchedule), None, Some (OfModule ModSchedule)) \<and>
   GetSubspace (OfModule ModIbcFee) = None"
  by (auto simp: ModuleAccountAddrs_def GetMaccPerms_def maccPerms_def schedule_keeper_args_def
      GetKey_def kv_store_keys_def GetSubspace_def param_subspaces_def)

text \<open>C23: The scheduler runs once in the application's end of block, after the modules that
  \<open>OrderEndBlockers\<close> puts before it and on the state they leave: when these return and the
  scheduler's \<open>EndBlocker\<close> panics there, the whole application's end of block panics, whatever
  the modules after it would do.\<close>
theorem scheduler_panic_halts_app:
  assumes "run_in_order others (takeWhile (\<lambda>md. md \<noteq> ModSchedule) OrderEndBlockers) c = Ret c1"
    and "panics (EndBlocker K env c1)"
  shows "panics (app_EndBlocker K env others c)"
proof -
  let ?hook = "\<lambda>md c. if md = ModSchedule
       then go_bind (EndBlock K env c) (\<lambda>r. Ret (snd (r :: unit list \<times> ('a, 'b) chain)))
       else others md c"
  have same: "run_in_order ?hook mds c = run_in_order others mds c" if "ModSchedule \<notin> set mds" for mds c
    using that by (induction mds arbitrary: c) (auto intro!: go_bind_cong)
  let ?before = "takeWhile (\<lambda>md. md \<noteq> ModSchedule) OrderEndBlockers"
  obtain rest where split: "OrderEndBlockers = ?before @ ModSchedule # rest"
    by (simp add: OrderEndBlockers_def)
  have "ModSchedule \<notin> set ?before" by (simp add: OrderEndBlockers_def)
  then have "run_in_order ?hook ?before c = Ret c1" using same assms(1) by simp
  then show ?thesis
    unfolding app_EndBlocker_def
    by (subst split, use assms(2) in \<open>auto simp: run_in_order_append EndBlock_def panics_def\<close>)
qed

theorem scheduler_panic_halts_app_witness:
  "panics (app_EndBlocker kvl (sample_env 20) (\<lambda>md c. Ret c)
     (sample_chain (kv_Set kvl (height_key 12 sample_key) (Uint64ToBigEndian 15) kvl_empty) 12))"
proof (rule scheduler_panic_halts_app)
  let ?c = "sample_chain (kv_Set kvl (height_key 12 sample_key) (Uint64ToBigEndian 15) kvl_empty) 12"
  show "run_in_order (\<lambda>md c. Ret c) (takeWhile (\<lambda>md. md \<noteq> ModSchedule) OrderEndBlockers) ?c = Ret ?c"
    by (simp add: OrderEndBlockers_def)
  obtain e where "ScheduledCall_Unmarshal ScheduledCall_zero (Uint64ToBigEndian 15) = Inl e"
    using height_is_no_call [of 15] by auto
  then show "panics (EndBlocker kvl (sample_env 20) ?c)"
    by (intro kvl.EndBlocker_panics_on_entry [of _ sample_params sample_key "Uint64ToBigEndian 15"])
       (simp_all add: kvl.get_set)
qed

end
