(* ===== verification/AppExport.thy ===== *)
theory AppExport
  imports Types
begin

text \<open>
  \<^verbatim>\<open>app/export.go\<close>: exporting the state of the application for a genesis file, and preparing
  it for a start at height zero. The keepers of the other modules are the fields of
  \<open>export_env\<close>, over their state \<open>'w\<close>; the \<open>Inl\<close> of one that
  cannot return an error is a panic. An \<^verbatim>\<open>Iterate...\<close> is the list of what it visits. The
  counter of the validator loop is never read and is left out.
\<close>

section \<open>What the keepers hold\<close>

record 'x validator =
  va_Operator :: addr
  va_UnbondingHeight :: int
  va_Jailed :: bool
  va_rest :: 'x

record delegation =
  de_Delegator :: addr
  de_Validator :: addr

record 'x creation_entry =
  en_CreationHeight :: int
  en_rest :: 'x

record 'x signing_info =
  si_StartHeight :: int
  si_rest :: 'x

text \<open>A redelegation or an unbonding delegation: its entries, and its other fields.\<close>

record 'x unbonding =
  ub_Entries :: "'x creation_entry list"
  ub_rest :: 'x

record ('coins, 'x) fee_pool =
  fp_CommunityPool :: 'coins
  fp_rest :: 'x

section \<open>The keepers\<close>

record ('w, 'coins, 'x) export_env =
  AssertInvariants :: "'w \<Rightarrow> string + 'w"
  ValAddressFromBech32 :: "string \<Rightarrow> string + addr"
  ValAddress_String :: "addr \<Rightarrow> string"
  Validators :: "'w \<Rightarrow> 'x validator list"
  WithdrawValidatorCommission :: "int \<Rightarrow> addr \<Rightarrow> 'w \<Rightarrow> string + 'w"
  GetAllDelegations :: "'w \<Rightarrow> delegation list"
  WithdrawDelegationRewards :: "int \<Rightarrow> addr \<Rightarrow> addr \<Rightarrow> 'w \<Rightarrow> string + 'w"
  DeleteAllValidatorSlashEvents :: "'w \<Rightarrow> 'w"
  DeleteAllValidatorHistoricalRewards :: "'w \<Rightarrow> 'w"
  GetValidatorOutstandingRewardsCoins :: "addr \<Rightarrow> 'w \<Rightarrow> 'coins"
  GetFeePool :: "'w \<Rightarrow> ('coins, 'x) fee_pool"
  SetFeePool :: "('coins, 'x) fee_pool \<Rightarrow> 'w \<Rightarrow> 'w"
  DecCoins_Add :: "'coins \<Rightarrow> 'coins \<Rightarrow> 'coins"
  AfterValidatorCreated :: "int \<Rightarrow> addr \<Rightarrow> 'w \<Rightarrow> string + 'w"
  BeforeDelegationCreated :: "int \<Rightarrow> addr \<Rightarrow> addr \<Rightarrow> 'w \<Rightarrow> string + 'w"
  AfterDelegationModified :: "int \<Rightarrow> addr \<Rightarrow> addr \<Rightarrow> 'w \<Rightarrow> string + 'w"
  Redelegations :: "'w \<Rightarrow> 'x unbonding list"
  SetRedelegation :: "'x unbonding \<Rightarrow> 'w \<Rightarrow> 'w"
  UnbondingDelegations :: "'w \<Rightarrow> 'x unbonding list"
  SetUnbondingDelegation :: "'x unbonding \<Rightarrow> 'w \<Rightarrow> 'w"
  ValidatorKeys :: "'w \<Rightarrow> byte list list"
  GetValidator :: "addr \<Rightarrow> 'w \<Rightarrow> 'x validator option"
  SetValidator :: "'x validator \<Rightarrow> 'w \<Rightarrow> 'w"
  ApplyAndReturnValidatorSetUpdates :: "'w \<Rightarrow> string + 'w"
  SigningInfos :: "'w \<Rightarrow> (addr \<times> 'x signing_info) list"
  SetValidatorSigningInfo :: "addr \<Rightarrow> 'x signing_info \<Rightarrow> 'w \<Rightarrow> 'w"

text \<open>A loop whose body may panic, and \<^verbatim>\<open>if err != nil { panic(err) }\<close>.\<close>

fun go_each :: "('a \<Rightarrow> 'w \<Rightarrow> ('e, 'w) go) \<Rightarrow> 'a list \<Rightarrow> 'w \<Rightarrow> ('e, 'w) go" where
  "go_each f [] w = Ret w"
| "go_each f (x # xs) w = go_bind (f x w) (go_each f xs)"

definition or_panic :: "string + 'w \<Rightarrow> ('e, 'w) go" where
  "or_panic r = (case r of Inl err \<Rightarrow> Panic (ForeignPanic err) | Inr w \<Rightarrow> Ret w)"

section \<open>Steps of the preparation\<close>

text \<open>
  The allowed addresses; \<^verbatim>\<open>log.Fatal\<close> ends the process, which is written as a panic.
\<close>

fun allowed_addrs :: "('w, 'c, 'x) export_env \<Rightarrow> string list \<Rightarrow> (string \<Rightarrow> bool) \<Rightarrow> (gerror, string \<Rightarrow> bool) go" where
  "allowed_addrs K [] allowed = Ret allowed"
| "allowed_addrs K (addr # addrs) allowed =
     (case ValAddressFromBech32 K addr of
        Inl err \<Rightarrow> Panic (ForeignPanic err)
      | Inr _ \<Rightarrow> allowed_addrs K addrs (allowed(addr := True)))"

definition withdraw_commissions :: "('w, 'c, 'x) export_env \<Rightarrow> int \<Rightarrow> 'w \<Rightarrow> (gerror, 'w) go" where
  "withdraw_commissions K height w =
     go_each (\<lambda>val w. or_panic (WithdrawValidatorCommission K height (va_Operator val) w))
       (Validators K w) w"

definition withdraw_rewards ::
  "('w, 'c, 'x) export_env \<Rightarrow> int \<Rightarrow> delegation list \<Rightarrow> 'w \<Rightarrow> (gerror, 'w) go" where
  "withdraw_rewards K height dels w =
     go_each (\<lambda>del w. or_panic
       (WithdrawDelegationRewards K height (de_Delegator del) (de_Validator del) w)) dels w"

definition reinit_validators :: "('w, 'c, 'x) export_env \<Rightarrow> int \<Rightarrow> 'w \<Rightarrow> (gerror, 'w) go" where
  "reinit_validators K height w =
     go_each (\<lambda>val w.
         let scraps = GetValidatorOutstandingRewardsCoins K (va_Operator val) w;
             feePool = GetFeePool K w;
             feePool = feePool\<lparr>fp_CommunityPool := DecCoins_Add K (fp_CommunityPool feePool) scraps\<rparr>;
             w = SetFeePool K feePool w
         in or_panic (AfterValidatorCreated K height (va_Operator val) w))
       (Validators K w) w"

definition reinit_delegations ::
  "('w, 'c, 'x) export_env \<Rightarrow> int \<Rightarrow> delegation list \<Rightarrow> 'w \<Rightarrow> (gerror, 'w) go" where
  "reinit_delegations K height dels w =
     go_each (\<lambda>del w.
       go_bind (or_panic (BeforeDelegationCreated K height (de_Delegator del) (de_Validator del) w))
         (\<lambda>w. or_panic (AfterDelegationModified K height (de_Delegator del) (de_Validator del) w))) dels w"

definition reset_creation :: "'x unbonding \<Rightarrow> 'x unbonding" where
  "reset_creation u = u\<lparr>ub_Entries := map (\<lambda>e. e\<lparr>en_CreationHeight := 0\<rparr>) (ub_Entries u)\<rparr>"

definition reset_redelegations :: "('w, 'c, 'x) export_env \<Rightarrow> 'w \<Rightarrow> 'w" where
  "reset_redelegations K w = fold (\<lambda>red. SetRedelegation K (reset_creation red)) (Redelegations K w) w"

definition reset_unbondings :: "('w, 'c, 'x) export_env \<Rightarrow> 'w \<Rightarrow> 'w" where
  "reset_unbondings K w =
     fold (\<lambda>ubd. SetUnbondingDelegation K (reset_creation ubd)) (UnbondingDelegations K w) w"

text \<open>\<^verbatim>\<open>iter.Key()[1:]\<close>: the key without its first byte.\<close>

definition reset_validator ::
  "('w, 'c, 'x) export_env \<Rightarrow> bool \<Rightarrow> (string \<Rightarrow> bool) \<Rightarrow> byte list \<Rightarrow> 'w \<Rightarrow> (gerror, 'w) go" where
  "reset_validator K applyAllowedAddrs allowed key w =
     (case key of
        [] \<Rightarrow> Panic IndexOutOfRange
      | _ # addr \<Rightarrow>
          (case GetValidator K addr w of
             None \<Rightarrow> Panic (ForeignPanic ''expected validator, not found'')
           | Some val \<Rightarrow>
               let val = val\<lparr>va_UnbondingHeight := 0\<rparr>;
                   val = (if applyAllowedAddrs \<and> \<not> allowed (ValAddress_String K addr)
                          then val\<lparr>va_Jailed := True\<rparr> else val)
               in Ret (SetValidator K val w)))"

definition reset_validators ::
  "('w, 'c, 'x) export_env \<Rightarrow> bool \<Rightarrow> (string \<Rightarrow> bool) \<Rightarrow> 'w \<Rightarrow> (gerror, 'w) go" where
  "reset_validators K applyAllowedAddrs allowed w =
     go_each (reset_validator K applyAllowedAddrs allowed) (ValidatorKeys K w) w"

definition reset_signing_infos :: "('w, 'c, 'x) export_env \<Rightarrow> 'w \<Rightarrow> 'w" where
  "reset_signing_infos K w =
     fold (\<lambda>(addr, info). SetValidatorSigningInfo K addr (info\<lparr>si_StartHeight := 0\<rparr>)) (SigningInfos K w) w"

section \<open>The preparation and the export\<close>

definition prepForZeroHeightGenesis ::
  "('w, 'c, 'x) export_env \<Rightarrow> int \<Rightarrow> string list \<Rightarrow> 'w \<Rightarrow> (gerror, 'w) go" where
  "prepForZeroHeightGenesis K height jailAllowedAddrs w =
     (let applyAllowedAddrs = (jailAllowedAddrs \<noteq> []) in
      go_bind (allowed_addrs K jailAllowedAddrs (\<lambda>_. False)) (\<lambda>allowed.
      go_bind (or_panic (AssertInvariants K w)) (\<lambda>w.
      go_bind (withdraw_commissions K height w) (\<lambda>w.
        let dels = GetAllDelegations K w in
      go_bind (withdraw_rewards K height dels w) (\<lambda>w.
        let w = DeleteAllValidatorSlashEvents K w;
            w = DeleteAllValidatorHistoricalRewards K w in
      go_bind (reinit_validators K 0 w) (\<lambda>w.
      go_bind (reinit_delegations K 0 dels w) (\<lambda>w.
        let w = reset_redelegations K w;
            w = reset_unbondings K w in
      go_bind (reset_validators K applyAllowedAddrs allowed w) (\<lambda>w.
      go_bind (or_panic (ApplyAndReturnValidatorSetUpdates K w)) (\<lambda>w.
        Ret (reset_signing_infos K w))))))))))"

record ('a, 'v, 'p) exported_app =
  ex_AppState :: 'a
  ex_Validators :: 'v
  ex_Height :: int
  ex_ConsensusParams :: 'p

definition ExportAppStateAndValidators ::
  "('w, 'c, 'x) export_env \<Rightarrow> ('w \<Rightarrow> (gerror, 'g) go) \<Rightarrow> ('g \<Rightarrow> gerror + 'a) \<Rightarrow> ('w \<Rightarrow> gerror + 'v)
    \<Rightarrow> ('w \<Rightarrow> 'p) \<Rightarrow> int \<Rightarrow> bool \<Rightarrow> string list \<Rightarrow> 'w \<Rightarrow> (gerror, ('a, 'v, 'p) exported_app) go" where
  "ExportAppStateAndValidators K mm_ExportGenesis MarshalIndent WriteValidators GetConsensusParams
     LastBlockHeight forZeroHeight jailAllowedAddrs w =
     (let height = i64 (LastBlockHeight + 1) in
      go_bind (if forZeroHeight
               then go_bind (prepForZeroHeightGenesis K LastBlockHeight jailAllowedAddrs w) (\<lambda>w. Ret (0, w))
               else Ret (height, w)) (\<lambda>(height, w).
      go_bind (mm_ExportGenesis w) (\<lambda>genState.
      case MarshalIndent genState of
        Inl err \<Rightarrow> Err err
      | Inr appState \<Rightarrow>
          (case WriteValidators w of
             Inl err \<Rightarrow> Err err
           | Inr validators \<Rightarrow>
               Ret \<lparr>ex_AppState = appState, ex_Validators = validators, ex_Height = height,
                 ex_ConsensusParams = GetConsensusParams w\<rparr>))))"

section \<open>The validator loop\<close>

text \<open>What a keeper promises of its validators.\<close>

definition validator_laws :: "('w, 'c, 'x) export_env \<Rightarrow> bool" where
  "validator_laws K \<longleftrightarrow>
     (\<forall>a v w. GetValidator K a w = Some v \<longrightarrow> va_Operator v = a) \<and>
     (\<forall>a v w. GetValidator K a (SetValidator K v w)
        = (if a = va_Operator v then Some v else GetValidator K a w))"

text \<open>A validator after the reset.\<close>

definition reset_to :: "('w, 'c, 'x) export_env \<Rightarrow> bool \<Rightarrow> (string \<Rightarrow> bool) \<Rightarrow> 'x validator \<Rightarrow> 'x validator" where
  "reset_to K applyAllowedAddrs allowed v = v\<lparr>va_UnbondingHeight := 0,
     va_Jailed := va_Jailed v \<or> applyAllowedAddrs \<and> \<not> allowed (ValAddress_String K (va_Operator v))\<rparr>"

lemma reset_to_idem [simp]:
  "va_Operator (reset_to K b al v) = va_Operator v" "reset_to K b al (reset_to K b al v) = reset_to K b al v"
  by (simp_all add: reset_to_def)

lemma validator_operator:
  "validator_laws K \<Longrightarrow> GetValidator K a w = Some v \<Longrightarrow> va_Operator v = a"
  unfolding validator_laws_def by blast

lemma validator_set:
  "validator_laws K \<Longrightarrow> GetValidator K a (SetValidator K v w)
    = (if a = va_Operator v then Some v else GetValidator K a w)"
  unfolding validator_laws_def by blast

lemma reset_to_eq:
  "(if b \<and> \<not> al (ValAddress_String K (va_Operator v))
    then v\<lparr>va_UnbondingHeight := 0\<rparr>\<lparr>va_Jailed := True\<rparr> else v\<lparr>va_UnbondingHeight := 0\<rparr>)
   = reset_to K b al v"
  by (cases v) (auto simp: reset_to_def)

lemma reset_validator_Some:
  assumes "validator_laws K" "GetValidator K a w = Some v"
  shows "reset_validator K b al (p # a) w = Ret (SetValidator K (reset_to K b al v) w)"
  unfolding reset_validator_def Let_def reset_to_eq [symmetric] validator_operator [OF assms]
  using assms(2) by simp

lemma reset_validator_Ret:
  assumes "validator_laws K"
  shows "reset_validator K b al key w = (Ret w' :: (gerror, 'w) go) \<longleftrightarrow>
    (\<exists>p a v. key = p # a \<and> GetValidator K a w = Some v \<and> w' = SetValidator K (reset_to K b al v) w)"
proof (cases key)
  case Nil
  then show ?thesis by (simp add: reset_validator_def)
next
  case (Cons p a)
  then show ?thesis
    using reset_validator_Some [OF assms, of a w _ b al p]
    by (cases "GetValidator K a w") (auto simp: reset_validator_def)
qed

lemma reset_loop:
  assumes laws: "validator_laws K"
    and "go_each (reset_validator K b al) keys w = (Ret w' :: (gerror, 'w) go)"
  shows "GetValidator K a w' =
    (if a \<in> tl ` set keys then map_option (reset_to K b al) (GetValidator K a w) else GetValidator K a w)
    \<and> (a \<in> tl ` set keys \<longrightarrow> GetValidator K a w \<noteq> None)"
  using assms(2)
proof (induction keys arbitrary: w)
  case (Cons key keys)
  then obtain w1 where first: "reset_validator K b al key w = (Ret w1 :: (gerror, 'w) go)"
    and rest: "go_each (reset_validator K b al) keys w1 = (Ret w' :: (gerror, 'w) go)"
    by (auto simp: go_simps)
  from first obtain p a1 v where key: "key = p # a1" and v: "GetValidator K a1 w = Some v"
    and w1: "w1 = SetValidator K (reset_to K b al v) w"
    unfolding reset_validator_Ret [OF laws] by blast
  have "GetValidator K a w1 = (if a = a1 then Some (reset_to K b al v) else GetValidator K a w)"
    unfolding w1 validator_set [OF laws] using validator_operator [OF laws v] by simp
  with Cons.IH [OF rest] key v show ?case by (auto split: if_splits)
qed simp

text \<open>
  A loop with a step that cannot be taken in any state does not return, and what never returns
  an error panics.
\<close>

lemma go_each_stuck:
  assumes "\<And>w. panics (f x w)" "\<And>y w e. f y w \<noteq> Err e" "x \<in> set xs"
  shows "panics (go_each f xs w)"
  using assms(3)
proof (induction xs arbitrary: w)
  case (Cons y ys)
  then show ?case
    using assms(1) [of w] assms(2) [of y w] by (cases "f y w") (auto simp: panics_def)
qed simp

section \<open>Nothing here returns an error\<close>

lemma or_panic_no_Err [simp]: "or_panic r \<noteq> Err e"
  by (simp add: or_panic_def split: sum.split)

lemma allowed_addrs_no_Err [simp]: "allowed_addrs K addrs allowed \<noteq> Err e"
  by (induction addrs arbitrary: allowed) (simp_all split: sum.split)

lemma go_each_no_Err: "(\<And>x w. f x w \<noteq> Err e) \<Longrightarrow> go_each f xs w \<noteq> Err e"
  by (induction xs arbitrary: w) (auto simp: go_simps)

lemma steps_no_Err [simp]:
  "withdraw_commissions K height w \<noteq> Err e" "withdraw_rewards K height dels w \<noteq> Err e"
  "reinit_validators K height w \<noteq> Err e" "reinit_delegations K height dels w \<noteq> Err e"
  unfolding withdraw_commissions_def withdraw_rewards_def reinit_validators_def reinit_delegations_def
  by (rule go_each_no_Err, simp add: go_simps Let_def)+

lemma reset_validator_no_Err [simp]: "reset_validator K b al key w \<noteq> Err e"
  by (simp add: reset_validator_def Let_def split: list.split option.split)

lemma panics_bind_Err:
  "(\<And>e. r \<noteq> Err e) \<Longrightarrow> (\<And>a. panics (f a)) \<Longrightarrow> panics (go_bind r f)"
  by (cases r) (simp, blast, simp)

section \<open>Properties\<close>

text \<open>After the validator loop of a zero-height export, every validator whose key it has
  visited has unbonding height 0 and is jailed exactly if it was before or if there is a list
  of allowed addresses without it; its other fields and all other validators are unchanged.\<close>
theorem reset_validators_effect:
  assumes "validator_laws K" "reset_validators K b allowed w = (Ret w' :: (gerror, 'w) go)"
  shows "GetValidator K a w' =
    (if a \<in> tl ` set (ValidatorKeys K w)
     then map_option (\<lambda>v. v\<lparr>va_UnbondingHeight := 0,
         va_Jailed := va_Jailed v \<or> b \<and> \<not> allowed (ValAddress_String K (va_Operator v))\<rparr>)
       (GetValidator K a w)
     else GetValidator K a w)"
  using reset_loop [OF assms(1) assms(2) [unfolded reset_validators_def], of a]
  by (simp add: reset_to_def [abs_def])


section \<open>A sample\<close>

text \<open>
  Keepers that hold validators alone, with or without the length of the address in the keys.
\<close>

definition sample_export ::
  "byte list \<Rightarrow> (addr \<Rightarrow> unit validator option, unit, unit) export_env" where
  "sample_export pre = \<lparr>
     AssertInvariants = Inr, ValAddressFromBech32 = (\<lambda>s. Inr (string_bytes s)),
     ValAddress_String = bytes_string, Validators = (\<lambda>w. []),
     WithdrawValidatorCommission = (\<lambda>h a. Inr), GetAllDelegations = (\<lambda>w. []),
     WithdrawDelegationRewards = (\<lambda>h d a. Inr), DeleteAllValidatorSlashEvents = id,
     DeleteAllValidatorHistoricalRewards = id, GetValidatorOutstandingRewardsCoins = (\<lambda>a w. ()),
     GetFeePool = (\<lambda>w. \<lparr>fp_CommunityPool = (), fp_rest = ()\<rparr>), SetFeePool = (\<lambda>p w. w),
     DecCoins_Add = (\<lambda>a b. ()), AfterValidatorCreated = (\<lambda>h a. Inr),
     BeforeDelegationCreated = (\<lambda>h d a. Inr), AfterDelegationModified = (\<lambda>h d a. Inr),
     Redelegations = (\<lambda>w. []), SetRedelegation = (\<lambda>r w. w), UnbondingDelegations = (\<lambda>w. []),
     SetUnbondingDelegation = (\<lambda>u w. w), ValidatorKeys = (\<lambda>w. [pre @ replicate 20 1]),
     GetValidator = (\<lambda>a w. map_option (\<lambda>v. v\<lparr>va_Operator := a\<rparr>) (w a)),
     SetValidator = (\<lambda>v w. w(va_Operator v \<mapsto> v)),
     ApplyAndReturnValidatorSetUpdates = Inr, SigningInfos = (\<lambda>w. []),
     SetValidatorSigningInfo = (\<lambda>a i w. w)\<rparr>"

definition sample_validator :: "unit validator" where
  "sample_validator =
     \<lparr>va_Operator = replicate 20 1, va_UnbondingHeight = 9, va_Jailed = False, va_rest = ()\<rparr>"

lemma sample_laws: "validator_laws (sample_export pre)"
  unfolding validator_laws_def
proof (intro conjI allI impI)
  fix a v w
  show "GetValidator (sample_export pre) a (SetValidator (sample_export pre) v w)
      = (if a = va_Operator v then Some v else GetValidator (sample_export pre) a w)"
    by (cases v) (simp add: sample_export_def)
qed (auto simp: sample_export_def)

theorem reset_validators_effect_witness:
  "\<exists>w'. reset_validators (sample_export [0x21]) True (\<lambda>_. False) [replicate 20 1 \<mapsto> sample_validator]
      = (Ret w' :: (gerror, _) go) \<and>
    GetValidator (sample_export [0x21]) (replicate 20 1) w'
      = Some (sample_validator\<lparr>va_UnbondingHeight := 0, va_Jailed := True\<rparr>)"
proof -
  let ?K = "sample_export [0x21]" and ?w = "[replicate 20 1 \<mapsto> sample_validator]"
  have get: "GetValidator ?K (replicate 20 1) ?w = Some sample_validator"
    and keys: "ValidatorKeys ?K ?w = [0x21 # replicate 20 1]"
    by (simp_all add: sample_export_def sample_validator_def)
  obtain w' where run: "reset_validators ?K True (\<lambda>_. False) ?w = (Ret w' :: (gerror, _) go)"
    using reset_validator_Some [OF sample_laws get] by (simp add: reset_validators_def keys)
  show ?thesis
    using reset_validators_effect [OF sample_laws run, of "replicate 20 1"] get keys run
    by (simp add: sample_validator_def)
qed


end
