(* ===== verification/GenAccounts.thy ===== *)
theory GenAccounts
  imports Cli
begin

text \<open>
  \<^verbatim>\<open>cmd/burntd/genaccounts.go\<close>: adding an account, with its balance and vesting, to the genesis
  file. The types and functions of the SDK are the fields of \<open>gen_sdk\<close>; the genesis file, or
  the file system that holds it, is the state \<open>'f\<close>.
\<close>

section \<open>The parts of the genesis\<close>

text \<open>
  The fields that the command reads or writes, and the rest of each value, which it carries
  along. The application's state maps a module's name to its raw JSON.
\<close>

record ('any, 'r) auth_state =
  as_Accounts :: "'any list"
  as_rest :: 'r

record 'coins balance =
  bb_Address :: string
  bb_Coins :: 'coins

record ('coins, 'r) bank_state =
  bs_Balances :: "'coins balance list"
  bs_Supply :: 'coins
  bs_rest :: 'r

record ('app, 'r) genesis_doc =
  gd_AppState :: 'app
  gd_rest :: 'r

type_synonym 'raw app_state = "string \<Rightarrow> 'raw option"

record ('coins, 'acc, 'bva, 'any, 'raw, 'app, 'r, 'f) gen_sdk =
  Gen_AccAddress :: "string \<Rightarrow> string + addr"
  Gen_String :: "addr \<Rightarrow> string"
  ParseCoinsNormalized :: "string \<Rightarrow> gerror + 'coins"
  Coins_Sort :: "'coins \<Rightarrow> 'coins"
  Coins_IsZero :: "'coins \<Rightarrow> bool"
  Coins_IsAnyGT :: "'coins \<Rightarrow> 'coins \<Rightarrow> bool"
  Coins_Add :: "'coins \<Rightarrow> 'coins \<Rightarrow> (gerror, 'coins) go"
  NewBaseAccount :: "addr \<Rightarrow> 'acc"
  NewBaseVestingAccount :: "'acc \<Rightarrow> 'coins \<Rightarrow> int \<Rightarrow> 'bva"
  OriginalVesting :: "'bva \<Rightarrow> 'coins"
  NewContinuousVestingAccountRaw :: "'bva \<Rightarrow> int \<Rightarrow> 'acc"
  NewDelayedVestingAccountRaw :: "'bva \<Rightarrow> 'acc"
  Account_Validate :: "'acc \<Rightarrow> gerror option"
  Accounts_Contains :: "'acc list \<Rightarrow> addr \<Rightarrow> bool"
  SanitizeGenesisAccounts :: "'acc list \<Rightarrow> 'acc list"
  PackAccounts :: "'acc list \<Rightarrow> gerror + 'any list"
  UnpackAccounts :: "'any list \<Rightarrow> gerror + 'acc list"
  Auth_FromAppState :: "'raw app_state \<Rightarrow> (gerror, ('any, 'r) auth_state) go"
  Auth_MarshalJSON :: "('any, 'r) auth_state \<Rightarrow> gerror + 'raw"
  Bank_FromAppState :: "'raw app_state \<Rightarrow> (gerror, ('coins, 'r) bank_state) go"
  Bank_MarshalJSON :: "('coins, 'r) bank_state \<Rightarrow> gerror + 'raw"
  SanitizeGenesisBalances :: "'coins balance list \<Rightarrow> 'coins balance list"
  AppState_Marshal :: "'raw app_state \<Rightarrow> gerror + 'app"
  GenesisStateFromGenFile :: "'f \<Rightarrow> gerror + ('raw app_state \<times> ('app, 'r) genesis_doc)"
  ExportGenesisFile :: "('app, 'r) genesis_doc \<Rightarrow> 'f \<Rightarrow> gerror + 'f"

text \<open>The names of the modules whose state changes.\<close>

definition auth_ModuleName :: string where
  "auth_ModuleName = ''auth''"

definition bank_ModuleName :: string where
  "bank_ModuleName = ''bank''"

section \<open>The command's arguments\<close>

text \<open>
  The flags are read one by one and each may fail. A keyring, when there is one, looks up the
  address of a key's name.
\<close>

type_synonym keyring = "string \<Rightarrow> gerror + addr"

record gen_flags =
  fl_KeyringBackend :: "gerror + string"
  fl_VestingStart :: "gerror + int"
  fl_VestingEnd :: "gerror + int"
  fl_VestingAmt :: "gerror + string"

definition or_wrap :: "string \<Rightarrow> gerror + 'a \<Rightarrow> (gerror, 'a) go" where
  "or_wrap t r = (case r of Inl e \<Rightarrow> Err (Wrapped e t) | Inr a \<Rightarrow> Ret a)"

text \<open>
  The first argument is an address, or the name of a key of the backend that the flag names,
  or else of the context's keyring; without one, the lookup is a call on a nil interface.
\<close>

definition account_address ::
  "(string \<Rightarrow> string + addr) \<Rightarrow> (string \<Rightarrow> gerror + keyring) \<Rightarrow> keyring option \<Rightarrow> gerror + string
    \<Rightarrow> string \<Rightarrow> (gerror, addr) go" where
  "account_address AccAddressFromBech32 keyring_New clientKeyring backendFlag arg0 =
     (case AccAddressFromBech32 arg0 of
        Inr addr \<Rightarrow> Ret addr
      | Inl _ \<Rightarrow>
          go_bind (or_wrap ''failed to parse keyring backend'' backendFlag) (\<lambda>keyringBackend.
          go_bind
            (if keyringBackend \<noteq> [] \<and> clientKeyring = None
             then (case keyring_New keyringBackend of Inl err \<Rightarrow> Err err | Inr kr \<Rightarrow> Ret (Some kr))
             else Ret clientKeyring) (\<lambda>kr.
          (case kr of
             None \<Rightarrow> Panic NilPointer
           | Some key \<Rightarrow> or_wrap ''failed to get address from Keyring'' (key arg0)))))"

text \<open>The account of the kind that the vesting flags ask for.\<close>

definition new_genesis_account ::
  "('coins, 'acc, 'bva, 'any, 'raw, 'app, 'r, 'f) gen_sdk \<Rightarrow> addr \<Rightarrow> 'coins balance \<Rightarrow> 'coins \<Rightarrow> int \<Rightarrow> int
    \<Rightarrow> (gerror, 'acc) go" where
  "new_genesis_account S addr balances vestingAmt vestingStart vestingEnd =
     (let baseAccount = NewBaseAccount S addr in
      if \<not> Coins_IsZero S vestingAmt
      then
        let baseVestingAccount =
              NewBaseVestingAccount S baseAccount (Coins_Sort S vestingAmt) vestingEnd;
            vesting = OriginalVesting S baseVestingAccount
        in if Coins_IsZero S (bb_Coins balances) \<and> \<not> Coins_IsZero S vesting
              \<or> Coins_IsAnyGT S vesting (bb_Coins balances)
           then Err (TextError ''vesting amount cannot be greater than total amount'')
           else if vestingStart \<noteq> 0 \<and> vestingEnd \<noteq> 0
           then Ret (NewContinuousVestingAccountRaw S baseVestingAccount vestingStart)
           else if vestingEnd \<noteq> 0
           then Ret (NewDelayedVestingAccountRaw S baseVestingAccount)
           else Err (TextError ''invalid vesting parameters; must supply start and end time or end time'')
      else Ret baseAccount)"

definition check_account :: "('acc \<Rightarrow> gerror option) \<Rightarrow> 'acc \<Rightarrow> (gerror, unit) go" where
  "check_account validate acc =
     (case validate acc of
        None \<Rightarrow> Ret ()
      | Some err \<Rightarrow> Err (Wrapped err ''failed to validate new genesis account''))"

section \<open>The genesis file\<close>

definition add_to_auth ::
  "('coins, 'acc, 'bva, 'any, 'raw, 'app, 'r, 'f) gen_sdk \<Rightarrow> addr \<Rightarrow> 'acc \<Rightarrow> 'raw app_state
    \<Rightarrow> (gerror, 'raw app_state) go" where
  "add_to_auth S addr genAccount appState =
     go_bind (Auth_FromAppState S appState) (\<lambda>authGenState.
     go_bind (or_wrap ''failed to get accounts from any'' (UnpackAccounts S (as_Accounts authGenState)))
       (\<lambda>accs.
     if Accounts_Contains S accs addr
     then Err (TextError (''cannot add account at existing address '' @ Gen_String S addr))
     else
       let accs = SanitizeGenesisAccounts S (accs @ [genAccount]) in
       go_bind (or_wrap ''failed to convert accounts into any's'' (PackAccounts S accs)) (\<lambda>genAccs.
       go_bind (or_wrap ''failed to marshal auth genesis state''
           (Auth_MarshalJSON S (authGenState\<lparr>as_Accounts := genAccs\<rparr>))) (\<lambda>authGenStateBz.
       Ret (appState(auth_ModuleName \<mapsto> authGenStateBz))))))"

definition add_to_bank ::
  "('coins, 'acc, 'bva, 'any, 'raw, 'app, 'r, 'f) gen_sdk \<Rightarrow> 'coins balance \<Rightarrow> 'raw app_state
    \<Rightarrow> (gerror, 'raw app_state) go" where
  "add_to_bank S balances appState =
     go_bind (Bank_FromAppState S appState) (\<lambda>bankGenState.
       let bankGenState = bankGenState\<lparr>bs_Balances :=
             SanitizeGenesisBalances S (bs_Balances bankGenState @ [balances])\<rparr> in
     go_bind (Coins_Add S (bs_Supply bankGenState) (bb_Coins balances)) (\<lambda>supply.
     go_bind (or_wrap ''failed to marshal bank genesis state''
         (Bank_MarshalJSON S (bankGenState\<lparr>bs_Supply := supply\<rparr>))) (\<lambda>bankGenStateBz.
     Ret (appState(bank_ModuleName \<mapsto> bankGenStateBz)))))"

definition AddGenesisAccountCmd ::
  "('coins, 'acc, 'bva, 'any, 'raw, 'app, 'r, 'f) gen_sdk \<Rightarrow> (string \<Rightarrow> gerror + keyring) \<Rightarrow> keyring option
    \<Rightarrow> gen_flags \<Rightarrow> string \<Rightarrow> string \<Rightarrow> 'f \<Rightarrow> (gerror, 'f) go" where
  "AddGenesisAccountCmd S keyring_New clientKeyring flags arg0 arg1 genFile =
     go_bind (account_address (Gen_AccAddress S) keyring_New clientKeyring (fl_KeyringBackend flags) arg0)
       (\<lambda>addr.
     go_bind (or_wrap ''failed to parse coins'' (ParseCoinsNormalized S arg1)) (\<lambda>coins.
     go_bind (or_wrap ''failed to parse vesting start'' (fl_VestingStart flags)) (\<lambda>vestingStart.
     go_bind (or_wrap ''failed to parse vesting end'' (fl_VestingEnd flags)) (\<lambda>vestingEnd.
     go_bind (or_wrap ''failed to parse vesting amount'' (fl_VestingAmt flags)) (\<lambda>vestingAmtStr.
     go_bind (or_wrap ''failed to parse vesting amount'' (ParseCoinsNormalized S vestingAmtStr))
       (\<lambda>vestingAmt.
       let balances = \<lparr>bb_Address = Gen_String S addr, bb_Coins = Coins_Sort S coins\<rparr> in
     go_bind (new_genesis_account S addr balances vestingAmt vestingStart vestingEnd) (\<lambda>genAccount.
     go_bind (check_account (Account_Validate S) genAccount) (\<lambda>_.
     go_bind (or_wrap ''failed to unmarshal genesis state'' (GenesisStateFromGenFile S genFile))
       (\<lambda>(appState, genDoc).
     go_bind (add_to_auth S addr genAccount appState) (\<lambda>appState.
     go_bind (add_to_bank S balances appState) (\<lambda>appState.
     go_bind (or_wrap ''failed to marshal application genesis state'' (AppState_Marshal S appState))
       (\<lambda>appStateJSON.
     case ExportGenesisFile S (genDoc\<lparr>gd_AppState := appStateJSON\<rparr>) genFile of
       Inl err \<Rightarrow> Err err
     | Inr genFile' \<Rightarrow> Ret genFile'))))))))))))"

text \<open>
  The command takes two arguments. Its flags and their defaults; those of every query command
  come with \<open>AddQueryFlagsToCmd\<close>.
\<close>

datatype flag_default = StringFlag string | Int64Flag int

definition AddGenesisAccountCmd_flags ::
  "(string \<times> flag_default) list \<Rightarrow> string \<Rightarrow> (string \<times> flag_default) list" where
  "AddGenesisAccountCmd_flags AddQueryFlagsToCmd defaultNodeHome =
     [(''home'', StringFlag defaultNodeHome), (''keyring-backend'', StringFlag ''os''),
      (''vesting-amount'', StringFlag []), (''vesting-start-time'', Int64Flag 0),
      (''vesting-end-time'', Int64Flag 0)] @ AddQueryFlagsToCmd"

definition run_AddGenesisAccountCmd ::
  "('coins, 'acc, 'bva, 'any, 'raw, 'app, 'r, 'f) gen_sdk \<Rightarrow> (string \<Rightarrow> gerror + keyring) \<Rightarrow> keyring option
    \<Rightarrow> gen_flags \<Rightarrow> string list \<Rightarrow> 'f \<Rightarrow> (gerror, 'f) go" where
  "run_AddGenesisAccountCmd S keyring_New clientKeyring flags args f =
     go_bind (ExactArgs 2 args) (\<lambda>_.
       AddGenesisAccountCmd S keyring_New clientKeyring flags (args ! 0) (args ! 1) f)"

section \<open>What the SDK promises\<close>

text \<open>The accounts and the bank's state that a genesis file holds.\<close>

definition genesis_accounts ::
  "('coins, 'acc, 'bva, 'any, 'raw, 'app, 'r, 'f) gen_sdk \<Rightarrow> 'f \<Rightarrow> 'acc list option" where
  "genesis_accounts S f =
     (case GenesisStateFromGenFile S f of
        Inl _ \<Rightarrow> None
      | Inr (appState, _) \<Rightarrow>
          (case Auth_FromAppState S appState of
             Ret s \<Rightarrow> (case UnpackAccounts S (as_Accounts s) of Inl _ \<Rightarrow> None | Inr accs \<Rightarrow> Some accs)
           | _ \<Rightarrow> None))"

definition genesis_bank ::
  "('coins, 'acc, 'bva, 'any, 'raw, 'app, 'r, 'f) gen_sdk \<Rightarrow> 'f \<Rightarrow> ('coins, 'r) bank_state option" where
  "genesis_bank S f =
     (case GenesisStateFromGenFile S f of
        Inl _ \<Rightarrow> None
      | Inr (appState, _) \<Rightarrow> (case Bank_FromAppState S appState of Ret s \<Rightarrow> Some s | _ \<Rightarrow> None))"

text \<open>
  What is written is read back, a module's state is read from its own entry, and accounts are
  told apart by their address, which a vesting account takes from its base account.
\<close>

definition file_laws :: "('coins, 'acc, 'bva, 'any, 'raw, 'app, 'r, 'f) gen_sdk \<Rightarrow> bool" where
  "file_laws S \<longleftrightarrow>
     (\<forall>s bz st. Auth_MarshalJSON S s = Inr bz \<longrightarrow> st auth_ModuleName = Some bz \<longrightarrow>
        Auth_FromAppState S st = Ret s) \<and>
     (\<forall>s bz st. Bank_MarshalJSON S s = Inr bz \<longrightarrow> st bank_ModuleName = Some bz \<longrightarrow>
        Bank_FromAppState S st = Ret s) \<and>
     (\<forall>st st'. st bank_ModuleName = st' bank_ModuleName \<longrightarrow>
        Bank_FromAppState S st = Bank_FromAppState S st') \<and>
     (\<forall>st doc f f'. AppState_Marshal S st = Inr (gd_AppState doc) \<longrightarrow> ExportGenesisFile S doc f = Inr f' \<longrightarrow>
        (\<exists>doc'. GenesisStateFromGenFile S f' = Inr (st, doc')))"

definition account_laws ::
  "('coins, 'acc, 'bva, 'any, 'raw, 'app, 'r, 'f) gen_sdk \<Rightarrow> ('acc \<Rightarrow> addr) \<Rightarrow> bool" where
  "account_laws S address \<longleftrightarrow>
     (\<forall>accs a. Accounts_Contains S accs a \<longleftrightarrow> a \<in> address ` set accs) \<and>
     (\<forall>accs. address ` set (SanitizeGenesisAccounts S accs) = address ` set accs) \<and>
     (\<forall>accs anys. PackAccounts S accs = Inr anys \<longrightarrow> UnpackAccounts S anys = Inr accs) \<and>
     (\<forall>a. address (NewBaseAccount S a) = a) \<and>
     (\<forall>acc v e s. address (NewContinuousVestingAccountRaw S (NewBaseVestingAccount S acc v e) s)
        = address acc) \<and>
     (\<forall>acc v e. address (NewDelayedVestingAccountRaw S (NewBaseVestingAccount S acc v e)) = address acc)"

section \<open>What the command writes\<close>

lemma file_read_back:
  "file_laws S \<Longrightarrow> AppState_Marshal S st = Inr app \<Longrightarrow>
    ExportGenesisFile S (doc\<lparr>gd_AppState := app\<rparr>) f = Inr f' \<Longrightarrow>
    \<exists>doc'. GenesisStateFromGenFile S f' = Inr (st, doc')"
  unfolding file_laws_def by (elim conjE allE [of _ st] allE [of _ "doc\<lparr>gd_AppState := app\<rparr>"]) simp

lemma bank_of_entry:
  "file_laws S \<Longrightarrow> st bank_ModuleName = st' bank_ModuleName \<Longrightarrow>
    Bank_FromAppState S st = Bank_FromAppState S st'"
  unfolding file_laws_def by blast

lemma or_wrap_Ret [simp]: "or_wrap t r = Ret a \<longleftrightarrow> r = Inr a"
  by (simp add: or_wrap_def split: sum.split)

lemma sum_Ret [simp]: "(case r of Inl err \<Rightarrow> Err err | Inr x \<Rightarrow> Ret x) = Ret y \<longleftrightarrow> r = Inr y"
  by (simp split: sum.split)

lemma new_account_address:
  assumes "account_laws S address" "new_genesis_account S addr balances amt vs ve = Ret acc"
  shows "address acc = addr"
  using assms
  by (auto simp: new_genesis_account_def account_laws_def Let_def split: if_splits)

lemma add_to_auth_effect:
  assumes laws: "file_laws S" "account_laws S address"
    and run: "add_to_auth S addr acc st = Ret st'" and acc: "address acc = addr"
  obtains s s' accs accs' where
    "Auth_FromAppState S st = Ret s" "UnpackAccounts S (as_Accounts s) = Inr accs"
    "addr \<notin> address ` set accs" "Auth_FromAppState S st' = Ret s'"
    "\<forall>st''. st'' auth_ModuleName = st' auth_ModuleName \<longrightarrow> Auth_FromAppState S st'' = Ret s'"
    "UnpackAccounts S (as_Accounts s') = Inr accs'"
    "address ` set accs' = insert addr (address ` set accs)"
    "st' bank_ModuleName = st bank_ModuleName"
proof -
  from run obtain s accs anys bz where s: "Auth_FromAppState S st = Ret s"
    and accs: "UnpackAccounts S (as_Accounts s) = Inr accs" and new: "\<not> Accounts_Contains S accs addr"
    and anys: "PackAccounts S (SanitizeGenesisAccounts S (accs @ [acc])) = Inr anys"
    and bz: "Auth_MarshalJSON S (s\<lparr>as_Accounts := anys\<rparr>) = Inr bz"
    and st': "st' = st(auth_ModuleName \<mapsto> bz)"
    by (auto simp: add_to_auth_def go_simps Let_def split: if_splits)
  show ?thesis
  proof (rule that [OF s accs])
    show "addr \<notin> address ` set accs" using laws(2) new by (simp add: account_laws_def)
    have read: "Auth_FromAppState S st'' = Ret (s\<lparr>as_Accounts := anys\<rparr>)"
      if "st'' auth_ModuleName = st' auth_ModuleName" for st''
      using laws(1) bz that st' by (simp add: file_laws_def)
    show "Auth_FromAppState S st' = Ret (s\<lparr>as_Accounts := anys\<rparr>)" by (rule read) simp
    show "\<forall>st''. st'' auth_ModuleName = st' auth_ModuleName \<longrightarrow>
        Auth_FromAppState S st'' = Ret (s\<lparr>as_Accounts := anys\<rparr>)" using read by simp
    show "UnpackAccounts S (as_Accounts (s\<lparr>as_Accounts := anys\<rparr>))
        = Inr (SanitizeGenesisAccounts S (accs @ [acc]))"
      using laws(2) anys by (simp add: account_laws_def)
    have "address ` set (SanitizeGenesisAccounts S (accs @ [acc])) = address ` set (accs @ [acc])"
      using laws(2) unfolding account_laws_def by blast
    then show "address ` set (SanitizeGenesisAccounts S (accs @ [acc]))
        = insert addr (address ` set accs)" using acc by simp
    show "st' bank_ModuleName = st bank_ModuleName"
      by (simp add: st' auth_ModuleName_def bank_ModuleName_def)
  qed
qed

lemma add_to_bank_effect:
  assumes laws: "file_laws S" and run: "add_to_bank S bal st = Ret st'"
  obtains b b' where "Bank_FromAppState S st = Ret b" "Bank_FromAppState S st' = Ret b'"
    "bs_Balances b' = SanitizeGenesisBalances S (bs_Balances b @ [bal])"
    "Coins_Add S (bs_Supply b) (bb_Coins bal) = Ret (bs_Supply b')"
    "st' auth_ModuleName = st auth_ModuleName"
proof -
  from run obtain b sup bz where b: "Bank_FromAppState S st = Ret b"
    and sup: "Coins_Add S (bs_Supply b) (bb_Coins bal) = Ret sup"
    and bz: "Bank_MarshalJSON S (b\<lparr>bs_Balances := SanitizeGenesisBalances S (bs_Balances b @ [bal]),
      bs_Supply := sup\<rparr>) = Inr bz"
    and st': "st' = st(bank_ModuleName \<mapsto> bz)"
    by (auto simp: add_to_bank_def go_simps Let_def)
  have "Bank_FromAppState S st' = Ret (b\<lparr>bs_Balances := SanitizeGenesisBalances S (bs_Balances b @ [bal]),
      bs_Supply := sup\<rparr>)"
    using laws bz st' by (simp add: file_laws_def)
  from that [OF b this] sup show ?thesis
    by (simp add: st' auth_ModuleName_def bank_ModuleName_def)
qed

text \<open>The steps of a run that succeeds.\<close>

lemma AddGenesisAccountCmd_Ret:
  assumes "AddGenesisAccountCmd S kn kr flags arg0 arg1 f = Ret f'"
  obtains addr coins amt vs ve acc st doc st1 st2 app where
    "account_address (Gen_AccAddress S) kn kr (fl_KeyringBackend flags) arg0 = Ret addr"
    "ParseCoinsNormalized S arg1 = Inr coins"
    "new_genesis_account S addr \<lparr>bb_Address = Gen_String S addr, bb_Coins = Coins_Sort S coins\<rparr> amt vs ve
       = Ret acc"
    "GenesisStateFromGenFile S f = Inr (st, doc)" "add_to_auth S addr acc st = Ret st1"
    "add_to_bank S \<lparr>bb_Address = Gen_String S addr, bb_Coins = Coins_Sort S coins\<rparr> st1 = Ret st2"
    "AppState_Marshal S st2 = Inr app" "ExportGenesisFile S (doc\<lparr>gd_AppState := app\<rparr>) f = Inr f'"
  using assms
  by (auto simp: AddGenesisAccountCmd_def go_simps Let_def split: prod.splits)

section \<open>The property\<close>

lemma existing_address_refused:
  assumes "account_laws S address" "genesis_accounts S f = Some accs" "addr \<in> address ` set accs"
    and "account_address (Gen_AccAddress S) kn kr (fl_KeyringBackend flags) arg0 = Ret addr"
  shows "AddGenesisAccountCmd S kn kr flags arg0 arg1 f \<noteq> Ret f'"
proof
  assume "AddGenesisAccountCmd S kn kr flags arg0 arg1 f = Ret f'"
  then show False
    by (rule AddGenesisAccountCmd_Ret)
      (use assms in \<open>auto simp: genesis_accounts_def add_to_auth_def go_simps account_laws_def
        split: go.splits sum.splits\<close>)
qed

text \<open>C32: When the command succeeds, the genesis file holds one address more, that of the new
  account, and one balance and the supply that goes with it; and from then on the command
  refuses the address, whatever the amounts, flags and keyring of the next run.\<close>
theorem genesis_account_added:
  assumes "file_laws S" "account_laws S address"
    and "AddGenesisAccountCmd S kn kr flags arg0 arg1 f = Ret f'"
  shows "\<exists>addr accs accs' coins b b'.
    account_address (Gen_AccAddress S) kn kr (fl_KeyringBackend flags) arg0 = Ret addr \<and>
    genesis_accounts S f = Some accs \<and> genesis_accounts S f' = Some accs' \<and>
    addr \<notin> address ` set accs \<and> address ` set accs' = insert addr (address ` set accs) \<and>
    ParseCoinsNormalized S arg1 = Inr coins \<and>
    genesis_bank S f = Some b \<and> genesis_bank S f' = Some b' \<and>
    bs_Balances b' = SanitizeGenesisBalances S
      (bs_Balances b @ [\<lparr>bb_Address = Gen_String S addr, bb_Coins = Coins_Sort S coins\<rparr>]) \<and>
    Coins_Add S (bs_Supply b) (Coins_Sort S coins) = Ret (bs_Supply b') \<and>
    (\<forall>kn kr flags arg0 arg1 f''.
      account_address (Gen_AccAddress S) kn kr (fl_KeyringBackend flags) arg0 = Ret addr \<longrightarrow>
      AddGenesisAccountCmd S kn kr flags arg0 arg1 f' \<noteq> Ret f'')"
proof -
  obtain addr coins amt vs ve acc st doc st1 st2 app where
    addr: "account_address (Gen_AccAddress S) kn kr (fl_KeyringBackend flags) arg0 = Ret addr"
    and coins: "ParseCoinsNormalized S arg1 = Inr coins"
    and acc: "new_genesis_account S addr
      \<lparr>bb_Address = Gen_String S addr, bb_Coins = Coins_Sort S coins\<rparr> amt vs ve = Ret acc"
    and st: "GenesisStateFromGenFile S f = Inr (st, doc)"
    and auth: "add_to_auth S addr acc st = Ret st1"
    and bank: "add_to_bank S \<lparr>bb_Address = Gen_String S addr, bb_Coins = Coins_Sort S coins\<rparr> st1 = Ret st2"
    and app: "AppState_Marshal S st2 = Inr app"
    and out: "ExportGenesisFile S (doc\<lparr>gd_AppState := app\<rparr>) f = Inr f'"
    by (rule AddGenesisAccountCmd_Ret [OF assms(3)])
  obtain doc' where st2: "GenesisStateFromGenFile S f' = Inr (st2, doc')"
    using file_read_back [OF assms(1) app out] by blast
  note accounts = genesis_accounts_def st st2
  obtain s s' accs accs' where s: "Auth_FromAppState S st = Ret s" "UnpackAccounts S (as_Accounts s) = Inr accs"
    "addr \<notin> address ` set accs" "Auth_FromAppState S st1 = Ret s'"
    and kept: "\<forall>st''. st'' auth_ModuleName = st1 auth_ModuleName \<longrightarrow> Auth_FromAppState S st'' = Ret s'"
    and t: "UnpackAccounts S (as_Accounts s') = Inr accs'"
    "address ` set accs' = insert addr (address ` set accs)" "st1 bank_ModuleName = st bank_ModuleName"
    by (rule add_to_auth_effect [OF assms(1,2) auth new_account_address [OF assms(2) acc]])
  obtain b b' where b: "Bank_FromAppState S st1 = Ret b"
    "Bank_FromAppState S st2 = Ret b'"
    "bs_Balances b' = SanitizeGenesisBalances S
      (bs_Balances b @ [\<lparr>bb_Address = Gen_String S addr, bb_Coins = Coins_Sort S coins\<rparr>])"
    "Coins_Add S (bs_Supply b) (Coins_Sort S coins) = Ret (bs_Supply b')"
    "st2 auth_ModuleName = st1 auth_ModuleName"
    by (rule add_to_bank_effect [OF assms(1) bank]) simp
  have "Bank_FromAppState S st = Bank_FromAppState S st1"
    by (rule bank_of_entry [OF assms(1)]) (rule t(3) [symmetric])
  then have "genesis_bank S f = Some b"
    using b(1) st by (simp add: genesis_bank_def)
  moreover have after: "genesis_accounts S f' = Some accs'"
    using t(1) kept b(5) by (simp add: accounts)
  moreover have "AddGenesisAccountCmd S kn kr flags arg0 arg1 f' \<noteq> Ret f''"
    if "account_address (Gen_AccAddress S) kn kr (fl_KeyringBackend flags) arg0 = Ret addr"
    for kn kr flags arg0 arg1 f''
    using existing_address_refused [OF assms(2) after _ that] t(2) by simp
  moreover have "genesis_accounts S f = Some accs" "genesis_bank S f' = Some b'"
    using s b st st2 by (simp_all add: accounts genesis_bank_def)
  ultimately show ?thesis
    using addr coins s(3) t(2) b(3,4) by (intro exI conjI allI impI; (assumption | blast))
qed

text \<open>A genesis whose raw JSON is the state itself.\<close>

type_synonym sample_raw = "(addr, unit) auth_state + (nat, unit) bank_state"

definition sample_sdk ::
  "(nat, addr, addr, addr, sample_raw, sample_raw app_state, unit, sample_raw app_state) gen_sdk" where
  "sample_sdk = \<lparr>
     Gen_AccAddress = (\<lambda>s. if s = [] then Inl ''empty'' else Inr (string_bytes s)),
     Gen_String = bytes_string, ParseCoinsNormalized = (\<lambda>s. Inr (length s)), Coins_Sort = id,
     Coins_IsZero = (\<lambda>n. n = 0), Coins_IsAnyGT = (>), Coins_Add = (\<lambda>m n. Ret (m + n)),
     NewBaseAccount = id, NewBaseVestingAccount = (\<lambda>a v e. a), OriginalVesting = (\<lambda>a. 0),
     NewContinuousVestingAccountRaw = (\<lambda>a s. a), NewDelayedVestingAccountRaw = id,
     Account_Validate = (\<lambda>a. None), Accounts_Contains = (\<lambda>accs a. a \<in> set accs),
     SanitizeGenesisAccounts = id, PackAccounts = Inr, UnpackAccounts = Inr,
     Auth_FromAppState = (\<lambda>st. case st ''auth'' of Some (Inl s) \<Rightarrow> Ret s
       | _ \<Rightarrow> Ret \<lparr>as_Accounts = [], as_rest = ()\<rparr>),
     Auth_MarshalJSON = (\<lambda>s. Inr (Inl s)),
     Bank_FromAppState = (\<lambda>st. case st ''bank'' of Some (Inr s) \<Rightarrow> Ret s
       | _ \<Rightarrow> Ret \<lparr>bs_Balances = [], bs_Supply = 0, bs_rest = ()\<rparr>),
     Bank_MarshalJSON = (\<lambda>s. Inr (Inr s)), SanitizeGenesisBalances = id, AppState_Marshal = Inr,
     GenesisStateFromGenFile = (\<lambda>f. Inr (f, \<lparr>gd_AppState = f, gd_rest = ()\<rparr>)),
     ExportGenesisFile = (\<lambda>doc f. Inr (gd_AppState doc))\<rparr>"

lemma sample_sdk_laws: "file_laws sample_sdk" "account_laws sample_sdk id"
  by (simp_all add: file_laws_def account_laws_def sample_sdk_def auth_ModuleName_def bank_ModuleName_def)

definition no_vesting :: gen_flags where
  "no_vesting = \<lparr>fl_KeyringBackend = Inr [], fl_VestingStart = Inr 0, fl_VestingEnd = Inr 0,
     fl_VestingAmt = Inr []\<rparr>"

theorem genesis_account_added_witness:
  "\<exists>f' accs'. AddGenesisAccountCmd sample_sdk (\<lambda>_. Inl (TextError [])) None no_vesting ''alice'' ''xxx''
      Map.empty = Ret f' \<and>
    genesis_accounts sample_sdk f' = Some accs' \<and> set accs' = {string_bytes ''alice''}"
proof -
  obtain f' where run: "AddGenesisAccountCmd sample_sdk (\<lambda>_. Inl (TextError [])) None no_vesting ''alice''
      ''xxx'' Map.empty = Ret f'"
    by (simp add: AddGenesisAccountCmd_def sample_sdk_def no_vesting_def account_address_def or_wrap_def
        new_genesis_account_def check_account_def add_to_auth_def add_to_bank_def Let_def)
  have none: "genesis_accounts sample_sdk Map.empty = Some []"
    by (simp add: genesis_accounts_def sample_sdk_def)
  have addr: "account_address (Gen_AccAddress sample_sdk) (\<lambda>_. Inl (TextError [])) None
      (fl_KeyringBackend no_vesting) ''alice'' = Ret (string_bytes ''alice'')"
    by (simp add: account_address_def sample_sdk_def)
  show ?thesis
    using genesis_account_added [OF sample_sdk_laws run] run none addr by auto
qed

end
