(* ===== verification/Gateway.thy ===== *)
theory Gateway
  imports Types QueryCodec
begin

text \<open>
  \<^verbatim>\<open>x/schedule/types/query.pb.gw.go\<close> and \<^verbatim>\<open>tx.pb.gw.go\<close>: the reverse proxy that serves the
  module's two gRPC services over HTTP. For each method there is a function that asks a client
  and one that asks the server directly, and for each service a registration of the HTTP
  handlers over either. The HTTP multiplexer is the list of the \<^verbatim>\<open>mux.Handle\<close> calls made on it.
\<close>

section \<open>Requests, metadata and replies\<close>

text \<open>gRPC metadata: the values of each key; a key without values is absent.\<close>

type_synonym metadata = "string \<Rightarrow> string list"

definition metadata_Join :: "metadata \<Rightarrow> metadata \<Rightarrow> metadata" where
  "metadata_Join a b = (\<lambda>k. a k @ b k)"

record server_metadata =
  HeaderMD :: metadata
  TrailerMD :: metadata

definition no_metadata :: server_metadata where
  "no_metadata = \<lparr>HeaderMD = (\<lambda>_. []), TrailerMD = (\<lambda>_. [])\<rparr>"

text \<open>
  What a call of a gRPC method brings: the header and trailer, and the response or an error.
  A client's are filled in through the call's options, a server's come through the stream.
\<close>

type_synonym ('ctx, 'req, 'resp) rpc = "'ctx \<Rightarrow> 'req \<Rightarrow> (gerror, server_metadata \<times> (gerror + 'resp)) go"

record ('ctx, 'p, 'c) query_service =
  rpc_Params :: "('ctx, QueryParamsRequest, 'p) rpc"
  rpc_ScheduledCalls :: "('ctx, QueryScheduledCallsRequest, 'c) rpc"

record 'ctx msg_service =
  rpc_AddSchedule :: "('ctx, MsgAddSchedule, MsgAddScheduleResponse) rpc"
  rpc_RemoveSchedule :: "('ctx, MsgRemoveSchedule, MsgRemoveScheduleResponse) rpc"

text \<open>
  The gateway's runtime: the context of a request, for a server or for a client, the form of a
  request, and how the form's parameters are put into the fields of a message.
\<close>

record ('http, 'ctx, 'form) gw_runtime =
  AnnotateIncomingContext :: "'http \<Rightarrow> gerror + 'ctx"
  AnnotateContext :: "'http \<Rightarrow> gerror + 'ctx"
  ParseForm :: "'http \<Rightarrow> string + 'form"
  Populate_AddSchedule :: "MsgAddSchedule \<Rightarrow> 'form \<Rightarrow> string + MsgAddSchedule"
  Populate_RemoveSchedule :: "MsgRemoveSchedule \<Rightarrow> 'form \<Rightarrow> string + MsgRemoveSchedule"

text \<open>
  A handler replies once: with an error, or by forwarding the response. The server's metadata
  is in the context of the reply from the call on.
\<close>

datatype 'resp reply =
    HTTPError "server_metadata option" gerror
  | ForwardResponseMessage server_metadata 'resp

datatype ('p, 'c) gw_response =
    RespParams 'p
  | RespScheduledCalls 'c
  | RespAddSchedule MsgAddScheduleResponse
  | RespRemoveSchedule MsgRemoveScheduleResponse

section \<open>Patterns and registrations\<close>

text \<open>
  A pattern's operations come in pairs: the operation code and its operand, here always 2,
  which pushes the literal with that index of the pool.
\<close>

record pattern =
  pat_Version :: int
  pat_Ops :: "int list"
  pat_Pool :: "string list"
  pat_Verb :: string

definition schedule_pattern :: "string \<Rightarrow> pattern" where
  "schedule_pattern name =
     \<lparr>pat_Version = 1, pat_Ops = [2, 0, 2, 1, 2, 2, 2, 3],
      pat_Pool = [''BurntFinance'', ''burnt'', ''schedule'', name], pat_Verb = []\<rparr>"

definition pattern_Query_Params_0 :: pattern where
  "pattern_Query_Params_0 = schedule_pattern ''params''"

definition pattern_Query_ScheduledCalls_0 :: pattern where
  "pattern_Query_ScheduledCalls_0 = schedule_pattern ''scheduled_calls''"

definition pattern_Msg_AddSchedule_0 :: pattern where
  "pattern_Msg_AddSchedule_0 = schedule_pattern ''add_schedule''"

definition pattern_Msg_RemoveSchedule_0 :: pattern where
  "pattern_Msg_RemoveSchedule_0 = schedule_pattern ''remove_schedule''"

text \<open>The literal segments of the path that a pattern matches.\<close>

fun pattern_literals :: "int list \<Rightarrow> string list \<Rightarrow> string list" where
  "pattern_literals (op # i # ops) pool =
     (if op = 2 then [pool ! nat i] else []) @ pattern_literals ops pool"
| "pattern_literals _ pool = []"

type_synonym ('http, 'p, 'c) handler = "'http \<Rightarrow> (gerror, ('p, 'c) gw_response reply) go"

type_synonym ('http, 'p, 'c) mux = "(string \<times> pattern \<times> ('http, 'p, 'c) handler) list"

section \<open>Asking for one method\<close>

text \<open>The response, the metadata and the error of a call; the latter two are always there.\<close>

type_synonym 'resp asked = "(gerror, server_metadata \<times> (gerror + 'resp)) go"

definition request_Query_Params_0 :: "('ctx, 'p, 'c) query_service \<Rightarrow> 'ctx \<Rightarrow> 'p asked" where
  "request_Query_Params_0 client ctx = rpc_Params client ctx QueryParamsRequest"

definition request_Query_ScheduledCalls_0 :: "('ctx, 'p, 'c) query_service \<Rightarrow> 'ctx \<Rightarrow> 'c asked" where
  "request_Query_ScheduledCalls_0 client ctx = rpc_ScheduledCalls client ctx QueryScheduledCallsRequest"

text \<open>
  The local variants return empty metadata of their own; what the server sends goes to the
  stream, which the handler joins to it.
\<close>

type_synonym 'resp local_asked = "(gerror, server_metadata \<times> server_metadata \<times> (gerror + 'resp)) go"

definition ask_server :: "'resp asked \<Rightarrow> 'resp local_asked" where
  "ask_server r = go_bind r (\<lambda>(stream, msg). Ret (stream, no_metadata, msg))"

definition local_request_Query_Params_0 :: "('ctx, 'p, 'c) query_service \<Rightarrow> 'ctx \<Rightarrow> 'p local_asked" where
  "local_request_Query_Params_0 server ctx = ask_server (rpc_Params server ctx QueryParamsRequest)"

definition local_request_Query_ScheduledCalls_0 ::
  "('ctx, 'p, 'c) query_service \<Rightarrow> 'ctx \<Rightarrow> 'c local_asked" where
  "local_request_Query_ScheduledCalls_0 server ctx =
     ask_server (rpc_ScheduledCalls server ctx QueryScheduledCallsRequest)"

text \<open>The form of a request, and its parameters in the message's fields.\<close>

definition read_form ::
  "('http, 'ctx, 'form) gw_runtime \<Rightarrow> ('m \<Rightarrow> 'form \<Rightarrow> string + 'm) \<Rightarrow> 'm \<Rightarrow> 'http \<Rightarrow> gerror + 'm" where
  "read_form rt populate protoReq req =
     (case ParseForm rt req of
        Inl err \<Rightarrow> Inl (GrpcInvalidArgument err)
      | Inr form \<Rightarrow>
          (case populate protoReq form of
             Inl err \<Rightarrow> Inl (GrpcInvalidArgument err)
           | Inr protoReq \<Rightarrow> Inr protoReq))"

definition request_Msg_AddSchedule_0 ::
  "('http, 'ctx, 'form) gw_runtime \<Rightarrow> 'ctx msg_service \<Rightarrow> 'ctx \<Rightarrow> 'http \<Rightarrow> MsgAddScheduleResponse asked" where
  "request_Msg_AddSchedule_0 rt client ctx req =
     (case read_form rt (Populate_AddSchedule rt) MsgAddSchedule_zero req of
        Inl err \<Rightarrow> Ret (no_metadata, Inl err)
      | Inr protoReq \<Rightarrow> rpc_AddSchedule client ctx protoReq)"

definition local_request_Msg_AddSchedule_0 ::
  "('http, 'ctx, 'form) gw_runtime \<Rightarrow> 'ctx msg_service \<Rightarrow> 'ctx \<Rightarrow> 'http
    \<Rightarrow> MsgAddScheduleResponse local_asked" where
  "local_request_Msg_AddSchedule_0 rt server ctx req =
     (case read_form rt (Populate_AddSchedule rt) MsgAddSchedule_zero req of
        Inl err \<Rightarrow> Ret (no_metadata, no_metadata, Inl err)
      | Inr protoReq \<Rightarrow> ask_server (rpc_AddSchedule server ctx protoReq))"

definition request_Msg_RemoveSchedule_0 ::
  "('http, 'ctx, 'form) gw_runtime \<Rightarrow> 'ctx msg_service \<Rightarrow> 'ctx \<Rightarrow> 'http \<Rightarrow> MsgRemoveScheduleResponse asked" where
  "request_Msg_RemoveSchedule_0 rt client ctx req =
     (case read_form rt (Populate_RemoveSchedule rt) MsgRemoveSchedule_zero req of
        Inl err \<Rightarrow> Ret (no_metadata, Inl err)
      | Inr protoReq \<Rightarrow> rpc_RemoveSchedule client ctx protoReq)"

definition local_request_Msg_RemoveSchedule_0 ::
  "('http, 'ctx, 'form) gw_runtime \<Rightarrow> 'ctx msg_service \<Rightarrow> 'ctx \<Rightarrow> 'http
    \<Rightarrow> MsgRemoveScheduleResponse local_asked" where
  "local_request_Msg_RemoveSchedule_0 rt server ctx req =
     (case read_form rt (Populate_RemoveSchedule rt) MsgRemoveSchedule_zero req of
        Inl err \<Rightarrow> Ret (no_metadata, no_metadata, Inl err)
      | Inr protoReq \<Rightarrow> ask_server (rpc_RemoveSchedule server ctx protoReq))"

section \<open>The HTTP handlers\<close>

definition reply_with :: "('resp \<Rightarrow> 'r) \<Rightarrow> server_metadata \<Rightarrow> gerror + 'resp \<Rightarrow> 'r reply" where
  "reply_with resp md r = (case r of
      Inl err \<Rightarrow> HTTPError (Some md) err
    | Inr msg \<Rightarrow> ForwardResponseMessage md (resp msg))"

text \<open>A handler that asks a client, and one that asks the server and joins the stream's metadata.\<close>

definition client_handler ::
  "('http \<Rightarrow> gerror + 'ctx) \<Rightarrow> ('ctx \<Rightarrow> 'http \<Rightarrow> 'resp asked) \<Rightarrow> ('resp \<Rightarrow> 'r) \<Rightarrow> 'http
    \<Rightarrow> (gerror, 'r reply) go" where
  "client_handler annotate ask resp req =
     (case annotate req of
        Inl err \<Rightarrow> Ret (HTTPError None err)
      | Inr rctx \<Rightarrow> go_bind (ask rctx req) (\<lambda>(md, r). Ret (reply_with resp md r)))"

definition server_handler ::
  "('http \<Rightarrow> gerror + 'ctx) \<Rightarrow> ('ctx \<Rightarrow> 'http \<Rightarrow> 'resp local_asked) \<Rightarrow> ('resp \<Rightarrow> 'r) \<Rightarrow> 'http
    \<Rightarrow> (gerror, 'r reply) go" where
  "server_handler annotate ask resp req =
     (case annotate req of
        Inl err \<Rightarrow> Ret (HTTPError None err)
      | Inr rctx \<Rightarrow> go_bind (ask rctx req) (\<lambda>(stream, md, r).
          let md = \<lparr>HeaderMD = metadata_Join (HeaderMD md) (HeaderMD stream),
                    TrailerMD = metadata_Join (TrailerMD md) (TrailerMD stream)\<rparr>
          in Ret (reply_with resp md r)))"

definition RegisterQueryHandlerServer ::
  "('http, 'ctx, 'form) gw_runtime \<Rightarrow> ('http, 'p, 'c) mux \<Rightarrow> ('ctx, 'p, 'c) query_service
    \<Rightarrow> ('http, 'p, 'c) mux" where
  "RegisterQueryHandlerServer rt mux server = mux @
     [(''GET'', pattern_Query_Params_0, server_handler (AnnotateIncomingContext rt)
         (\<lambda>rctx req. local_request_Query_Params_0 server rctx) RespParams),
      (''GET'', pattern_Query_ScheduledCalls_0, server_handler (AnnotateIncomingContext rt)
         (\<lambda>rctx req. local_request_Query_ScheduledCalls_0 server rctx) RespScheduledCalls)]"

definition RegisterQueryHandlerClient ::
  "('http, 'ctx, 'form) gw_runtime \<Rightarrow> ('http, 'p, 'c) mux \<Rightarrow> ('ctx, 'p, 'c) query_service
    \<Rightarrow> ('http, 'p, 'c) mux" where
  "RegisterQueryHandlerClient rt mux client = mux @
     [(''GET'', pattern_Query_Params_0, client_handler (AnnotateContext rt)
         (\<lambda>rctx req. request_Query_Params_0 client rctx) RespParams),
      (''GET'', pattern_Query_ScheduledCalls_0, client_handler (AnnotateContext rt)
         (\<lambda>rctx req. request_Query_ScheduledCalls_0 client rctx) RespScheduledCalls)]"

definition RegisterMsgHandlerServer ::
  "('http, 'ctx, 'form) gw_runtime \<Rightarrow> ('http, 'p, 'c) mux \<Rightarrow> 'ctx msg_service \<Rightarrow> ('http, 'p, 'c) mux" where
  "RegisterMsgHandlerServer rt mux server = mux @
     [(''POST'', pattern_Msg_AddSchedule_0, server_handler (AnnotateIncomingContext rt)
         (local_request_Msg_AddSchedule_0 rt server) RespAddSchedule),
      (''POST'', pattern_Msg_RemoveSchedule_0, server_handler (AnnotateIncomingContext rt)
         (local_request_Msg_RemoveSchedule_0 rt server) RespRemoveSchedule)]"

definition RegisterMsgHandlerClient ::
  "('http, 'ctx, 'form) gw_runtime \<Rightarrow> ('http, 'p, 'c) mux \<Rightarrow> 'ctx msg_service \<Rightarrow> ('http, 'p, 'c) mux" where
  "RegisterMsgHandlerClient rt mux client = mux @
     [(''POST'', pattern_Msg_AddSchedule_0, client_handler (AnnotateContext rt)
         (request_Msg_AddSchedule_0 rt client) RespAddSchedule),
      (''POST'', pattern_Msg_RemoveSchedule_0, client_handler (AnnotateContext rt)
         (request_Msg_RemoveSchedule_0 rt client) RespRemoveSchedule)]"

section \<open>Dialling an endpoint\<close>

text \<open>
  A registration over a connection that is made here, and closed by the deferred function: at
  once if the registration failed, else when the context is done.
\<close>

datatype closing = ClosedAtOnce | ClosedWhenDone

definition from_endpoint ::
  "gerror + 'conn \<Rightarrow> ('conn \<Rightarrow> gerror + 'mux) \<Rightarrow> (gerror + 'mux) \<times> ('conn \<times> closing) option" where
  "from_endpoint dialled register =
     (case dialled of
        Inl err \<Rightarrow> (Inl err, None)
      | Inr conn \<Rightarrow>
          let r = register conn
          in (r, Some (conn, case r of Inl err \<Rightarrow> ClosedAtOnce | Inr _ \<Rightarrow> ClosedWhenDone)))"

definition RegisterQueryHandler ::
  "('http, 'ctx, 'form) gw_runtime \<Rightarrow> ('conn \<Rightarrow> ('ctx, 'p, 'c) query_service) \<Rightarrow> ('http, 'p, 'c) mux
    \<Rightarrow> 'conn \<Rightarrow> gerror + ('http, 'p, 'c) mux" where
  "RegisterQueryHandler rt NewQueryClient mux conn =
     Inr (RegisterQueryHandlerClient rt mux (NewQueryClient conn))"

definition RegisterMsgHandler ::
  "('http, 'ctx, 'form) gw_runtime \<Rightarrow> ('conn \<Rightarrow> 'ctx msg_service) \<Rightarrow> ('http, 'p, 'c) mux
    \<Rightarrow> 'conn \<Rightarrow> gerror + ('http, 'p, 'c) mux" where
  "RegisterMsgHandler rt NewMsgClient mux conn =
     Inr (RegisterMsgHandlerClient rt mux (NewMsgClient conn))"

definition RegisterQueryHandlerFromEndpoint ::
  "('http, 'ctx, 'form) gw_runtime \<Rightarrow> (string \<Rightarrow> gerror + 'conn) \<Rightarrow> ('conn \<Rightarrow> ('ctx, 'p, 'c) query_service)
    \<Rightarrow> ('http, 'p, 'c) mux \<Rightarrow> string \<Rightarrow> (gerror + ('http, 'p, 'c) mux) \<times> ('conn \<times> closing) option" where
  "RegisterQueryHandlerFromEndpoint rt Dial NewQueryClient mux endpoint =
     from_endpoint (Dial endpoint) (RegisterQueryHandler rt NewQueryClient mux)"

definition RegisterMsgHandlerFromEndpoint ::
  "('http, 'ctx, 'form) gw_runtime \<Rightarrow> (string \<Rightarrow> gerror + 'conn) \<Rightarrow> ('conn \<Rightarrow> 'ctx msg_service)
    \<Rightarrow> ('http, 'p, 'c) mux \<Rightarrow> string \<Rightarrow> (gerror + ('http, 'p, 'c) mux) \<times> ('conn \<times> closing) option" where
  "RegisterMsgHandlerFromEndpoint rt Dial NewMsgClient mux endpoint =
     from_endpoint (Dial endpoint) (RegisterMsgHandler rt NewMsgClient mux)"

text \<open>The application asks the module to register its gateway routes; the module registers none.\<close>

definition RegisterGRPCGatewayRoutes :: "('http, 'p, 'c) mux \<Rightarrow> ('http, 'p, 'c) mux" where
  "RegisterGRPCGatewayRoutes mux = mux"

section \<open>Lemmas\<close>

lemma join_no_metadata [simp]:
  "metadata_Join (HeaderMD no_metadata) a = a" "metadata_Join (TrailerMD no_metadata) a = a"
  by (simp_all add: metadata_Join_def no_metadata_def)

lemma metadata_eta [simp]:
  "\<lparr>HeaderMD = HeaderMD a, TrailerMD = TrailerMD a\<rparr> = (a :: server_metadata)"
  by (cases a) simp

lemma ask_server_handler:
  assumes "\<And>ctx req. ask' ctx req = ask_server (ask ctx req)"
  shows "server_handler annotate ask' resp = client_handler annotate ask resp"
proof
  fix req
  show "server_handler annotate ask' resp req = client_handler annotate ask resp req"
  proof (cases "annotate req")
    case (Inr rctx)
    then show ?thesis
      by (cases "ask rctx req")
         (auto simp: server_handler_def client_handler_def assms ask_server_def Let_def)
  qed (simp add: server_handler_def client_handler_def)
qed

lemma local_requests:
  "local_request_Query_Params_0 q ctx = ask_server (request_Query_Params_0 q ctx)"
  "local_request_Query_ScheduledCalls_0 q ctx = ask_server (request_Query_ScheduledCalls_0 q ctx)"
  "local_request_Msg_AddSchedule_0 rt m ctx req = ask_server (request_Msg_AddSchedule_0 rt m ctx req)"
  "local_request_Msg_RemoveSchedule_0 rt m ctx req
    = ask_server (request_Msg_RemoveSchedule_0 rt m ctx req)"
  by (simp_all add: local_request_Query_Params_0_def request_Query_Params_0_def
      local_request_Query_ScheduledCalls_0_def request_Query_ScheduledCalls_0_def
      local_request_Msg_AddSchedule_0_def request_Msg_AddSchedule_0_def
      local_request_Msg_RemoveSchedule_0_def request_Msg_RemoveSchedule_0_def
      ask_server_def split: sum.split)

lemma reply_with_Forward [simp]:
  "reply_with resp md r = ForwardResponseMessage md' x \<longleftrightarrow> md = md' \<and> (\<exists>msg. r = Inr msg \<and> x = resp msg)"
  "reply_with resp md r = HTTPError md'' err \<longleftrightarrow> md'' = Some md \<and> r = Inl err"
  by (auto simp: reply_with_def split: sum.split)

lemma read_form_Inr [simp]:
  "read_form rt populate m req = Inr m'
    \<longleftrightarrow> (\<exists>form. ParseForm rt req = Inr form \<and> populate m form = Inr m')"
  by (auto simp: read_form_def split: sum.split)

section \<open>Properties\<close>


definition sample_runtime :: "('m1 \<Rightarrow> string + MsgAddSchedule) \<Rightarrow> ('m1, 'm1, 'm1) gw_runtime" where
  "sample_runtime f = \<lparr>AnnotateIncomingContext = Inr, AnnotateContext = Inr, ParseForm = Inr,
     Populate_AddSchedule = (\<lambda>_. f), Populate_RemoveSchedule = (\<lambda>m _. Inr m)\<rparr>"

definition sample_msg_service :: "'ctx msg_service" where
  "sample_msg_service = \<lparr>
     rpc_AddSchedule = (\<lambda>ctx m. if ma_BlockHeight m = 0
        then Ret (no_metadata, Inl ErrInvalidScheduledBlockHeight)
        else Ret (no_metadata, Inr MsgAddScheduleResponse)),
     rpc_RemoveSchedule = (\<lambda>ctx m. Ret (no_metadata, Inr MsgRemoveScheduleResponse))\<rparr>"


text \<open>C28: \<^verbatim>\<open>POST\<close> of an \<open>AddSchedule\<close> is answered with a forwarded response exactly if the request has
  a context, its form parses and fits the message, and the server then accepts that message;
  a malformed form is an invalid argument, whatever the server would say. The four routes of
  the module are different, and none of them is ever registered with the application.\<close>
theorem gateway_add_schedule:
  assumes "AnnotateIncomingContext rt req = Inr ctx"
  shows "(server_handler (AnnotateIncomingContext rt) (local_request_Msg_AddSchedule_0 rt server)
        RespAddSchedule req = Ret (ForwardResponseMessage md (RespAddSchedule r :: ('p, 'c) gw_response))
      \<longleftrightarrow> (\<exists>form msg. ParseForm rt req = Inr form \<and>
            Populate_AddSchedule rt MsgAddSchedule_zero form = Inr msg \<and>
            rpc_AddSchedule server ctx msg = Ret (md, Inr r))) \<and>
    ((\<exists>err. ParseForm rt req = Inl err \<or>
        (\<exists>form. ParseForm rt req = Inr form \<and> Populate_AddSchedule rt MsgAddSchedule_zero form = Inl err))
      \<longrightarrow> (\<exists>err. server_handler (AnnotateIncomingContext rt) (local_request_Msg_AddSchedule_0 rt server)
            RespAddSchedule req
          = Ret (HTTPError (Some no_metadata) (GrpcInvalidArgument err) :: ('p, 'c) gw_response reply))) \<and>
    distinct (map (\<lambda>pat. pattern_literals (pat_Ops pat) (pat_Pool pat))
      [pattern_Query_Params_0, pattern_Query_ScheduledCalls_0, pattern_Msg_AddSchedule_0,
       pattern_Msg_RemoveSchedule_0]) \<and>
    RegisterGRPCGatewayRoutes ([] :: ('http, 'p, 'c) mux) = []"
proof (intro conjI impI)
  have handler: "server_handler (AnnotateIncomingContext rt) (local_request_Msg_AddSchedule_0 rt server)
      RespAddSchedule = client_handler (AnnotateIncomingContext rt) (request_Msg_AddSchedule_0 rt server)
        (RespAddSchedule :: _ \<Rightarrow> ('p, 'c) gw_response)"
    by (rule ask_server_handler) (simp add: local_requests)
  show "server_handler (AnnotateIncomingContext rt) (local_request_Msg_AddSchedule_0 rt server)
        RespAddSchedule req = Ret (ForwardResponseMessage md (RespAddSchedule r :: ('p, 'c) gw_response))
      \<longleftrightarrow> (\<exists>form msg. ParseForm rt req = Inr form \<and>
            Populate_AddSchedule rt MsgAddSchedule_zero form = Inr msg \<and>
            rpc_AddSchedule server ctx msg = Ret (md, Inr r))"
    unfolding handler
    by (cases "read_form rt (Populate_AddSchedule rt) MsgAddSchedule_zero req")
       (auto simp: client_handler_def assms request_Msg_AddSchedule_0_def go_simps read_form_def
         split: sum.splits)
  assume "\<exists>err. ParseForm rt req = Inl err \<or>
      (\<exists>form. ParseForm rt req = Inr form \<and> Populate_AddSchedule rt MsgAddSchedule_zero form = Inl err)"
  then show "\<exists>err. server_handler (AnnotateIncomingContext rt) (local_request_Msg_AddSchedule_0 rt server)
      RespAddSchedule req
    = Ret (HTTPError (Some no_metadata) (GrpcInvalidArgument err) :: ('p, 'c) gw_response reply)"
    unfolding handler
    by (auto simp: client_handler_def assms request_Msg_AddSchedule_0_def read_form_def)
qed (simp_all add: pattern_Query_Params_0_def pattern_Query_ScheduledCalls_0_def
    pattern_Msg_AddSchedule_0_def pattern_Msg_RemoveSchedule_0_def schedule_pattern_def
    RegisterGRPCGatewayRoutes_def)

theorem gateway_add_schedule_witness:
  "server_handler (AnnotateIncomingContext (sample_runtime (\<lambda>n. Inr (MsgAddSchedule_zero\<lparr>ma_BlockHeight := n\<rparr>))))
     (local_request_Msg_AddSchedule_0 (sample_runtime (\<lambda>n. Inr (MsgAddSchedule_zero\<lparr>ma_BlockHeight := n\<rparr>)))
       sample_msg_service) RespAddSchedule 7
    = Ret (ForwardResponseMessage no_metadata (RespAddSchedule MsgAddScheduleResponse :: (unit, unit) gw_response))"
  by (subst gateway_add_schedule [where ctx = 7, THEN conjunct1])
     (simp_all add: sample_runtime_def sample_msg_service_def)

end
