(* ===== verification/Wiring.thy ===== *)
theory Wiring
  imports App
begin

text \<open>
  \<open>NewWasmApp\<close> of \<^verbatim>\<open>app/app.go\<close>: the order in which the keepers are made and what each is given,
  the stacks and routes of the IBC and governance routers, and the last steps, which load the
  state. In Go a keeper that is used before it is made is its type's zero value, and a store
  key or subspace that was never registered is nil or empty, so both are looked up here.
\<close>

section \<open>Making the keepers\<close>

datatype keeper =
    KeeperOf app_module
  | KeeperIcaHost
  | KeeperIcaController
  | LocalStaking
  | Scoped store_name

text \<open>
  One construction: what is made, its store key and its subspace where it is given one, the
  keepers it is given, and the memory and transient stores.
\<close>

record construction =
  makes :: keeper
  store_key :: "store_name option"
  subspace :: "store_name option"
  given :: "keeper list"

definition mk :: "keeper \<Rightarrow> store_name option \<Rightarrow> store_name option \<Rightarrow> keeper list \<Rightarrow> construction" where
  "mk k sk sp ks = \<lparr>makes = k, store_key = sk, subspace = sp, given = ks\<rparr>"

text \<open>A module's own store key and subspace.\<close>

definition own :: "app_module \<Rightarrow> keeper list \<Rightarrow> construction" where
  "own md ks = mk (KeeperOf md) (Some (OfModule md)) (Some (OfModule md)) ks"

definition scoped_keepers :: "construction list" where
  "scoped_keepers =
     map (\<lambda>n. mk (Scoped n) None None [KeeperOf ModCapability])
       [OfModule ModIbc, IcaHost, IcaController, OfModule ModInterTx, OfModule ModTransfer,
        OfModule ModWasm]"

text \<open>
  The staking keeper is made twice: the local one, which others are given by reference, and
  \<^verbatim>\<open>app.StakingKeeper\<close>, a copy taken after the hooks were set.
\<close>

definition base_keepers :: "construction list" where
  "base_keepers =
     [own ModAuth [],
      own ModBank [KeeperOf ModAuth],
      mk (KeeperOf ModAuthz) (Some (OfModule ModAuthz)) None [],
      mk (KeeperOf ModFeegrant) (Some (OfModule ModFeegrant)) None [KeeperOf ModAuth],
      mk LocalStaking (Some (OfModule ModStaking)) (Some (OfModule ModStaking))
        [KeeperOf ModAuth, KeeperOf ModBank],
      own ModMint [LocalStaking, KeeperOf ModAuth, KeeperOf ModBank],
      own ModDistr [KeeperOf ModAuth, KeeperOf ModBank, LocalStaking],
      own ModSlashing [LocalStaking],
      mk (KeeperOf ModCrisis) None (Some (OfModule ModCrisis)) [KeeperOf ModBank],
      mk (KeeperOf ModUpgrade) (Some (OfModule ModUpgrade)) None [],
      mk (KeeperOf ModStaking) None None [LocalStaking, KeeperOf ModDistr, KeeperOf ModSlashing]]"

definition ibc_keepers :: "construction list" where
  "ibc_keepers =
     [own ModIbc [KeeperOf ModStaking, KeeperOf ModUpgrade, Scoped (OfModule ModIbc)],
      own ModIbcFee [KeeperOf ModIbc, KeeperOf ModAuth, KeeperOf ModBank],
      own ModTransfer [KeeperOf ModIbcFee, KeeperOf ModIbc, KeeperOf ModAuth, KeeperOf ModBank,
        Scoped (OfModule ModTransfer)],
      mk KeeperIcaHost (Some IcaHost) (Some IcaHost) [KeeperOf ModIbc, KeeperOf ModAuth, Scoped IcaHost],
      mk KeeperIcaController (Some IcaController) (Some IcaController)
        [KeeperOf ModIbcFee, KeeperOf ModIbc, Scoped IcaController],
      mk (KeeperOf ModInterTx) (Some (OfModule ModInterTx)) None
        [KeeperIcaController, Scoped (OfModule ModInterTx)],
      mk (KeeperOf ModEvidence) (Some (OfModule ModEvidence)) None
        [KeeperOf ModStaking, KeeperOf ModSlashing]]"

definition wasm_keeper :: construction where
  "wasm_keeper =
     own ModWasm [KeeperOf ModAuth, KeeperOf ModBank, KeeperOf ModStaking, KeeperOf ModDistr,
       KeeperOf ModIbc, Scoped (OfModule ModWasm), KeeperOf ModTransfer]"

definition gov_keeper :: construction where
  "gov_keeper = own ModGov [KeeperOf ModAuth, KeeperOf ModBank, LocalStaking]"

definition schedule_keeper :: construction where
  "schedule_keeper = own ModSchedule [KeeperOf ModWasm, KeeperOf ModFeegrant, KeeperOf ModBank]"

definition keeper_constructions :: "construction list" where
  "keeper_constructions =
     mk (KeeperOf ModParams) (Some (OfModule ModParams)) None []
     # mk (KeeperOf ModCapability) (Some (OfModule ModCapability)) None []
     # scoped_keepers @ base_keepers @ ibc_keepers @ [wasm_keeper, gov_keeper, schedule_keeper]"

text \<open>
  Running the constructions: the keepers made so far, and for each keeper that is given before
  it is made a use of a zero value.
\<close>

fun construct :: "construction list \<Rightarrow> keeper list \<Rightarrow> (keeper \<times> keeper) list \<times> keeper list" where
  "construct [] made = ([], made)"
| "construct (x # xs) made =
     (let zero = map (Pair (makes x)) (filter (\<lambda>k. k \<notin> set made) (given x));
          (zeros, all) = construct xs (makes x # made)
      in (zero @ zeros, all))"

text \<open>
  The modules of the module manager, those of the simulation manager, and the ante handler, with
  the keepers they are given.
\<close>

definition module_keepers :: "(app_module \<times> keeper list) list" where
  "module_keepers = map (\<lambda>(md, mds). (md, map KeeperOf mds))
     [(ModGenutil, [ModAuth, ModStaking]), (ModAuth, [ModAuth]), (ModVesting, [ModAuth, ModBank]),
      (ModBank, [ModBank, ModAuth]), (ModCapability, [ModCapability]),
      (ModGov, [ModGov, ModAuth, ModBank]), (ModMint, [ModMint, ModAuth]),
      (ModSlashing, [ModSlashing, ModAuth, ModBank, ModStaking]),
      (ModDistr, [ModDistr, ModAuth, ModBank, ModStaking]), (ModStaking, [ModStaking, ModAuth, ModBank]),
      (ModUpgrade, [ModUpgrade]), (ModWasm, [ModWasm, ModStaking, ModAuth, ModBank]),
      (ModEvidence, [ModEvidence]), (ModFeegrant, [ModAuth, ModBank, ModFeegrant]),
      (ModAuthz, [ModAuthz, ModAuth, ModBank]), (ModIbc, [ModIbc]), (ModParams, [ModParams]),
      (ModTransfer, [ModTransfer]), (ModIbcFee, [ModIbcFee])]
     @ [(ModIca, [KeeperIcaController, KeeperIcaHost])]
     @ map (\<lambda>md. (md, [KeeperOf md])) [ModInterTx, ModSchedule, ModCrisis]"

definition sim_keepers :: "(app_module \<times> keeper list) list" where
  "sim_keepers = map (\<lambda>(md, mds). (md, map KeeperOf mds))
     [(ModAuth, [ModAuth]), (ModBank, [ModBank, ModAuth]), (ModCapability, [ModCapability]),
      (ModFeegrant, [ModAuth, ModBank, ModFeegrant]), (ModAuthz, [ModAuthz, ModAuth, ModBank]),
      (ModGov, [ModGov, ModAuth, ModBank]), (ModMint, [ModMint, ModAuth]),
      (ModStaking, [ModStaking, ModAuth, ModBank]), (ModDistr, [ModDistr, ModAuth, ModBank, ModStaking]),
      (ModSlashing, [ModSlashing, ModAuth, ModBank, ModStaking]), (ModParams, [ModParams]),
      (ModEvidence, [ModEvidence]), (ModWasm, [ModWasm, ModStaking, ModAuth, ModBank]),
      (ModIbc, [ModIbc]), (ModTransfer, [ModTransfer]), (ModSchedule, [ModSchedule])]"

definition ante_keepers :: "keeper list" where
  "ante_keepers = map KeeperOf [ModAuth, ModBank, ModFeegrant, ModIbc]"

section \<open>Routers\<close>

text \<open>\<^verbatim>\<open>AddRoute\<close> of both routers panics on a path that is taken, and after the router is sealed.\<close>

record ('n, 'h) router =
  routes :: "('n \<times> 'h) list"
  is_sealed :: bool

definition NewRouter :: "('n, 'h) router" where
  "NewRouter = \<lparr>routes = [], is_sealed = False\<rparr>"

definition AddRoute :: "'n \<Rightarrow> 'h \<Rightarrow> ('n, 'h) router \<Rightarrow> ('e, ('n, 'h) router) go" where
  "AddRoute path h rtr =
     (if is_sealed rtr then Panic (ForeignPanic ''router sealed; cannot add route handler'')
      else if path \<in> fst ` set (routes rtr)
      then Panic (ForeignPanic ''route has already been initialized'')
      else Ret (rtr\<lparr>routes := routes rtr @ [(path, h)]\<rparr>))"

definition seal :: "('n, 'h) router \<Rightarrow> ('n, 'h) router" where
  "seal rtr = rtr\<lparr>is_sealed := True\<rparr>"

fun AddRoutes :: "('n \<times> 'h) list \<Rightarrow> ('n, 'h) router \<Rightarrow> ('e, ('n, 'h) router) go" where
  "AddRoutes [] rtr = Ret rtr"
| "AddRoutes ((path, h) # xs) rtr = go_bind (AddRoute path h rtr) (AddRoutes xs)"

text \<open>An IBC module's callbacks, from the outermost middleware to the application.\<close>

datatype ibc_layer =
    TransferModule | InterTxModule | IcaHostModule | WasmHandler
  | FeeMiddleware | IcaControllerMiddleware

definition transferStack :: "ibc_layer list" where
  "transferStack = [FeeMiddleware, TransferModule]"

definition icaControllerStack :: "ibc_layer list" where
  "icaControllerStack = [FeeMiddleware, IcaControllerMiddleware, InterTxModule]"

definition icaHostStack :: "ibc_layer list" where
  "icaHostStack = [FeeMiddleware, IcaHostModule]"

definition wasmStack :: "ibc_layer list" where
  "wasmStack = [FeeMiddleware, WasmHandler]"

definition ibc_routes :: "(store_name \<times> ibc_layer list) list" where
  "ibc_routes =
     [(OfModule ModTransfer, transferStack), (OfModule ModWasm, wasmStack),
      (OfModule ModInterTx, icaControllerStack), (IcaController, icaControllerStack),
      (IcaHost, icaHostStack)]"

definition ibcRouter :: "('e, (store_name, ibc_layer list) router) go" where
  "ibcRouter = go_bind (AddRoutes ibc_routes NewRouter) (\<lambda>rtr. Ret (seal rtr))"

text \<open>
  The governance router: the handler of a module's proposals, by the module; the wasm module's
  only if there are enabled proposals. The governance keeper seals the router it is given.
\<close>

definition gov_routes :: "(app_module \<times> 'p list option) list" where
  "gov_routes = [(ModGov, None), (ModParams, None), (ModDistr, None), (ModUpgrade, None), (ModIbc, None)]"

definition wasm_proposal_routes :: "'p list \<Rightarrow> (app_module \<times> 'p list option) list" where
  "wasm_proposal_routes enabledProposals =
     (if length enabledProposals \<noteq> 0 then [(ModWasm, Some enabledProposals)] else [])"

definition govRouter :: "'p list \<Rightarrow> ('e, (app_module, 'p list option) router) go" where
  "govRouter enabledProposals =
     go_bind (AddRoutes gov_routes NewRouter) (\<lambda>rtr.
     go_bind (AddRoutes (wasm_proposal_routes enabledProposals) rtr) (\<lambda>rtr.
     Ret (seal rtr)))"

section \<open>The last steps\<close>

text \<open>
  Reading the wasm configuration, making the ante handler and registering the snapshot
  extension panic on an error; loading the latest version and its pinned codes end the
  process. The application itself is what the successful steps leave.
\<close>

record ('cfg, 'app) start_env =
  ReadWasmConfig :: "string + 'cfg"
  NewAnteHandler :: "'cfg \<Rightarrow> string + 'app"
  SnapshotManager :: "(string option) option"
  LoadLatestVersion :: "'app \<Rightarrow> string + 'app"
  InitializePinnedCodes :: "'app \<Rightarrow> string + 'app"

datatype 'app started =
    Started 'app
  | StartPanic string
  | ProcessExit string

definition start_app :: "('cfg, 'app) start_env \<Rightarrow> bool \<Rightarrow> 'app started" where
  "start_app E loadLatest =
     (case ReadWasmConfig E of
        Inl err \<Rightarrow> StartPanic (''error while reading wasm config: '' @ err)
      | Inr cfg \<Rightarrow>
     (case NewAnteHandler E cfg of
        Inl err \<Rightarrow> StartPanic (''failed to create AnteHandler: '' @ err)
      | Inr app \<Rightarrow>
     (case SnapshotManager E of
        Some (Some err) \<Rightarrow> StartPanic (''failed to register snapshot extension: '' @ err)
      | _ \<Rightarrow>
     (if loadLatest
      then (case LoadLatestVersion E app of
              Inl err \<Rightarrow> ProcessExit (''failed to load latest version: '' @ err)
            | Inr app \<Rightarrow>
                (case InitializePinnedCodes E app of
                   Inl err \<Rightarrow> ProcessExit (''failed initialize pinned codes '' @ err)
                 | Inr app \<Rightarrow> Started app))
      else Started app))))"

section \<open>Lemmas\<close>

text \<open>A keeper is used before it is made exactly if it is reported.\<close>

lemma construct_zero:
  "fst (construct xs made) = [] \<longleftrightarrow>
    (\<forall>i < length xs. set (given (xs ! i)) \<subseteq> set made \<union> makes ` set (take i xs))"
proof (induction xs arbitrary: made)
  case (Cons x xs)
  have "(\<forall>i < length (x # xs). set (given ((x # xs) ! i)) \<subseteq> set made \<union> makes ` set (take i (x # xs)))
    \<longleftrightarrow> set (given x) \<subseteq> set made \<and>
      (\<forall>i < length xs. set (given (xs ! i)) \<subseteq> set (makes x # made) \<union> makes ` set (take i xs))"
    by (simp add: All_less_Suc2)
  with Cons show ?case
    by (auto simp: Let_def split_beta filter_empty_conv)
qed simp

lemma construct_made: "snd (construct xs made) = rev (map makes xs) @ made"
  by (induction xs arbitrary: made) (simp_all add: Let_def split_beta)

lemmas construction_simps = keeper_constructions_def scoped_keepers_def base_keepers_def
  ibc_keepers_def wasm_keeper_def gov_keeper_def schedule_keeper_def own_def mk_def

section \<open>The property\<close>

lemma keepers_ordered: "fst (construct keeper_constructions []) = []"
  by (simp add: construction_simps Let_def)

lemma keepers_once: "distinct (map makes keeper_constructions)"
  by (simp add: construction_simps)

lemma keeper_stores: "mset (List.map_filter store_key keeper_constructions) = mset kv_store_keys"
proof (rule mset_eq_distinct)
  show "distinct (List.map_filter store_key keeper_constructions)"
    by (simp add: construction_simps List.map_filter_def)
  show "distinct kv_store_keys" by (simp add: kv_store_keys_def)
  show "set (List.map_filter store_key keeper_constructions) = set kv_store_keys"
    by (auto simp: construction_simps List.map_filter_def kv_store_keys_def)
qed

lemma keeper_subspaces:
  "map makes (filter (\<lambda>x. \<exists>sp. subspace x = Some sp \<and> GetSubspace sp = None) keeper_constructions)
    = [KeeperOf ModIbcFee]"
  by (simp add: construction_simps GetSubspace_def param_subspaces_def)

lemma ibcRouter_Ret: "ibcRouter = Ret \<lparr>routes =
    [(OfModule ModTransfer, transferStack), (OfModule ModWasm, wasmStack),
     (OfModule ModInterTx, icaControllerStack), (IcaController, icaControllerStack),
     (IcaHost, icaHostStack)], is_sealed = True\<rparr>"
  by (simp add: ibcRouter_def ibc_routes_def NewRouter_def seal_def AddRoute_def)

lemma govRouter_Ret: "govRouter ps = Ret \<lparr>routes =
    [(ModGov, None), (ModParams, None), (ModDistr, None), (ModUpgrade, None), (ModIbc, None)]
      @ (if ps \<noteq> [] then [(ModWasm, Some ps)] else []), is_sealed = True\<rparr>"
  by (simp add: govRouter_def gov_routes_def wasm_proposal_routes_def NewRouter_def seal_def AddRoute_def)

lemma modules_given:
  "map fst module_keepers = module_manager" "set sim_keepers \<subseteq> set module_keepers"
  "\<Union> (set ` snd ` set module_keepers) \<union> set ante_keepers \<subseteq> makes ` set keeper_constructions - {LocalStaking}"
  by (simp_all add: module_keepers_def sim_keepers_def ante_keepers_def module_manager_def construction_simps)


end
