(* ===== verification/AppSetup.thy ===== *)
theory AppSetup
  imports Wiring
begin

text \<open>
  \<open>NewWasmApp\<close> of \<^verbatim>\<open>app/app.go\<close> as the sequence of its steps on the application's struct, the
  routers, the parameter subspaces and the base application, under the SDK's rules on their
  order, and the accessors that read the struct's fields. Wiring has what the keepers are given
  and the steps that may fail.
\<close>

section \<open>The struct\<close>

datatype app_field =
    F_BaseApp | F_cdc | F_appCodec | F_interfaceRegistry | F_invCheckPeriod
  | F_keys | F_tkeys | F_memKeys
  | FKeeper keeper
  | FScoped store_name
  | F_mm | F_sm | F_configurator

definition WasmApp_fields :: "app_field list" where
  "WasmApp_fields =
     [F_BaseApp, F_cdc, F_appCodec, F_interfaceRegistry, F_invCheckPeriod, F_keys, F_tkeys, F_memKeys]
     @ map (\<lambda>md. FKeeper (KeeperOf md))
         [ModAuth, ModBank, ModCapability, ModStaking, ModSlashing, ModMint, ModDistr, ModGov,
          ModCrisis, ModUpgrade, ModParams, ModEvidence, ModIbc, ModIbcFee]
     @ [FKeeper KeeperIcaController, FKeeper KeeperIcaHost]
     @ map (\<lambda>md. FKeeper (KeeperOf md)) [ModInterTx, ModTransfer, ModFeegrant, ModAuthz, ModWasm]
     @ [FScoped (OfModule ModIbc), FScoped IcaHost, FScoped IcaController,
        FScoped (OfModule ModInterTx), FScoped (OfModule ModTransfer), FScoped (OfModule ModIbcFee),
        FScoped (OfModule ModWasm)]
     @ [FKeeper (KeeperOf ModSchedule), F_mm, F_sm, F_configurator]"

text \<open>The fields of the composite literal.\<close>

definition WasmApp_literal :: "app_field list" where
  "WasmApp_literal =
     [F_BaseApp, F_cdc, F_appCodec, F_interfaceRegistry, F_invCheckPeriod, F_keys, F_tkeys, F_memKeys]"

text \<open>The fields that are pointers or interfaces: a method call through one that is nil panics.\<close>

definition pointer_field :: "app_field \<Rightarrow> bool" where
  "pointer_field f \<longleftrightarrow> f \<in> {F_BaseApp, F_configurator, F_mm, F_sm, FKeeper (KeeperOf ModCapability),
     FKeeper (KeeperOf ModIbc)}"

section \<open>Steps\<close>

datatype space = ModuleSpace store_name | BaseappSpace

datatype base_setting = StoreTracer | BaseRegistry

datatype base_handler =
    AppVersion | BaseParamStore | AnteHandler | InitChainerHook | BeginBlockerHook | EndBlockerHook

datatype 'p setup_step =
    SetField app_field
  | CallField app_field
  | NewSubspace space
  | AddKeyTable space
  | ScopeToModule store_name
  | SealCapabilities
  | AddGovRoutes "(app_module \<times> 'p list option) list"
  | AddIBCRoutes "(store_name \<times> ibc_layer list) list"
  | SetIBCRouter
  | SealGovRouter
  | SetOrder "app_module list"
  | SetBase base_setting
  | SetBaseHandler base_handler
  | MountStores "store_name list"
  | ReadConfig
  | MakeAnteHandler
  | RegisterSnapshots
  | LoadLatest
  | PinCodes

text \<open>
  What the steps work on: the fields that are set, the subspaces and those with a key table, the
  modules that capabilities are scoped to, the routers, the base application, and what reading
  the configuration and making the ante handler have given.
\<close>

record ('cfg, 'app, 'p) setup_state =
  su_set :: "app_field list"
  su_spaces :: "space list"
  su_tables :: "space list"
  su_scoped :: "store_name list"
  su_capSealed :: bool
  su_gov :: "(app_module, 'p list option) router"
  su_ibc :: "(store_name, ibc_layer list) router"
  su_ibcSet :: bool
  su_base :: "base_setting list"
  su_handlers :: "base_handler list"
  su_mounted :: "store_name list"
  su_baseSealed :: bool
  su_cfg :: "'cfg option"
  su_app :: "'app option"

definition check :: "bool \<Rightarrow> string \<Rightarrow> 'a \<Rightarrow> 'a started" where
  "check ok msg x = (if ok then Started x else StartPanic msg)"

fun panic_text :: "panic \<Rightarrow> string" where
  "panic_text (ForeignPanic msg) = msg"
| "panic_text p = ''runtime error''"

definition started_go :: "('a \<Rightarrow> 'b) \<Rightarrow> (gerror, 'a) go \<Rightarrow> 'b started" where
  "started_go f r = (case r of
      Ret a \<Rightarrow> Started (f a)
    | Panic p \<Rightarrow> StartPanic (panic_text p)
    | Err e \<Rightarrow> StartPanic ''error'')"

fun started_bind :: "'a started \<Rightarrow> ('a \<Rightarrow> 'b started) \<Rightarrow> 'b started" where
  "started_bind (Started a) f = f a"
| "started_bind (StartPanic msg) f = StartPanic msg"
| "started_bind (ProcessExit msg) f = ProcessExit msg"

text \<open>
  The SDK's rules: a method is not called through a nil pointer; a subspace is made once and given
  one key table; no module is scoped twice or after the sealing, which comes once; the IBC router
  is set once; an order names every module of the manager; a store is mounted once; and the
  base application takes no version, parameter store, handler or store once it is sealed, which
  loading a version does.
\<close>

definition nil_text :: string where
  "nil_text = ''invalid memory address or nil pointer dereference''"

fun run_step ::
  "('cfg, 'app) start_env \<Rightarrow> 'p setup_step \<Rightarrow> ('cfg, 'app, 'p) setup_state \<Rightarrow> ('cfg, 'app, 'p) setup_state started"
where
  "run_step E (SetField f) s = Started (s\<lparr>su_set := f # su_set s\<rparr>)"
| "run_step E (CallField f) s = check (pointer_field f \<longrightarrow> f \<in> set (su_set s)) nil_text s"
| "run_step E (NewSubspace n) s =
     check (n \<notin> set (su_spaces s)) ''subspace already occupied'' (s\<lparr>su_spaces := n # su_spaces s\<rparr>)"
| "run_step E (AddKeyTable n) s =
     check (n \<notin> set (su_tables s)) ''SetKeyTable() called on already initialized Subspace''
       (s\<lparr>su_tables := n # su_tables s\<rparr>)"
| "run_step E (ScopeToModule n) s =
     (if FKeeper (KeeperOf ModCapability) \<notin> set (su_set s) then StartPanic nil_text
      else if su_capSealed s then StartPanic ''cannot scope to module via a sealed capability keeper''
      else check (n \<notin> set (su_scoped s)) ''cannot create multiple scoped keepers for the same module name''
        (s\<lparr>su_scoped := n # su_scoped s\<rparr>))"
| "run_step E SealCapabilities s =
     (if FKeeper (KeeperOf ModCapability) \<notin> set (su_set s) then StartPanic nil_text
      else check (\<not> su_capSealed s) ''cannot initialize and seal an already sealed capability keeper''
        (s\<lparr>su_capSealed := True\<rparr>))"
| "run_step E (AddGovRoutes rs) s = started_go (\<lambda>rtr. s\<lparr>su_gov := rtr\<rparr>) (AddRoutes rs (su_gov s))"
| "run_step E (AddIBCRoutes rs) s = started_go (\<lambda>rtr. s\<lparr>su_ibc := rtr\<rparr>) (AddRoutes rs (su_ibc s))"
| "run_step E SetIBCRouter s =
     (if FKeeper (KeeperOf ModIbc) \<notin> set (su_set s) then StartPanic nil_text
      else check (\<not> su_ibcSet s) ''cannot reset a sealed router''
        (s\<lparr>su_ibcSet := True, su_ibc := seal (su_ibc s)\<rparr>))"
| "run_step E SealGovRouter s = Started (s\<lparr>su_gov := seal (su_gov s)\<rparr>)"
| "run_step E (SetOrder mds) s =
     (if F_mm \<notin> set (su_set s) then StartPanic nil_text
      else check (set module_manager \<subseteq> set mds) ''all modules must be defined when setting an order'' s)"
| "run_step E (SetBase b) s = Started (s\<lparr>su_base := su_base s @ [b]\<rparr>)"
| "run_step E (SetBaseHandler h) s =
     check (\<not> su_baseSealed s) ''set on sealed BaseApp'' (s\<lparr>su_handlers := su_handlers s @ [h]\<rparr>)"
| "run_step E (MountStores names) s =
     (if su_baseSealed s then StartPanic ''store mounted on a sealed BaseApp''
      else check (distinct names \<and> set names \<inter> set (su_mounted s) = {}) ''store duplicate store key''
        (s\<lparr>su_mounted := su_mounted s @ names\<rparr>))"
| "run_step E ReadConfig s =
     (case ReadWasmConfig E of
        Inl err \<Rightarrow> StartPanic (''error while reading wasm config: '' @ err)
      | Inr cfg \<Rightarrow> Started (s\<lparr>su_cfg := Some cfg\<rparr>))"
| "run_step E MakeAnteHandler s =
     (case su_cfg s of
        None \<Rightarrow> StartPanic nil_text
      | Some cfg \<Rightarrow>
          (case NewAnteHandler E cfg of
             Inl err \<Rightarrow> StartPanic (''failed to create AnteHandler: '' @ err)
           | Inr app \<Rightarrow> Started (s\<lparr>su_app := Some app\<rparr>)))"
| "run_step E RegisterSnapshots s =
     (case SnapshotManager E of
        Some (Some err) \<Rightarrow> StartPanic (''failed to register snapshot extension: '' @ err)
      | _ \<Rightarrow> Started s)"
| "run_step E LoadLatest s =
     (case su_app s of
        None \<Rightarrow> StartPanic nil_text
      | Some app \<Rightarrow>
          (if su_baseSealed s then StartPanic ''cannot call initFromMainStore: baseapp already sealed''
           else case LoadLatestVersion E app of
             Inl err \<Rightarrow> ProcessExit (''failed to load latest version: '' @ err)
           | Inr app \<Rightarrow> Started (s\<lparr>su_app := Some app, su_baseSealed := True\<rparr>)))"
| "run_step E PinCodes s =
     (case su_app s of
        None \<Rightarrow> StartPanic nil_text
      | Some app \<Rightarrow>
          (case InitializePinnedCodes E app of
             Inl err \<Rightarrow> ProcessExit (''failed initialize pinned codes '' @ err)
           | Inr app \<Rightarrow> Started (s\<lparr>su_app := Some app\<rparr>)))"

fun run_steps ::
  "('cfg, 'app) start_env \<Rightarrow> 'p setup_step list \<Rightarrow> ('cfg, 'app, 'p) setup_state \<Rightarrow> ('cfg, 'app, 'p) setup_state started"
where
  "run_steps E [] s = Started s"
| "run_steps E (x # xs) s = started_bind (run_step E x s) (run_steps E xs)"

section \<open>The sequence of the source\<close>

definition prologue_steps :: "'p setup_step list" where
  "prologue_steps = [SetBase StoreTracer, SetBaseHandler AppVersion, SetBase BaseRegistry]"

text \<open>\<open>initParamsKeeper\<close> makes the subspaces; that of the governance module gets its key table there.\<close>

definition initParamsKeeper_steps :: "'p setup_step list" where
  "initParamsKeeper_steps =
     concat (map (\<lambda>n. NewSubspace (ModuleSpace n)
         # (if n = OfModule ModGov then [AddKeyTable (ModuleSpace n)] else []))
       param_subspaces)"

definition params_steps :: "'p setup_step list" where
  "params_steps =
     initParamsKeeper_steps @
     [SetField (FKeeper (KeeperOf ModParams)), NewSubspace BaseappSpace, AddKeyTable BaseappSpace,
      SetBaseHandler BaseParamStore]"

text \<open>The keepers of Wiring, with the step that makes each; the local staking keeper is no field.\<close>

definition keeper_step :: "construction \<Rightarrow> 'p setup_step list" where
  "keeper_step x =
     (case makes x of
        Scoped n \<Rightarrow> [ScopeToModule n]
      | LocalStaking \<Rightarrow> []
      | k \<Rightarrow> [SetField (FKeeper k)])"

definition capability_steps :: "'p setup_step list" where
  "capability_steps =
     SetField (FKeeper (KeeperOf ModCapability)) # concat (map keeper_step scoped_keepers) @ [SealCapabilities]"

definition keeper_steps :: "'p list \<Rightarrow> 'p setup_step list" where
  "keeper_steps enabledProposals =
     concat (map keeper_step base_keepers)
     @ keeper_step (hd ibc_keepers) @ [AddGovRoutes gov_routes]
     @ concat (map keeper_step (tl ibc_keepers))
     @ ReadConfig # keeper_step wasm_keeper
     @ [AddGovRoutes (wasm_proposal_routes enabledProposals), AddIBCRoutes ibc_routes, SetIBCRouter]
     @ keeper_step gov_keeper @ SealGovRouter # keeper_step schedule_keeper"

definition manager_steps :: "'p setup_step list" where
  "manager_steps =
     [SetField F_mm, SetOrder OrderBeginBlockers, SetOrder OrderEndBlockers, SetOrder OrderInitGenesis,
      CallField F_mm, CallField F_mm, SetField F_configurator, CallField F_mm]"

definition simulation_steps :: "'p setup_step list" where
  "simulation_steps = [SetField F_sm, CallField F_sm]"

definition base_steps :: "'p setup_step list" where
  "base_steps =
     [MountStores kv_store_keys, MountStores [TransientStore ModParams],
      MountStores [MemStore ModCapability], MakeAnteHandler,
      SetBaseHandler AnteHandler, SetBaseHandler InitChainerHook, SetBaseHandler BeginBlockerHook,
      SetBaseHandler EndBlockerHook, RegisterSnapshots]"

definition scoped_field_steps :: "'p setup_step list" where
  "scoped_field_steps =
     map (\<lambda>n. SetField (FScoped n))
       [OfModule ModIbc, OfModule ModTransfer, OfModule ModWasm, IcaHost, IcaController,
        OfModule ModInterTx]"

definition load_steps :: "bool \<Rightarrow> 'p setup_step list" where
  "load_steps loadLatest = (if loadLatest then [LoadLatest, PinCodes] else [])"

definition early_steps :: "'p setup_step list" where
  "early_steps = prologue_steps @ map SetField WasmApp_literal @ params_steps @ capability_steps"

definition setup_steps :: "bool \<Rightarrow> 'p list \<Rightarrow> 'p setup_step list" where
  "setup_steps loadLatest enabledProposals =
     early_steps @ keeper_steps enabledProposals @ manager_steps @ simulation_steps @ base_steps
     @ scoped_field_steps @ load_steps loadLatest"

definition fresh_setup :: "('cfg, 'app, 'p) setup_state" where
  "fresh_setup = \<lparr>su_set = [], su_spaces = [], su_tables = [], su_scoped = [], su_capSealed = False,
     su_gov = NewRouter, su_ibc = NewRouter, su_ibcSet = False, su_base = [], su_handlers = [],
     su_mounted = [], su_baseSealed = False, su_cfg = None, su_app = None\<rparr>"

definition setup_app ::
  "('cfg, 'app) start_env \<Rightarrow> bool \<Rightarrow> 'p list \<Rightarrow> ('cfg, 'app, 'p) setup_state started" where
  "setup_app E loadLatest enabledProposals = run_steps E (setup_steps loadLatest enabledProposals) fresh_setup"

definition NewWasmApp :: "('cfg, 'app) start_env \<Rightarrow> bool \<Rightarrow> 'p list \<Rightarrow> 'app started" where
  "NewWasmApp E loadLatest enabledProposals =
     started_bind (setup_app E loadLatest enabledProposals) (\<lambda>s.
       case su_app s of None \<Rightarrow> StartPanic nil_text | Some app \<Rightarrow> Started app)"

section \<open>Accessors\<close>

text \<open>
  The application as the values of its fields; a field that was not set has no value. A method
  that takes a copy of what a field points to panics on nil.
\<close>

type_synonym 'v wasm_app = "app_field \<Rightarrow> 'v option"

definition app_ModuleManager :: "'v wasm_app \<Rightarrow> (gerror, 'v) go" where
  "app_ModuleManager app = (case app F_mm of None \<Rightarrow> Panic NilPointer | Some mm \<Rightarrow> Ret mm)"

definition app_ModuleConfigurator :: "'v wasm_app \<Rightarrow> 'v option" where
  "app_ModuleConfigurator app = app F_configurator"

definition app_LegacyAmino :: "'v wasm_app \<Rightarrow> 'v option" where
  "app_LegacyAmino app = app F_cdc"

definition app_AppCodec :: "'v wasm_app \<Rightarrow> 'v option" where
  "app_AppCodec app = app F_appCodec"

definition app_InterfaceRegistry :: "'v wasm_app \<Rightarrow> 'v option" where
  "app_InterfaceRegistry app = app F_interfaceRegistry"

definition app_SimulationManager :: "'v wasm_app \<Rightarrow> 'v option" where
  "app_SimulationManager app = app F_sm"

text \<open>The services of the transactions and of Tendermint, on the router of the gRPC queries.\<close>

definition app_RegisterTxService ::
  "('router \<Rightarrow> 'ctx \<Rightarrow> 'simulate \<Rightarrow> 'v option \<Rightarrow> 'router) \<Rightarrow> 'simulate \<Rightarrow> 'v wasm_app \<Rightarrow> 'ctx \<Rightarrow> 'router \<Rightarrow> 'router" where
  "app_RegisterTxService authtx_RegisterTxService Simulate app clientCtx rtr =
     authtx_RegisterTxService rtr clientCtx Simulate (app F_interfaceRegistry)"

definition app_RegisterTendermintService ::
  "('router \<Rightarrow> 'ctx \<Rightarrow> 'v option \<Rightarrow> 'router) \<Rightarrow> 'v wasm_app \<Rightarrow> 'ctx \<Rightarrow> 'router \<Rightarrow> 'router" where
  "app_RegisterTendermintService tmservice_Register app clientCtx rtr =
     tmservice_Register rtr clientCtx (app F_interfaceRegistry)"

definition app_LoadHeight :: "('a \<Rightarrow> int \<Rightarrow> gerror option \<times> 'a) \<Rightarrow> 'a \<Rightarrow> int \<Rightarrow> gerror option \<times> 'a" where
  "app_LoadHeight LoadVersion app height = LoadVersion app height"

section \<open>The property\<close>

lemma run_steps_append: "run_steps E (xs @ ys) s = started_bind (run_steps E xs s) (run_steps E ys)"
proof (induction xs arbitrary: s)
  case (Cons x xs)
  then show ?case by (cases "run_step E x s") simp_all
qed simp

lemma run_SetFields: "run_steps E (map SetField fs) s = Started (s\<lparr>su_set := rev fs @ su_set s\<rparr>)"
  by (induction fs arbitrary: s) simp_all

lemma early_runs:
  "run_steps E early_steps fresh_setup
    = Started (fresh_setup\<lparr>su_set := FKeeper (KeeperOf ModCapability) # FKeeper (KeeperOf ModParams) # rev WasmApp_literal,
        su_spaces := BaseappSpace # rev (map ModuleSpace param_subspaces),
        su_tables := [BaseappSpace, ModuleSpace (OfModule ModGov)],
        su_scoped := rev [OfModule ModIbc, IcaHost, IcaController, OfModule ModInterTx, OfModule ModTransfer, OfModule ModWasm],
        su_capSealed := True, su_base := [StoreTracer, BaseRegistry], su_handlers := [AppVersion, BaseParamStore]\<rparr>)"
  by (simp add: early_steps_def run_steps_append run_SetFields)
    (simp add: prologue_steps_def params_steps_def initParamsKeeper_steps_def param_subspaces_def capability_steps_def
      scoped_keepers_def mk_def keeper_step_def fresh_setup_def check_def WasmApp_literal_def)

lemma keepers_run:
  assumes "su_gov s = NewRouter" "su_ibc s = NewRouter" "\<not> su_ibcSet s"
  shows "run_steps E (keeper_steps ps) s = (case ReadWasmConfig E of
      Inl err \<Rightarrow> StartPanic (''error while reading wasm config: '' @ err)
    | Inr cfg \<Rightarrow> Started (s\<lparr>
        su_set := map FKeeper (rev (filter (\<lambda>k. k \<noteq> LocalStaking)
          (map makes (base_keepers @ ibc_keepers @ [wasm_keeper, gov_keeper, schedule_keeper])))) @ su_set s,
        su_gov := seal (NewRouter\<lparr>routes := gov_routes @ wasm_proposal_routes ps\<rparr>),
        su_ibc := seal (NewRouter\<lparr>routes := ibc_routes\<rparr>), su_ibcSet := True, su_cfg := Some cfg\<rparr>))"
  using assms
  by (cases "ReadWasmConfig E"; cases "ps = []")
    (simp_all add: keeper_steps_def construction_simps keeper_step_def run_steps_append gov_routes_def ibc_routes_def
      wasm_proposal_routes_def started_go_def AddRoute_def NewRouter_def seal_def check_def)

lemma managers_run:
  "run_steps E manager_steps s = Started (s\<lparr>su_set := F_configurator # F_mm # su_set s\<rparr>)"
proof -
  have "set module_manager \<subseteq> set OrderBeginBlockers \<and> set module_manager \<subseteq> set OrderEndBlockers \<and>
      set module_manager \<subseteq> set OrderInitGenesis"
    using orders_mset(1-3) by (metis set_mset_mset subset_refl)
  then show ?thesis by (simp add: manager_steps_def check_def)
qed

lemma simulation_runs: "run_steps E simulation_steps s = Started (s\<lparr>su_set := F_sm # su_set s\<rparr>)"
  by (simp add: simulation_steps_def check_def)

lemma scoped_fields_run:
  "run_steps E scoped_field_steps s = Started (s\<lparr>su_set := map FScoped (rev [OfModule ModIbc,
     OfModule ModTransfer, OfModule ModWasm, IcaHost, IcaController, OfModule ModInterTx]) @ su_set s\<rparr>)"
  by (simp add: scoped_field_steps_def)

lemma base_runs:
  assumes "su_cfg s = Some cfg" "su_mounted s = []" "\<not> su_baseSealed s"
  shows "run_steps E base_steps s = (case NewAnteHandler E cfg of
      Inl err \<Rightarrow> StartPanic (''failed to create AnteHandler: '' @ err)
    | Inr app \<Rightarrow> (case SnapshotManager E of
        Some (Some err) \<Rightarrow> StartPanic (''failed to register snapshot extension: '' @ err)
      | _ \<Rightarrow> Started (s\<lparr>su_mounted := kv_store_keys @ [TransientStore ModParams, MemStore ModCapability],
          su_handlers := su_handlers s @ [AnteHandler, InitChainerHook, BeginBlockerHook, EndBlockerHook],
          su_app := Some app\<rparr>)))"
  using assms
  by (simp add: base_steps_def check_def kv_store_keys_def split: sum.split option.split)

lemma load_runs:
  assumes "su_app s = Some app" "\<not> su_baseSealed s"
  shows "run_steps E (load_steps loadLatest) s = (if loadLatest
     then (case LoadLatestVersion E app of
        Inl err \<Rightarrow> ProcessExit (''failed to load latest version: '' @ err)
      | Inr app \<Rightarrow> (case InitializePinnedCodes E app of
          Inl err \<Rightarrow> ProcessExit (''failed initialize pinned codes '' @ err)
        | Inr app \<Rightarrow> Started (s\<lparr>su_app := Some app, su_baseSealed := True\<rparr>)))
     else Started s)"
  using assms by (simp add: load_steps_def split: sum.split)

text \<open>The state the steps leave, and the outcome of all of them.\<close>

definition set_up :: "'p list \<Rightarrow> 'cfg \<Rightarrow> 'app \<Rightarrow> bool \<Rightarrow> ('cfg, 'app, 'p) setup_state" where
  "set_up ps cfg app loaded = \<lparr>
     su_set = map FScoped (rev [OfModule ModIbc, OfModule ModTransfer, OfModule ModWasm, IcaHost,
         IcaController, OfModule ModInterTx])
       @ F_sm # F_configurator # F_mm
       # map FKeeper (rev (filter (\<lambda>k. k \<noteq> LocalStaking)
           (map makes (base_keepers @ ibc_keepers @ [wasm_keeper, gov_keeper, schedule_keeper]))))
       @ FKeeper (KeeperOf ModCapability) # FKeeper (KeeperOf ModParams) # rev WasmApp_literal,
     su_spaces = BaseappSpace # rev (map ModuleSpace param_subspaces),
     su_tables = [BaseappSpace, ModuleSpace (OfModule ModGov)],
     su_scoped = rev [OfModule ModIbc, IcaHost, IcaController, OfModule ModInterTx, OfModule ModTransfer,
       OfModule ModWasm],
     su_capSealed = True,
     su_gov = seal (NewRouter\<lparr>routes := gov_routes @ wasm_proposal_routes ps\<rparr>),
     su_ibc = seal (NewRouter\<lparr>routes := ibc_routes\<rparr>), su_ibcSet = True,
     su_base = [StoreTracer, BaseRegistry],
     su_handlers = [AppVersion, BaseParamStore, AnteHandler, InitChainerHook, BeginBlockerHook, EndBlockerHook],
     su_mounted = kv_store_keys @ [TransientStore ModParams, MemStore ModCapability],
     su_baseSealed = loaded, su_cfg = Some cfg, su_app = Some app\<rparr>"

lemma setup_app_outcome:
  "setup_app E loadLatest ps =
     (case ReadWasmConfig E of
        Inl err \<Rightarrow> StartPanic (''error while reading wasm config: '' @ err)
      | Inr cfg \<Rightarrow>
     (case NewAnteHandler E cfg of
        Inl err \<Rightarrow> StartPanic (''failed to create AnteHandler: '' @ err)
      | Inr app \<Rightarrow>
     (case SnapshotManager E of
        Some (Some err) \<Rightarrow> StartPanic (''failed to register snapshot extension: '' @ err)
      | _ \<Rightarrow>
     (if loadLatest
      then (case LoadLatestVersion E app of
              Inl err \<Rightarrow> ProcessExit (''failed to load latest version: '' @ err)
            | Inr app \<Rightarrow>
                (case InitializePinnedCodes E app of
                   Inl err \<Rightarrow> ProcessExit (''failed initialize pinned codes '' @ err)
                 | Inr app \<Rightarrow> Started (set_up ps cfg app True)))
      else Started (set_up ps cfg app False)))))"
  unfolding setup_app_def setup_steps_def run_steps_append early_runs
  by (simp add: fresh_setup_def keepers_run base_runs load_runs managers_run simulation_runs scoped_fields_run
      set_up_def split: sum.split option.split)

lemma NewWasmApp_start_app: "NewWasmApp E loadLatest ps = start_app E loadLatest"
  unfolding NewWasmApp_def setup_app_outcome start_app_def
  by (simp add: set_up_def split: sum.split option.split)

lemma all_but_fee_scope:
  "filter (\<lambda>f. f \<notin> set (su_set (set_up ps cfg app loaded))) WasmApp_fields = [FScoped (OfModule ModIbcFee)]"
  by (simp add: set_up_def WasmApp_fields_def WasmApp_literal_def construction_simps)

primrec on_started :: "('a \<Rightarrow> bool) \<Rightarrow> 'a started \<Rightarrow> bool" where
  "on_started P (Started a) \<longleftrightarrow> P a"
| "on_started P (StartPanic msg) \<longleftrightarrow> True"
| "on_started P (ProcessExit msg) \<longleftrightarrow> True"


end
