(* ===== verification/InitChain.thy ===== *)
theory InitChain
  imports App ModuleProps
begin

text \<open>
  \<^verbatim>\<open>InitChainer\<close> of \<^verbatim>\<open>app/app.go\<close> and the default genesis of \<^verbatim>\<open>app/genesis.go\<close>: the genesis of the whole
  chain, in which the scheduler's has its place, and \<^verbatim>\<open>x/schedule/module_simulation.go\<close>, which
  makes the scheduler's part of the genesis of a simulated chain.
\<close>

section \<open>The genesis of the chain\<close>

text \<open>
  The raw JSON of each module. The module manager goes through the modules in the order of
  \<open>OrderInitGenesis\<close> and skips those the genesis does not have; \<open>others\<close> is what initializing
  another module does.
\<close>

type_synonym 'j genesis_state = "app_module \<Rightarrow> 'j option"

definition NewDefaultGenesisState :: "(app_module \<Rightarrow> 'j option) \<Rightarrow> (GenesisState \<Rightarrow> 'j) \<Rightarrow> 'j genesis_state" where
  "NewDefaultGenesisState others_DefaultGenesis MarshalJSON =
     (\<lambda>md. if md \<notin> set ModuleBasics then None
           else if md = ModSchedule then Some (MarshalJSON DefaultGenesis)
           else others_DefaultGenesis md)"

definition init_module ::
  "('j \<Rightarrow> string + GenesisState) \<Rightarrow> 'w env
    \<Rightarrow> (app_module \<Rightarrow> 'j \<Rightarrow> ('s, 'w) chain \<Rightarrow> (gerror, ('s, 'w) chain) go)
    \<Rightarrow> 'j genesis_state \<Rightarrow> app_module \<Rightarrow> ('s, 'w) chain \<Rightarrow> (gerror, ('s, 'w) chain) go" where
  "init_module UnmarshalJSON env others genesisState md c =
     (case genesisState md of
        None \<Rightarrow> Ret c
      | Some gs \<Rightarrow>
          if md = ModSchedule
          then go_bind (AppModule_InitGenesis UnmarshalJSON env gs c) (\<lambda>r. Ret (snd (r :: unit list \<times> ('s, 'w) chain)))
          else others md gs c)"

definition InitChainer ::
  "('req \<Rightarrow> string + 'j genesis_state) \<Rightarrow> (('s, 'w) chain \<Rightarrow> ('s, 'w) chain) \<Rightarrow> ('j \<Rightarrow> string + GenesisState)
    \<Rightarrow> 'w env \<Rightarrow> (app_module \<Rightarrow> 'j \<Rightarrow> ('s, 'w) chain \<Rightarrow> (gerror, ('s, 'w) chain) go)
    \<Rightarrow> 'req \<Rightarrow> ('s, 'w) chain \<Rightarrow> (gerror, ('s, 'w) chain) go" where
  "InitChainer tmjson_Unmarshal SetModuleVersionMap UnmarshalJSON env others req c =
     (case tmjson_Unmarshal req of
        Inl err \<Rightarrow> Panic (ForeignPanic err)
      | Inr genesisState \<Rightarrow>
          run_in_order (init_module UnmarshalJSON env others genesisState) OrderInitGenesis
            (SetModuleVersionMap c))"

section \<open>The simulated genesis\<close>

text \<open>The scheduler's part is the zero value of its genesis state; the accounts are not used.\<close>

definition GenerateGenesisState :: "(GenesisState \<Rightarrow> 'j) \<Rightarrow> 'j genesis_state \<Rightarrow> 'j genesis_state" where
  "GenerateGenesisState MustMarshalJSON GenState =
     GenState(ModSchedule \<mapsto> MustMarshalJSON GenesisState_zero)"

text \<open>Nothing of the module is simulated: it has no operations, no parameter changes, no proposals.\<close>

definition WeightedOperations :: "'op list" where
  "WeightedOperations = []"

definition RandomizedParams :: "'change list" where
  "RandomizedParams = []"

definition ProposalContents :: "'content list" where
  "ProposalContents = []"

definition FindAccount ::
  "bech32_from \<Rightarrow> ('acc list \<Rightarrow> addr \<Rightarrow> 'acc option) \<Rightarrow> 'acc list \<Rightarrow> string \<Rightarrow> ('e, 'acc option) go" where
  "FindAccount AccFrom simtypes_FindAccount accs address =
     (case AccFrom address of
        Inl err \<Rightarrow> Panic (ForeignPanic err)
      | Inr creator \<Rightarrow> Ret (simtypes_FindAccount accs creator))"

section \<open>The property\<close>

lemma InitGenesis_default:
  assumes "ValidateDenom env ''default-token'' = None"
  shows "\<exists>c'. (InitGenesis env DefaultGenesis c :: (gerror, ('s, 'w) chain) go) = Ret c' \<and>
    c_store c' = c_store c \<and> GetParams c' = (Ret DefaultParams :: (gerror, Params) go)"
proof -
  have "Params_Validate (ValidateDenom env) DefaultParams = Ret ()"
    using assms by (simp add: Params_Validate_def DefaultParams_def NewParams_def
        validateMinimumBalance_def validateUpperBound_def int_Uint64_def wrap_err_def)
  then show ?thesis
    by (simp add: InitGenesis_def DefaultGenesis_def SetParams_Ret GetParams_def)
qed

lemma InitGenesis_zero_panics:
  assumes "ValidateDenom env [] = Some e"
  shows "panics (InitGenesis env GenesisState_zero c :: (gerror, ('s, 'w) chain) go)"
  using assms
  by (simp add: InitGenesis_def SetParams_def ParamSetPairs_def GenesisState_zero_def Params_zero_def
      coin_zero_def validateMinimumBalance_def)

text \<open>C22: The default genesis of the chain initializes the scheduler with the default parameters,
  as long as the default denomination is valid; a simulated genesis, whose scheduler part is
  the zero value, does not: with an empty denomination being invalid, starting the chain from
  it panics once the modules before the scheduler are through.\<close>
theorem simulated_genesis_panics:
  assumes "\<forall>gs. UnmarshalJSON (MarshalJSON gs) = Inr gs"
    and "ValidateDenom env [] = Some e" "ValidateDenom env ''default-token'' = None"
    and "tmjson_Unmarshal req = Inr (GenerateGenesisState MarshalJSON gen)"
    and "run_in_order (init_module UnmarshalJSON env others (GenerateGenesisState MarshalJSON gen))
      (takeWhile (\<lambda>md. md \<noteq> ModSchedule) OrderInitGenesis) (SetModuleVersionMap c) = Ret c1"
  shows "panics (InitChainer tmjson_Unmarshal SetModuleVersionMap UnmarshalJSON env others req c) \<and>
    (\<exists>c2. init_module UnmarshalJSON env others (NewDefaultGenesisState other_defaults MarshalJSON)
        ModSchedule c1 = Ret c2 \<and> GetParams c2 = (Ret DefaultParams :: (gerror, Params) go))"
proof
  let ?init = "init_module UnmarshalJSON env others (GenerateGenesisState MarshalJSON gen)"
  have step: "panics (?init ModSchedule c1)"
    using assms(1) InitGenesis_zero_panics [OF assms(2), of c1]
    by (auto simp: init_module_def GenerateGenesisState_def AppModule_InitGenesis_def panics_bind)
  obtain rest where split: "OrderInitGenesis
      = takeWhile (\<lambda>md. md \<noteq> ModSchedule) OrderInitGenesis @ ModSchedule # rest"
    by (simp add: OrderInitGenesis_def)
  show "panics (InitChainer tmjson_Unmarshal SetModuleVersionMap UnmarshalJSON env others req c)"
    unfolding InitChainer_def assms(4)
    by (subst split) (use assms(5) step in \<open>simp add: run_in_order_append panics_bind\<close>)
  show "\<exists>c2. init_module UnmarshalJSON env others (NewDefaultGenesisState other_defaults MarshalJSON)
      ModSchedule c1 = Ret c2 \<and> GetParams c2 = (Ret DefaultParams :: (gerror, Params) go)"
    using assms(1) InitGenesis_default [OF assms(3), of c1]
    by (auto simp: init_module_def NewDefaultGenesisState_def ModuleBasics_def AppModule_InitGenesis_def)
qed

theorem simulated_genesis_panics_witness:
  "panics (InitChainer (\<lambda>_ :: unit. Inr (GenerateGenesisState id Map.empty)) id Inr (sample_env 0)
     (\<lambda>md j c. Ret c) () (sample_chain kvl_empty 0))"
  by (rule simulated_genesis_panics [where MarshalJSON = id and e = "TextError ''invalid denom''"
        and gen = Map.empty and ?c1.0 = "sample_chain kvl_empty 0", THEN conjunct1])
     (simp_all add: sample_env_def OrderInitGenesis_def init_module_def GenerateGenesisState_def)

end
