(* ===== verification/Encoding.thy ===== *)
theory Encoding
  imports InitChain Gateway Cli
begin

text \<open>
  How the scheduler's module is plugged into the application: the hooks of \<^verbatim>\<open>x/schedule/module.go\<close>
  that only register something, \<open>NewKeeper\<close>, the encoding configuration of \<^verbatim>\<open>app/encoding.go\<close> and
  \<^verbatim>\<open>app/params/proto.go\<close>, and the routes of the API server and the accessors of \<^verbatim>\<open>app/app.go\<close>.
\<close>

section \<open>The module's hooks\<close>

type_synonym amino = "(string \<times> string) list"

type_synonym registry = "string list"

record 'cdc AppModuleBasic =
  basic_cdc :: 'cdc

record ('cdc, 'k) AppModule =
  am_AppModuleBasic :: "'cdc AppModuleBasic"
  am_keeper :: 'k

definition NewAppModuleBasic :: "'cdc \<Rightarrow> 'cdc AppModuleBasic" where
  "NewAppModuleBasic cdc = \<lparr>basic_cdc = cdc\<rparr>"

definition NewAppModule :: "'cdc \<Rightarrow> 'k \<Rightarrow> ('cdc, 'k) AppModule" where
  "NewAppModule cdc keeper = \<lparr>am_AppModuleBasic = NewAppModuleBasic cdc, am_keeper = keeper\<rparr>"

definition AppModuleBasic_RegisterCodec :: "amino \<Rightarrow> amino" where
  "AppModuleBasic_RegisterCodec cdc = RegisterCodec cdc"

definition AppModuleBasic_RegisterLegacyAminoCodec :: "amino \<Rightarrow> amino" where
  "AppModuleBasic_RegisterLegacyAminoCodec cdc = RegisterCodec cdc"

definition AppModuleBasic_RegisterInterfaces :: "registry \<Rightarrow> registry" where
  "AppModuleBasic_RegisterInterfaces reg = RegisterInterfaces reg"

definition AppModuleBasic_DefaultGenesis :: "(GenesisState \<Rightarrow> 'j) \<Rightarrow> 'j" where
  "AppModuleBasic_DefaultGenesis MustMarshalJSON = MustMarshalJSON DefaultGenesis"

definition AppModuleBasic_RegisterRESTRoutes :: "'routes \<Rightarrow> 'routes" where
  "AppModuleBasic_RegisterRESTRoutes rtr = rtr"

definition AppModuleBasic_GetTxCmd :: "string \<times> schedule_command list" where
  "AppModuleBasic_GetTxCmd = GetTxCmd"

definition AppModuleBasic_GetQueryCmd :: "string \<times> schedule_command list" where
  "AppModuleBasic_GetQueryCmd = GetQueryCmd"

definition AppModule_LegacyQuerierHandler :: "'querier option" where
  "AppModule_LegacyQuerierHandler = None"

definition AppModule_RegisterInvariants :: "'invariants \<Rightarrow> 'invariants" where
  "AppModule_RegisterInvariants ir = ir"

definition AppModule_RegisterStoreDecoder :: "'decoders \<Rightarrow> 'decoders" where
  "AppModule_RegisterStoreDecoder sdr = sdr"

section \<open>The keeper\<close>

text \<open>
  A subspace carries a key table once it has been given one; giving it a second one panics in
  the SDK, hence the test before. The table lists the keys of the parameters.
\<close>

record subspace =
  ss_name :: store_name
  ss_table :: "byte list list option"

definition WithKeyTable :: "byte list list \<Rightarrow> subspace \<Rightarrow> (gerror, subspace) go" where
  "WithKeyTable table ps =
     (case ss_table ps of
        None \<Rightarrow> Ret (ps\<lparr>ss_table := Some table\<rparr>)
      | Some _ \<Rightarrow> Panic (ForeignPanic ''SetKeyTable() called on already initialized Subspace''))"

definition ParamKeyTable :: "(string \<Rightarrow> gerror option) \<Rightarrow> byte list list" where
  "ParamKeyTable valid_denom = map fst (ParamSetPairs valid_denom Params_zero)"

record ('cdc, 'key, 'view, 'perm, 'fee, 'bank) keeper_fields =
  k_cdc :: 'cdc
  k_storeKey :: "'key option"
  k_memKey :: "'key option"
  k_paramstore :: subspace
  k_wasmViewKeeper :: 'view
  k_wasmPermissionedKeeper :: 'perm
  k_feegrantKeeper :: 'fee
  k_bankKeeper :: 'bank

definition NewKeeper ::
  "(string \<Rightarrow> gerror option) \<Rightarrow> 'cdc \<Rightarrow> 'key option \<Rightarrow> 'key option \<Rightarrow> subspace \<Rightarrow> 'view \<Rightarrow> 'perm \<Rightarrow> 'fee
    \<Rightarrow> 'bank \<Rightarrow> (gerror, ('cdc, 'key, 'view, 'perm, 'fee, 'bank) keeper_fields) go" where
  "NewKeeper valid_denom cdc storeKey memKey ps wasmViewKeeper wasmPermissionedKeeper feegrantKeeper
      bankKeeper =
     go_bind (if ss_table ps = None then WithKeyTable (ParamKeyTable valid_denom) ps else Ret ps)
       (\<lambda>ps. Ret \<lparr>
         k_cdc = cdc, k_storeKey = storeKey, k_memKey = memKey, k_paramstore = ps,
         k_wasmViewKeeper = wasmViewKeeper, k_wasmPermissionedKeeper = wasmPermissionedKeeper,
         k_feegrantKeeper = feegrantKeeper, k_bankKeeper = bankKeeper\<rparr>)"

text \<open>The keeper's logger, and the message server, which embeds a copy of the keeper.\<close>

definition Keeper_Logger :: "('l \<Rightarrow> string \<Rightarrow> string \<Rightarrow> 'l) \<Rightarrow> 'l \<Rightarrow> 'l" where
  "Keeper_Logger With logger = With logger ''module'' (''x/'' @ ModuleName)"

record 'k msgServer =
  ms_Keeper :: 'k

definition NewMsgServerImpl :: "'k \<Rightarrow> 'k msgServer" where
  "NewMsgServerImpl keeper = \<lparr>ms_Keeper = keeper\<rparr>"

section \<open>The encoding configuration\<close>

text \<open>
  The marshaler and the transaction configuration are made on the interface registry itself, so
  they know what the registry knows by the time they are used. What the SDK and the other
  modules register are arguments. The basic manager is a map, which Go runs through in any order; here
  it is the order of \<open>ModuleBasics\<close>.
\<close>

record EncodingConfig =
  ec_InterfaceRegistry :: registry
  ec_Amino :: amino

definition params_MakeEncodingConfig :: EncodingConfig where
  "params_MakeEncodingConfig = \<lparr>ec_InterfaceRegistry = [], ec_Amino = []\<rparr>"

definition ModuleBasics_RegisterLegacyAminoCodec :: "(app_module \<Rightarrow> amino \<Rightarrow> amino) \<Rightarrow> amino \<Rightarrow> amino" where
  "ModuleBasics_RegisterLegacyAminoCodec others =
     fold (\<lambda>md. if md = ModSchedule then AppModuleBasic_RegisterLegacyAminoCodec else others md) ModuleBasics"

definition ModuleBasics_RegisterInterfaces ::
  "(app_module \<Rightarrow> registry \<Rightarrow> registry) \<Rightarrow> registry \<Rightarrow> registry" where
  "ModuleBasics_RegisterInterfaces others =
     fold (\<lambda>md. if md = ModSchedule then AppModuleBasic_RegisterInterfaces else others md) ModuleBasics"

definition MakeEncodingConfig ::
  "(amino \<Rightarrow> amino) \<Rightarrow> (registry \<Rightarrow> registry) \<Rightarrow> (app_module \<Rightarrow> amino \<Rightarrow> amino)
    \<Rightarrow> (app_module \<Rightarrow> registry \<Rightarrow> registry) \<Rightarrow> EncodingConfig" where
  "MakeEncodingConfig std_RegisterLegacyAminoCodec std_RegisterInterfaces others_amino others_interfaces =
     (let encodingConfig = params_MakeEncodingConfig;
          encodingConfig = encodingConfig\<lparr>ec_Amino := std_RegisterLegacyAminoCodec (ec_Amino encodingConfig)\<rparr>;
          encodingConfig = encodingConfig\<lparr>ec_InterfaceRegistry :=
            std_RegisterInterfaces (ec_InterfaceRegistry encodingConfig)\<rparr>;
          encodingConfig = encodingConfig\<lparr>ec_Amino :=
            ModuleBasics_RegisterLegacyAminoCodec others_amino (ec_Amino encodingConfig)\<rparr>;
          encodingConfig = encodingConfig\<lparr>ec_InterfaceRegistry :=
            ModuleBasics_RegisterInterfaces others_interfaces (ec_InterfaceRegistry encodingConfig)\<rparr>
      in encodingConfig)"

section \<open>The API server and the accessors\<close>

datatype proposal_handler =
    ParamsProposal | DistrProposal | UpgradeProposal | CancelUpgradeProposal | UpdateClientProposal
  | UpgradeClientProposal

definition getGovProposalHandlers :: "proposal_handler list" where
  "getGovProposalHandlers =
     [ParamsProposal, DistrProposal, UpgradeProposal, CancelUpgradeProposal, UpdateClientProposal,
      UpgradeClientProposal]"

text \<open>
  The router and the gateway's multiplexer of the server; what the SDK and the other modules
  add to them are arguments. The gateway's routes of the scheduler are those of \<open>Gateway\<close>.
\<close>

record ('routes, 'http, 'p, 'c) api_server =
  api_Router :: 'routes
  api_Gateway :: "('http, 'p, 'c) mux"

record ('routes, 'http, 'p, 'c) api_sdk =
  rpc_RegisterRoutes :: "'routes \<Rightarrow> 'routes"
  authrest_RegisterTxRoutes :: "'routes \<Rightarrow> 'routes"
  authtx_RegisterGRPCGatewayRoutes :: "('http, 'p, 'c) mux \<Rightarrow> ('http, 'p, 'c) mux"
  tmservice_RegisterGRPCGatewayRoutes :: "('http, 'p, 'c) mux \<Rightarrow> ('http, 'p, 'c) mux"
  others_RegisterRESTRoutes :: "app_module \<Rightarrow> 'routes \<Rightarrow> 'routes"
  others_RegisterGRPCGatewayRoutes :: "app_module \<Rightarrow> ('http, 'p, 'c) mux \<Rightarrow> ('http, 'p, 'c) mux"
  statik_fs_New :: "string + unit"
  PathPrefix_Handler :: "string \<Rightarrow> 'routes \<Rightarrow> 'routes"

definition RegisterSwaggerAPI :: "('routes, 'http, 'p, 'c) api_sdk \<Rightarrow> 'routes \<Rightarrow> (gerror, 'routes) go" where
  "RegisterSwaggerAPI S rtr =
     (case statik_fs_New S of
        Inl err \<Rightarrow> Panic (ForeignPanic err)
      | Inr _ \<Rightarrow> Ret (PathPrefix_Handler S ''/swagger/'' rtr))"

definition RegisterAPIRoutes ::
  "('routes, 'http, 'p, 'c) api_sdk \<Rightarrow> bool \<Rightarrow> ('routes, 'http, 'p, 'c) api_server
    \<Rightarrow> (gerror, ('routes, 'http, 'p, 'c) api_server) go" where
  "RegisterAPIRoutes S swagger apiSvr =
     (let apiSvr = apiSvr\<lparr>api_Router := rpc_RegisterRoutes S (api_Router apiSvr)\<rparr>;
          apiSvr = apiSvr\<lparr>api_Router := authrest_RegisterTxRoutes S (api_Router apiSvr)\<rparr>;
          apiSvr = apiSvr\<lparr>api_Gateway := authtx_RegisterGRPCGatewayRoutes S (api_Gateway apiSvr)\<rparr>;
          apiSvr = apiSvr\<lparr>api_Gateway := tmservice_RegisterGRPCGatewayRoutes S (api_Gateway apiSvr)\<rparr>;
          apiSvr = apiSvr\<lparr>api_Router :=
            fold (\<lambda>md. if md = ModSchedule then AppModuleBasic_RegisterRESTRoutes
              else others_RegisterRESTRoutes S md) ModuleBasics (api_Router apiSvr)\<rparr>;
          apiSvr = apiSvr\<lparr>api_Gateway :=
            fold (\<lambda>md. if md = ModSchedule then RegisterGRPCGatewayRoutes
              else others_RegisterGRPCGatewayRoutes S md) ModuleBasics (api_Gateway apiSvr)\<rparr>
      in if swagger
         then go_bind (RegisterSwaggerAPI S (api_Router apiSvr)) (\<lambda>rtr. Ret (apiSvr\<lparr>api_Router := rtr\<rparr>))
         else Ret apiSvr)"

text \<open>The transient and the memory store that \<open>NewWasmApp\<close> makes keys for, and their look-up.\<close>

definition transient_store_keys :: "store_name list" where
  "transient_store_keys = [TransientStore ModParams]"

definition memory_store_keys :: "store_name list" where
  "memory_store_keys = [MemStore ModCapability]"

definition GetTKey :: "store_name \<Rightarrow> store_name option" where
  "GetTKey storeKey = (if storeKey \<in> set transient_store_keys then Some storeKey else None)"

definition GetMemKey :: "store_name \<Rightarrow> store_name option" where
  "GetMemKey storeKey = (if storeKey \<in> set memory_store_keys then Some storeKey else None)"

section \<open>Lemmas\<close>

text \<open>A run through the modules, with the scheduler's part between those of the others.\<close>

lemma fold_ModuleBasics:
  "fold (\<lambda>md. if md = ModSchedule then g else f md) ModuleBasics x = g (fold f (butlast ModuleBasics) x)"
  by (simp add: ModuleBasics_def)

lemma fold_appends:
  "\<forall>md x. \<exists>ys. f md x = x @ ys \<and> (\<forall>y \<in> set ys. P y) \<Longrightarrow> \<exists>ys. fold f mds x = x @ ys \<and> (\<forall>y \<in> set ys. P y)"
proof (induction mds arbitrary: x)
  case (Cons md mds)
  then obtain ys where "f md x = x @ ys" "\<forall>y \<in> set ys. P y" by metis
  moreover obtain zs where "fold f mds (x @ ys) = (x @ ys) @ zs" "\<forall>y \<in> set zs. P y"
    using Cons by metis
  ultimately show ?case by (intro exI [of _ "ys @ zs"]) auto
qed simp

lemma NewKeeper_Ret:
  "\<exists>k. NewKeeper vd cdc sk mk ps v p f b = Ret k \<and> k_storeKey k = sk \<and> k_memKey k = mk \<and>
    ss_name (k_paramstore k) = ss_name ps \<and>
    ss_table (k_paramstore k) = Some (case ss_table ps of None \<Rightarrow> ParamKeyTable vd | Some t \<Rightarrow> t)"
  by (cases "ss_table ps") (simp_all add: NewKeeper_def WithKeyTable_def)

definition schedule_types :: "string set" where
  "schedule_types = {''*types.MsgAddSchedule'', ''*types.MsgRemoveSchedule''}"

section \<open>The property\<close>

text \<open>C27: The encoding configuration of the chain knows the scheduler's messages as far as the
  module registers them: either can be unpacked from a transaction, but of the two only
  \<open>MsgAddSchedule\<close> has an amino name, which it got once, provided the SDK and the other modules
  only add names of their own types. The API server gets no route from the module: its router
  and its gateway are what the SDK and the other modules make of them; and asking for swagger
  panics exactly if its files are missing.\<close>
theorem encoding_and_routes:
  assumes "\<forall>xs. \<exists>ys. std_amino xs = xs @ ys \<and> (\<forall>y \<in> set ys. fst y \<notin> schedule_types)"
    and "\<forall>md xs. \<exists>ys. others_amino md xs = xs @ ys \<and> (\<forall>y \<in> set ys. fst y \<notin> schedule_types)"
    and "cfg = MakeEncodingConfig std_amino std_interfaces others_amino others_interfaces"
  shows "schedule_types \<subseteq> set (ec_InterfaceRegistry cfg) \<and>
    filter (\<lambda>y. fst y \<in> schedule_types) (ec_Amino cfg)
      = [(''*types.MsgAddSchedule'', ''schedule/AddSchedule'')] \<and>
    RegisterAPIRoutes S False apiSvr = Ret (apiSvr\<lparr>
      api_Router := fold (others_RegisterRESTRoutes S) (butlast ModuleBasics)
        (authrest_RegisterTxRoutes S (rpc_RegisterRoutes S (api_Router apiSvr))),
      api_Gateway := fold (others_RegisterGRPCGatewayRoutes S) (butlast ModuleBasics)
        (tmservice_RegisterGRPCGatewayRoutes S (authtx_RegisterGRPCGatewayRoutes S (api_Gateway apiSvr)))\<rparr>) \<and>
    ModSchedule \<notin> set (butlast ModuleBasics) \<and>
    (panics (RegisterAPIRoutes S True apiSvr) \<longleftrightarrow> (\<exists>err. statik_fs_New S = Inl err))"
proof (intro conjI)
  obtain ys zs where a: "fold others_amino (butlast ModuleBasics) (std_amino []) = ys @ zs"
    "\<forall>y \<in> set ys. fst y \<notin> schedule_types" "\<forall>y \<in> set zs. fst y \<notin> schedule_types"
    using assms(1) fold_appends [OF assms(2), of "butlast ModuleBasics"] by (metis append_Nil)
  show "filter (\<lambda>y. fst y \<in> schedule_types) (ec_Amino cfg)
      = [(''*types.MsgAddSchedule'', ''schedule/AddSchedule'')]"
    using a by (simp add: assms(3) MakeEncodingConfig_def params_MakeEncodingConfig_def Let_def
        ModuleBasics_RegisterLegacyAminoCodec_def fold_ModuleBasics
        AppModuleBasic_RegisterLegacyAminoCodec_def RegisterCodec_def schedule_types_def)
  show "schedule_types \<subseteq> set (ec_InterfaceRegistry cfg)"
    by (simp add: assms(3) MakeEncodingConfig_def params_MakeEncodingConfig_def Let_def
        ModuleBasics_RegisterInterfaces_def fold_ModuleBasics AppModuleBasic_RegisterInterfaces_def
        RegisterInterfaces_def Msg_serviceDesc_def schedule_types_def)
  show "panics (RegisterAPIRoutes S True apiSvr) \<longleftrightarrow> (\<exists>err. statik_fs_New S = Inl err)"
    by (cases "statik_fs_New S") (simp_all add: RegisterAPIRoutes_def RegisterSwaggerAPI_def Let_def)
  show "ModSchedule \<notin> set (butlast ModuleBasics)"
    by (simp add: ModuleBasics_def)
qed (simp add: RegisterAPIRoutes_def Let_def fold_ModuleBasics AppModuleBasic_RegisterRESTRoutes_def
    RegisterGRPCGatewayRoutes_def)

theorem encoding_and_routes_witness:
  "filter (\<lambda>y. fst y \<in> schedule_types) (ec_Amino (MakeEncodingConfig (\<lambda>xs. xs @ [(''*tx.Tx'', ''cosmos-sdk/StdTx'')])
      id (\<lambda>md xs. xs @ [(''*other.Msg'', ''other/Msg'')]) (\<lambda>md. id)))
    = [(''*types.MsgAddSchedule'', ''schedule/AddSchedule'')]"
  by (rule encoding_and_routes [THEN conjunct2, THEN conjunct1])
     (simp_all add: schedule_types_def)

end
