(* ===== verification/RootCmd.thy ===== *)
theory RootCmd
  imports AppSetup AppExport Encoding
begin

text \<open>
  \<^verbatim>\<open>cmd/burntd/root.go\<close>, \<^verbatim>\<open>genwasm.go\<close> and \<^verbatim>\<open>main.go\<close>: the daemon's commands, and how it makes the
  application from the options of a command, to run it or to export its state.
\<close>

section \<open>Address prefixes\<close>

text \<open>The prefixes of \<^verbatim>\<open>app.go\<close>, with the SDK's infixes, as the root command configures them.\<close>

record bech32_config =
  cfg_AccAddr :: string
  cfg_AccPub :: string
  cfg_ValAddr :: string
  cfg_ValPub :: string
  cfg_ConsAddr :: string
  cfg_ConsPub :: string
  cfg_Sealed :: bool

definition Bech32PrefixAccAddr :: string where
  "Bech32PrefixAccAddr = Bech32Prefix"

definition Bech32PrefixAccPub :: string where
  "Bech32PrefixAccPub = Bech32Prefix @ ''pub''"

definition Bech32PrefixValAddr :: string where
  "Bech32PrefixValAddr = Bech32Prefix @ ''val'' @ ''oper''"

definition Bech32PrefixValPub :: string where
  "Bech32PrefixValPub = Bech32Prefix @ ''val'' @ ''oper'' @ ''pub''"

definition Bech32PrefixConsAddr :: string where
  "Bech32PrefixConsAddr = Bech32Prefix @ ''val'' @ ''cons''"

definition Bech32PrefixConsPub :: string where
  "Bech32PrefixConsPub = Bech32Prefix @ ''val'' @ ''cons'' @ ''pub''"

definition root_config :: bech32_config where
  "root_config = \<lparr>cfg_AccAddr = Bech32PrefixAccAddr, cfg_AccPub = Bech32PrefixAccPub,
     cfg_ValAddr = Bech32PrefixValAddr, cfg_ValPub = Bech32PrefixValPub,
     cfg_ConsAddr = Bech32PrefixConsAddr, cfg_ConsPub = Bech32PrefixConsPub, cfg_Sealed = True\<rparr>"

text \<open>
  What runs before every command: the flags, the client's configuration, the command's context
  and the server's configuration, each of which may fail.
\<close>

definition PersistentPreRunE ::
  "('x \<Rightarrow> gerror + 'x) \<Rightarrow> ('x \<Rightarrow> gerror + 'x) \<Rightarrow> ('x \<Rightarrow> gerror option) \<Rightarrow> gerror option \<Rightarrow> 'x \<Rightarrow> gerror option" where
  "PersistentPreRunE ReadPersistentCommandFlags ReadFromClientConfig SetCmdClientContextHandler
     InterceptConfigsPreRunHandler initClientCtx =
     (case ReadPersistentCommandFlags initClientCtx of
        Inl err \<Rightarrow> Some err
      | Inr initClientCtx \<Rightarrow>
     (case ReadFromClientConfig initClientCtx of
        Inl err \<Rightarrow> Some err
      | Inr initClientCtx \<Rightarrow>
     (case SetCmdClientContextHandler initClientCtx of
        Some err \<Rightarrow> Some err
      | None \<Rightarrow> InterceptConfigsPreRunHandler)))"

section \<open>The tree of commands\<close>

datatype command =
    InitCmd | CollectGenTxsCmd | GenTxCmd | ValidateGenesisCmd | AddGenesisAccount
  | AddGenesisWasmMsg "command list" | CompletionCmd | DebugCmd | ConfigCmd
  | ServerCommands | StatusCommand | QueryCommand "command list" | TxCommand "command list"
  | KeysCommands
  | GetAccountCmd | ValidatorCommand | BlockCommand | QueryTxsByEventsCmd | QueryTxCmd
  | ModuleQuery app_module
  | GetSignCommand | GetSignBatchCommand | GetMultiSignCommand | GetMultiSignBatchCmd
  | GetValidateSignaturesCommand | LineBreak | GetBroadcastCommand | GetEncodeCommand
  | GetDecodeCommand | ModuleTx app_module
  | GenesisStoreCodeCmd | GenesisInstantiateContractCmd | GenesisExecuteContractCmd
  | GenesisListContractsCmd | GenesisListCodesCmd

definition AddGenesisWasmMsgCmd :: command where
  "AddGenesisWasmMsgCmd = AddGenesisWasmMsg
     [GenesisStoreCodeCmd, GenesisInstantiateContractCmd, GenesisExecuteContractCmd,
      GenesisListContractsCmd, GenesisListCodesCmd]"

text \<open>
  The basic manager adds the query and transaction commands of the modules that have any, in
  the order of a Go map, here of a list.
\<close>

definition queryCommand :: "(app_module \<Rightarrow> bool) \<Rightarrow> command" where
  "queryCommand has_query = QueryCommand
     ([GetAccountCmd, ValidatorCommand, BlockCommand, QueryTxsByEventsCmd, QueryTxCmd]
      @ map ModuleQuery (filter has_query ModuleBasics))"

definition txCommand :: "(app_module \<Rightarrow> bool) \<Rightarrow> command" where
  "txCommand has_tx = TxCommand
     ([GetSignCommand, GetSignBatchCommand, GetMultiSignCommand, GetMultiSignBatchCmd,
       GetValidateSignaturesCommand, LineBreak, GetBroadcastCommand, GetEncodeCommand,
       GetDecodeCommand]
      @ map ModuleTx (filter has_tx ModuleBasics))"

definition initRootCmd :: "(app_module \<Rightarrow> bool) \<Rightarrow> (app_module \<Rightarrow> bool) \<Rightarrow> command list" where
  "initRootCmd has_query has_tx =
     [InitCmd, CollectGenTxsCmd, GenTxCmd, ValidateGenesisCmd, AddGenesisAccount,
      AddGenesisWasmMsgCmd, CompletionCmd, DebugCmd, ConfigCmd]
     @ [ServerCommands]
     @ [StatusCommand, queryCommand has_query, txCommand has_tx, KeysCommands]"

text \<open>The flags of the start command: those of the modules that have some.\<close>

definition addModuleInitFlags :: "(app_module \<Rightarrow> 'flags \<Rightarrow> 'flags) \<Rightarrow> 'flags \<Rightarrow> 'flags" where
  "addModuleInitFlags AddModuleInitFlags startCmd =
     AddModuleInitFlags ModWasm (AddModuleInitFlags ModCrisis startCmd)"

text \<open>
  The root command: its children, what runs before each of them, and the context of the client
  that this starts from. The process has no root command without a home directory, since the
  package's \<open>init\<close> has panicked by then.
\<close>

record root_context =
  rc_InterfaceRegistry :: registry
  rc_LegacyAmino :: amino
  rc_BroadcastMode :: string
  rc_HomeDir :: string
  rc_Viper :: string

definition root_clientCtx :: "EncodingConfig \<Rightarrow> string \<Rightarrow> root_context" where
  "root_clientCtx encodingConfig DefaultNodeHome = \<lparr>
     rc_InterfaceRegistry = ec_InterfaceRegistry encodingConfig, rc_LegacyAmino = ec_Amino encodingConfig,
     rc_BroadcastMode = ''block'', rc_HomeDir = DefaultNodeHome, rc_Viper = []\<rparr>"

record root_command =
  root_Children :: "command list"
  root_PreRun :: "gerror option"
  root_Config :: bech32_config

definition NewRootCmd ::
  "EncodingConfig \<Rightarrow> string \<Rightarrow> (root_context \<Rightarrow> gerror + root_context) \<Rightarrow> (root_context \<Rightarrow> gerror + root_context)
    \<Rightarrow> (root_context \<Rightarrow> gerror option) \<Rightarrow> gerror option \<Rightarrow> (app_module \<Rightarrow> bool) \<Rightarrow> (app_module \<Rightarrow> bool)
    \<Rightarrow> (gerror, root_command \<times> EncodingConfig) go" where
  "NewRootCmd encodingConfig HOME ReadPersistentCommandFlags ReadFromClientConfig
     SetCmdClientContextHandler InterceptConfigsPreRunHandler has_query has_tx =
     go_bind (DefaultNodeHome_init HOME) (\<lambda>DefaultNodeHome.
       let initClientCtx = root_clientCtx encodingConfig DefaultNodeHome;
           rootCmd = \<lparr>root_Children = initRootCmd has_query has_tx,
             root_PreRun = PersistentPreRunE ReadPersistentCommandFlags ReadFromClientConfig
               SetCmdClientContextHandler InterceptConfigsPreRunHandler initClientCtx,
             root_Config = root_config\<rparr>
       in Ret (rootCmd, encodingConfig))"

section \<open>Making the application\<close>

text \<open>Reading an option: \<^verbatim>\<open>appOpts.Get\<close> by its flag, and the conversions of the value.\<close>

datatype option_flag =
    FlagHome | FlagInterBlockCache | FlagUnsafeSkipUpgrades | FlagTelemetry | FlagInvCheckPeriod
  | FlagMinGasPrices | FlagHaltHeight | FlagHaltTime | FlagMinRetainBlocks | FlagTrace
  | FlagIndexEvents | FlagStateSyncSnapshotInterval | FlagStateSyncSnapshotKeepRecent

record 'v casts =
  As_string :: "'v \<Rightarrow> string option"
  ToBool :: "'v \<Rightarrow> bool"
  ToString :: "'v \<Rightarrow> string"
  ToIntSlice :: "'v \<Rightarrow> int list"
  ToStringSlice :: "'v \<Rightarrow> string list"
  ToUint64 :: "'v \<Rightarrow> u64"
  ToUint32 :: "'v \<Rightarrow> 32 word"

datatype ('pruning, 'snap) base_option =
    SetPruning 'pruning
  | SetMinGasPrices string
  | SetHaltHeight u64
  | SetHaltTime u64
  | SetMinRetainBlocks u64
  | SetInterBlockCache bool
  | SetTrace bool
  | SetIndexEvents "string list"
  | SetSnapshotStore 'snap
  | SetSnapshotInterval u64
  | SetSnapshotKeepRecent "32 word"

record ('p, 'pruning, 'snap) app_args =
  arg_loadLatest :: bool
  arg_skipUpgradeHeights :: "int \<Rightarrow> bool"
  arg_homePath :: string
  arg_invCheckPeriod :: u64
  arg_enabledProposals :: "'p list"
  arg_vmCacheMetrics :: bool
  arg_baseAppOptions :: "('pruning, 'snap) base_option list"

text \<open>
  What the daemon's process offers: the pruning options, the snapshot store in a directory, the
  proposals that \<open>GetEnabledProposals\<close> gives, and the application for some arguments.
\<close>

record ('v, 'p, 'pruning, 'db, 'snap, 'cfg, 'app) daemon =
  d_casts :: "'v casts"
  GetPruningOptionsFromFlags :: "(option_flag \<Rightarrow> 'v) \<Rightarrow> string + 'pruning"
  NewLevelDB :: "string \<Rightarrow> string \<Rightarrow> string + 'db"
  NewSnapshotStore :: "'db \<Rightarrow> string \<Rightarrow> string + 'snap"
  d_proposals :: "(gerror, 'p list) go"
  d_env :: "('p, 'pruning, 'snap) app_args \<Rightarrow> ('cfg, 'app) start_env"

definition make_app ::
  "('v, 'p, 'pruning, 'db, 'snap, 'cfg, 'app) daemon \<Rightarrow> ('p, 'pruning, 'snap) app_args \<Rightarrow> 'app started" where
  "make_app D args = NewWasmApp (d_env D args) (arg_loadLatest args) (arg_enabledProposals args)"

text \<open>A call inside \<open>newApp\<close> that panics with its error, and the enabled proposals' panic.\<close>

definition started_or_panic :: "string + 'a \<Rightarrow> ('a \<Rightarrow> 'app started) \<Rightarrow> 'app started" where
  "started_or_panic r f = (case r of Inl err \<Rightarrow> StartPanic err | Inr a \<Rightarrow> f a)"

definition with_proposals :: "(gerror, 'p list) go \<Rightarrow> ('p list \<Rightarrow> 'app started) \<Rightarrow> 'app started" where
  "with_proposals r f = (case r of
      Ret ps \<Rightarrow> f ps
    | Panic (ForeignPanic err) \<Rightarrow> StartPanic err
    | _ \<Rightarrow> StartPanic ''enabled proposals'')"

definition newApp ::
  "('v, 'p, 'pruning, 'db, 'snap, 'cfg, 'app) daemon \<Rightarrow> (option_flag \<Rightarrow> 'v) \<Rightarrow> 'app started" where
  "newApp D appOpts =
     (let C = d_casts D;
          cache = ToBool C (appOpts FlagInterBlockCache);
          skipUpgradeHeights = (\<lambda>h. h \<in> set (ToIntSlice C (appOpts FlagUnsafeSkipUpgrades)));
          home = ToString C (appOpts FlagHome);
          snapshotDir = path_Join [home, ''data'', ''snapshots''] in
      started_or_panic (GetPruningOptionsFromFlags D appOpts) (\<lambda>pruningOpts.
      started_or_panic (NewLevelDB D ''metadata'' snapshotDir) (\<lambda>snapshotDB.
      started_or_panic (NewSnapshotStore D snapshotDB snapshotDir) (\<lambda>snapshotStore.
      with_proposals (d_proposals D) (\<lambda>proposals.
      make_app D \<lparr>
        arg_loadLatest = True, arg_skipUpgradeHeights = skipUpgradeHeights, arg_homePath = home,
        arg_invCheckPeriod = ToUint64 C (appOpts FlagInvCheckPeriod),
        arg_enabledProposals = proposals,
        arg_vmCacheMetrics = ToBool C (appOpts FlagTelemetry),
        arg_baseAppOptions =
          [SetPruning pruningOpts,
           SetMinGasPrices (ToString C (appOpts FlagMinGasPrices)),
           SetHaltHeight (ToUint64 C (appOpts FlagHaltHeight)),
           SetHaltTime (ToUint64 C (appOpts FlagHaltTime)),
           SetMinRetainBlocks (ToUint64 C (appOpts FlagMinRetainBlocks)),
           SetInterBlockCache cache,
           SetTrace (ToBool C (appOpts FlagTrace)),
           SetIndexEvents (ToStringSlice C (appOpts FlagIndexEvents)),
           SetSnapshotStore snapshotStore,
           SetSnapshotInterval (ToUint64 C (appOpts FlagStateSyncSnapshotInterval)),
           SetSnapshotKeepRecent (ToUint32 C (appOpts FlagStateSyncSnapshotKeepRecent))]\<rparr>)))))"

section \<open>Exporting\<close>

text \<open>
  A height of -1 stands for the latest. The export of the application that was made is what
  \<open>appExport\<close> returns; it may also return an error of its own.
\<close>

definition appExport ::
  "('v, 'p, 'pruning, 'db, 'snap, 'cfg, 'app) daemon \<Rightarrow> ('app \<Rightarrow> int \<Rightarrow> gerror + 'app)
    \<Rightarrow> (bool \<Rightarrow> string list \<Rightarrow> 'app \<Rightarrow> (gerror, 'x) go) \<Rightarrow> int \<Rightarrow> bool \<Rightarrow> string list \<Rightarrow> (option_flag \<Rightarrow> 'v)
    \<Rightarrow> (gerror, 'x) go started" where
  "appExport D LoadHeight export height forZeroHeight jailAllowedAddrs appOpts =
     (case As_string (d_casts D) (appOpts FlagHome) of
        None \<Rightarrow> Started (Err (TextError ''application home is not set''))
      | Some homePath \<Rightarrow>
          if homePath = [] then Started (Err (TextError ''application home is not set''))
          else
            let loadLatest = (height = -1) in
            with_proposals (d_proposals D) (\<lambda>proposals.
            case make_app D \<lparr>
                arg_loadLatest = loadLatest, arg_skipUpgradeHeights = (\<lambda>_. False),
                arg_homePath = homePath,
                arg_invCheckPeriod = ToUint64 (d_casts D) (appOpts FlagInvCheckPeriod),
                arg_enabledProposals = proposals, arg_vmCacheMetrics = False,
                arg_baseAppOptions = []\<rparr> of
              StartPanic p \<Rightarrow> StartPanic p
            | ProcessExit t \<Rightarrow> ProcessExit t
            | Started wasmApp \<Rightarrow>
                if height \<noteq> -1
                then (case LoadHeight wasmApp height of
                        Inl err \<Rightarrow> Started (Err err)
                      | Inr wasmApp \<Rightarrow> Started (export forZeroHeight jailAllowedAddrs wasmApp))
                else Started (export forZeroHeight jailAllowedAddrs wasmApp)))"

section \<open>The process\<close>

datatype exec_error = ErrorCode int | OtherError gerror

text \<open>The exit code of \<^verbatim>\<open>main\<close>, for what executing the root command returned.\<close>

definition main_exit :: "exec_error option \<Rightarrow> int" where
  "main_exit r = (case r of
      None \<Rightarrow> 0
    | Some (ErrorCode code) \<Rightarrow> code
    | Some (OtherError _) \<Rightarrow> 1)"

section \<open>The property\<close>

text \<open>The same arguments, but another way of loading the latest state.\<close>

definition same_but_latest :: "('cfg, 'app) start_env \<Rightarrow> ('cfg, 'app) start_env \<Rightarrow> bool" where
  "same_but_latest E E' \<longleftrightarrow> ReadWasmConfig E = ReadWasmConfig E' \<and>
     NewAnteHandler E = NewAnteHandler E' \<and> SnapshotManager E = SnapshotManager E'"

lemma start_app_no_latest: "same_but_latest E E' \<Longrightarrow> start_app E False = start_app E' False"
  by (auto simp: same_but_latest_def start_app_def split: sum.split option.split)

text \<open>C31: \<^verbatim>\<open>export\<close> needs a home: without one, or with an empty one, it returns an error and makes no
  application. For a given height it never touches the latest state: neither the result of
  loading the latest version nor that of pinning its codes matters, and what is exported is
  the application loaded at that height. For height -1 it is the latest one, and loading a
  height plays no part.\<close>
theorem export_command:
  assumes "\<forall>args. same_but_latest (d_env D args) (env' args)" "height \<noteq> -1"
  shows "(As_string (d_casts D) (opts FlagHome) \<in> {None, Some []} \<longrightarrow>
      appExport D LoadHeight export h z jail opts
        = Started (Err (TextError ''application home is not set''))) \<and>
    appExport D LoadHeight export height z jail opts
      = appExport (D\<lparr>d_env := env'\<rparr>) LoadHeight export height z jail opts \<and>
    (\<forall>x. appExport D LoadHeight export height z jail opts = Started (Ret x) \<longrightarrow>
      (\<exists>app app'. LoadHeight app height = Inr app' \<and> export z jail app' = Ret x)) \<and>
    appExport D LoadHeight export (-1) z jail opts = appExport D LoadHeight' export (-1) z jail opts"
proof (intro conjI allI impI)
  show "appExport D LoadHeight export height z jail opts
      = appExport (D\<lparr>d_env := env'\<rparr>) LoadHeight export height z jail opts"
    using assms(2) start_app_no_latest [OF assms(1) [THEN spec]]
    by (auto simp: appExport_def make_app_def NewWasmApp_start_app with_proposals_def
        split: option.split go.split panic.split)
next
  fix x
  assume "appExport D LoadHeight export height z jail opts = Started (Ret x)"
  then show "\<exists>app app'. LoadHeight app height = Inr app' \<and> export z jail app' = Ret x"
    using assms(2)
    by (auto simp: appExport_def with_proposals_def Let_def
        split: option.splits if_splits go.splits panic.splits started.splits sum.splits)
qed (auto simp: appExport_def with_proposals_def split: option.split go.split panic.split started.split)

definition sample_env_of :: "('p, 'pr, 'sn) app_args \<Rightarrow> (unit, nat) start_env" where
  "sample_env_of args = \<lparr>ReadWasmConfig = Inr (), NewAnteHandler = (\<lambda>_. Inr 0), SnapshotManager = None,
     LoadLatestVersion = (\<lambda>_. Inr 99), InitializePinnedCodes = Inr\<rparr>"

definition sample_daemon ::
  "(string, unit, unit, unit, unit, unit, nat) daemon" where
  "sample_daemon = \<lparr>
     d_casts = \<lparr>As_string = Some, ToBool = (\<lambda>_. False), ToString = id, ToIntSlice = (\<lambda>_. []),
       ToStringSlice = (\<lambda>_. []), ToUint64 = (\<lambda>_. 0), ToUint32 = (\<lambda>_. 0)\<rparr>,
     GetPruningOptionsFromFlags = (\<lambda>_. Inr ()), NewLevelDB = (\<lambda>n d. Inr ()),
     NewSnapshotStore = (\<lambda>d s. Inr ()), d_proposals = Ret [], d_env = sample_env_of\<rparr>"

theorem export_command_witness:
  "appExport sample_daemon (\<lambda>app h. Inr (nat h)) (\<lambda>z j app. Ret app) 12 False [] (\<lambda>_. ''/home'')
    = appExport (sample_daemon\<lparr>d_env := \<lambda>args. (sample_env_of args)\<lparr>LoadLatestVersion := \<lambda>_. Inl ''corrupt''\<rparr>\<rparr>)
        (\<lambda>app h. Inr (nat h)) (\<lambda>z j app. Ret app) 12 False [] (\<lambda>_. ''/home'') \<and>
   appExport sample_daemon (\<lambda>app h. Inr (nat h)) (\<lambda>z j app. Ret app) 12 False [] (\<lambda>_. ''/home'')
     = Started (Ret 12)"
proof
  show "appExport sample_daemon (\<lambda>app h. Inr (nat h)) (\<lambda>z j app. Ret app) 12 False [] (\<lambda>_. ''/home'')
      = Started (Ret 12)"
    by (simp add: appExport_def sample_daemon_def with_proposals_def make_app_def NewWasmApp_start_app start_app_def
        sample_env_of_def)
  show "appExport sample_daemon (\<lambda>app h. Inr (nat h)) (\<lambda>z j app. Ret app) 12 False [] (\<lambda>_. ''/home'')
    = appExport (sample_daemon\<lparr>d_env := \<lambda>args. (sample_env_of args)\<lparr>LoadLatestVersion := \<lambda>_. Inl ''corrupt''\<rparr>\<rparr>)
        (\<lambda>app h. Inr (nat h)) (\<lambda>z j app. Ret app) 12 False [] (\<lambda>_. ''/home'')"
    by (rule export_command [THEN conjunct2, THEN conjunct1])
       (simp_all add: sample_daemon_def same_but_latest_def)
qed

end
