(* ===== verification/ChainSteps.thy ===== *)
theory ChainSteps
  imports HandlerSpec Samples
begin

text \<open>
  The chain as a state machine over the module's operations: transactions, changes of the
  parameters, whatever the other modules do, and the end of a block, which goes on to the next
  height. A transaction whose handler fails is rolled back by the SDK and is no step.
\<close>

section \<open>Steps\<close>

text \<open>
  Entries the keeper's keys are made for: the address of a signer and of a contract, neither of
  which can be taken for a key by height, and a body that fits the wire format.
\<close>

definition ordinary :: "byte list \<Rightarrow> byte list \<Rightarrow> bool" where
  "ordinary sc body \<longleftrightarrow> 20 \<le> length sc \<and> length sc \<le> 52 \<and> length (enc_call body) < 2 ^ 63 \<and>
     hd sc \<noteq> ScheduledCallByBlockHeightKeyPrefix"

text \<open>
  \<open>tx_add\<close> is restricted to a signer and a contract without a call, that is to the branch of
  \<open>AddSchedule\<close> that does not reschedule: on the other branch the store is broken.
\<close>

inductive chain_step ::
  "'s kv_ops \<Rightarrow> 'w env \<Rightarrow> ('s, 'w) chain \<Rightarrow> ('s, 'w) chain \<Rightarrow> bool" for K env where
  tx_add: "AddSchedule K env msg c = Ret (r, c') \<Longrightarrow>
    AccAddressFromBech32 env (ma_Signer msg) = Inr signer \<Longrightarrow>
    AccAddressFromBech32 env (ma_Contract msg) = Inr contract \<Longrightarrow>
    ordinary (signer @ contract) (ma_CallBody msg) \<Longrightarrow>
    BlockHeightForSignerContract K signer contract (c_store c) = (Ret 0 :: (gerror, u64) go) \<Longrightarrow>
    chain_step K env c c'"
| tx_remove: "RemoveSchedule K env msg c = Ret (r, c') \<Longrightarrow> chain_step K env c c'"
| param_change: "SetParams env params c = (Ret c' :: (gerror, ('s, 'w) chain) go) \<Longrightarrow> chain_step K env c c'"
| others: "chain_step K env c (c\<lparr>c_world := w\<rparr>)"
| block_end: "EndBlocker K env c = Ret c' \<Longrightarrow>
    chain_step K env c (c'\<lparr>c_height := c_height c' + 1, c_events := []\<rparr>)"

inductive reachable ::
  "'s kv_ops \<Rightarrow> 'w env \<Rightarrow> ('s, 'w) chain \<Rightarrow> bool" for K env where
  genesis: "represents K (c_store fresh) no_calls \<Longrightarrow> InitGenesis env gs fresh = Ret c \<Longrightarrow>
    reachable K env c"
| step: "reachable K env c \<Longrightarrow> chain_step K env c c' \<Longrightarrow> reachable K env c'"

text \<open>
  Runs on which a call may be waited for: no step removes the call of \<open>sc\<close>, and none ends the
  block at height \<open>h\<close>.
\<close>

definition cancels :: "'s kv_ops \<Rightarrow> 'w env \<Rightarrow> byte list \<Rightarrow> ('s, 'w) chain \<Rightarrow> ('s, 'w) chain \<Rightarrow> bool" where
  "cancels K env sc c c' \<longleftrightarrow> (\<exists>msg r signer contract. RemoveSchedule K env msg c = Ret (r, c') \<and>
     AccAddressFromBech32 env (mr_Signer msg) = Inr signer \<and>
     AccAddressFromBech32 env (mr_Contract msg) = Inr contract \<and> signer @ contract = sc)"

inductive undisturbed ::
  "'s kv_ops \<Rightarrow> 'w env \<Rightarrow> byte list \<Rightarrow> u64 \<Rightarrow> ('s, 'w) chain \<Rightarrow> ('s, 'w) chain \<Rightarrow> bool" for K env sc h where
  start: "undisturbed K env sc h c c"
| step: "undisturbed K env sc h c c1 \<Longrightarrow> chain_step K env c1 c2 \<Longrightarrow> \<not> cancels K env sc c1 c2 \<Longrightarrow>
    c_height c2 = c_height c1 \<or> c_height c1 \<noteq> h \<Longrightarrow> undisturbed K env sc h c c2"

inductive_cases chain_stepE [consumes 1, case_names tx_add tx_remove param_change others block_end]:
  "chain_step K env c c'"

section \<open>The invariant\<close>

text \<open>
  The store represents a schedule of ordinary entries, none of which is in the past, and the
  parameters are set.
\<close>

definition entries_ahead :: "u64 \<Rightarrow> schedule \<Rightarrow> bool" where
  "entries_ahead h m \<longleftrightarrow> (\<forall>sc h' body. m sc = Some (h', body) \<longrightarrow> ordinary sc body \<and> h \<le> h' \<and> h' \<noteq> 0)"

definition chain_inv :: "'s kv_ops \<Rightarrow> ('s, 'w) chain \<Rightarrow> bool" where
  "chain_inv K c \<longleftrightarrow> (\<exists>m. represents K (c_store c) m \<and> entries_ahead (c_height c) m) \<and>
     (\<exists>params. GetParams c = (Ret params :: (gerror, Params) go))"

lemma chain_invI:
  assumes "chain_inv K c" "c_params c' = c_params c"
    and "represents K (c_store c') m" "entries_ahead (c_height c') m"
  shows "chain_inv K c'"
  using assms by (auto simp: chain_inv_def GetParams_def)

lemma ordinary_decodable:
  assumes "entries_ahead h m"
  shows "decodable m"
proof -
  have "\<not> prefix (MakeScheduledCallByBlockHeightPrefixKey h') sc"
    if "20 \<le> length sc" "hd sc \<noteq> ScheduledCallByBlockHeightKeyPrefix" for sc h'
    using that by (cases sc) (auto simp: MakeScheduledCallByBlockHeightPrefixKey_def)
  with assms show ?thesis by (auto simp: decodable_def entries_ahead_def ordinary_def)
qed

lemma entries_ahead_upd:
  "entries_ahead h m \<Longrightarrow> ordinary sc body \<Longrightarrow> h \<le> h' \<Longrightarrow> h' \<noteq> 0 \<Longrightarrow> entries_ahead h (m(sc \<mapsto> (h', body)))"
  by (auto simp: entries_ahead_def)

lemma entries_ahead_del: "entries_ahead h m \<Longrightarrow> entries_ahead h (m(sc := None))"
  by (simp add: entries_ahead_def)

lemma entries_ahead_after:
  assumes "entries_ahead h m" "after_block h ub m m'" and m': "m' sc = Some (h', body)"
  shows "ordinary sc body \<and> h < h'"
proof -
  from assms(2) m' have a: "after_block_at h ub (m sc) (Some (h', body))"
    by (metis after_block_def)
  then obtain h0 body0 where m: "m sc = Some (h0, body0)"
    by (cases "m sc") (auto simp: after_block_at_def)
  with assms(1) have o: "ordinary sc body0" "h \<le> h0" by (auto simp: entries_ahead_def)
  from a m have "body0 = body" "h < h'"
    using o(2) by (auto simp: after_block_at_def split: if_splits)
  then show ?thesis using o(1) by simp
qed

lemma entries_ahead_block:
  assumes "entries_ahead h m" "after_block h ub m m'"
  shows "entries_ahead (h + 1) m'"
  unfolding entries_ahead_def
  using entries_ahead_after [OF assms] inc_le [of h] by fastforce

context kv_store
begin

lemma EndBlocker_keeps:
  assumes "EndBlocker K env c = Ret c'"
  shows "c_height c' = c_height c \<and> c_params c' = c_params c"
proof -
  from assms obtain params where
    run: "consume_loop K upd_store (c_height c) (run_scheduled_call K env params)
      (kv_Iterate K (MakeScheduledCallByBlockHeightPrefixKey (c_height c)) (c_store c)) c = Ret c'"
    by (auto simp: EndBlocker_def ConsumeScheduledCallsByHeight_def go_simps)
  show ?thesis
    by (rule consume_loop_keeps [OF run run_goes_on])
       (auto simp: reflp_def transp_def dest: run_scheduled_call_effect)
qed

lemma genesis_inv:
  assumes "represents K (c_store fresh) no_calls" "InitGenesis env gs fresh = Ret c"
  shows "chain_inv K c"
proof -
  from assms(2) have c: "c_store c = c_store fresh"
    and p: "GetParams c = (Ret (gs_Params gs) :: (gerror, Params) go)"
    using SetParams_GetParams [of env "gs_Params gs" fresh c]
    by (auto simp: InitGenesis_def SetParams_Ret)
  then show ?thesis
    using assms(1) by (auto simp: chain_inv_def entries_ahead_def no_calls_def intro!: exI [of _ no_calls])
qed

lemma tx_add_inv:
  assumes inv: "chain_inv K c" and run: "AddSchedule K env msg c = Ret (r, c')"
    and s: "AccAddressFromBech32 env (ma_Signer msg) = Inr signer"
    and t: "AccAddressFromBech32 env (ma_Contract msg) = Inr contract"
    and o: "ordinary (signer @ contract) (ma_CallBody msg)"
    and new: "BlockHeightForSignerContract K signer contract (c_store c) = (Ret 0 :: (gerror, u64) go)"
  shows "chain_inv K c'"
proof -
  from inv obtain m where rep: "represents K (c_store c) m" and m: "entries_ahead (c_height c) m"
    by (auto simp: chain_inv_def)
  from scheduled_height [OF rep, of signer contract] new m have "m (signer @ contract) = None"
    by (cases "m (signer @ contract)") (auto simp: entries_ahead_def)
  note rep' = AddSchedule_fresh [OF rep run s t this]
  from run have h: "c_height c < ma_BlockHeight msg" "c_height c' = c_height c" "c_params c' = c_params c"
    by (auto elim: AddSchedule_cases)
  then have "ma_BlockHeight msg \<noteq> 0" by auto
  with h have "entries_ahead (c_height c') (m(signer @ contract \<mapsto> (ma_BlockHeight msg, ma_CallBody msg)))"
    using entries_ahead_upd [OF m o] by simp
  with inv h(3) rep' show ?thesis by (rule chain_invI)
qed

lemma tx_remove_inv:
  assumes inv: "chain_inv K c" and run: "RemoveSchedule K env msg c = Ret (r, c')"
  shows "chain_inv K c'"
proof -
  from inv obtain m where rep: "represents K (c_store c) m" and m: "entries_ahead (c_height c) m"
    by (auto simp: chain_inv_def)
  from run obtain signer contract where
    a: "AccAddressFromBech32 env (mr_Signer msg) = Inr signer"
      "AccAddressFromBech32 env (mr_Contract msg) = Inr contract"
      "c_height c' = c_height c" "c_params c' = c_params c"
    by (rule RemoveSchedule_cases)
  from inv a(4) RemoveSchedule_effect [OF rep run a(1,2)] show ?thesis
    by (rule chain_invI) (simp add: a(3) entries_ahead_del [OF m])
qed

lemma block_end_inv:
  assumes inv: "chain_inv K c" and run: "EndBlocker K env c = Ret c'"
  shows "chain_inv K (c'\<lparr>c_height := c_height c' + 1, c_events := []\<rparr>)"
proof -
  from inv obtain m params where rep: "represents K (c_store c) m"
    and m: "entries_ahead (c_height c) m" and p: "GetParams c = (Ret params :: (gerror, Params) go)"
    by (auto simp: chain_inv_def)
  from EndBlocker_effect [OF rep ordinary_decodable [OF m] p run] obtain m' where
    "represents K (c_store c') m'" "after_block (c_height c) (p_UpperBound params) m m'" by blast
  with EndBlocker_keeps [OF run] entries_ahead_block [OF m] p show ?thesis
    by (auto simp: chain_inv_def GetParams_def)
qed

lemma chain_step_inv:
  assumes "chain_step K env c c'" and inv: "chain_inv K c"
  shows "chain_inv K c'"
  using assms(1)
proof (cases rule: chain_stepE)
  case (param_change params)
  then show ?thesis
    using SetParams_GetParams [OF param_change] inv by (auto simp: chain_inv_def SetParams_Ret)
next
  case (others w)
  then show ?thesis using inv by (simp add: chain_inv_def GetParams_def)
qed (use tx_add_inv tx_remove_inv block_end_inv inv in blast)+

lemma reachable_inv: "reachable K env c \<Longrightarrow> chain_inv K c"
  by (induction rule: reachable.induct) (blast intro: genesis_inv chain_step_inv)+

text \<open>A step keeps a call that is not removed and whose block it does not end.\<close>

lemma chain_step_keeps_call:
  assumes step: "chain_step K env c c'" and rep: "represents K (c_store c) m"
    and m: "entries_ahead (c_height c) m" "m sc = Some (h, body)"
    and param: "GetParams c = (Ret params :: (gerror, Params) go)"
    and kept: "\<not> cancels K env sc c c'" and waits: "c_height c' = c_height c \<or> c_height c \<noteq> h"
  shows "\<exists>m'. represents K (c_store c') m' \<and> m' sc = Some (h, body)"
  using step
proof (cases rule: chain_stepE)
  case (tx_add msg r signer contract)
  with scheduled_height [OF rep, of signer contract] m(1) have new: "m (signer @ contract) = None"
    by (cases "m (signer @ contract)") (auto simp: entries_ahead_def)
  with m(2) AddSchedule_fresh [OF rep tx_add(1-3) new] show ?thesis
    by (intro exI [of _ "m(signer @ contract \<mapsto> (ma_BlockHeight msg, ma_CallBody msg))"]) auto
next
  case (tx_remove msg r)
  then obtain signer contract where a: "AccAddressFromBech32 env (mr_Signer msg) = Inr signer"
    "AccAddressFromBech32 env (mr_Contract msg) = Inr contract"
    by (rule RemoveSchedule_cases)
  with kept tx_remove have "signer @ contract \<noteq> sc" by (auto simp: cancels_def)
  with m(2) RemoveSchedule_effect [OF rep tx_remove a] show ?thesis
    by (intro exI [of _ "m(signer @ contract := None)"]) simp
next
  case (block_end c1)
  from EndBlocker_keeps [OF block_end(2)] block_end(1) waits have "h \<noteq> c_height c" by auto
  moreover obtain m' where "represents K (c_store c1) m'" "after_block (c_height c) (p_UpperBound params) m m'"
    using EndBlocker_effect [OF rep ordinary_decodable [OF m(1)] param block_end(2)] by blast
  ultimately have "m' sc = Some (h, body)"
    using m(2) by (auto simp: after_block_def after_block_at_def dest: spec [of _ sc])
  with \<open>represents K (c_store c1) m'\<close> block_end(1) show ?thesis by auto
qed (use rep m in \<open>auto simp: SetParams_Ret\<close>)

lemma undisturbed_keeps_call:
  assumes "undisturbed K env sc h c c'" "reachable K env c"
    and "kv_Get K (height_key h sc) (c_store c) = Some (enc_call body)"
  shows "reachable K env c' \<and> (\<exists>m body'. represents K (c_store c') m \<and> entries_ahead (c_height c') m \<and>
    m sc = Some (h, body') \<and> enc_call body' = enc_call body)"
  using assms
proof (induction rule: undisturbed.induct)
  case (start c)
  from reachable_inv [OF start(1)] obtain m where rep: "represents K (c_store c) m"
    and "entries_ahead (c_height c) m" by (auto simp: chain_inv_def)
  then show ?case
    using start represents_height [OF rep, of h sc "enc_call body"] by auto
next
  case (step c c1 c2)
  then obtain m body' where r: "reachable K env c1" and rep: "represents K (c_store c1) m"
    and m: "entries_ahead (c_height c1) m" "m sc = Some (h, body')" and b: "enc_call body' = enc_call body"
    by blast
  from reachable_inv [OF r] obtain params where
    "GetParams c1 = (Ret params :: (gerror, Params) go)" by (auto simp: chain_inv_def)
  from chain_step_keeps_call [OF step(2) rep m this step(3,4)] obtain m' where
    m': "represents K (c_store c2) m'" "m' sc = Some (h, body')" by blast
  have r2: "reachable K env c2" using r step(2) by (rule reachable.step)
  from reachable_inv [OF r2] obtain m2 where
    m2: "represents K (c_store c2) m2" "entries_ahead (c_height c2) m2" by (auto simp: chain_inv_def)
  have "kv_Get K (height_key h sc) (c_store c2) = Some (enc_call body)"
    using m' b by (auto simp: represents_height)
  with m2 r2 show ?case by (auto simp: represents_height)
qed

end

section \<open>Properties\<close>




section \<open>A reachable sample\<close>

lemma genesis_reachable_in:
  assumes "sample_like env"
  shows "reachable kvl env (chain_in w kvl_empty 10)"
proof (rule reachable.genesis)
  show "represents kvl (c_store (chain_in w kvl_empty 10)) no_calls" by (simp add: represents_empty)
  show "InitGenesis env (DefaultGenesis\<lparr>gs_Params := sample_params\<rparr>) (chain_in w kvl_empty 10)
      = Ret (chain_in w kvl_empty 10)"
    using assms
    by (simp add: InitGenesis_def SetParams_def ParamSetPairs_def sample_params_def chain_in_def sample_chain_def
        sample_like_def validateMinimumBalance_def validateUpperBound_def int_Uint64_def)
qed

lemma add_reachable_in:
  assumes env: "sample_like env" and h: "h \<in> {11, 15}"
  shows "\<exists>c1. AddSchedule kvl env (sample_add_msg h) (chain_in w kvl_empty 10)
      = Ret (MsgAddScheduleResponse, c1) \<and> reachable kvl env c1 \<and> c_height c1 = 10 \<and> c_world c1 = w \<and>
    c_params c1 = c_params (chain_in w kvl_empty 10) \<and>
    kv_Get kvl (height_key h sample_key) (c_store c1) = Some (enc_call [7])"
proof -
  note addresses = sample_like_addresses [OF env]
  have new: "(BlockHeightForSignerContract kvl sample_signer sample_contract
      (c_store (chain_in w kvl_empty 10)) :: (gerror, _) go) = Ret 0"
    by (simp add: BlockHeightForSignerContract_represents [OF represents_empty] no_calls_def)
  then obtain c1 where run: "AddSchedule kvl env (sample_add_msg h) (chain_in w kvl_empty 10)
      = Ret (MsgAddScheduleResponse, c1)" "c_height c1 = 10" "c_world c1 = w"
      "c_params c1 = c_params (chain_in w kvl_empty 10)"
    using h env
    by (auto simp: AddSchedule_def sample_add_msg_def NewMsgAddSchedule_def sample_params_def
        addresses sample_like_def Let_def kvl.AddScheduledCall_eq emit_def)
  have "chain_step kvl env (chain_in w kvl_empty 10) c1"
  proof (rule chain_step.tx_add [OF run(1) _ _ _ new])
    show "ordinary (sample_signer @ sample_contract) (ma_CallBody (sample_add_msg h))"
      using enc_call_small [of "[7]"]
      by (simp add: ordinary_def sample_signer_def sample_contract_def sample_add_msg_def
          NewMsgAddSchedule_def ScheduledCallByBlockHeightKeyPrefix_def)
  qed (simp_all add: sample_add_msg_def NewMsgAddSchedule_def addresses)
  moreover have "represents kvl (c_store c1)
      (no_calls(sample_signer @ sample_contract \<mapsto> (ma_BlockHeight (sample_add_msg h), ma_CallBody (sample_add_msg h))))"
    by (rule kvl.AddSchedule_fresh [OF _ run(1)])
       (simp_all add: represents_empty sample_add_msg_def NewMsgAddSchedule_def addresses,
        simp add: no_calls_def)
  then have "kv_Get kvl (height_key h sample_key) (c_store c1) = Some (enc_call [7])"
    by (auto simp: represents_height sample_add_msg_def NewMsgAddSchedule_def sample_key_def)
  ultimately show ?thesis
    using run genesis_reachable_in [OF env] by (blast intro: reachable.step)
qed

lemma sample_genesis_reachable: "reachable kvl (sample_env n) (sample_chain kvl_empty 10)"
  unfolding sample_chain_in by (rule genesis_reachable_in [OF sample_env_like])

lemma sample_add_reachable_at:
  assumes "h \<in> {11, 15}"
  shows "\<exists>c1. AddSchedule kvl (sample_env n) (sample_add_msg h) (sample_chain kvl_empty 10)
      = Ret (MsgAddScheduleResponse, c1) \<and> reachable kvl (sample_env n) c1 \<and> c_height c1 = 10 \<and>
    c_params c1 = c_params (sample_chain kvl_empty 10) \<and>
    kv_Get kvl (height_key h sample_key) (c_store c1) = Some (enc_call [7])"
  using add_reachable_in [OF sample_env_like assms, of n "()"] unfolding sample_chain_in by blast

lemmas sample_add_reachable = sample_add_reachable_at [of 15, simplified]

lemma sample_benign_any: "benign (sample_env n) params"
  by (simp add: benign_def) (simp add: sample_env_def)




end
