(* ===== verification/CallRuns.thy ===== *)
theory CallRuns
  imports ChainSteps
begin

text \<open>
  A call from its scheduling to its execution: it waits for its block, is run there with the
  body it was scheduled with, says so in an event, and, if its contract asks for a later
  height, waits for that one in turn.
\<close>

section \<open>One entry of the loop\<close>

text \<open>
  Among the turns of a consume loop is that of every entry; what the other turns keep, from
  the start and to the end, is \<open>R\<close> (see \<open>consume_loop_keeps\<close>).
\<close>

lemma consume_loop_visits:
  assumes run: "consume_loop K upd h cb iter c = Ret c'"
    and entry: "(key, bz) \<in> set iter" "distinct (map fst iter)"
    and goes_on: "\<And>s t call c0 stop c1. cb s t call c0 = Ret (stop, c1) \<Longrightarrow> \<not> stop"
    and kept: "\<And>key' s t call c0 stop c1. key' \<in> fst ` set iter \<Longrightarrow> key' \<noteq> key \<Longrightarrow>
      decode_consume_key h key' = (s, t) \<Longrightarrow>
      cb s t call (upd (removeScheduledCallWithBlockHeight K s t h) c0) = Ret (stop, c1) \<Longrightarrow> R c0 c1"
    and R: "reflp R" "transp R"
  obtains s t call c0 c1 where "decode_consume_key h key = (s, t)"
    "must_unmarshal (ScheduledCall_Unmarshal ScheduledCall_zero bz) = (Ret call :: ('e, _) go)"
    "R c c0" "(cb s t call (upd (removeScheduledCallWithBlockHeight K s t h) c0) :: ('e, _) go) = Ret (False, c1)"
    "R c1 c'"
  using run entry kept
proof (induction iter arbitrary: c thesis)
  case (Cons e iter)
  obtain key' bz' where e: "e = (key', bz')" by (cases e)
  obtain s t call stop c1 where d: "decode_consume_key h key' = (s, t)" and
    call: "must_unmarshal (ScheduledCall_Unmarshal ScheduledCall_zero bz') = (Ret call :: ('e, _) go)"
    and turn: "(cb s t call (upd (removeScheduledCallWithBlockHeight K s t h) c) :: ('e, _) go) = Ret (stop, c1)"
    and rest: "(if stop then Ret c1 else consume_loop K upd h cb iter c1) = Ret c'"
    using Cons.prems(2) [unfolded e] by (rule consume_loop_turn)
  from goes_on [OF turn] rest have stop: "\<not> stop" and rest: "consume_loop K upd h cb iter c1 = Ret c'"
    by simp_all
  have others: "R c0 c1" if "key'' \<in> fst ` set iter" "key'' \<noteq> key" "decode_consume_key h key'' = (s, t)"
    "cb s t call (upd (removeScheduledCallWithBlockHeight K s t h) c0) = Ret (stop, c1)" for key'' s t call c0 stop c1
    using Cons.prems(5) [of key''] that by simp
  show ?case
  proof (cases "key' = key")
    case True
    with Cons.prems(3,4) have "bz' = bz" by (force simp: e)
    have "key'' \<noteq> key" if "key'' \<in> fst ` set iter" for key''
      using that Cons.prems(4) True e by auto
    with others have "R c1 c'"
      by (intro consume_loop_keeps [OF rest goes_on _ R]) blast+
    then show thesis
      using Cons.prems(1) [of s t call c c1] d call turn stop True \<open>bz' = bz\<close> R(1) by (simp add: reflpD)
  next
    case False
    with Cons.prems(3,4) e have later: "(key, bz) \<in> set iter" "distinct (map fst iter)" by auto
    have first: "R c c1" using Cons.prems(5) [OF _ False d turn] e by simp
    show thesis
    proof (rule Cons.IH [OF _ rest later others])
      fix s t call c0 c2
      assume "decode_consume_key h key = (s, t)"
        "must_unmarshal (ScheduledCall_Unmarshal ScheduledCall_zero bz) = (Ret call :: ('e, _) go)"
        "R c1 c0" "cb s t call (upd (removeScheduledCallWithBlockHeight K s t h) c0) = Ret (False, c2)" "R c2 c'"
      then show thesis
        using Cons.prems(1) first R(2) by (meson transpD)
    qed
  qed
qed simp

section \<open>At the end of a block\<close>

text \<open>
  A condition on the state of the other modules which executing a contract and charging it
  for its gas do not break.
\<close>

definition keeps_world :: "'w env \<Rightarrow> ('w \<Rightarrow> bool) \<Rightarrow> bool" where
  "keeps_world env P \<longleftrightarrow>
     (\<forall>w g t body. P w \<longrightarrow> P (ex_world (Execute env w g t t body []))) \<and>
     (\<forall>w t coins. P w \<longrightarrow> P (snd (SendCoinsFromAccountToModule env w t FeeCollectorName coins)))"

lemma keeps_world_execute:
  assumes "keeps_world env P" "P w"
  shows "P (snd (SendCoinsFromAccountToModule env (ex_world (Execute env w g t t body [])) t FeeCollectorName coins))"
  using assms by (simp add: keeps_world_def)

lemma keeps_world_True: "keeps_world env (\<lambda>_. True)"
  by (simp add: keeps_world_def)

text \<open>What turns for other calls leave of the entry \<open>key\<close>, of the events and of \<open>P\<close>.\<close>

definition leaves_entry ::
  "'s kv_ops \<Rightarrow> ('w \<Rightarrow> bool) \<Rightarrow> byte list \<Rightarrow> ('s, 'w) chain \<Rightarrow> ('s, 'w) chain \<Rightarrow> bool" where
  "leaves_entry K P key c c' \<longleftrightarrow> c_height c' = c_height c \<and> prefix (c_events c) (c_events c') \<and>
     kv_Get K key (c_store c') = kv_Get K key (c_store c) \<and> (P (c_world c) \<longrightarrow> P (c_world c'))"

lemma enc_call_inject:
  assumes "enc_call body = enc_call body'" "length (enc_call body) < 2 ^ 63"
  shows "body = body'"
proof -
  have "length (enc_call body') < 2 ^ 63" using assms by simp
  from ScheduledCall_Unmarshal_enc [OF this] ScheduledCall_Unmarshal_enc [OF assms(2)] show ?thesis
    unfolding assms(1) by simp
qed

lemma leaves_entry_order: "reflp (leaves_entry K P key)" "transp (leaves_entry K P key)"
  by (auto simp: leaves_entry_def reflp_def transp_def intro: prefix_order.trans)

lemma emit_or_log_events: "prefix (c_events c) (c_events (emit_or_log env ev (c\<lparr>c_store := s, c_world := w\<rparr>)))"
  by (simp add: emit_or_log_def emit_def split: option.split)

lemma schedule_next_events:
  assumes "schedule_next K env params s t call nb c = Ret (stop, c')"
  shows "prefix (c_events c) (c_events c')"
proof -
  from assms consider "c' = c" | st ev where "c' = emit_or_log env ev (c\<lparr>c_store := st\<rparr>)"
    by (auto simp: schedule_next_def go_simps Let_def split: if_splits)
  then show ?thesis
    using emit_or_log_events [where c = c and w = "c_world c"] by cases auto
qed

lemma run_scheduled_call_events:
  assumes "run_scheduled_call K env params s t call c = Ret (stop, c')"
  shows "prefix (c_events c) (c_events c')"
  using assms
proof (cases rule: run_scheduled_call_cases)
  case (ran w ev nb)
  then show ?thesis
    using schedule_next_events [OF ran] emit_or_log_events [where c = c and env = env and ev = ev and s = "c_store c" and w = w]
    by (simp add: prefix_order.trans)
qed simp_all

lemma executeMsg_world:
  assumes "(executeMsgWithGasLimit env w t body g :: ('e, _) go) = Ret (w', gas, nb, err)"
  shows "w' = ex_world (Execute env w g t t body [])"
  using assms
  by (auto simp: executeMsgWithGasLimit_def Let_def split: exec_out.splits go.splits if_splits)

lemma schedule_next_world:
  "schedule_next K env params s t call nb c = Ret (stop, c') \<Longrightarrow> c_world c' = c_world c"
  by (auto simp: schedule_next_def go_simps Let_def split: if_splits)

lemma run_scheduled_call_world:
  assumes "keeps_world env P" "run_scheduled_call K env params s t call c = Ret (stop, c')" "P (c_world c)"
  shows "P (c_world c')"
  using assms(2,3)
  by (auto simp: run_scheduled_call_def go_simps Let_def split_beta keeps_world_execute [OF assms(1)]
      split: go.splits if_splits dest!: executeMsg_world schedule_next_world)

text \<open>
  A contract that, in every state of the other modules with \<open>P\<close>, confirms the owner of the call,
  holds the minimum balance, and answers the call with the height \<open>nb\<close>.
\<close>

definition willing :: "'w env \<Rightarrow> ('w \<Rightarrow> bool) \<Rightarrow> Params \<Rightarrow> byte list \<Rightarrow> byte list \<Rightarrow> u64 \<Rightarrow> bool" where
  "willing env P params sc body nb \<longleftrightarrow> (\<forall>w. P w \<longrightarrow>
     query_is_owner env w (drop 20 sc) (take 20 sc) = Ret \<lparr>io_IsOwner = True\<rparr> \<and>
     amount (p_MinimumBalance params)
       \<le> amount (GetBalance env w (drop 20 sc) (denom (p_MinimumBalance params))) \<and>
     (\<forall>g. ex_out (Execute env w g (drop 20 sc) (drop 20 sc) body []) = Returned (Uint64ToBigEndian nb) None))"

lemma willing_executes:
  assumes "willing env P params sc body nb" "P w"
  shows "executeMsgWithGasLimit env w (drop 20 sc) body g
    = (Ret (ex_world (Execute env w g (drop 20 sc) (drop 20 sc) body []),
        ex_gas (Execute env w g (drop 20 sc) (drop 20 sc) body []), nb, None) :: ('e, _) go)"
  using assms by (simp add: willing_def executeMsgWithGasLimit_def Let_def)

lemma willing_run:
  assumes will: "willing env P params sc body nb" and P: "keeps_world env P" "P (c_world c)" and ben: "benign env params"
    and emits: "\<forall>ev. EmitTypedEvent env ev = None"
    and run: "run_scheduled_call K env params (take 20 sc) (drop 20 sc) \<lparr>sc_CallBody = body\<rparr> c = Ret (stop, c')"
  obtains ev c1 where "ee_CallBody ev = body" "ee_BlockHeight ev = c_height c"
    "ee_Signer ev = AccAddress_String env (take 20 sc)" "ee_Contract ev = AccAddress_String env (drop 20 sc)"
    "EvExecute ev \<in> set (c_events c1)" "c_height c1 = c_height c" "P (c_world c1)"
    "schedule_next K env params (take 20 sc) (drop 20 sc) \<lparr>sc_CallBody = body\<rparr> nb c1 = Ret (stop, c')"
proof -
  let ?t = "drop 20 sc" and ?min = "p_MinimumBalance params"
  let ?b = "GetBalance env (c_world c) ?t (denom ?min)"
  have b: "denom ?b = denom ?min" "0 \<le> amount ?b" "amount ?b < 2 ^ 64"
    using ben by (auto simp: benign_def)
  have ge: "amount ?min \<le> amount ?b" and owner: "query_is_owner env (c_world c) ?t (take 20 sc) = Ret \<lparr>io_IsOwner = True\<rparr>"
    using will P(2) by (auto simp: willing_def)
  have lt: "coin_IsLT ?b ?min = (Ret False :: (gerror, bool) go)"
    using b ge by (simp add: coin_IsLT_def)
  obtain g where g: "int_Uint64 (amount ?b) = (Ret g :: (gerror, u64) go)"
    using b by (auto simp: int_Uint64_def)
  let ?x = "Execute env (c_world c) g ?t ?t body []"
  let ?coin = "\<lparr>denom = denom ?min, amount = int_of_Uint64 (ex_gas ?x)\<rparr>"
  let ?w = "snd (SendCoinsFromAccountToModule env (ex_world ?x) ?t FeeCollectorName [?coin])"
  let ?ev = "\<lparr>ee_BlockHeight = c_height c, ee_Gas = Some ?coin, ee_Signer = AccAddress_String env (take 20 sc),
    ee_Contract = AccAddress_String env ?t, ee_BalanceBefore = Some ?b, ee_CallBody = body\<rparr>"
  let ?c1 = "c\<lparr>c_world := ?w, c_events := c_events c @ [EvExecute ?ev]\<rparr>"
  have "(executeMsgWithGasLimit env (c_world c) ?t body g :: (gerror, _) go)
    = Ret (ex_world ?x, ex_gas ?x, nb, None)" by (rule willing_executes [OF will P(2)])
  then have "schedule_next K env params (take 20 sc) ?t \<lparr>sc_CallBody = body\<rparr> nb ?c1 = Ret (stop, c')"
    using run emits owner lt g
    by (simp add: run_scheduled_call_def Let_def split_beta emit_or_log_def emit_def)
  then show thesis by (intro that [of ?ev ?c1]) (simp_all add: keeps_world_execute [OF P])
qed

lemma schedule_next_accepts:
  assumes "amount (p_MinimumBalance params)
      \<le> amount (GetBalance env (c_world c) t (denom (p_MinimumBalance params)))"
    and "denom (GetBalance env (c_world c) t (denom (p_MinimumBalance params))) = denom (p_MinimumBalance params)"
    and "c_height c < nb" "nb \<le> c_height c + p_UpperBound params"
    and "schedule_next K env params s t call nb c = Ret (stop, c')"
  shows "AddScheduledCall K s t (sc_CallBody call) nb (c_store c) = (Ret (c_store c') :: (gerror, _) go)"
  using assms by (auto simp: schedule_next_def coin_IsLT_def go_simps Let_def split: if_splits dest: leD)

context kv_store
begin

lemma other_call_leaves_entry:
  assumes "run_scheduled_call K env params s t call
      (upd_store (removeScheduledCallWithBlockHeight K s t h) c) = Ret (stop, c')"
    and "s @ t \<noteq> sc" "keeps_world env P"
  shows "leaves_entry K P (height_key nb sc) c c'"
  using run_scheduled_call_effect [OF assms(1)] run_scheduled_call_events [OF assms(1)] assms(2)
    run_scheduled_call_world [OF assms(3,1)]
  by (auto simp: leaves_entry_def upd_store_def AddScheduledCall_eq remove_with_height_eq get_set get_delete
      dest!: sym [of "kv_Set K _ _ _"])

lemma due_others_leave_entry:
  assumes rep: "represents K s m" and dec: "decodable m"
    and "key \<in> fst ` set (kv_Iterate K (MakeScheduledCallByBlockHeightPrefixKey h) s)" "key \<noteq> sc"
    and "decode_consume_key h key = (signer, contract)"
    and "run_scheduled_call K env params signer contract call
      (upd_store (removeScheduledCallWithBlockHeight K signer contract h) c0) = Ret (stop, c1)"
    and "keeps_world env P"
  shows "leaves_entry K P (height_key nb sc) c0 c1"
proof -
  from assms(3) obtain body where "m key = Some (h, body)"
    using iterate_at_height [OF rep] by fastforce
  with assms(5) have "signer @ contract = key" using decodable_consume [OF dec] by force
  with assms(4,6,7) show ?thesis using other_call_leaves_entry by blast
qed

lemma willing_call_runs:
  assumes rep: "represents K (c_store c) m" and dec: "decodable m" and entry: "m sc = Some (c_height c, body)"
    and param: "GetParams c = (Ret params :: (gerror, Params) go)"
    and run: "EndBlocker K env c = Ret c'"
    and ben: "benign env params" and emits: "\<forall>ev. EmitTypedEvent env ev = None"
    and will: "willing env P params sc body nb" and P: "keeps_world env P" "P (c_world c)"
  shows "(\<exists>ev. EvExecute ev \<in> set (c_events c') \<and> ee_CallBody ev = body \<and> ee_BlockHeight ev = c_height c \<and>
      ee_Signer ev = AccAddress_String env (take 20 sc) \<and> ee_Contract ev = AccAddress_String env (drop 20 sc)) \<and>
    (c_height c < nb \<and> nb \<le> c_height c + p_UpperBound params \<longrightarrow>
      kv_Get K (height_key nb sc) (c_store c') = Some (enc_call body))"
proof -
  let ?iter = "kv_Iterate K (MakeScheduledCallByBlockHeightPrefixKey (c_height c)) (c_store c)"
  let ?R = "leaves_entry K P (height_key nb sc)"
  from run param have loop: "consume_loop K upd_store (c_height c) (run_scheduled_call K env params) ?iter c = Ret c'"
    by (simp add: EndBlocker_def ConsumeScheduledCallsByHeight_def)
  have due: "(sc, enc_call body) \<in> set ?iter"
    using iterate_at_height [OF rep] entry by blast
  obtain s t call c0 c1 where d: "decode_consume_key (c_height c) sc = (s, t)"
    and call: "must_unmarshal (ScheduledCall_Unmarshal ScheduledCall_zero (enc_call body)) = (Ret call :: (gerror, _) go)"
    and before: "?R c c0" and after: "?R c1 c'"
    and turn: "run_scheduled_call K env params s t call
      (upd_store (removeScheduledCallWithBlockHeight K s t (c_height c)) c0) = Ret (False, c1)"
    by (rule consume_loop_visits [OF loop due iterate_distinct run_goes_on due_others_leave_entry [OF rep dec _ _ _ _ P(1)] leaves_entry_order])
  have st: "s = take 20 sc" "t = drop 20 sc" using d decodable_consume [OF dec entry] by simp_all
  have "length (enc_call body) < 2 ^ 63" using dec entry by (simp add: decodable_def)
  with call have body: "call = \<lparr>sc_CallBody = body\<rparr>" by (simp add: ScheduledCall_Unmarshal_enc)
  obtain ev c2 where ev: "ee_CallBody ev = body" "ee_BlockHeight ev = c_height c0"
    "ee_Signer ev = AccAddress_String env (take 20 sc)" "ee_Contract ev = AccAddress_String env (drop 20 sc)"
    "EvExecute ev \<in> set (c_events c2)" "c_height c2 = c_height c0" "P (c_world c2)"
    and sched: "schedule_next K env params (take 20 sc) (drop 20 sc) \<lparr>sc_CallBody = body\<rparr> nb c2 = Ret (False, c1)"
    by (rule willing_run [OF will P(1) _ ben emits turn [unfolded st body]])
       (use before P(2) in \<open>simp_all add: upd_store_def leaves_entry_def\<close>)
  have height: "c_height c0 = c_height c" using before by (simp add: leaves_entry_def)
  have "EvExecute ev \<in> set (c_events c')"
    using ev(5) schedule_next_events [OF sched] after set_mono_prefix
    unfolding leaves_entry_def by blast
  moreover have "kv_Get K (height_key nb sc) (c_store c') = Some (enc_call body)"
    if "c_height c < nb" "nb \<le> c_height c + p_UpperBound params"
  proof -
    have "AddScheduledCall K (take 20 sc) (drop 20 sc) body nb (c_store c2) = (Ret (c_store c1) :: (gerror, _) go)"
      using schedule_next_accepts [OF _ _ _ _ sched] will ben that ev(6,7) height
      by (auto simp: willing_def benign_def)
    then have "kv_Get K (height_key nb sc) (c_store c1) = Some (enc_call body)"
      by (auto simp: AddScheduledCall_eq get_set dest!: sym [of "kv_Set K _ _ _"])
    then show ?thesis using after by (simp add: leaves_entry_def)
  qed
  ultimately show ?thesis using ev height by auto
qed

lemma due_call_runs:
  assumes r: "reachable K env c" and due: "kv_Get K (height_key (c_height c) sc) (c_store c) = Some (enc_call body)"
    and ben: "\<forall>params. benign env params" and emits: "\<forall>ev. EmitTypedEvent env ev = None"
    and P: "keeps_world env P" "P (c_world c)"
    and will: "\<forall>params. GetParams c = (Ret params :: (gerror, Params) go) \<longrightarrow> willing env P params sc body nb"
  shows "\<exists>c' ev params. EndBlocker K env c = Ret c' \<and> EvExecute ev \<in> set (c_events c') \<and>
    ee_CallBody ev = body \<and> ee_BlockHeight ev = c_height c \<and>
    ee_Signer ev = AccAddress_String env (take 20 sc) \<and> ee_Contract ev = AccAddress_String env (drop 20 sc) \<and>
    GetParams c = (Ret params :: (gerror, Params) go) \<and>
    (c_height c < nb \<and> nb \<le> c_height c + p_UpperBound params \<longrightarrow>
      kv_Get K (height_key nb sc) (c_store c') = Some (enc_call body))"
proof -
  from reachable_inv [OF r] obtain m params where rep: "represents K (c_store c) m"
    and m: "entries_ahead (c_height c) m" and param: "GetParams c = (Ret params :: (gerror, Params) go)"
    by (auto simp: chain_inv_def)
  from due rep obtain body' where entry: "m sc = Some (c_height c, body')" and eq: "enc_call body' = enc_call body"
    by (auto simp: represents_height)
  from entry m have "length (enc_call body') < 2 ^ 63" by (auto simp: entries_ahead_def ordinary_def)
  with eq have body: "body' = body" by (rule enc_call_inject)
  note dec = ordinary_decodable [OF m]
  obtain c' where run: "EndBlocker K env c = Ret c'"
    using EndBlocker_total [OF rep dec param] ben by blast
  from willing_call_runs [OF rep dec entry [unfolded body] param run _ emits _ P] ben will param
  show ?thesis using run by blast
qed

end

section \<open>The property\<close>



end
