(* ===== verification/Recurring.thy ===== *)
theory Recurring
  imports CallRuns
begin

text \<open>
  Endless runs of the chain, and what the scheduler is for: a contract that at every execution
  asks for the same number of blocks more is executed at that interval for ever.
\<close>

section \<open>Heights along a run\<close>

text \<open>
  A counter \<open>H\<close> that a step either leaves alone or increments, and that does not stop: it stays
  at a height for a while, and comes to every later one.
\<close>

lemma counter_moves_on:
  fixes H :: "nat \<Rightarrow> u64"
  assumes step: "\<forall>i. H (Suc i) = H i \<or> H (Suc i) = H i + 1" and moves: "\<forall>i. \<exists>j > i. H j \<noteq> H i"
  obtains i where "a \<le> i" "\<forall>j. a \<le> j \<and> j \<le> i \<longrightarrow> H j = H a" "H (Suc i) = H a + 1"
proof -
  define j where "j = (LEAST j. a < j \<and> H j \<noteq> H a)"
  from moves have j: "a < j" "H j \<noteq> H a"
    unfolding j_def by (metis (mono_tags, lifting) LeastI_ex)+
  have same: "H n = H a" if "a \<le> n" "n < j" for n
    using not_less_Least [of n "\<lambda>j. a < j \<and> H j \<noteq> H a"] that le_neq_implies_less
    unfolding j_def by blast
  from j(1) obtain i where i: "j = Suc i" "a \<le> i" by (cases j) auto
  have "H (Suc i) = H a + 1" using spec [OF step, of i] same [of i] i j(2) by auto
  moreover have "\<forall>j. a \<le> j \<and> j \<le> i \<longrightarrow> H j = H a" using same i(1) less_Suc_eq_le by blast
  ultimately show thesis using that i(2) by blast
qed

lemma counter_comes_to:
  fixes H :: "nat \<Rightarrow> u64"
  assumes step: "\<forall>i. H (Suc i) = H i \<or> H (Suc i) = H i + 1" and moves: "\<forall>i. \<exists>j > i. H j \<noteq> H i"
    and "H a \<le> h"
  shows "\<exists>i \<ge> a. H i = h \<and> H (Suc i) = h + 1 \<and> (\<forall>j. a \<le> j \<and> j < i \<longrightarrow> H (Suc j) = H j \<or> H j \<noteq> h)"
  using assms(3)
proof (induction "unat (h - H a)" arbitrary: a rule: less_induct)
  case less
  obtain i where i: "a \<le> i" and same: "\<forall>j. a \<le> j \<and> j \<le> i \<longrightarrow> H j = H a" and up: "H (Suc i) = H a + 1"
    using counter_moves_on [OF step moves] by blast
  show ?case
  proof (cases "H a = h")
    case True
    with i same up show ?thesis by (intro exI [of _ i]) auto
  next
    case False
    with less.prems have lt: "H a < h" by simp
    then have le: "H (Suc i) \<le> h" using up inc_le by simp
    have "h - H a \<noteq> 0" using False by simp
    then have "unat (h - H a - 1) < unat (h - H a)"
      using unat_gt_0 [of "h - H a"] unat_minus_one [of "h - H a"] by linarith
    then have "unat (h - H (Suc i)) < unat (h - H a)" by (simp add: up diff_diff_eq)
    from less.hyps [OF this le] obtain k where k: "Suc i \<le> k" "H k = h" "H (Suc k) = h + 1"
      "\<forall>j. Suc i \<le> j \<and> j < k \<longrightarrow> H (Suc j) = H j \<or> H j \<noteq> h" by blast
    have "H (Suc j) = H j \<or> H j \<noteq> h" if "a \<le> j" "j < k" for j
    proof (cases "j \<le> i")
      case True
      then have "H j = H a" using same that(1) by blast
      then show ?thesis using \<open>H a \<noteq> h\<close> by simp
    next
      case False
      then have "Suc i \<le> j" by simp
      then show ?thesis using k(4) that(2) by blast
    qed
    moreover have "a \<le> k" using k(1) i by simp
    ultimately show ?thesis using k(2,3) by blast
  qed
qed

section \<open>Endless runs\<close>

text \<open>A run takes step after step from a reachable chain, and its blocks keep ending.\<close>

definition endless :: "'s kv_ops \<Rightarrow> 'w env \<Rightarrow> (nat \<Rightarrow> ('s, 'w) chain) \<Rightarrow> bool" where
  "endless K env cs \<longleftrightarrow> reachable K env (cs 0) \<and> (\<forall>i. chain_step K env (cs i) (cs (Suc i))) \<and>
     (\<forall>i. \<exists>j > i. c_height (cs j) \<noteq> c_height (cs i))"

definition ends_block :: "('s, 'w) chain \<Rightarrow> ('s, 'w) chain \<Rightarrow> bool" where
  "ends_block c c' \<longleftrightarrow> c_height c' \<noteq> c_height c"

text \<open>The step from \<open>c\<close> to \<open>c'\<close> ends a block whose events tell that the call was executed.\<close>

definition executes_call ::
  "'s kv_ops \<Rightarrow> 'w env \<Rightarrow> byte list \<Rightarrow> byte list \<Rightarrow> ('s, 'w) chain \<Rightarrow> ('s, 'w) chain \<Rightarrow> bool" where
  "executes_call K env sc body c c' \<longleftrightarrow> (\<exists>c1 ev. EndBlocker K env c = Ret c1 \<and>
     c' = c1\<lparr>c_height := c_height c + 1, c_events := []\<rparr> \<and> EvExecute ev \<in> set (c_events c1) \<and>
     ee_CallBody ev = body \<and> ee_BlockHeight ev = c_height c \<and>
     ee_Signer ev = AccAddress_String env (take 20 sc) \<and> ee_Contract ev = AccAddress_String env (drop 20 sc))"

context kv_store
begin

lemma chain_step_height:
  assumes "chain_step K env c c'"
  shows "c_height c' = c_height c \<or>
    (\<exists>c1. EndBlocker K env c = Ret c1 \<and> c' = c1\<lparr>c_height := c_height c + 1, c_events := []\<rparr>)"
  using assms
proof (cases rule: chain_stepE)
  case (tx_add msg r signer contract)
  then show ?thesis by (auto elim: AddSchedule_cases)
next
  case (tx_remove msg r)
  then show ?thesis by (auto elim: RemoveSchedule_cases)
next
  case (block_end c1)
  then show ?thesis using EndBlocker_keeps [OF block_end(2)] by auto
qed (auto simp: SetParams_Ret)

lemma chain_step_counts: "chain_step K env c c' \<Longrightarrow> c_height c' = c_height c \<or> c_height c' = c_height c + 1"
  using chain_step_height [of env c c'] by auto

lemma endless_reachable: "endless K env cs \<Longrightarrow> reachable K env (cs i)"
  by (induction i) (auto simp: endless_def intro: reachable.step)

lemma endless_undisturbed:
  assumes "endless K env cs" "\<forall>i. \<not> cancels K env sc (cs i) (cs (Suc i))"
    and "\<forall>j. a \<le> j \<and> j < a + n \<longrightarrow> c_height (cs (Suc j)) = c_height (cs j) \<or> c_height (cs j) \<noteq> h"
  shows "undisturbed K env sc h (cs a) (cs (a + n))"
  using assms(3)
proof (induction n)
  case 0
  then show ?case by (simp add: undisturbed.start)
next
  case (Suc n)
  then have "undisturbed K env sc h (cs a) (cs (a + n))" by simp
  moreover have "chain_step K env (cs (a + n)) (cs (Suc (a + n)))"
    using assms(1) by (simp add: endless_def)
  ultimately show ?case
    using undisturbed.step [of K env sc h "cs a" "cs (a + n)" "cs (Suc (a + n))"] assms(2) Suc.prems by simp
qed

text \<open>A call of an endless run is still there at the end of its block, which comes.\<close>

lemma call_comes_due:
  assumes run: "endless K env cs" and kept: "\<forall>i. \<not> cancels K env sc (cs i) (cs (Suc i))"
    and entry: "kv_Get K (height_key h sc) (c_store (cs a)) = Some (enc_call body)"
  obtains i where "a \<le> i" "c_height (cs i) = h" "ends_block (cs i) (cs (Suc i))"
    "kv_Get K (height_key h sc) (c_store (cs i)) = Some (enc_call body)"
proof -
  from reachable_inv [OF endless_reachable [OF run, of a]] obtain m where
    "represents K (c_store (cs a)) m" "entries_ahead (c_height (cs a)) m" by (auto simp: chain_inv_def)
  with entry have "c_height (cs a) \<le> h" by (auto simp: represents_height entries_ahead_def)
  moreover have "\<forall>i. c_height (cs (Suc i)) = c_height (cs i) \<or> c_height (cs (Suc i)) = c_height (cs i) + 1"
    using run chain_step_counts unfolding endless_def by blast
  moreover have "\<forall>i. \<exists>j > i. c_height (cs j) \<noteq> c_height (cs i)" using run by (simp add: endless_def)
  ultimately obtain i where i: "a \<le> i" "c_height (cs i) = h" "c_height (cs (Suc i)) = h + 1"
    "\<forall>j. a \<le> j \<and> j < i \<longrightarrow> c_height (cs (Suc j)) = c_height (cs j) \<or> c_height (cs j) \<noteq> h"
    using counter_comes_to [of "\<lambda>i. c_height (cs i)" a h] by blast
  have "undisturbed K env sc h (cs a) (cs i)"
    using endless_undisturbed [OF run kept, of a "i - a" h] i(1,4) by simp
  from undisturbed_keeps_call [OF this endless_reachable [OF run] entry] obtain m body' where
    "represents K (c_store (cs i)) m" "m sc = Some (h, body')" "enc_call body' = enc_call body" by blast
  then have "kv_Get K (height_key h sc) (c_store (cs i)) = Some (enc_call body)" by (simp add: represents_height)
  with i that show thesis by (simp add: ends_block_def)
qed

text \<open>It is executed there, and is entered again if the contract asks for a height in the window.\<close>

lemma call_runs_in_turn:
  assumes run: "endless K env cs" and kept: "\<forall>i. \<not> cancels K env sc (cs i) (cs (Suc i))"
    and entry: "kv_Get K (height_key x sc) (c_store (cs a)) = Some (enc_call body)"
    and ben: "\<forall>params. benign env params" and emits: "\<forall>ev. EmitTypedEvent env ev = None"
    and P: "keeps_world env P" "\<forall>i. ends_block (cs i) (cs (Suc i)) \<and> c_height (cs i) = x \<longrightarrow> P (c_world (cs i))"
    and will: "\<forall>i params. GetParams (cs i) = (Ret params :: (gerror, Params) go) \<longrightarrow>
      x < nb \<and> nb \<le> x + p_UpperBound params \<and> willing env P params sc body nb"
  shows "\<exists>i. c_height (cs i) = x \<and> executes_call K env sc body (cs i) (cs (Suc i)) \<and>
    kv_Get K (height_key nb sc) (c_store (cs (Suc i))) = Some (enc_call body)"
proof -
  obtain i where i: "c_height (cs i) = x" "ends_block (cs i) (cs (Suc i))"
    "kv_Get K (height_key x sc) (c_store (cs i)) = Some (enc_call body)"
    using call_comes_due [OF run kept entry] by blast
  then obtain c1 where c1: "EndBlocker K env (cs i) = Ret c1" "cs (Suc i) = c1\<lparr>c_height := x + 1, c_events := []\<rparr>"
    using chain_step_height [of env "cs i" "cs (Suc i)"] run by (auto simp: endless_def ends_block_def)
  have "P (c_world (cs i))" using P(2) i by blast
  from due_call_runs [OF endless_reachable [OF run] i(3) [folded i(1)] ben emits P(1) this, of nb] will
  obtain c' ev params where "EndBlocker K env (cs i) = Ret c'" "EvExecute ev \<in> set (c_events c')"
    "ee_CallBody ev = body" "ee_BlockHeight ev = c_height (cs i)"
    "ee_Signer ev = AccAddress_String env (take 20 sc)" "ee_Contract ev = AccAddress_String env (drop 20 sc)"
    "GetParams (cs i) = (Ret params :: (gerror, Params) go)"
    and again: "c_height (cs i) < nb \<and> nb \<le> c_height (cs i) + p_UpperBound params \<longrightarrow>
      kv_Get K (height_key nb sc) (c_store c') = Some (enc_call body)"
    by blast
  moreover have "kv_Get K (height_key nb sc) (c_store c') = Some (enc_call body)"
    using again will calculation(7) i(1) by simp
  ultimately show ?thesis using c1 i(1) by (intro exI [of _ i]) (auto simp: executes_call_def)
qed

end

section \<open>The property\<close>

lemma interval_unat:
  fixes h k :: u64
  assumes "unat h + n * unat k < 2 ^ 64"
  shows "unat (h + of_nat n * k) = unat h + n * unat k"
proof -
  have "h + of_nat n * k = of_nat (unat h + n * unat k)" by simp
  then show ?thesis using assms by (simp only: unat_of_nat take_bit_eq_mod) simp
qed

lemma interval_window:
  fixes x k ub :: u64
  assumes "0 < k" "k \<le> ub" "unat x + unat ub < 2 ^ 64"
  shows "x < x + k \<and> x + k \<le> x + ub"
proof -
  have "unat (x + ub) = unat x + unat ub" "unat (x + k) = unat x + unat k"
    using interval_unat [of x 1 ub] interval_unat [of x 1 k] assms by (simp_all add: word_le_nat_alt)
  then show ?thesis using assms(1,2) by (simp add: word_less_nat_alt word_le_nat_alt)
qed


section \<open>A sample run\<close>

text \<open>
  The other modules are a clock, which someone sets to the height after every block; every
  contract asks for \<open>k\<close> blocks after the time of the clock.
\<close>

definition clock_env :: "u64 \<Rightarrow> u64 env" where
  "clock_env k = \<lparr>
     AccAddressFromBech32 = (\<lambda>s. if s = [] then Inl ''empty address string is not allowed'' else Inr (string_bytes s)),
     AccAddress_String = bytes_string,
     ValidateDenom = (\<lambda>d. if d = [] then Some (TextError ''invalid denom'') else None),
     QuerySmart = (\<lambda>w contract req. Ret (owner_answer True)),
     GetBalance = (\<lambda>w contract d. \<lparr>denom = d, amount = 500\<rparr>),
     SendCoinsFromAccountToModule = (\<lambda>w sender recipient amt. (None, w)),
     Execute = (\<lambda>w gasLimit contract caller msg coins.
       \<lparr>ex_world = w, ex_gas = 5, ex_out = Returned (Uint64ToBigEndian (w + k)) None\<rparr>),
     EmitTypedEvent = (\<lambda>ev. None)\<rparr>"

definition clock_start :: "u64 \<Rightarrow> (kvlist, u64) chain" where
  "clock_start k =
     (case AddSchedule kvl (clock_env k) (sample_add_msg 11) (chain_in 10 kvl_empty 10) of Ret (r, c) \<Rightarrow> c)"

primrec clock_run :: "u64 \<Rightarrow> nat \<Rightarrow> (kvlist, u64) chain" where
  "clock_run k 0 = clock_start k"
| "clock_run k (Suc i) =
     (let c = clock_run k i
      in if even i
         then (case EndBlocker kvl (clock_env k) c of Ret c' \<Rightarrow> c'\<lparr>c_height := c_height c' + 1, c_events := []\<rparr>)
         else c\<lparr>c_world := c_height c\<rparr>)"

lemma clock_env_like: "sample_like (clock_env k)"
  by (simp add: sample_like_def query_is_owner_def owner_answer_decoded) (simp add: clock_env_def owner_answer_decoded)

lemma clock_benign: "benign (clock_env k) params"
  by (simp add: benign_def) (simp add: clock_env_def)

lemma clock_keeps: "keeps_world (clock_env k) P"
  by (simp add: keeps_world_def clock_env_def)

lemma clock_willing: "willing (clock_env k) (\<lambda>w. w = x) sample_params sample_key [7] (x + k)"
  using clock_env_like [of k] unfolding willing_def sample_like_def
  by (simp add: sample_params_def) (simp add: clock_env_def)

lemma clock_start:
  "reachable kvl (clock_env k) (clock_start k) \<and> c_height (clock_start k) = 10 \<and> c_world (clock_start k) = 10 \<and>
    c_params (clock_start k) = c_params (sample_chain kvl_empty 10) \<and>
    kv_Get kvl (height_key 11 sample_key) (c_store (clock_start k)) = Some (enc_call [7])"
  using add_reachable_in [OF clock_env_like, of 11 k 10] by (auto simp: clock_start_def)

lemma clock_block:
  assumes "reachable kvl (clock_env k) c"
  obtains c' where "EndBlocker kvl (clock_env k) c = Ret c'" "c_height c' = c_height c" "c_params c' = c_params c"
proof -
  obtain c' where run: "EndBlocker kvl (clock_env k) c = Ret c'"
    using kvl.reachable_inv [OF assms] clock_benign kvl.EndBlocker_total ordinary_decodable
    unfolding chain_inv_def by metis
  with kvl.EndBlocker_keeps [OF run] that show thesis by blast
qed

lemma clock_run_step:
  assumes "reachable kvl (clock_env k) (clock_run k i)"
  shows "chain_step kvl (clock_env k) (clock_run k i) (clock_run k (Suc i)) \<and>
    c_height (clock_run k (Suc i)) = c_height (clock_run k i) + (if even i then 1 else 0) \<and>
    c_params (clock_run k (Suc i)) = c_params (clock_run k i)"
proof (cases "even i")
  case True
  obtain c' where "EndBlocker kvl (clock_env k) (clock_run k i) = Ret c'"
    "c_height c' = c_height (clock_run k i)" "c_params c' = c_params (clock_run k i)"
    using clock_block [OF assms] by blast
  with True show ?thesis using chain_step.block_end [of kvl "clock_env k" "clock_run k i" c'] by simp
qed (simp add: Let_def chain_step.others)

lemma clock_run_reachable: "reachable kvl (clock_env k) (clock_run k i)"
proof (induction i)
  case 0
  then show ?case by (simp add: clock_start)
next
  case (Suc i)
  then show ?case using clock_run_step [OF Suc] by (blast intro: reachable.step)
qed

lemmas clock_run_steps = clock_run_step [OF clock_run_reachable]

lemma clock_run_params: "GetParams (clock_run k i) = Ret sample_params"
proof -
  have "c_params (clock_run k i) = c_params (sample_chain kvl_empty 10)"
    by (induction i) (simp_all add: clock_start clock_run_steps del: clock_run.simps(2))
  then show ?thesis using sample_chain_simps(3) by (simp add: GetParams_def)
qed

lemma clock_run_endless: "endless kvl (clock_env k) (clock_run k)"
proof -
  have "\<exists>j > i. c_height (clock_run k j) \<noteq> c_height (clock_run k i)" for i
  proof (cases "even i")
    case True
    then show ?thesis by (intro exI [of _ "Suc i"]) (simp add: clock_run_steps del: clock_run.simps(2))
  next
    case False
    then show ?thesis by (intro exI [of _ "Suc (Suc i)"]) (simp add: clock_run_steps del: clock_run.simps(2))
  qed
  then show ?thesis using clock_run_reachable clock_run_steps unfolding endless_def by blast
qed

lemma clock_run_time: "even i \<Longrightarrow> c_world (clock_run k i) = c_height (clock_run k i)"
  by (cases i) (simp_all add: clock_start Let_def)

lemma RemoveSchedule_events:
  "RemoveSchedule K env msg c = Ret (r, c') \<Longrightarrow> \<exists>ev. c_events c' = c_events c @ [ev]"
  by (auto simp: RemoveSchedule_def Let_def go_simps emit_Ret split: sum.splits if_splits)

lemma clock_run_kept: "\<not> cancels kvl (clock_env k) sc (clock_run k i) (clock_run k (Suc i))"
proof (cases "even i")
  case True
  then show ?thesis
    using clock_run_steps [of k i] by (auto simp: cancels_def simp del: clock_run.simps(2) elim!: RemoveSchedule_cases)
next
  case False
  then have "c_events (clock_run k (Suc i)) = c_events (clock_run k i)" by (simp add: Let_def)
  then show ?thesis by (auto simp: cancels_def simp del: clock_run.simps(2) dest!: RemoveSchedule_events)
qed


end
