(* ===== verification/LiveIterator.thy ===== *)
theory LiveIterator
  imports BlockSpec Samples
begin

text \<open>
  The iterator of \<open>ConsumeScheduledCallsByHeight\<close> once more. The SDK asks that a store is not
  written to while it is iterated over, which this loop does: it deletes the entry it is at and
  its callback adds others. Keeper.thy takes the iterator to be a snapshot; here it is live, so
  each \<^verbatim>\<open>iter.Next()\<close> looks for the next key in the store as it is then. Such a loop need not end,
  hence \<^theory_text>\<open>partial_function (option)\<close>: \<open>None\<close> is a loop that does not return.
\<close>

section \<open>The loop over a live iterator\<close>

text \<open>The first entry under the prefix after the key the iterator is at.\<close>

definition live_next ::
  "'s kv_ops \<Rightarrow> byte list \<Rightarrow> byte list option \<Rightarrow> 's \<Rightarrow> (byte list \<times> byte list) option" where
  "live_next K p pos store =
     find (\<lambda>(k, v). case pos of None \<Rightarrow> True | Some at \<Rightarrow> at < k) (kv_Iterate K p store)"

partial_function (option) live_loop ::
  "'s kv_ops \<Rightarrow> ('c \<Rightarrow> 's) \<Rightarrow> (('s \<Rightarrow> 's) \<Rightarrow> 'c \<Rightarrow> 'c) \<Rightarrow> u64
    \<Rightarrow> (addr \<Rightarrow> addr \<Rightarrow> ScheduledCall \<Rightarrow> 'c \<Rightarrow> ('e, bool \<times> 'c) go)
    \<Rightarrow> byte list option \<Rightarrow> 'c \<Rightarrow> ('e, 'c) go option" where
  "live_loop K get upd blockHeight cb pos c =
     (case live_next K (MakeScheduledCallByBlockHeightPrefixKey blockHeight) pos (get c) of
        None \<Rightarrow> Some (Ret c)
      | Some (key, bz) \<Rightarrow>
          (case decode_consume_key blockHeight key of (signer, contract) \<Rightarrow>
          (case must_unmarshal (ScheduledCall_Unmarshal ScheduledCall_zero bz) of
             Err e \<Rightarrow> Some (Err e)
           | Panic p \<Rightarrow> Some (Panic p)
           | Ret call \<Rightarrow>
               (case cb signer contract call
                   (upd (removeScheduledCallWithBlockHeight K signer contract blockHeight) c) of
                  Err e \<Rightarrow> Some (Err e)
                | Panic p \<Rightarrow> Some (Panic p)
                | Ret (stop, c') \<Rightarrow>
                    if stop then Some (Ret c')
                    else live_loop K get upd blockHeight cb (Some key) c'))))"

definition ConsumeScheduledCallsByHeight_live ::
  "'s kv_ops \<Rightarrow> ('c \<Rightarrow> 's) \<Rightarrow> (('s \<Rightarrow> 's) \<Rightarrow> 'c \<Rightarrow> 'c) \<Rightarrow> u64
    \<Rightarrow> (addr \<Rightarrow> addr \<Rightarrow> ScheduledCall \<Rightarrow> 'c \<Rightarrow> ('e, bool \<times> 'c) go) \<Rightarrow> 'c \<Rightarrow> ('e, 'c) go option" where
  "ConsumeScheduledCallsByHeight_live K get upd blockHeight cb c =
     live_loop K get upd blockHeight cb None c"

definition EndBlocker_live ::
  "'s kv_ops \<Rightarrow> 'w env \<Rightarrow> ('s, 'w) chain \<Rightarrow> (gerror, ('s, 'w) chain) go option" where
  "EndBlocker_live K env c =
     (case GetParams c of
        Ret params \<Rightarrow>
          ConsumeScheduledCallsByHeight_live K c_store upd_store (c_height c)
            (run_scheduled_call K env params) c
      | Err e \<Rightarrow> Some (Err e)
      | Panic p \<Rightarrow> Some (Panic p))"

section \<open>Live and snapshot iterators agree\<close>

text \<open>The entries a cursor still has before it.\<close>

definition beyond ::
  "byte list option \<Rightarrow> (byte list \<times> byte list) list \<Rightarrow> (byte list \<times> byte list) list" where
  "beyond pos xs = filter (\<lambda>(k, v). case pos of None \<Rightarrow> True | Some at \<Rightarrow> at < k) xs"

lemma beyond_None [simp]: "beyond None xs = xs"
  by (simp add: beyond_def)

lemma find_filter: "find P xs = (case filter P xs of [] \<Rightarrow> None | x # _ \<Rightarrow> Some x)"
  by (induction xs) simp_all

lemma live_next_beyond:
  "live_next K p pos s = (case beyond pos (kv_Iterate K p s) of [] \<Rightarrow> None | x # _ \<Rightarrow> Some x)"
  by (simp add: live_next_def beyond_def find_filter)

lemma sorted_beyond: "sorted_wrt (<) (map fst xs) \<Longrightarrow> sorted_wrt (<) (map fst (beyond pos xs))"
  by (simp add: beyond_def sorted_wrt_map sorted_wrt_filter)

lemma alist_sorted_eqI:
  fixes xs ys :: "(byte list \<times> byte list) list"
  assumes "sorted_wrt (<) (map fst xs)" "sorted_wrt (<) (map fst ys)" "set xs = set ys"
  shows "xs = ys"
proof (rule alist_eqI)
  show "map fst xs = map fst ys"
    using assms by (metis list.set_map strict_sorted_equal)
  show "distinct (map fst xs)"
    using assms(1) unfolding strict_sorted_iff by simp
qed (fact assms(3))

lemma beyond_step:
  assumes "sorted_wrt (<) (map fst xs)" "sorted_wrt (<) (map fst ys)"
    and "beyond pos xs = (key, bz) # rest"
    and "set ys = {(k, v) \<in> set xs. k \<noteq> key}"
  shows "beyond (Some key) ys = rest"
proof (rule alist_sorted_eqI)
  have sorted: "sorted_wrt (<) (map fst ((key, bz) # rest))"
    using sorted_beyond [OF assms(1), of pos] assms(3) by simp
  then show "sorted_wrt (<) (map fst rest)" by simp
  show "sorted_wrt (<) (map fst (beyond (Some key) ys))"
    by (rule sorted_beyond [OF assms(2)])
  have all: "set ((key, bz) # rest) = {(k, v) \<in> set xs. case pos of None \<Rightarrow> True | Some at \<Rightarrow> at < k}"
    unfolding assms(3) [symmetric] by (auto simp: beyond_def)
  have above: "(k, v) \<in> set rest \<Longrightarrow> key < k" for k v
    using sorted by force
  have "case pos of None \<Rightarrow> True | Some at \<Rightarrow> at < key"
    using all by auto
  then have "(k, v) \<in> set rest \<longleftrightarrow> (k, v) \<in> set xs \<and> key < k" for k v
    using all above [of k v] by (cases pos) (fastforce intro: less_trans)+
  then show "set (beyond (Some key) ys) = set rest"
    by (auto simp: beyond_def assms(4))
qed

text \<open>
  One turn: the entry it is at is deleted, and what the callback does to the store is outside
  the prefix, so the entries beyond the cursor are those the snapshot still holds. \<open>J\<close> is what
  the callback needs of its state to stay outside.
\<close>

context kv_store
begin

lemma removed_under_prefix:
  assumes "signer @ contract = key"
  shows "kv_Get K (MakeScheduledCallByBlockHeightPrefixKey h @ k)
      (removeScheduledCallWithBlockHeight K signer contract h s)
    = (if k = key then None else kv_Get K (MakeScheduledCallByBlockHeightPrefixKey h @ k) s)"
  using assms by (auto simp: remove_with_height_eq get_delete simp flip: height_key_def)

lemma live_loop_snapshot:
  assumes upd: "\<And>f c. get (upd f c) = f (get c)" "\<And>f c. J c \<Longrightarrow> J (upd f c)"
    and keep: "\<And>signer contract call c stop c' k. J c \<Longrightarrow> cb signer contract call c = Ret (stop, c') \<Longrightarrow>
      J c' \<and> kv_Get K (MakeScheduledCallByBlockHeightPrefixKey h @ k) (get c')
        = kv_Get K (MakeScheduledCallByBlockHeightPrefixKey h @ k) (get c)"
    and "J c" "beyond pos (kv_Iterate K (MakeScheduledCallByBlockHeightPrefixKey h) (get c)) = iter"
    and "\<forall>(key, bz) \<in> set iter. \<forall>signer contract.
      decode_consume_key h key = (signer, contract) \<longrightarrow> signer @ contract = key"
  shows "live_loop K get upd h cb pos c = Some (consume_loop K upd h cb iter c)"
  using assms(4-)
proof (induction iter arbitrary: pos c)
  case Nil
  then show ?case by (subst live_loop.simps) (simp add: live_next_beyond)
next
  case (Cons e rest)
  let ?p = "MakeScheduledCallByBlockHeightPrefixKey h"
  obtain key bz where e: "e = (key, bz)" by (cases e)
  obtain signer contract where d: "decode_consume_key h key = (signer, contract)"
    by (cases "decode_consume_key h key")
  let ?c = "upd (removeScheduledCallWithBlockHeight K signer contract h) c"
  from Cons.prems(3) e d have key: "signer @ contract = key" by simp
  have next_entry: "live_next K ?p pos (get c) = Some (key, bz)"
    using Cons.prems(2) e by (simp add: live_next_beyond)
  have after: "live_loop K get upd h cb (Some key) c' = Some (consume_loop K upd h cb rest c')"
    if "cb signer contract call ?c = Ret (stop, c')" for call stop c'
  proof (rule Cons.IH)
    from keep [OF upd(2) [OF Cons.prems(1)] that] have J: "J c'"
      and store: "\<And>k. kv_Get K (?p @ k) (get c') = (if k = key then None else kv_Get K (?p @ k) (get c))"
      by (simp_all add: upd(1) removed_under_prefix [OF key])
    show "J c'" by (fact J)
    show "beyond (Some key) (kv_Iterate K ?p (get c')) = rest"
      using Cons.prems(2) e
      by (intro beyond_step [OF iterate_ascending iterate_ascending])
         (auto simp: iterate_entries store split: if_splits)
    show "\<forall>(key, bz) \<in> set rest. \<forall>signer contract.
        decode_consume_key h key = (signer, contract) \<longrightarrow> signer @ contract = key"
      using Cons.prems(3) by simp
  qed
  show ?case
    by (subst live_loop.simps)
       (use e d next_entry after in \<open>auto simp: split: go.split\<close>)
qed

text \<open>At the end of a block the callback only adds calls at later heights.\<close>

lemma run_scheduled_call_outside:
  assumes "run_scheduled_call K env params signer contract call c = Ret (stop, c')"
  shows "c_height c' = c_height c \<and>
    kv_Get K (MakeScheduledCallByBlockHeightPrefixKey (c_height c) @ k) (c_store c')
      = kv_Get K (MakeScheduledCallByBlockHeightPrefixKey (c_height c) @ k) (c_store c)"
proof -
  have "height_key nb sc \<noteq> height_key h k" if "h < nb" for nb h :: u64 and sc
    using that by auto
  with run_scheduled_call_effect [OF assms] show ?thesis
    by (auto simp: AddScheduledCall_eq get_set simp flip: height_key_def dest!: sym [of "kv_Set K _ _ _"])
qed

lemma EndBlocker_live_eq:
  assumes "represents K (c_store c) m" "decodable m"
  shows "EndBlocker_live K env c = Some (EndBlocker K env c)"
proof (cases "GetParams c :: (gerror, Params) go")
  case (Ret params)
  let ?p = "MakeScheduledCallByBlockHeightPrefixKey (c_height c)"
  have "live_loop K c_store upd_store (c_height c) (run_scheduled_call K env params) None c
    = Some (consume_loop K upd_store (c_height c) (run_scheduled_call K env params)
        (kv_Iterate K ?p (c_store c)) c)"
  proof (rule live_loop_snapshot [where J = "\<lambda>c'. c_height c' = c_height c"])
    show "\<forall>(key, bz) \<in> set (kv_Iterate K ?p (c_store c)). \<forall>signer contract.
        decode_consume_key (c_height c) key = (signer, contract) \<longrightarrow> signer @ contract = key"
      using iterate_at_height [OF assms(1)] decodable_consume [OF assms(2)] by fastforce
  next
    fix signer contract call ca stop c' k
    assume "c_height ca = c_height c"
      and "run_scheduled_call K env params signer contract call ca = Ret (stop, c')"
    then show "c_height c' = c_height c \<and> kv_Get K (?p @ k) (c_store c') = kv_Get K (?p @ k) (c_store ca)"
      using run_scheduled_call_outside by metis
  qed simp_all
  with Ret show ?thesis
    by (simp add: EndBlocker_live_def EndBlocker_def ConsumeScheduledCallsByHeight_live_def
        ConsumeScheduledCallsByHeight_def)
qed (simp_all add: EndBlocker_live_def EndBlocker_def)

end

section \<open>The property\<close>

text \<open>C6: The end of a block does not depend on what its iterator does while the store is written
  to: over a store that represents a schedule, the loop over a live iterator terminates, in any
  environment, and with the very outcome of the loop over a snapshot.\<close>
theorem live_iterator_terminates:
  assumes "kv_store K" "represents K (c_store c) m" "decodable m"
  shows "EndBlocker_live K env c = Some (EndBlocker K env c)"
  using kv_store.EndBlocker_live_eq [OF assms] .

theorem live_iterator_terminates_witness:
  "\<exists>c'. EndBlocker_live kvl (sample_env 20) (sample_chain one_call_store 12) = Some (Ret c') \<and>
    kv_Get kvl (height_key 20 sample_key) (c_store c') = Some (enc_call [1, 2, 3])"
proof -
  have "EndBlocker_live kvl (sample_env 20) (sample_chain one_call_store 12)
      = Some (EndBlocker kvl (sample_env 20) (sample_chain one_call_store 12))"
    by (rule live_iterator_terminates [OF kvl.kv_store_axioms, where m = one_call])
       (simp_all add: represents_one decodable_one)
  moreover have "executeMsgWithGasLimit (sample_env 20) () sample_contract [1, 2, 3] 500
      = (Ret ((), 5, 20, None) :: (gerror, _) go)"
    by (simp add: executeMsgWithGasLimit_def sample_env_def)
  moreover have "SendCoinsFromAccountToModule (sample_env 20) w contract acc coins = (None, w)"
    for w contract acc coins
    by (simp add: sample_env_def)
  moreover have "decode_consume_key 12 sample_key = (sample_signer, sample_contract)"
    using decodable_consume [OF decodable_one, of sample_key 12] by (simp add: one_call_def sample_key_def sample_signer_def)
  ultimately show ?thesis
    using ScheduledCall_Unmarshal_enc [OF enc_call_small, of "[1, 2, 3]"]
    by (simp add: EndBlocker_def ConsumeScheduledCallsByHeight_def one_call_due run_scheduled_call_def
      coin_IsLT_def int_Uint64_def sample_params_def Let_def schedule_next_def kvl.AddScheduledCall_eq kvl.get_set sample_key_def)
qed

end
