(* ===== verification/Nullify.thy ===== *)
theory Nullify
  imports Types
begin

text \<open>
  The test helpers. \<^verbatim>\<open>testutil/nullify/nullify.go\<close>: \<open>Fill\<close>, with which the tests put values into a form they can
  compare. It works by reflection; \<open>go_value\<close> is what reflection shows of a value.
\<close>

section \<open>Values under reflection\<close>

text \<open>
  A slice is nil or has elements; a struct has the name of its type and its fields, each exported
  or not; a pointer is nil or points to a value; everything else is a scalar to this code.
\<close>

datatype go_value =
    VSlice "go_value list option"
  | VStruct string "(bool \<times> go_value) list"
  | is_VPtr: VPtr "go_value option"
  | VScalar string

definition coinType :: string where
  "coinType = ''types.Coin''"

text \<open>\<^verbatim>\<open>reflect.New(coinType)\<close>: an empty denomination and an \<^verbatim>\<open>Int\<close> that points nowhere.\<close>

definition zero_coin_value :: go_value where
  "zero_coin_value =
     VStruct coinType [(True, VScalar []), (True, VStruct ''types.Int'' [(False, VPtr None)])]"

section \<open>Fill\<close>

text \<open>
  \<open>fill\<close> is \<open>Fill\<close> on the value that \<^verbatim>\<open>reflect.Indirect\<close> gives; its flag says whether \<open>Fill\<close> was given
  a pointer, without which a field of a struct can be set only behind a pointer of its own. On a pointer behind that pointer
  it returns what it points to, and panics on nil. An element of a slice is filled through a
  pointer to it and set to the result, which panics when the element is a pointer: the result
  is not of its type.

  A field that is not exported cannot be set, nor can what a nil pointer does not point to. Of
  the others a slice becomes an empty one, a coin the zero coin, and any other struct is filled
  in turn. The case for the type of \<^verbatim>\<open>Coins\<close> is never reached, since that is a slice.
\<close>

fun fill :: "bool \<Rightarrow> go_value \<Rightarrow> (gerror, go_value) go"
  and fill_elems :: "go_value list \<Rightarrow> (gerror, go_value list) go"
  and fill_fields :: "bool \<Rightarrow> (bool \<times> go_value) list \<Rightarrow> (gerror, (bool \<times> go_value) list) go"
  and fill_field :: "bool \<Rightarrow> go_value \<Rightarrow> (gerror, go_value) go" where
  "fill addressable (VSlice None) = Ret (VSlice None)"
| "fill addressable (VSlice (Some vs)) = go_bind (fill_elems vs) (\<lambda>vs'. Ret (VSlice (Some vs')))"
| "fill addressable (VStruct t fs) =
     go_bind (fill_fields addressable fs) (\<lambda>fs'. Ret (VStruct t fs'))"
| "fill addressable (VPtr None) = Panic NilPointer"
| "fill addressable (VPtr (Some v)) = Ret v"
| "fill addressable (VScalar s) = Ret (VScalar s)"
| "fill_elems [] = Ret []"
| "fill_elems (v # vs) =
     go_bind (fill True v) (\<lambda>v'.
     if is_VPtr v then Panic (ForeignPanic ''reflect.Set: value is not assignable'')
     else go_bind (fill_elems vs) (\<lambda>vs'. Ret (v' # vs')))"
| "fill_fields addressable [] = Ret []"
| "fill_fields addressable ((exported, f) # fs) =
     go_bind (if exported \<and> (addressable \<or> is_VPtr f) then fill_field False f else Ret f) (\<lambda>f'.
     go_bind (fill_fields addressable fs) (\<lambda>fs'. Ret ((exported, f') # fs')))"
| "fill_field indirect (VSlice s) = Ret (VSlice (Some []))"
| "fill_field indirect (VStruct t fs) =
     (if t = coinType then Ret zero_coin_value
      else go_bind (fill_fields True fs) (\<lambda>fs'. Ret (VStruct t fs')))"
| "fill_field indirect (VPtr None) = Ret (VPtr None)"
| "fill_field indirect (VPtr (Some w)) =
     (if indirect then Ret (VPtr (Some w))
      else go_bind (fill_field True w) (\<lambda>w'. Ret (VPtr (Some w'))))"
| "fill_field indirect (VScalar s) = Ret (VScalar s)"

definition Fill :: "go_value \<Rightarrow> (gerror, go_value) go" where
  "Fill x =
     (case x of
        VPtr None \<Rightarrow> Panic NilPointer
      | VPtr (Some v) \<Rightarrow> fill True v
      | v \<Rightarrow> fill False v)"

section \<open>Filling twice\<close>

lemma fill_coin [simp]: "fill_field indirect zero_coin_value = Ret zero_coin_value"
  by (simp add: zero_coin_value_def)

lemma fill_idempotent:
  "\<not> is_VPtr v \<Longrightarrow> fill a v = Ret v' \<Longrightarrow> fill a v' = Ret v' \<and> \<not> is_VPtr v'"
  "fill_elems vs = Ret vs' \<Longrightarrow> fill_elems vs' = Ret vs'"
  "fill_fields b fs = Ret fs' \<Longrightarrow> fill_fields b fs' = Ret fs'"
  "fill_field i w = Ret w' \<Longrightarrow> fill_field i w' = Ret w'"
proof (induction a v and vs and b fs and i w arbitrary: v' and vs' and fs' and w'
    rule: fill_fill_elems_fill_fields_fill_field.induct)
qed (auto simp: go_simps split: if_splits)

theorem Fill_idempotent:
  assumes "Fill (VPtr (Some v)) = Ret v'" "\<not> is_VPtr v"
  shows "Fill (VPtr (Some v')) = Ret v'"
  using fill_idempotent(1) [OF assms(2)] assms(1) by (simp add: Fill_def)

section \<open>What a test that fills its values can see\<close>

text \<open>The genesis state under reflection, with numbers shown by \<open>num\<close>.\<close>

definition reflect_coin :: "(int \<Rightarrow> string) \<Rightarrow> coin \<Rightarrow> go_value" where
  "reflect_coin num c = VStruct coinType
     [(True, VScalar (denom c)),
      (True, VStruct ''types.Int'' [(False, VPtr (Some (VScalar (num (amount c)))))])]"

definition reflect_bytes :: "byte list \<Rightarrow> go_value" where
  "reflect_bytes bs = VSlice (Some (map (\<lambda>b. VScalar [char_of (unat b)]) bs))"

definition reflect_genesis :: "(int \<Rightarrow> string) \<Rightarrow> GenesisState \<Rightarrow> go_value" where
  "reflect_genesis num gs =
     VStruct ''types.GenesisState''
       [(True, VStruct ''types.Params''
           [(True, reflect_coin num (p_MinimumBalance (gs_Params gs))),
            (True, VScalar (num (uint (p_UpperBound (gs_Params gs)))))]),
        (True, VSlice (Some (map (\<lambda>msg. VPtr (Some (VStruct ''types.MsgAddSchedule''
           [(True, VScalar (ma_Signer msg)), (True, VScalar (ma_Contract msg)),
            (True, reflect_bytes (ma_CallBody msg)), (True, VScalar (num (uint (ma_BlockHeight msg))))])))
           (gs_ScheduledCalls gs))))]"

text \<open>Filled, a genesis state shows its upper bound alone: neither the minimum balance nor any of the
  scheduled calls is left, so a test of export and import that compares filled states does not
  see that the calls are lost. Filling again changes nothing.\<close>
theorem filled_genesis_blind:
  "(\<exists>v. Fill (VPtr (Some (reflect_genesis num gs))) = Ret v \<and> Fill (VPtr (Some v)) = Ret v \<and>
     (Fill (VPtr (Some (reflect_genesis num gs'))) = Ret v \<longleftrightarrow>
       num (uint (p_UpperBound (gs_Params gs))) = num (uint (p_UpperBound (gs_Params gs')))))"
  by (auto simp: Fill_def reflect_genesis_def reflect_coin_def zero_coin_value_def coinType_def)

section \<open>Other helpers\<close>

text \<open>
  \<^verbatim>\<open>testutil/sample\<close>: the address of a key, which is drawn at random and an argument here.
  \<^verbatim>\<open>testutil/network\<close>: the configuration of the network that is started.
\<close>

definition sample_AccAddress :: "('pub \<Rightarrow> addr) \<Rightarrow> (addr \<Rightarrow> string) \<Rightarrow> 'pub \<Rightarrow> string" where
  "sample_AccAddress Address String pk = String (Address pk)"

definition network_New :: "'cfg \<Rightarrow> ('cfg \<Rightarrow> ('e, 'net) go) \<Rightarrow> 'cfg list \<Rightarrow> ('e, 'net) go" where
  "network_New DefaultConfig start configs =
     (if length configs > 1 then Panic (ForeignPanic ''at most one config should be provided'')
      else
        let cfg = (if length configs = 0 then DefaultConfig else configs ! 0)
        in start cfg)"

end
