(* ===== verification/Harness.thy ===== *)
theory Harness
  imports GenAccounts Paths
begin

text \<open>
  The network that \<^verbatim>\<open>integration_tests/\<close> starts: its files, keys and validators, from \<^verbatim>\<open>chain.go\<close>,
  \<^verbatim>\<open>validator.go\<close>, \<^verbatim>\<open>genesis.go\<close>, \<^verbatim>\<open>keys.go\<close> and \<^verbatim>\<open>io.go\<close>. The file system, the keyrings and the random
  numbers are one state \<open>'w\<close>; what the operating system, the SDK and Tendermint do to it are the
  fields of \<open>harness_sdk\<close>.
\<close>

section \<open>Calls that change the world\<close>

type_synonym ('w, 'a) io = "'w \<Rightarrow> (gerror, 'a) go \<times> 'w"

definition io_ret :: "'a \<Rightarrow> ('w, 'a) io" where
  "io_ret a w = (Ret a, w)"

definition io_bind :: "('w, 'a) io \<Rightarrow> ('a \<Rightarrow> ('w, 'b) io) \<Rightarrow> ('w, 'b) io" where
  "io_bind f g w =
     (case f w of
        (Ret a, w) \<Rightarrow> g a w
      | (Err e, w) \<Rightarrow> (Err e, w)
      | (Panic p, w) \<Rightarrow> (Panic p, w))"

definition io_lift :: "(gerror, 'a) go \<Rightarrow> ('w, 'a) io" where
  "io_lift r w = (r, w)"

definition io_sum :: "gerror + 'a \<Rightarrow> ('w, 'a) io" where
  "io_sum r w = (case r of Inl e \<Rightarrow> (Err e, w) | Inr a \<Rightarrow> (Ret a, w))"

text \<open>\<^verbatim>\<open>fmt.Errorf("...: %w", err)\<close>.\<close>

definition io_wrap :: "string \<Rightarrow> ('w, 'a) io \<Rightarrow> ('w, 'a) io" where
  "io_wrap t f w = (case f w of (Err e, w) \<Rightarrow> (Err (Wrapped e t), w) | r \<Rightarrow> r)"

lemma io_bind_Ret [go_simps]:
  "io_bind f g w = (Ret b, w') \<longleftrightarrow> (\<exists>a w1. f w = (Ret a, w1) \<and> g a w1 = (Ret b, w'))"
  by (auto simp: io_bind_def split: prod.split go.split)

lemma io_wrap_Ret [go_simps]: "io_wrap t f w = (Ret a, w') \<longleftrightarrow> f w = (Ret a, w')"
  by (auto simp: io_wrap_def split: prod.split go.split)

lemma io_sum_Ret [go_simps]: "io_sum r w = (Ret a, w') \<longleftrightarrow> r = Inr a \<and> w' = w"
  by (auto simp: io_sum_def split: sum.split)

lemma io_ret_Ret [go_simps]: "io_ret a w = (Ret b, w') \<longleftrightarrow> a = b \<and> w' = w"
  by (auto simp: io_ret_def)

lemma io_lift_Ret [go_simps]: "io_lift r w = (Ret b, w') \<longleftrightarrow> r = Ret b \<and> w' = w"
  by (auto simp: io_lift_def)

section \<open>Data\<close>

definition keyringPassphrase :: string where
  "keyringPassphrase = ''testpassphrase''"

definition keyringAppName :: string where
  "keyringAppName = ''testnet''"

record ethereumKey =
  eth_publicKey :: string
  eth_privateKey :: string
  eth_address :: string

text \<open>
  A validator points back to its chain, of which it reads the directory and the identity; those
  are the chain's fields before its validators. Keys are missing until they are made.
\<close>

record chain_ident =
  ch_dataDir :: string
  ch_id :: string

record ('info, 'priv, 'ckey, 'nkey) validator =
  v_chain :: chain_ident
  v_index :: int
  v_moniker :: string
  v_mnemonic :: string
  v_keyInfo :: "'info option"
  v_privateKey :: "'priv option"
  v_consensusKey :: "'ckey option"
  v_nodeKey :: "'nkey option"
  v_ethereumKey :: ethereumKey

record ('info, 'priv, 'ckey, 'nkey) test_chain = chain_ident +
  ch_validators :: "('info, 'priv, 'ckey, 'nkey) validator list"

definition ident_of :: "('info, 'priv, 'ckey, 'nkey) test_chain \<Rightarrow> chain_ident" where
  "ident_of c = \<lparr>ch_dataDir = ch_dataDir c, ch_id = ch_id c\<rparr>"

record ('app, 'r) test_doc =
  td_ChainID :: string
  td_Validators :: "string list"
  td_AppState :: 'app
  td_rest :: 'r

text \<open>
  \<^verbatim>\<open>os.Stat\<close> gives an error, with whether it is that there is no such file, or whether the file is
  a regular one. The names of the files under a root are Tendermint's. A keyring's algorithm
  is looked up among those it supports.
\<close>

datatype keyring_backend = BackendTest | BackendMemory

record ('w, 'h, 'app, 'r, 'kb, 'algo, 'info, 'priv, 'entropy, 'ckey, 'nkey) harness_sdk =
  os_LookupEnv :: "string \<Rightarrow> 'w \<Rightarrow> bool"
  os_Getwd :: "('w, string) io"
  ioutil_TempDir :: "string \<Rightarrow> string \<Rightarrow> ('w, string) io"
  rand_Str :: "nat \<Rightarrow> ('w, string) io"
  os_MkdirAll :: "string \<Rightarrow> ('w, unit) io"
  os_Stat :: "string \<Rightarrow> 'w \<Rightarrow> (bool \<times> gerror) + bool"
  os_Open :: "string \<Rightarrow> ('w, 'h) io"
  os_Create :: "string \<Rightarrow> ('w, 'h) io"
  io_Copy :: "'h \<Rightarrow> 'h \<Rightarrow> ('w, unit) io"
  ioutil_WriteFile :: "string \<Rightarrow> byte list \<Rightarrow> ('w, unit) io"
  cfg_GenesisFile :: "string \<Rightarrow> string"
  cfg_NodeKeyFile :: "string \<Rightarrow> string"
  cfg_PrivValidatorKeyFile :: "string \<Rightarrow> string"
  cfg_PrivValidatorStateFile :: "string \<Rightarrow> string"
  GenesisDocFromFile :: "string \<Rightarrow> 'w \<Rightarrow> gerror + ('app, 'r) test_doc"
  GenesisDoc_zero :: "('app, 'r) test_doc"
  MarshalIndent_DefaultGenesis :: "gerror + 'app"
  genutil_ExportGenesisFile :: "('app, 'r) test_doc \<Rightarrow> string \<Rightarrow> ('w, unit) io"
  tmcfg_WriteConfigFile :: "string \<Rightarrow> string \<Rightarrow> string \<Rightarrow> ('w, unit) io"
  LoadOrGenNodeKey :: "string \<Rightarrow> ('w, 'nkey) io"
  tmos_EnsureDir :: "string \<Rightarrow> ('w, unit) io"
  LoadOrGenFilePV :: "string \<Rightarrow> string \<Rightarrow> ('w, 'ckey) io"
  kr_New :: "string \<Rightarrow> keyring_backend \<Rightarrow> string \<Rightarrow> ('w, 'kb) io"
  kr_SigningAlgo :: "string \<Rightarrow> 'kb \<Rightarrow> gerror + 'algo"
  kr_NewAccount :: "'kb \<Rightarrow> string \<Rightarrow> string \<Rightarrow> string \<Rightarrow> string \<Rightarrow> 'algo \<Rightarrow> ('w, 'info) io"
  kr_ExportPrivKeyArmor :: "'kb \<Rightarrow> string \<Rightarrow> string \<Rightarrow> ('w, string) io"
  UnarmorDecryptPrivKey :: "string \<Rightarrow> string \<Rightarrow> gerror + 'priv"
  bip39_NewEntropy :: "nat \<Rightarrow> ('w, 'entropy) io"
  bip39_NewMnemonic :: "'entropy \<Rightarrow> gerror + string"

definition FullFundraiserPath :: string where
  "FullFundraiserPath = ''m/44'/118'/0'/0/0''"

section \<open>Files\<close>

definition copyFile ::
  "('w, 'h, 'app, 'r, 'kb, 'algo, 'info, 'priv, 'entropy, 'ckey, 'nkey) harness_sdk
    \<Rightarrow> string \<Rightarrow> string \<Rightarrow> ('w, unit) io" where
  "copyFile H src dst w =
     (case os_Stat H src w of
        Inl (_, err) \<Rightarrow> (Err err, w)
      | Inr regular \<Rightarrow>
          if \<not> regular then (Err (TextError (src @ '' is not a regular file'')), w)
          else io_bind (os_Open H src) (\<lambda>source.
               io_bind (os_Create H dst) (\<lambda>destination.
               io_Copy H destination source)) w)"

definition writeFile ::
  "('w, 'h, 'app, 'r, 'kb, 'algo, 'info, 'priv, 'entropy, 'ckey, 'nkey) harness_sdk
    \<Rightarrow> string \<Rightarrow> byte list \<Rightarrow> ('w, unit) io" where
  "writeFile H path body =
     io_bind (os_Create H path) (\<lambda>_. ioutil_WriteFile H path body)"

definition getGenDoc ::
  "('w, 'h, 'app, 'r, 'kb, 'algo, 'info, 'priv, 'entropy, 'ckey, 'nkey) harness_sdk
    \<Rightarrow> string \<Rightarrow> ('w, ('app, 'r) test_doc) io" where
  "getGenDoc H path w =
     (let genFile = cfg_GenesisFile H path in
      case os_Stat H genFile w of
        Inl (notExist, err) \<Rightarrow> if \<not> notExist then (Err err, w) else (Ret (GenesisDoc_zero H), w)
      | Inr _ \<Rightarrow>
          (case GenesisDocFromFile H genFile w of
             Inl err \<Rightarrow> (Err (Wrapped err ''failed to read genesis doc from file''), w)
           | Inr doc \<Rightarrow> (Ret doc, w)))"

section \<open>Keys\<close>

definition createMnemonic ::
  "('w, 'h, 'app, 'r, 'kb, 'algo, 'info, 'priv, 'entropy, 'ckey, 'nkey) harness_sdk
    \<Rightarrow> ('w, string) io" where
  "createMnemonic H =
     io_bind (bip39_NewEntropy H 256) (\<lambda>entropySeed. io_sum (bip39_NewMnemonic H entropySeed))"

definition createMemoryKeyFromMnemonic ::
  "('w, 'h, 'app, 'r, 'kb, 'algo, 'info, 'priv, 'entropy, 'ckey, 'nkey) harness_sdk
    \<Rightarrow> string \<Rightarrow> string \<Rightarrow> string \<Rightarrow> string option \<Rightarrow> ('w, 'info \<times> 'kb) io" where
  "createMemoryKeyFromMnemonic H name mnemonic passphrase hdPath =
     io_bind (kr_New H ''testnet'' BackendMemory []) (\<lambda>kb.
     io_bind (io_sum (kr_SigningAlgo H ''secp256k1'' kb)) (\<lambda>algo.
       let pathString = (case hdPath of None \<Rightarrow> FullFundraiserPath | Some p \<Rightarrow> p) in
     io_bind (kr_NewAccount H kb name mnemonic passphrase pathString algo) (\<lambda>account.
     io_ret (account, kb))))"

section \<open>Validators\<close>

definition chain_configDir :: "chain_ident \<Rightarrow> string" where
  "chain_configDir c = ch_dataDir c @ ''/'' @ ch_id c"

definition instanceName :: "('info, 'priv, 'ckey, 'nkey) validator \<Rightarrow> string" where
  "instanceName v = v_moniker v @ show_int (v_index v)"

definition validator_configDir :: "('info, 'priv, 'ckey, 'nkey) validator \<Rightarrow> string" where
  "validator_configDir v = chain_configDir (v_chain v) @ ''/'' @ instanceName v"

definition createConfig ::
  "('w, 'h, 'app, 'r, 'kb, 'algo, 'info, 'priv, 'entropy, 'ckey, 'nkey) harness_sdk
    \<Rightarrow> ('info, 'priv, 'ckey, 'nkey) validator \<Rightarrow> ('w, unit) io" where
  "createConfig H v = os_MkdirAll H (path_Join [validator_configDir v, ''config''])"

definition validator_init ::
  "('w, 'h, 'app, 'r, 'kb, 'algo, 'info, 'priv, 'entropy, 'ckey, 'nkey) harness_sdk
    \<Rightarrow> ('info, 'priv, 'ckey, 'nkey) validator \<Rightarrow> ('w, unit) io" where
  "validator_init H v =
     io_bind (createConfig H v) (\<lambda>_.
       let rootDir = validator_configDir v; moniker = v_moniker v in
     io_bind (getGenDoc H (validator_configDir v)) (\<lambda>genDoc.
     io_bind (io_wrap ''failed to JSON encode app genesis state''
         (io_sum (MarshalIndent_DefaultGenesis H))) (\<lambda>appState.
       let genDoc = genDoc\<lparr>td_ChainID := ch_id (v_chain v), td_Validators := [], td_AppState := appState\<rparr> in
     io_bind (io_wrap ''failed to export app genesis state''
         (genutil_ExportGenesisFile H genDoc (cfg_GenesisFile H rootDir))) (\<lambda>_.
     tmcfg_WriteConfigFile H (path_Join [rootDir, ''config'', ''config.toml'']) rootDir moniker))))"

text \<open>The methods that set a key do so after the last call that may fail, and return the validator.\<close>

definition createNodeKey ::
  "('w, 'h, 'app, 'r, 'kb, 'algo, 'info, 'priv, 'entropy, 'ckey, 'nkey) harness_sdk
    \<Rightarrow> ('info, 'priv, 'ckey, 'nkey) validator \<Rightarrow> ('w, ('info, 'priv, 'ckey, 'nkey) validator) io" where
  "createNodeKey H v =
     io_bind (LoadOrGenNodeKey H (cfg_NodeKeyFile H (validator_configDir v))) (\<lambda>nodeKey.
     io_ret (v\<lparr>v_nodeKey := Some nodeKey\<rparr>))"

definition createConsensusKey ::
  "('w, 'h, 'app, 'r, 'kb, 'algo, 'info, 'priv, 'entropy, 'ckey, 'nkey) harness_sdk
    \<Rightarrow> ('info, 'priv, 'ckey, 'nkey) validator \<Rightarrow> ('w, ('info, 'priv, 'ckey, 'nkey) validator) io" where
  "createConsensusKey H v =
     (let pvKeyFile = cfg_PrivValidatorKeyFile H (validator_configDir v);
          pvStateFile = cfg_PrivValidatorStateFile H (validator_configDir v) in
     io_bind (tmos_EnsureDir H (path_Dir pvKeyFile)) (\<lambda>_.
     io_bind (tmos_EnsureDir H (path_Dir pvStateFile)) (\<lambda>_.
     io_bind (LoadOrGenFilePV H pvKeyFile pvStateFile) (\<lambda>key.
     io_ret (v\<lparr>v_consensusKey := Some key\<rparr>)))))"

definition createKeyFromMnemonic ::
  "('w, 'h, 'app, 'r, 'kb, 'algo, 'info, 'priv, 'entropy, 'ckey, 'nkey) harness_sdk
    \<Rightarrow> string \<Rightarrow> string \<Rightarrow> string \<Rightarrow> ('info, 'priv, 'ckey, 'nkey) validator
    \<Rightarrow> ('w, ('info, 'priv, 'ckey, 'nkey) validator) io" where
  "createKeyFromMnemonic H name mnemonic passphrase v =
     io_bind (kr_New H keyringAppName BackendTest (validator_configDir v)) (\<lambda>kb.
     io_bind (io_sum (kr_SigningAlgo H ''secp256k1'' kb)) (\<lambda>algo.
     io_bind (kr_NewAccount H kb name mnemonic passphrase FullFundraiserPath algo) (\<lambda>info.
     io_bind (kr_ExportPrivKeyArmor H kb name keyringPassphrase) (\<lambda>privKeyArmor.
     io_bind (io_sum (UnarmorDecryptPrivKey H privKeyArmor keyringPassphrase)) (\<lambda>privKey.
     io_ret (v\<lparr>v_keyInfo := Some info, v_mnemonic := mnemonic, v_privateKey := Some privKey\<rparr>))))))"

definition createKey ::
  "('w, 'h, 'app, 'r, 'kb, 'algo, 'info, 'priv, 'entropy, 'ckey, 'nkey) harness_sdk
    \<Rightarrow> string \<Rightarrow> ('info, 'priv, 'ckey, 'nkey) validator
    \<Rightarrow> ('w, ('info, 'priv, 'ckey, 'nkey) validator) io" where
  "createKey H name v =
     io_bind (createMnemonic H) (\<lambda>mnemonic. createKeyFromMnemonic H name mnemonic [] v)"

definition validator_keyring ::
  "('w, 'h, 'app, 'r, 'kb, 'algo, 'info, 'priv, 'entropy, 'ckey, 'nkey) harness_sdk
    \<Rightarrow> ('info, 'priv, 'ckey, 'nkey) validator \<Rightarrow> ('w, 'kb) io" where
  "validator_keyring H v = kr_New H keyringAppName BackendTest (validator_configDir v)"

section \<open>Chains\<close>

definition newChain ::
  "('w, 'h, 'app, 'r, 'kb, 'algo, 'info, 'priv, 'entropy, 'ckey, 'nkey) harness_sdk
    \<Rightarrow> ('w, ('info, 'priv, 'ckey, 'nkey) test_chain) io" where
  "newChain H w =
     io_bind (if os_LookupEnv H ''CI'' w then os_Getwd H else io_ret []) (\<lambda>dir.
     io_bind (ioutil_TempDir H dir ''burnt-e2e-testnet'') (\<lambda>tmpDir.
     io_bind (rand_Str H 6) (\<lambda>s.
     io_ret \<lparr>ch_dataDir = tmpDir, ch_id = ''chain-'' @ s, ch_validators = []\<rparr>))) w"

definition createValidator ::
  "('info, 'priv, 'ckey, 'nkey) test_chain \<Rightarrow> int \<Rightarrow> ('info, 'priv, 'ckey, 'nkey) validator" where
  "createValidator c index =
     \<lparr>v_chain = ident_of c, v_index = index, v_moniker = ''burnt'', v_mnemonic = [], v_keyInfo = None,
      v_privateKey = None, v_consensusKey = None, v_nodeKey = None,
      v_ethereumKey = \<lparr>eth_publicKey = [], eth_privateKey = [], eth_address = []\<rparr>\<rparr>"

text \<open>
  The loops append a pointer to the node once its genesis exists and make its keys through the
  pointer, so a node whose keys fail stays in the chain with the keys made so far.
\<close>

fun make_keys ::
  "(('info, 'priv, 'ckey, 'nkey) validator \<Rightarrow> ('w, ('info, 'priv, 'ckey, 'nkey) validator) io) list
    \<Rightarrow> ('info, 'priv, 'ckey, 'nkey) validator \<Rightarrow> 'w
    \<Rightarrow> (gerror, unit) go \<times> ('info, 'priv, 'ckey, 'nkey) validator \<times> 'w" where
  "make_keys [] node w = (Ret (), node, w)"
| "make_keys (step # steps) node w =
     (case step node w of
        (Ret node', w') \<Rightarrow> make_keys steps node' w'
      | (Err err, w') \<Rightarrow> (Err err, node, w')
      | (Panic p, w') \<Rightarrow> (Panic p, node, w'))"

fun init_loop ::
  "('w, 'h, 'app, 'r, 'kb, 'algo, 'info, 'priv, 'entropy, 'ckey, 'nkey) harness_sdk
    \<Rightarrow> (int \<times> (('info, 'priv, 'ckey, 'nkey) validator \<Rightarrow> ('w, ('info, 'priv, 'ckey, 'nkey) validator) io)) list
    \<Rightarrow> ('info, 'priv, 'ckey, 'nkey) test_chain \<Rightarrow> 'w
    \<Rightarrow> (gerror, unit) go \<times> ('info, 'priv, 'ckey, 'nkey) test_chain \<times> 'w" where
  "init_loop H [] c w = (Ret (), c, w)"
| "init_loop H ((i, key) # is) c w =
     (let node = createValidator c i in
      case validator_init H node w of
        (Err err, w) \<Rightarrow> (Err err, c, w)
      | (Panic p, w) \<Rightarrow> (Panic p, c, w)
      | (Ret _, w) \<Rightarrow>
          (case make_keys [key, createNodeKey H, createConsensusKey H] node w of
             (r, node, w) \<Rightarrow>
               let c = c\<lparr>ch_validators := ch_validators c @ [node]\<rparr> in
               (case r of
                  Ret _ \<Rightarrow> init_loop H is c w
                | Err err \<Rightarrow> (Err err, c, w)
                | Panic p \<Rightarrow> (Panic p, c, w))))"

definition createAndInitValidators ::
  "('w, 'h, 'app, 'r, 'kb, 'algo, 'info, 'priv, 'entropy, 'ckey, 'nkey) harness_sdk
    \<Rightarrow> int \<Rightarrow> ('info, 'priv, 'ckey, 'nkey) test_chain \<Rightarrow> 'w
    \<Rightarrow> (gerror, unit) go \<times> ('info, 'priv, 'ckey, 'nkey) test_chain \<times> 'w" where
  "createAndInitValidators H count = init_loop H (map (\<lambda>i. (int i, createKey H ''val'')) [0..<nat count])"

definition createAndInitValidatorsWithMnemonics ::
  "('w, 'h, 'app, 'r, 'kb, 'algo, 'info, 'priv, 'entropy, 'ckey, 'nkey) harness_sdk
    \<Rightarrow> string list \<Rightarrow> ('info, 'priv, 'ckey, 'nkey) test_chain \<Rightarrow> 'w
    \<Rightarrow> (gerror, unit) go \<times> ('info, 'priv, 'ckey, 'nkey) test_chain \<times> 'w" where
  "createAndInitValidatorsWithMnemonics H mnemonics =
     init_loop H (map (\<lambda>i. (int i, createKeyFromMnemonic H ''val'' (mnemonics ! i) [])) [0..<length mnemonics])"

section \<open>The accounts of the test network\<close>

text \<open>
  Like \<open>AddGenesisAccountCmd\<close> without vesting, for a given address; the moniker is set in a
  configuration that is not used, and the supply stays as it is.
\<close>

definition test_add_to_auth ::
  "('coins, 'acc, 'bva, 'any, 'raw, 'app, 'r, 'f) gen_sdk \<Rightarrow> addr \<Rightarrow> 'acc \<Rightarrow> 'raw app_state
    \<Rightarrow> (gerror, 'raw app_state) go" where
  "test_add_to_auth S accAddr genAccount appState =
     go_bind (Auth_FromAppState S appState) (\<lambda>authGenState.
     go_bind (or_wrap ''failed to get accounts from any'' (UnpackAccounts S (as_Accounts authGenState)))
       (\<lambda>accs.
     if Accounts_Contains S accs accAddr
     then Err (TextError (''failed to add account to genesis state; account already exists: ''
       @ Gen_String S accAddr))
     else
       let accs = SanitizeGenesisAccounts S (accs @ [genAccount]) in
       go_bind (or_wrap ''failed to convert accounts into any's'' (PackAccounts S accs)) (\<lambda>genAccs.
       go_bind (or_wrap ''failed to marshal auth genesis state''
           (Auth_MarshalJSON S (authGenState\<lparr>as_Accounts := genAccs\<rparr>))) (\<lambda>authGenStateBz.
       Ret (appState(auth_ModuleName \<mapsto> authGenStateBz))))))"

definition test_add_to_bank ::
  "('coins, 'acc, 'bva, 'any, 'raw, 'app, 'r, 'f) gen_sdk \<Rightarrow> 'coins balance \<Rightarrow> 'raw app_state
    \<Rightarrow> (gerror, 'raw app_state) go" where
  "test_add_to_bank S balances appState =
     go_bind (Bank_FromAppState S appState) (\<lambda>bankGenState.
     go_bind (or_wrap ''failed to marshal bank genesis state''
         (Bank_MarshalJSON S (bankGenState\<lparr>bs_Balances :=
            SanitizeGenesisBalances S (bs_Balances bankGenState @ [balances])\<rparr>))) (\<lambda>bankGenStateBz.
     Ret (appState(bank_ModuleName \<mapsto> bankGenStateBz))))"

definition addGenesisAccount ::
  "(string \<Rightarrow> ('coins, 'acc, 'bva, 'any, 'raw, 'app, 'r, 'f) gen_sdk) \<Rightarrow> (string \<Rightarrow> string)
    \<Rightarrow> string \<Rightarrow> string \<Rightarrow> string \<Rightarrow> addr \<Rightarrow> 'f \<Rightarrow> (gerror, 'f) go" where
  "addGenesisAccount sdk GenesisFile path moniker amountStr accAddr w =
     (let S = sdk (GenesisFile path) in
     go_bind (or_wrap ''failed to parse coins'' (ParseCoinsNormalized S amountStr)) (\<lambda>coins.
       let balances = \<lparr>bb_Address = Gen_String S accAddr, bb_Coins = Coins_Sort S coins\<rparr>;
           genAccount = NewBaseAccount S accAddr in
     go_bind (or_wrap ''failed to unmarshal genesis state'' (GenesisStateFromGenFile S w))
       (\<lambda>(appState, genDoc).
     go_bind (test_add_to_auth S accAddr genAccount appState) (\<lambda>appState.
     go_bind (test_add_to_bank S balances appState) (\<lambda>appState.
     go_bind (or_wrap ''failed to marshal application genesis state'' (AppState_Marshal S appState))
       (\<lambda>appStateJSON.
     case ExportGenesisFile S (genDoc\<lparr>gd_AppState := appStateJSON\<rparr>) w of
       Inl err \<Rightarrow> Err err
     | Inr w \<Rightarrow> Ret w))))))"

section \<open>What the loops leave\<close>

lemma show_int_of_nat [simp]: "show_int (int n) = show_nat n"
  by (simp add: show_int_def)

text \<open>A validator all of whose keys were made.\<close>

definition has_keys :: "('info, 'priv, 'ckey, 'nkey) validator \<Rightarrow> bool" where
  "has_keys v \<longleftrightarrow> v_keyInfo v \<noteq> None \<and> v_privateKey v \<noteq> None \<and> v_nodeKey v \<noteq> None \<and>
     v_consensusKey v \<noteq> None"

definition key_maker ::
  "(('info, 'priv, 'ckey, 'nkey) validator \<Rightarrow> ('w, ('info, 'priv, 'ckey, 'nkey) validator) io) \<Rightarrow> bool" where
  "key_maker f \<longleftrightarrow> (\<forall>v w v' w'. f v w = (Ret v', w') \<longrightarrow>
     (\<exists>info m priv. v' = v\<lparr>v_keyInfo := Some info, v_mnemonic := m, v_privateKey := Some priv\<rparr>))"

lemma key_maker_mnemonic: "key_maker (createKeyFromMnemonic H name mnemonic pass)"
  by (auto simp: key_maker_def createKeyFromMnemonic_def go_simps)

lemma key_maker_createKey: "key_maker (createKey H name)"
proof -
  have "createKey H name v w = (Ret v', w') \<Longrightarrow>
      \<exists>m w1. createKeyFromMnemonic H name m [] v w1 = (Ret v', w')" for v w v' w'
    by (auto simp: createKey_def go_simps)
  then show ?thesis
    using key_maker_mnemonic unfolding key_maker_def by metis
qed

lemma createNodeKey_effect:
  "createNodeKey H v w = (Ret v', w') \<Longrightarrow> \<exists>k. v' = v\<lparr>v_nodeKey := Some k\<rparr>"
  by (auto simp: createNodeKey_def go_simps)

lemma createConsensusKey_effect:
  "createConsensusKey H v w = (Ret v', w') \<Longrightarrow> \<exists>k. v' = v\<lparr>v_consensusKey := Some k\<rparr>"
  by (auto simp: createConsensusKey_def go_simps Let_def)

lemma make_keys_step:
  "make_keys (f # fs) v w = (r, v', w') \<longleftrightarrow>
     (\<exists>v1 w1. f v w = (Ret v1, w1) \<and> make_keys fs v1 w1 = (r, v', w')) \<or>
     (\<exists>err. f v w = (Err err, w') \<and> r = Err err \<and> v' = v) \<or>
     (\<exists>p. f v w = (Panic p, w') \<and> r = Panic p \<and> v' = v)"
  by (auto split: prod.split go.split)

lemma make_keys_effect:
  assumes "key_maker key" "make_keys [key, createNodeKey H, createConsensusKey H] v w = (r, v', w')"
  shows "v_chain v' = v_chain v \<and> v_index v' = v_index v \<and> v_moniker v' = v_moniker v \<and>
    (r = Ret () \<longrightarrow> has_keys v')"
  using assms(2) unfolding make_keys_step
  by (auto simp: has_keys_def dest!: assms(1) [unfolded key_maker_def, rule_format]
      createNodeKey_effect createConsensusKey_effect)

lemma init_loop_effect:
  assumes "\<forall>(i, key) \<in> set is. key_maker key" "init_loop H is c w = (r, c', w')"
  shows "\<exists>nodes. c' = c\<lparr>ch_validators := ch_validators c @ nodes\<rparr> \<and>
    map v_index nodes = map fst (take (length nodes) is) \<and> length nodes \<le> length is \<and>
    (\<forall>v \<in> set nodes. v_chain v = ident_of c \<and> v_moniker v = ''burnt'') \<and>
    (\<forall>v \<in> set (butlast nodes). has_keys v) \<and>
    (r = Ret () \<longrightarrow> length nodes = length is \<and> (\<forall>v \<in> set nodes. has_keys v))"
  using assms
proof (induction H "is" c w arbitrary: r c' w' rule: init_loop.induct)
  case (1 H c w)
  then show ?case by (intro exI [of _ "[]"]) simp
next
  case (2 H i key rest c w)
  let ?node = "createValidator c i"
  have stop: ?case if "c' = c" "r \<noteq> Ret ()"
    using that by (intro exI [of _ "[]"]) simp
  obtain ri w1 where init: "validator_init H ?node w = (ri, w1)" by fastforce
  show ?case
  proof (cases ri)
    case (Ret u)
    obtain rk v w2 where keys: "make_keys [key, createNodeKey H, createConsensusKey H] ?node w1 = (rk, v, w2)"
      using prod_cases3 by blast
    have v: "v_chain v = ident_of c" "v_index v = i" "v_moniker v = ''burnt''" "rk = Ret () \<longrightarrow> has_keys v"
      using make_keys_effect [OF _ keys] "2.prems"(1) by (simp_all add: createValidator_def)
    let ?c = "c\<lparr>ch_validators := ch_validators c @ [v]\<rparr>"
    show ?thesis
    proof (cases rk)
      case kept: (Ret u')
      have "init_loop H rest ?c w2 = (r, c', w')"
        using "2.prems"(2) init Ret keys kept by (simp del: make_keys.simps)
      with "2.IH" init Ret keys kept "2.prems"(1) obtain nodes where
        "c' = ?c\<lparr>ch_validators := ch_validators ?c @ nodes\<rparr>"
        "map v_index nodes = map fst (take (length nodes) rest)" "length nodes \<le> length rest"
        "\<forall>v \<in> set nodes. v_chain v = ident_of c \<and> v_moniker v = ''burnt''"
        "\<forall>v \<in> set (butlast nodes). has_keys v"
        "r = Ret () \<longrightarrow> length nodes = length rest \<and> (\<forall>v \<in> set nodes. has_keys v)"
        by (fastforce simp: ident_of_def simp del: make_keys.simps)
      then show ?thesis
        using v kept by (intro exI [of _ "v # nodes"]) auto
    qed (use "2.prems"(2) init Ret keys v in
        \<open>auto intro!: exI [of _ "[v]"] simp del: make_keys.simps\<close>)
  qed (use "2.prems"(2) init stop in \<open>auto simp del: make_keys.simps\<close>)
qed

lemma configDir_inject:
  assumes "v_chain v = c" "v_moniker v = m" "v_index v = int i"
    and "v_chain v' = c" "v_moniker v' = m" "v_index v' = int j"
  shows "validator_configDir v = validator_configDir v' \<longleftrightarrow> i = j"
  using assms by (simp add: validator_configDir_def instanceName_def)

lemma distinct_configDirs:
  assumes "map v_index nodes = map int [0..<length nodes]"
    and "\<forall>v \<in> set nodes. v_chain v = c \<and> v_moniker v = m"
  shows "distinct (map validator_configDir nodes)"
proof -
  have index: "v_index (nodes ! i) = int i" if "i < length nodes" for i
    using arg_cong [OF assms(1), of "\<lambda>xs. xs ! i"] that by simp
  have "validator_configDir (nodes ! i) \<noteq> validator_configDir (nodes ! j)"
    if "i < length nodes" "j < length nodes" "i \<noteq> j" for i j
    using configDir_inject [of "nodes ! i" c m i "nodes ! j" j] index that assms(2) by simp
  then show ?thesis by (simp add: distinct_conv_nth)
qed

text \<open>Of two runs with the same flags, what a test adds to the genesis file and what the command does
  differ in the supply alone.\<close>

lemma test_add_to_auth_Ret:
  "test_add_to_auth S a acc st = Ret st' \<longleftrightarrow> add_to_auth S a acc st = Ret st'"
  by (simp add: test_add_to_auth_def add_to_auth_def go_simps Let_def)

lemma test_add_to_bank_effect:
  assumes laws: "file_laws S" and run: "test_add_to_bank S bal st = Ret st'"
  obtains b where "Bank_FromAppState S st = Ret b"
    "Bank_FromAppState S st' = Ret (b\<lparr>bs_Balances := SanitizeGenesisBalances S (bs_Balances b @ [bal])\<rparr>)"
    "st' auth_ModuleName = st auth_ModuleName"
proof -
  from run obtain b bz where b: "Bank_FromAppState S st = Ret b"
    and bz: "Bank_MarshalJSON S (b\<lparr>bs_Balances := SanitizeGenesisBalances S (bs_Balances b @ [bal])\<rparr>) = Inr bz"
    and st': "st' = st(bank_ModuleName \<mapsto> bz)"
    by (auto simp: test_add_to_bank_def go_simps Let_def)
  have "Bank_FromAppState S st' = Ret (b\<lparr>bs_Balances := SanitizeGenesisBalances S (bs_Balances b @ [bal])\<rparr>)"
    using laws bz st' by (simp add: file_laws_def)
  from that [OF b this] show ?thesis
    by (simp add: st' auth_ModuleName_def bank_ModuleName_def)
qed

theorem test_account_added:
  assumes laws: "file_laws S" "account_laws S address" and sdk: "sdk (GenesisFile path) = S"
    and run: "addGenesisAccount sdk GenesisFile path moniker amountStr addr f = Ret f'"
  shows "\<exists>accs accs' coins b.
    genesis_accounts S f = Some accs \<and> genesis_accounts S f' = Some accs' \<and>
    addr \<notin> address ` set accs \<and> address ` set accs' = insert addr (address ` set accs) \<and>
    ParseCoinsNormalized S amountStr = Inr coins \<and> genesis_bank S f = Some b \<and>
    genesis_bank S f' = Some (b\<lparr>bs_Balances := SanitizeGenesisBalances S
      (bs_Balances b @ [\<lparr>bb_Address = Gen_String S addr, bb_Coins = Coins_Sort S coins\<rparr>])\<rparr>)"
proof -
  from run sdk obtain coins st doc st1 st2 app where coins: "ParseCoinsNormalized S amountStr = Inr coins"
    and st: "GenesisStateFromGenFile S f = Inr (st, doc)"
    and auth: "add_to_auth S addr (NewBaseAccount S addr) st = Ret st1"
    and bank: "test_add_to_bank S \<lparr>bb_Address = Gen_String S addr, bb_Coins = Coins_Sort S coins\<rparr> st1
      = Ret st2"
    and app: "AppState_Marshal S st2 = Inr app"
    and out: "ExportGenesisFile S (doc\<lparr>gd_AppState := app\<rparr>) f = Inr f'"
    by (auto simp: addGenesisAccount_def go_simps Let_def test_add_to_auth_Ret split: prod.splits)
  obtain doc' where st2: "GenesisStateFromGenFile S f' = Inr (st2, doc')"
    using file_read_back [OF laws(1) app out] by blast
  have acc: "address (NewBaseAccount S addr) = addr"
    using laws(2) by (simp add: account_laws_def)
  obtain s s' accs accs' where s: "Auth_FromAppState S st = Ret s" "UnpackAccounts S (as_Accounts s) = Inr accs"
    "addr \<notin> address ` set accs"
    and kept: "\<forall>st''. st'' auth_ModuleName = st1 auth_ModuleName \<longrightarrow> Auth_FromAppState S st'' = Ret s'"
    and t: "UnpackAccounts S (as_Accounts s') = Inr accs'"
    "address ` set accs' = insert addr (address ` set accs)" "st1 bank_ModuleName = st bank_ModuleName"
    by (rule add_to_auth_effect [OF laws auth acc])
  obtain b where b: "Bank_FromAppState S st1 = Ret b"
    "Bank_FromAppState S st2 = Ret (b\<lparr>bs_Balances := SanitizeGenesisBalances S
      (bs_Balances b @ [\<lparr>bb_Address = Gen_String S addr, bb_Coins = Coins_Sort S coins\<rparr>])\<rparr>)"
    "st2 auth_ModuleName = st1 auth_ModuleName"
    by (rule test_add_to_bank_effect [OF laws(1) bank])
  have "Bank_FromAppState S st = Bank_FromAppState S st1"
    by (rule bank_of_entry [OF laws(1)]) (rule t(3) [symmetric])
  then show ?thesis
    using b s t kept coins st st2 by (simp add: genesis_accounts_def genesis_bank_def)
qed

section \<open>The property\<close>

text \<open>Making the validators of a test chain numbers them from zero and gives each a directory of
  its own. If it succeeds there are as many as were asked for, with all their keys; if it
  fails, those made before are in the chain with all of theirs, and only the last one, whose
  keys failed, may lack some.\<close>
theorem validators_created:
  assumes "createAndInitValidators H n c w = (r, c', w') \<or>
    createAndInitValidatorsWithMnemonics H ms c w = (r, c', w') \<and> n = int (length ms)"
  shows "\<exists>nodes. c' = c\<lparr>ch_validators := ch_validators c @ nodes\<rparr> \<and>
    map v_index nodes = map int [0..<length nodes] \<and> distinct (map validator_configDir nodes) \<and>
    length nodes \<le> nat n \<and> (\<forall>v \<in> set (butlast nodes). has_keys v) \<and>
    (r = Ret () \<longrightarrow> length nodes = nat n \<and> (\<forall>v \<in> set nodes. has_keys v))"
proof -
  obtain steps where steps: "map fst steps = map int [0..<nat n]" "\<forall>(i, key) \<in> set steps. key_maker key"
    and run: "init_loop H steps c w = (r, c', w')"
    using assms
  proof
    assume "createAndInitValidators H n c w = (r, c', w')"
    then show ?thesis
      by (intro that [of "map (\<lambda>i. (int i, createKey H ''val'')) [0..<nat n]"])
         (auto simp: createAndInitValidators_def key_maker_createKey comp_def)
  next
    assume "createAndInitValidatorsWithMnemonics H ms c w = (r, c', w') \<and> n = int (length ms)"
    then show ?thesis
      by (intro that [of "map (\<lambda>i. (int i, createKeyFromMnemonic H ''val'' (ms ! i) [])) [0..<nat n]"])
         (auto simp: createAndInitValidatorsWithMnemonics_def key_maker_mnemonic comp_def)
  qed
  have len: "length steps = nat n" using arg_cong [OF steps(1), of length] by simp
  from init_loop_effect [OF steps(2) run] obtain nodes where
    nodes: "c' = c\<lparr>ch_validators := ch_validators c @ nodes\<rparr>"
    "map v_index nodes = map fst (take (length nodes) steps)" "length nodes \<le> nat n"
    "\<forall>v \<in> set nodes. v_chain v = ident_of c \<and> v_moniker v = ''burnt''"
    "\<forall>v \<in> set (butlast nodes). has_keys v"
    "r = Ret () \<longrightarrow> length nodes = nat n \<and> (\<forall>v \<in> set nodes. has_keys v)"
    using len by auto
  have index: "map v_index nodes = map int [0..<length nodes]"
    unfolding nodes(2) take_map [symmetric] steps(1) using nodes(3) by (simp add: take_map)
  show ?thesis
    using nodes index distinct_configDirs [OF index nodes(4)] by (intro exI [of _ nodes]) simp
qed

definition sample_harness ::
  "(nat, unit, unit, unit, unit, unit, string, string, nat, nat, nat) harness_sdk" where
  "sample_harness = \<lparr>
     os_LookupEnv = (\<lambda>_ _. False), os_Getwd = io_ret ''/'', ioutil_TempDir = (\<lambda>d p. io_ret ''/tmp''),
     rand_Str = (\<lambda>n. io_ret ''abcdef''), os_MkdirAll = (\<lambda>p. io_ret ()),
     os_Stat = (\<lambda>p w. Inl (True, TextError ''no such file'')), os_Open = (\<lambda>p. io_ret ()),
     os_Create = (\<lambda>p. io_ret ()), io_Copy = (\<lambda>d s. io_ret ()), ioutil_WriteFile = (\<lambda>p b. io_ret ()),
     cfg_GenesisFile = (\<lambda>r. path_Join [r, ''config/genesis.json'']),
     cfg_NodeKeyFile = (\<lambda>r. path_Join [r, ''config/node_key.json'']),
     cfg_PrivValidatorKeyFile = (\<lambda>r. path_Join [r, ''config/priv_validator_key.json'']),
     cfg_PrivValidatorStateFile = (\<lambda>r. path_Join [r, ''data/priv_validator_state.json'']),
     GenesisDocFromFile = (\<lambda>p w. Inl (TextError ''no such file'')),
     GenesisDoc_zero = \<lparr>td_ChainID = [], td_Validators = [], td_AppState = (), td_rest = ()\<rparr>,
     MarshalIndent_DefaultGenesis = Inr (), genutil_ExportGenesisFile = (\<lambda>d f. io_ret ()),
     tmcfg_WriteConfigFile = (\<lambda>p r m. io_ret ()), LoadOrGenNodeKey = (\<lambda>p w. (Ret w, Suc w)),
     tmos_EnsureDir = (\<lambda>p. io_ret ()), LoadOrGenFilePV = (\<lambda>k s w. (Ret w, Suc w)),
     kr_New = (\<lambda>a b d. io_ret ()), kr_SigningAlgo = (\<lambda>a k. Inr ()),
     kr_NewAccount = (\<lambda>k n m p h a. io_ret m), kr_ExportPrivKeyArmor = (\<lambda>k n p. io_ret ''armor''),
     UnarmorDecryptPrivKey = (\<lambda>a p. Inr a),
     bip39_NewEntropy = (\<lambda>n w. if w < 6 then (Ret w, Suc w) else (Err (TextError ''entropy''), w)),
     bip39_NewMnemonic = (\<lambda>e. Inr (show_nat e))\<rparr>"

text \<open>Three validators, of which the third finds no entropy left.\<close>
theorem validators_created_witness:
  "\<exists>r c' nodes. createAndInitValidators sample_harness 3 \<lparr>ch_dataDir = ''/tmp'', ch_id = ''chain-abcdef'',
      ch_validators = []\<rparr> 0 = (r, c', 6) \<and> ch_validators c' = nodes \<and> length nodes = 3 \<and>
    r = Err (TextError ''entropy'') \<and> distinct (map validator_configDir nodes) \<and> has_keys (nodes ! 1) \<and>
    \<not> has_keys (nodes ! 2)"
proof -
  let ?c = "\<lparr>ch_dataDir = ''/tmp'', ch_id = ''chain-abcdef'', ch_validators = []\<rparr>
    :: (string, string, nat, nat) test_chain"
  obtain c' where run: "createAndInitValidators sample_harness 3 ?c 0 = (Err (TextError ''entropy''), c', 6)"
    and c': "length (ch_validators c') = 3" "\<not> has_keys (ch_validators c' ! 2)"
    by (simp add: createAndInitValidators_def upt_conv_Cons createValidator_def validator_init_def
        createConfig_def getGenDoc_def createKey_def createMnemonic_def createKeyFromMnemonic_def
        createNodeKey_def createConsensusKey_def io_bind_def io_ret_def io_sum_def io_wrap_def
        sample_harness_def Let_def has_keys_def nth_append)
  from validators_created [of sample_harness 3 ?c 0 "Err (TextError ''entropy'')" c' 6 "[]"] run obtain nodes
    where nodes: "c' = ?c\<lparr>ch_validators := [] @ nodes\<rparr>" "distinct (map validator_configDir nodes)"
      "\<forall>v \<in> set (butlast nodes). has_keys v" by auto
  have "nodes ! 1 \<in> set (butlast nodes)"
    using c'(1) nodes(1) nth_mem [of 1 "butlast nodes"] by (simp add: nth_butlast)
  with nodes run c' show ?thesis by auto
qed

end
