(* ===== verification/HarnessTx.thy ===== *)
theory HarnessTx
  imports Harness Encoding
begin

text \<open>
  The transactions of \<^verbatim>\<open>integration_tests/\<close>: how a validator makes and signs its genesis transaction
  (\<^verbatim>\<open>validator.go\<close>), how it is decoded again (\<^verbatim>\<open>util.go\<close>), and how messages are sent to a running
  chain (\<^verbatim>\<open>chain.go\<close>). The SDK's transaction builder, keys and node are the fields of \<open>tx_sdk\<close>.
\<close>

section \<open>Transactions\<close>

record tx_raw =
  raw_BodyBytes :: "byte list"
  raw_AuthInfoBytes :: "byte list"
  raw_Signatures :: "byte list list"

record ('body, 'ai) sdk_tx =
  tx_Body :: 'body
  tx_AuthInfo :: 'ai
  tx_Signatures :: "byte list list"

datatype sign_mode = SIGN_MODE_DIRECT

record signer_data =
  sd_ChainID :: string
  sd_AccountNumber :: u64
  sd_Sequence :: u64

record 'pub signature_v2 =
  sig_PubKey :: 'pub
  sig_SignMode :: sign_mode
  sig_Signature :: "byte list option"
  sig_Sequence :: u64

record description =
  ds_Moniker :: string
  ds_Identity :: string
  ds_Website :: string
  ds_SecurityContact :: string
  ds_Details :: string

record 'dec commission_rates =
  cr_Rate :: 'dec
  cr_MaxRate :: 'dec
  cr_MaxChangeRate :: 'dec

text \<open>
  The client's context and the transaction factory, as far as they are set here. The factory's
  gas adjustment is left out: it scales a simulated gas, and here the gas is given.
\<close>

record ('kb, 'rpc) client_context =
  ctx_ChainID :: string
  ctx_InterfaceRegistry :: registry
  ctx_LegacyAmino :: amino
  ctx_NodeURI :: string
  ctx_Client :: 'rpc
  ctx_BroadcastMode :: string
  ctx_Keyring :: 'kb
  ctx_OutputFormat :: string
  ctx_From :: string
  ctx_FromName :: string
  ctx_FromAddress :: addr
  ctx_SkipConfirm :: bool

record 'kb tx_factory =
  txf_ChainID :: string
  txf_Keybase :: "'kb option"
  txf_AccountNumber :: u64
  txf_Sequence :: u64
  txf_Gas :: u64
  txf_Fees :: string
  txf_SignMode :: "sign_mode option"

record tx_response =
  tr_Code :: "32 word"
  tr_RawLog :: string

record ('w, 'b, 'msg, 'body, 'ai, 'pub, 'priv, 'ckey, 'nkey, 'info, 'dec, 'kb, 'rpc) tx_sdk =
  Raw_RejectUnknown :: "byte list \<Rightarrow> gerror option"
  Raw_Unmarshal :: "byte list \<Rightarrow> gerror + tx_raw"
  Body_Unmarshal :: "byte list \<Rightarrow> gerror + 'body"
  AuthInfo_RejectUnknown :: "byte list \<Rightarrow> gerror option"
  AuthInfo_Unmarshal :: "byte list \<Rightarrow> gerror + 'ai"
  NewTxBuilder :: 'b
  SetMsgs :: "'msg list \<Rightarrow> 'b \<Rightarrow> gerror + 'b"
  SetMemo :: "string \<Rightarrow> 'b \<Rightarrow> 'b"
  SetFeeAmount :: "coin list \<Rightarrow> 'b \<Rightarrow> 'b"
  SetGasLimit :: "u64 \<Rightarrow> 'b \<Rightarrow> 'b"
  SetSignatures :: "'pub signature_v2 list \<Rightarrow> 'b \<Rightarrow> gerror + 'b"
  GetSignBytes :: "sign_mode \<Rightarrow> signer_data \<Rightarrow> 'b \<Rightarrow> gerror + byte list"
  TxEncoder :: "'b \<Rightarrow> gerror + byte list"
  Info_PubKey :: "'info \<Rightarrow> 'pub"
  Info_Address :: "'info \<Rightarrow> addr"
  PrivKey_Sign :: "'priv \<Rightarrow> byte list \<Rightarrow> gerror + byte list"
  NodeKey_ID :: "'nkey \<Rightarrow> string"
  FromTmPubKeyInterface :: "'ckey option \<Rightarrow> gerror + 'pub"
  MustNewDecFromStr :: "string \<Rightarrow> 'dec"
  NewMsgCreateValidator ::
    "addr \<Rightarrow> 'pub \<Rightarrow> coin \<Rightarrow> description \<Rightarrow> 'dec commission_rates \<Rightarrow> int \<Rightarrow> gerror + 'msg"
  simapp_RegisterLegacyAminoCodec :: "amino \<Rightarrow> amino"
  simapp_RegisterInterfaces :: "registry \<Rightarrow> registry"
  rpchttp_New :: "string \<Rightarrow> string \<Rightarrow> gerror + 'rpc"
  EnsureExists :: "('kb, 'rpc) client_context \<Rightarrow> addr \<Rightarrow> 'w \<Rightarrow> gerror option"
  GetAccountNumberSequence :: "('kb, 'rpc) client_context \<Rightarrow> addr \<Rightarrow> 'w \<Rightarrow> gerror + u64 \<times> u64"
  BuildUnsignedTx :: "'kb tx_factory \<Rightarrow> 'msg list \<Rightarrow> gerror + 'b"
  tx_Sign :: "'kb tx_factory \<Rightarrow> string \<Rightarrow> 'b \<Rightarrow> bool \<Rightarrow> ('w, 'b) io"
  BroadcastTx :: "('kb, 'rpc) client_context \<Rightarrow> byte list \<Rightarrow> ('w, tx_response) io"

definition testDenom :: string where
  "testDenom = ''turnt''"

definition initBalanceStr :: string where
  "initBalanceStr = ''1000000000000turnt''"

definition minGasPrice :: string where
  "minGasPrice = ''2''"

text \<open>A value or an error, and a value that must be there: a call on a nil interface panics.\<close>

definition ret_or_err :: "gerror + 'a \<Rightarrow> (gerror, 'a) go" where
  "ret_or_err r = (case r of Inl e \<Rightarrow> Err e | Inr a \<Rightarrow> Ret a)"

definition not_nil :: "'a option \<Rightarrow> (gerror, 'a) go" where
  "not_nil x = (case x of None \<Rightarrow> Panic NilPointer | Some a \<Rightarrow> Ret a)"

lemma ret_or_err_Ret [go_simps]: "ret_or_err r = Ret a \<longleftrightarrow> r = Inr a"
  by (auto simp: ret_or_err_def split: sum.split)

lemma not_nil_Ret [go_simps]: "not_nil x = Ret a \<longleftrightarrow> x = Some a"
  by (auto simp: not_nil_def split: option.split)

section \<open>Decoding\<close>

definition decodeTx ::
  "('w, 'b, 'msg, 'body, 'ai, 'pub, 'priv, 'ckey, 'nkey, 'info, 'dec, 'kb, 'rpc) tx_sdk
    \<Rightarrow> byte list \<Rightarrow> (gerror, ('body, 'ai) sdk_tx) go" where
  "decodeTx T txBytes =
     (case Raw_RejectUnknown T txBytes of
        Some err \<Rightarrow> Err (Wrapped err ''failed to reject unknown fields'')
      | None \<Rightarrow>
     go_bind (ret_or_err (Raw_Unmarshal T txBytes)) (\<lambda>raw.
     go_bind (or_wrap ''failed to decode tx'' (Body_Unmarshal T (raw_BodyBytes raw))) (\<lambda>body.
     (case AuthInfo_RejectUnknown T (raw_AuthInfoBytes raw) of
        Some err \<Rightarrow> Err (Wrapped err ''failed to reject unknown fields'')
      | None \<Rightarrow>
     go_bind (or_wrap ''failed to decode auth info'' (AuthInfo_Unmarshal T (raw_AuthInfoBytes raw)))
       (\<lambda>authInfo.
     Ret \<lparr>tx_Body = body, tx_AuthInfo = authInfo, tx_Signatures = raw_Signatures raw\<rparr>)))))"

section \<open>The genesis transaction of a validator\<close>

definition buildCreateValidatorMsg ::
  "('w, 'b, 'msg, 'body, 'ai, 'pub, 'priv, 'ckey, 'nkey, 'info, 'dec, 'kb, 'rpc) tx_sdk
    \<Rightarrow> ('info, 'priv, 'ckey, 'nkey) validator \<Rightarrow> coin \<Rightarrow> (gerror, 'msg) go" where
  "buildCreateValidatorMsg T v amt =
     (let description = \<lparr>ds_Moniker = v_moniker v, ds_Identity = [], ds_Website = [],
            ds_SecurityContact = [], ds_Details = []\<rparr>;
          commissionRates = \<lparr>cr_Rate = MustNewDecFromStr T ''0.1'',
            cr_MaxRate = MustNewDecFromStr T ''0.2'', cr_MaxChangeRate = MustNewDecFromStr T ''0.01''\<rparr>;
          minSelfDelegation = 1 in
     go_bind (ret_or_err (FromTmPubKeyInterface T (v_consensusKey v))) (\<lambda>valPubKey.
     go_bind (not_nil (v_keyInfo v)) (\<lambda>keyInfo.
     ret_or_err (NewMsgCreateValidator T (Info_Address T keyInfo) valPubKey amt description
       commissionRates minSelfDelegation))))"

definition signMsg ::
  "('w, 'b, 'msg, 'body, 'ai, 'pub, 'priv, 'ckey, 'nkey, 'info, 'dec, 'kb, 'rpc) tx_sdk
    \<Rightarrow> ('info, 'priv, 'ckey, 'nkey) validator \<Rightarrow> 'msg list \<Rightarrow> (gerror, ('body, 'ai) sdk_tx) go" where
  "signMsg T v msgs =
     go_bind (ret_or_err (SetMsgs T msgs (NewTxBuilder T))) (\<lambda>txBuilder.
     go_bind (not_nil (v_nodeKey v)) (\<lambda>nodeKey.
       let txBuilder = SetMemo T (NodeKey_ID T nodeKey @ ''@'' @ instanceName v @ '':26656'') txBuilder;
           txBuilder = SetFeeAmount T [] txBuilder;
           txBuilder = SetGasLimit T 200000 txBuilder;
           signerData = \<lparr>sd_ChainID = ch_id (v_chain v), sd_AccountNumber = 0, sd_Sequence = 0\<rparr> in
     go_bind (not_nil (v_keyInfo v)) (\<lambda>keyInfo.
       let sig = \<lparr>sig_PubKey = Info_PubKey T keyInfo, sig_SignMode = SIGN_MODE_DIRECT,
             sig_Signature = None, sig_Sequence = 0\<rparr> in
     go_bind (ret_or_err (SetSignatures T [sig] txBuilder)) (\<lambda>txBuilder.
     go_bind (ret_or_err (GetSignBytes T SIGN_MODE_DIRECT signerData txBuilder)) (\<lambda>bytesToSign.
     go_bind (not_nil (v_privateKey v)) (\<lambda>privateKey.
     go_bind (ret_or_err (PrivKey_Sign T privateKey bytesToSign)) (\<lambda>sigBytes.
       let sig = \<lparr>sig_PubKey = Info_PubKey T keyInfo, sig_SignMode = SIGN_MODE_DIRECT,
             sig_Signature = Some sigBytes, sig_Sequence = 0\<rparr> in
     go_bind (ret_or_err (SetSignatures T [sig] txBuilder)) (\<lambda>txBuilder.
     go_bind (ret_or_err (TxEncoder T txBuilder)) (\<lambda>bz.
     decodeTx T bz)))))))))"

section \<open>Sending messages\<close>

text \<open>The configuration of the tests' package: the application's, and four more types.\<close>

definition test_init :: "EncodingConfig \<Rightarrow> EncodingConfig" where
  "test_init encodingConfig = encodingConfig\<lparr>ec_InterfaceRegistry := ec_InterfaceRegistry encodingConfig
     @ [''*types.MsgCreateValidator'', ''*types.MsgBeginRedelegate'']
     @ [''*secp256k1.PubKey'', ''*ed25519.PubKey'']\<rparr>"

definition chain_clientContext ::
  "('w, 'b, 'msg, 'body, 'ai, 'pub, 'priv, 'ckey, 'nkey, 'info, 'dec, 'kb, 'rpc) tx_sdk
    \<Rightarrow> chain_ident \<Rightarrow> string \<Rightarrow> 'kb \<Rightarrow> string \<Rightarrow> addr \<Rightarrow> (gerror, ('kb, 'rpc) client_context) go" where
  "chain_clientContext T c nodeURI kb fromName fromAddr =
     (let interfaceRegistry = [''*types.MsgCreateValidator''] @ [''*secp256k1.PubKey'', ''*ed25519.PubKey''];
          encodingConfig = \<lparr>ec_InterfaceRegistry = interfaceRegistry, ec_Amino = []\<rparr>;
          encodingConfig = encodingConfig\<lparr>ec_Amino :=
            simapp_RegisterLegacyAminoCodec T (ec_Amino encodingConfig)\<rparr>;
          encodingConfig = encodingConfig\<lparr>ec_InterfaceRegistry :=
            simapp_RegisterInterfaces T (ec_InterfaceRegistry encodingConfig)\<rparr> in
     go_bind (ret_or_err (rpchttp_New T nodeURI ''/websocket'')) (\<lambda>rpcClient.
     Ret \<lparr>ctx_ChainID = ch_id c, ctx_InterfaceRegistry = ec_InterfaceRegistry encodingConfig,
       ctx_LegacyAmino = ec_Amino encodingConfig, ctx_NodeURI = nodeURI, ctx_Client = rpcClient,
       ctx_BroadcastMode = ''block'', ctx_Keyring = kb, ctx_OutputFormat = ''json'',
       ctx_From = fromName, ctx_FromName = fromName, ctx_FromAddress = fromAddr,
       ctx_SkipConfirm = True\<rparr>))"

definition validator_clientContext ::
  "('w, 'h, 'app, 'r, 'kb, 'algo, 'info, 'priv, 'entropy, 'ckey, 'nkey) harness_sdk
    \<Rightarrow> ('w, 'b, 'msg, 'body, 'ai, 'pub, 'priv, 'ckey, 'nkey, 'info, 'dec, 'kb, 'rpc) tx_sdk
    \<Rightarrow> ('info, 'priv, 'ckey, 'nkey) validator \<Rightarrow> string \<Rightarrow> ('w, ('kb, 'rpc) client_context) io" where
  "validator_clientContext H T v nodeURI =
     io_bind (validator_keyring H v) (\<lambda>kb.
     io_bind (io_lift (not_nil (v_keyInfo v))) (\<lambda>keyInfo.
     io_lift (chain_clientContext T (v_chain v) nodeURI kb ''val'' (Info_Address T keyInfo))))"

text \<open>
  The methods of the factory return a factory. The result of \<^verbatim>\<open>WithFees\<close> is dropped, so the factory
  has no fees, and the fee of the transaction is set on its builder afterwards.
\<close>

definition new_factory :: "string \<Rightarrow> 'kb \<Rightarrow> 'kb tx_factory" where
  "new_factory chainID keyring =
     \<lparr>txf_ChainID = chainID, txf_Keybase = Some keyring, txf_AccountNumber = 0, txf_Sequence = 0,
      txf_Gas = 12345678, txf_Fees = [], txf_SignMode = Some SIGN_MODE_DIRECT\<rparr>"

definition WithFees :: "string \<Rightarrow> 'kb tx_factory \<Rightarrow> 'kb tx_factory" where
  "WithFees fees txf = txf\<lparr>txf_Fees := fees\<rparr>"

definition number_and_sequence ::
  "('w, 'b, 'msg, 'body, 'ai, 'pub, 'priv, 'ckey, 'nkey, 'info, 'dec, 'kb, 'rpc) tx_sdk
    \<Rightarrow> ('kb, 'rpc) client_context \<Rightarrow> addr \<Rightarrow> 'kb tx_factory \<Rightarrow> 'w \<Rightarrow> (gerror, 'kb tx_factory) go" where
  "number_and_sequence T clientCtx fromAddr txf w =
     (let initNum = txf_AccountNumber txf; initSeq = txf_Sequence txf in
      if initNum = 0 \<or> initSeq = 0
      then
        go_bind (ret_or_err (GetAccountNumberSequence T clientCtx fromAddr w)) (\<lambda>(num, seq).
          let txf = if initNum = 0 then txf\<lparr>txf_AccountNumber := num\<rparr> else txf;
              txf = if initSeq = 0 then txf\<lparr>txf_Sequence := seq\<rparr> else txf
          in Ret txf)
      else Ret txf)"

definition sendMsgs ::
  "('w, 'b, 'msg, 'body, 'ai, 'pub, 'priv, 'ckey, 'nkey, 'info, 'dec, 'kb, 'rpc) tx_sdk
    \<Rightarrow> chain_ident \<Rightarrow> ('kb, 'rpc) client_context \<Rightarrow> 'msg list \<Rightarrow> ('w, tx_response) io" where
  "sendMsgs T c clientCtx msgs w =
     (let txf = new_factory (ch_id c) (ctx_Keyring clientCtx);
          fromAddr = ctx_FromAddress clientCtx;
          fromName = ctx_FromName clientCtx in
      case EnsureExists T clientCtx fromAddr w of
        Some err \<Rightarrow> (Err err, w)
      | None \<Rightarrow>
     io_bind (io_lift (number_and_sequence T clientCtx fromAddr txf w)) (\<lambda>txf.
       let _ = WithFees (''246913560'' @ testDenom) txf in
     io_bind (io_sum (BuildUnsignedTx T txf msgs)) (\<lambda>txb.
       let txb = SetFeeAmount T [\<lparr>denom = testDenom, amount = 246913560\<rparr>] txb in
     io_bind (tx_Sign T txf fromName txb False) (\<lambda>txb.
     io_bind (io_sum (TxEncoder T txb)) (\<lambda>txBytes.
     io_bind (BroadcastTx T clientCtx txBytes) (\<lambda>res.
     if tr_Code res \<noteq> 0
     then io_lift (Err (TextError (''error processing msg. code: '' @ show_nat (unat (tr_Code res))
       @ '' logs: '' @ tr_RawLog res)))
     else io_ret res))))) w)"

section \<open>What the transaction builder promises\<close>

text \<open>
  A builder holds a body, the information on signers and fee, and signatures. Setting a signature
  also records who signs, in which mode and with which sequence, which for the same signer
  changes nothing the second time. Setting the fee and the gas leaves the body alone. What is
  signed in direct mode is made of body, information, chain and account, and not of
  signatures. What is encoded has no unknown fields and is decoded to the same parts.
\<close>

record ('b, 'msg, 'body, 'ai, 'pub) builder_view =
  bv_Body :: "'b \<Rightarrow> 'body"
  bv_Auth :: "'b \<Rightarrow> 'ai"
  bv_Sigs :: "'b \<Rightarrow> byte list list"
  bv_Msgs :: "'body \<Rightarrow> 'msg list"
  bv_Memo :: "'body \<Rightarrow> string"
  bv_Signed :: "('pub \<times> sign_mode \<times> u64) list \<Rightarrow> 'ai \<Rightarrow> 'ai"
  direct_bytes :: "signer_data \<Rightarrow> 'body \<Rightarrow> 'ai \<Rightarrow> gerror + byte list"

definition signer_infos :: "'pub signature_v2 list \<Rightarrow> ('pub \<times> sign_mode \<times> u64) list" where
  "signer_infos sigs = map (\<lambda>s. (sig_PubKey s, sig_SignMode s, sig_Sequence s)) sigs"

definition builder_laws ::
  "('w, 'b, 'msg, 'body, 'ai, 'pub, 'priv, 'ckey, 'nkey, 'info, 'dec, 'kb, 'rpc) tx_sdk
    \<Rightarrow> ('b, 'msg, 'body, 'ai, 'pub) builder_view \<Rightarrow> bool" where
  "builder_laws T V \<longleftrightarrow>
     (\<forall>msgs b b'. SetMsgs T msgs b = Inr b' \<longrightarrow> bv_Msgs V (bv_Body V b') = msgs) \<and>
     (\<forall>m b. bv_Memo V (bv_Body V (SetMemo T m b)) = m) \<and>
     (\<forall>m b. bv_Msgs V (bv_Body V (SetMemo T m b)) = bv_Msgs V (bv_Body V b)) \<and>
     (\<forall>fee b. bv_Body V (SetFeeAmount T fee b) = bv_Body V b) \<and>
     (\<forall>g b. bv_Body V (SetGasLimit T g b) = bv_Body V b) \<and>
     (\<forall>sigs b b'. SetSignatures T sigs b = Inr b' \<longrightarrow> bv_Body V b' = bv_Body V b \<and>
        bv_Auth V b' = bv_Signed V (signer_infos sigs) (bv_Auth V b) \<and>
        bv_Sigs V b' = map (\<lambda>s. case sig_Signature s of None \<Rightarrow> [] | Some bs \<Rightarrow> bs) sigs) \<and>
     (\<forall>s ai. bv_Signed V s (bv_Signed V s ai) = bv_Signed V s ai) \<and>
     (\<forall>sd b. GetSignBytes T SIGN_MODE_DIRECT sd b = direct_bytes V sd (bv_Body V b) (bv_Auth V b)) \<and>
     (\<forall>b bz. TxEncoder T b = Inr bz \<longrightarrow> Raw_RejectUnknown T bz = None \<and>
        (\<exists>raw. Raw_Unmarshal T bz = Inr raw \<and> Body_Unmarshal T (raw_BodyBytes raw) = Inr (bv_Body V b) \<and>
           AuthInfo_RejectUnknown T (raw_AuthInfoBytes raw) = None \<and>
           AuthInfo_Unmarshal T (raw_AuthInfoBytes raw) = Inr (bv_Auth V b) \<and>
           raw_Signatures raw = bv_Sigs V b))"

lemma builder_lawsD:
  assumes "builder_laws T V"
  shows "bv_Memo V (bv_Body V (SetMemo T m b)) = m"
    and "bv_Msgs V (bv_Body V (SetMemo T m b)) = bv_Msgs V (bv_Body V b)"
    and "bv_Body V (SetFeeAmount T fee b) = bv_Body V b"
    and "bv_Body V (SetGasLimit T g b) = bv_Body V b"
    and "bv_Signed V s (bv_Signed V s ai) = bv_Signed V s ai"
    and "GetSignBytes T SIGN_MODE_DIRECT sd b = direct_bytes V sd (bv_Body V b) (bv_Auth V b)"
  using assms by (simp_all add: builder_laws_def)

lemma SetMsgs_law: "builder_laws T V \<Longrightarrow> SetMsgs T msgs b = Inr b' \<Longrightarrow> bv_Msgs V (bv_Body V b') = msgs"
  unfolding builder_laws_def by (drule conjunct1) blast

lemma SetSignatures_law:
  assumes "builder_laws T V" "SetSignatures T sigs b = Inr b'"
  shows "bv_Body V b' = bv_Body V b \<and> bv_Auth V b' = bv_Signed V (signer_infos sigs) (bv_Auth V b) \<and>
    bv_Sigs V b' = map (\<lambda>s. case sig_Signature s of None \<Rightarrow> [] | Some bs \<Rightarrow> bs) sigs"
proof -
  from assms(1) have "\<forall>sigs b b'. SetSignatures T sigs b = Inr b' \<longrightarrow> bv_Body V b' = bv_Body V b \<and>
      bv_Auth V b' = bv_Signed V (signer_infos sigs) (bv_Auth V b) \<and>
      bv_Sigs V b' = map (\<lambda>s. case sig_Signature s of None \<Rightarrow> [] | Some bs \<Rightarrow> bs) sigs"
    unfolding builder_laws_def by (elim conjE) assumption
  with assms(2) show ?thesis by blast
qed

lemma decodeTx_encoded:
  assumes "builder_laws T V" "TxEncoder T b = Inr bz"
  shows "decodeTx T bz = Ret \<lparr>tx_Body = bv_Body V b, tx_AuthInfo = bv_Auth V b, tx_Signatures = bv_Sigs V b\<rparr>"
proof -
  from assms(1) have "\<forall>b bz. TxEncoder T b = Inr bz \<longrightarrow> Raw_RejectUnknown T bz = None \<and>
      (\<exists>raw. Raw_Unmarshal T bz = Inr raw \<and> Body_Unmarshal T (raw_BodyBytes raw) = Inr (bv_Body V b) \<and>
         AuthInfo_RejectUnknown T (raw_AuthInfoBytes raw) = None \<and>
         AuthInfo_Unmarshal T (raw_AuthInfoBytes raw) = Inr (bv_Auth V b) \<and>
         raw_Signatures raw = bv_Sigs V b)"
    unfolding builder_laws_def by (elim conjE) assumption
  with assms(2) obtain raw where "Raw_RejectUnknown T bz = None" "Raw_Unmarshal T bz = Inr raw"
    "Body_Unmarshal T (raw_BodyBytes raw) = Inr (bv_Body V b)"
    "AuthInfo_RejectUnknown T (raw_AuthInfoBytes raw) = None"
    "AuthInfo_Unmarshal T (raw_AuthInfoBytes raw) = Inr (bv_Auth V b)" "raw_Signatures raw = bv_Sigs V b"
    by blast
  then show ?thesis by (simp add: decodeTx_def ret_or_err_def or_wrap_def)
qed

section \<open>The properties\<close>

text \<open>C39: The transaction that a validator signs carries one signature, which its key makes of the
  bytes to sign of that very transaction, as account 0 of its chain with sequence 0: the empty
  signature that is set first makes the signer's entry part of what is signed. Its messages
  are the given ones and its memo says where the node is reached.\<close>
theorem genesis_tx_signed:
  assumes "builder_laws T V" "signMsg T v msgs = Ret tx"
  shows "\<exists>key node bz sig. v_privateKey v = Some key \<and> v_nodeKey v = Some node \<and>
    direct_bytes V \<lparr>sd_ChainID = ch_id (v_chain v), sd_AccountNumber = 0, sd_Sequence = 0\<rparr>
      (tx_Body tx) (tx_AuthInfo tx) = Inr bz \<and>
    PrivKey_Sign T key bz = Inr sig \<and> tx_Signatures tx = [sig] \<and>
    bv_Msgs V (tx_Body tx) = msgs \<and>
    bv_Memo V (tx_Body tx) = NodeKey_ID T node @ ''@'' @ instanceName v @ '':26656''"
proof -
  from assms(2) obtain b0 b1 b2 node key info bytes sig bz where
    b0: "SetMsgs T msgs (NewTxBuilder T) = Inr b0" and node: "v_nodeKey v = Some node"
    and first: "SetSignatures T [\<lparr>sig_PubKey = Info_PubKey T info, sig_SignMode = SIGN_MODE_DIRECT,
        sig_Signature = None, sig_Sequence = 0\<rparr>] (SetGasLimit T 200000 (SetFeeAmount T []
        (SetMemo T (NodeKey_ID T node @ ''@'' @ instanceName v @ '':26656'') b0))) = Inr b1"
    and bytes: "GetSignBytes T SIGN_MODE_DIRECT
        \<lparr>sd_ChainID = ch_id (v_chain v), sd_AccountNumber = 0, sd_Sequence = 0\<rparr> b1 = Inr bytes"
    and key: "v_privateKey v = Some key" and sig: "PrivKey_Sign T key bytes = Inr sig"
    and second: "SetSignatures T [\<lparr>sig_PubKey = Info_PubKey T info, sig_SignMode = SIGN_MODE_DIRECT,
        sig_Signature = Some sig, sig_Sequence = 0\<rparr>] b1 = Inr b2"
    and bz: "TxEncoder T b2 = Inr bz" and tx: "decodeTx T bz = Ret tx"
    by (auto simp: signMsg_def go_simps Let_def)
  note laws = builder_lawsD [OF assms(1)]
  note first = SetSignatures_law [OF assms(1) first] and second = SetSignatures_law [OF assms(1) second]
  have auth: "bv_Auth V b2 = bv_Auth V b1"
    using first second by (simp add: signer_infos_def laws(5))
  have "tx = \<lparr>tx_Body = bv_Body V b1, tx_AuthInfo = bv_Auth V b1, tx_Signatures = [sig]\<rparr>"
    using tx decodeTx_encoded [OF assms(1) bz] second auth by simp
  then show ?thesis
    using key node bytes sig first SetMsgs_law [OF assms(1) b0] by (simp add: laws(1-4,6))
qed

text \<open>Whoever gets a response from sending messages has signed them with the number and the sequence
  that the chain gave, for a fee of 246913560 turnt and with a factory without fees.\<close>
theorem sendMsgs_signed:
  assumes "sendMsgs T c ctx msgs w = (Ret res, w')"
  shows "\<exists>num seq txf txb signed bz w1. EnsureExists T ctx (ctx_FromAddress ctx) w = None \<and>
    GetAccountNumberSequence T ctx (ctx_FromAddress ctx) w = Inr (num, seq) \<and>
    txf = (new_factory (ch_id c) (ctx_Keyring ctx))\<lparr>txf_AccountNumber := num, txf_Sequence := seq\<rparr> \<and>
    txf_Fees txf = [] \<and> BuildUnsignedTx T txf msgs = Inr txb \<and>
    tx_Sign T txf (ctx_FromName ctx) (SetFeeAmount T [\<lparr>denom = ''turnt'', amount = 246913560\<rparr>] txb) False w
      = (Ret signed, w1) \<and>
    TxEncoder T signed = Inr bz \<and> BroadcastTx T ctx bz w1 = (Ret res, w') \<and> tr_Code res = 0"
  using assms
  by (auto simp: sendMsgs_def number_and_sequence_def new_factory_def testDenom_def go_simps Let_def
      split: option.splits if_splits prod.splits)

section \<open>A builder that meets the laws\<close>

text \<open>
  Messages are bytes, the information on signers is whether there are any, and the parts are
  packed one after the other, each ended by a mark.
\<close>

definition pack :: "byte list \<Rightarrow> byte list" where
  "pack bs = concat (map (\<lambda>b. [1, b]) bs) @ [0]"

fun unpack :: "byte list \<Rightarrow> (byte list \<times> byte list) option" where
  "unpack [] = None"
| "unpack [c] = (if c = 0 then Some ([], []) else None)"
| "unpack (c # b # rest) =
     (if c = 0 then Some ([], b # rest)
      else case unpack rest of None \<Rightarrow> None | Some (bs, rest) \<Rightarrow> Some (b # bs, rest))"

lemma unpack_pack [simp]: "unpack (pack bs @ rest) = Some (bs, rest)"
proof (induction bs)
  case Nil
  then show ?case by (cases rest) (simp_all add: pack_def)
qed (simp add: pack_def)

lemma unpack_pack_all [simp]: "unpack (pack bs) = Some (bs, [])"
  using unpack_pack [of bs "[]"] by simp

type_synonym sample_builder = "byte list \<times> string \<times> bool \<times> byte list list"

definition sample_encode :: "sample_builder \<Rightarrow> gerror + byte list" where
  "sample_encode b = (case b of
      (msgs, memo, signers, [sig]) \<Rightarrow>
        Inr (pack (pack msgs @ string_bytes memo) @ pack [if signers then 1 else 0] @ sig)
    | _ \<Rightarrow> Inl (TextError ''one signature''))"

definition sample_raw :: "byte list \<Rightarrow> gerror + tx_raw" where
  "sample_raw bz = (case unpack bz of
      None \<Rightarrow> Inl (TextError ''body'')
    | Some (body, bz) \<Rightarrow>
        (case unpack bz of
           None \<Rightarrow> Inl (TextError ''auth info'')
         | Some (ai, sig) \<Rightarrow>
             Inr \<lparr>raw_BodyBytes = body, raw_AuthInfoBytes = ai, raw_Signatures = [sig]\<rparr>))"

definition sample_body :: "byte list \<Rightarrow> gerror + byte list \<times> string" where
  "sample_body bz = (case unpack bz of
      None \<Rightarrow> Inl (TextError ''messages'')
    | Some (msgs, memo) \<Rightarrow> Inr (msgs, bytes_string memo))"

definition sample_sign_bytes :: "signer_data \<Rightarrow> byte list \<times> string \<Rightarrow> bool \<Rightarrow> gerror + byte list" where
  "sample_sign_bytes sd body signers = Inr (string_bytes (sd_ChainID sd) @ fst body
     @ string_bytes (snd body) @ [if signers then 1 else 0])"

definition sample_tx_sdk ::
  "(unit, sample_builder, byte, byte list \<times> string, bool, unit, byte, nat, nat, string, unit, unit, unit) tx_sdk" where
  "sample_tx_sdk = \<lparr>
     Raw_RejectUnknown = (\<lambda>_. None), Raw_Unmarshal = sample_raw, Body_Unmarshal = sample_body,
     AuthInfo_RejectUnknown = (\<lambda>_. None), AuthInfo_Unmarshal = (\<lambda>ai. Inr (ai = [1])),
     NewTxBuilder = ([], [], False, []), SetMsgs = (\<lambda>msgs (_, memo, s, sigs). Inr (msgs, memo, s, sigs)),
     SetMemo = (\<lambda>memo (msgs, _, s, sigs). (msgs, memo, s, sigs)),
     SetFeeAmount = (\<lambda>fee b. b), SetGasLimit = (\<lambda>g b. b),
     SetSignatures = (\<lambda>sigs (msgs, memo, _, _). Inr (msgs, memo, sigs \<noteq> [],
       map (\<lambda>s. case sig_Signature s of None \<Rightarrow> [] | Some bs \<Rightarrow> bs) sigs)),
     GetSignBytes = (\<lambda>mode sd (msgs, memo, s, sigs). sample_sign_bytes sd (msgs, memo) s),
     TxEncoder = sample_encode, Info_PubKey = (\<lambda>_. ()), Info_Address = (\<lambda>_. []),
     PrivKey_Sign = (\<lambda>k bs. Inr (k # bs)), NodeKey_ID = show_nat,
     FromTmPubKeyInterface = (\<lambda>_. Inr ()), MustNewDecFromStr = (\<lambda>_. ()),
     NewMsgCreateValidator = (\<lambda>_ _ _ _ _ _. Inr 7), simapp_RegisterLegacyAminoCodec = id,
     simapp_RegisterInterfaces = id, rpchttp_New = (\<lambda>_ _. Inr ()), EnsureExists = (\<lambda>_ _ _. None),
     GetAccountNumberSequence = (\<lambda>_ _ _. Inr (1, 2)), BuildUnsignedTx = (\<lambda>_ msgs. Inr (msgs, [], False, [])),
     tx_Sign = (\<lambda>_ _ b _. io_ret b), BroadcastTx = (\<lambda>_ _. io_ret \<lparr>tr_Code = 0, tr_RawLog = []\<rparr>)\<rparr>"

definition sample_view :: "(sample_builder, byte, byte list \<times> string, bool, unit) builder_view" where
  "sample_view = \<lparr>bv_Body = (\<lambda>(msgs, memo, _). (msgs, memo)), bv_Auth = (\<lambda>(_, _, s, _). s),
     bv_Sigs = (\<lambda>(_, _, _, sigs). sigs), bv_Msgs = fst, bv_Memo = snd,
     bv_Signed = (\<lambda>s ai. s \<noteq> []), direct_bytes = sample_sign_bytes\<rparr>"

lemma sample_builder_laws: "builder_laws sample_tx_sdk sample_view"
  unfolding builder_laws_def
  by (auto simp: sample_tx_sdk_def sample_view_def signer_infos_def sample_encode_def sample_raw_def
      sample_body_def split: list.splits)

theorem genesis_tx_signed_witness:
  "\<exists>tx. signMsg sample_tx_sdk (createValidator \<lparr>ch_dataDir = ''/tmp'', ch_id = ''c'', ch_validators = []\<rparr> 1
        \<lparr>v_keyInfo := Some ''val'', v_privateKey := Some 9, v_nodeKey := Some 4\<rparr>) [7] = Ret tx \<and>
    length (tx_Signatures tx) = 1 \<and> bv_Memo sample_view (tx_Body tx) = ''4@burnt1:26656''"
proof -
  let ?v = "createValidator \<lparr>ch_dataDir = ''/tmp'', ch_id = ''c'', ch_validators = []\<rparr> 1
    \<lparr>v_keyInfo := Some ''val'', v_privateKey := Some 9, v_nodeKey := Some 4\<rparr>
    :: (string, byte, nat, nat) validator"
  have digits: "show_nat 4 = ''4''" "show_nat (Suc 0) = ''1''"
    by (simp_all add: show_nat.simps char_of_def bit_0)
  obtain tx where run: "signMsg sample_tx_sdk ?v [7] = Ret tx"
    by (simp add: signMsg_def sample_tx_sdk_def createValidator_def ret_or_err_def not_nil_def Let_def
        sample_sign_bytes_def sample_encode_def decodeTx_def sample_raw_def sample_body_def or_wrap_def)
  from genesis_tx_signed [OF sample_builder_laws run] obtain sig where
    "tx_Signatures tx = [sig]"
    "bv_Memo sample_view (tx_Body tx) = NodeKey_ID sample_tx_sdk 4 @ ''@'' @ instanceName ?v @ '':26656''"
    by (auto simp: createValidator_def)
  with run show ?thesis
    by (simp add: sample_tx_sdk_def instanceName_def createValidator_def show_int_def digits)
qed

end
