(* ===== verification/Spec2Isabelle.thy ===== *)
theory Spec2Isabelle
  imports CodecProps KeeperProps HandlerProps ModuleProps BlockProps GasLimit Cli App AppExport
    GenAccounts Gateway Wiring RootCmd InitChain Recurring LiveIterator Encoding Nullify HarnessTx AppSetup
begin

text \<open>
  \<^bold>\<open>Burnt: a chain with a scheduler of contract calls.\<close>

  The program is a Cosmos SDK application (\<^verbatim>\<open>app/\<close>, \<^verbatim>\<open>cmd/burntd/\<close>) with one module of its own,
  \<^verbatim>\<open>x/schedule\<close>. The owner of a CosmWasm contract schedules a call of it at a block height; at the
  end of that block the module runs the call, charges its gas to the contract and, if the contract
  returns a later height, schedules the same call again.

  \<^bold>\<open>How the parts interact.\<close> A transaction reaches \<open>NewHandler\<close> (Module), which calls the message
  server (MsgServer); that checks the height window, asks the contract for its owner, checks the
  balance, and writes to the keeper's store (Keeper) under two keys (Keys): by name, with the
  height, and by height, with the call. At the end of a block \<open>app_EndBlocker\<close> (App) runs the
  modules in order and with them \<open>EndBlocker\<close>, which consumes the calls that are due, runs each
  contract under a gas limit and adds the next call. Queries and genesis read the same store and
  parameters. Values in the store, transactions, queries, events and genesis are encoded by the
  generated protobuf codecs.

  \<^bold>\<open>Theories and sources.\<close>

  \<^item> Prelude: outcomes of a Go call (\<open>go\<close>: returned value, returned error, panic), Go strings,
    the 64-bit \<open>int\<close>, and the named collections \<open>go_simps\<close>, \<open>wire_simps\<close>, \<open>kv_simps\<close>.
  \<^item> Wire, MessageFields, Codec, UnknownFields: what all \<^verbatim>\<open>types/*.pb.go\<close> files share: \<^verbatim>\<open>sov\<close>,
    \<^verbatim>\<open>encodeVarint\<close>, the field loop, skipping of unknown fields, the blocks that write a field
    backwards. ScheduleCodec, TxCodec, ParamsCodec, GenesisCodec, QueryCodec, EventCodec: each
    message with its \<^verbatim>\<open>Size\<close>, \<^verbatim>\<open>Marshal\<close>, \<^verbatim>\<open>MarshalToSizedBuffer\<close> and \<^verbatim>\<open>Unmarshal\<close>. Coin: the SDK's coin,
    whose codec is a record of functions under \<open>coin_contract\<close>; CoinText: an instance of it.
  \<^item> BigEndian, Keys: \<^verbatim>\<open>types/keys.go\<close>. KVStore: the SDK's prefix stores, as a record of
    operations and the locale \<open>kv_store\<close> of their laws, interpreted on sorted association lists.
  \<^item> Keeper: \<^verbatim>\<open>keeper/keeper.go\<close>. KeeperSpec: the abstract schedule, a map from signer and
    contract to height and body, the relation \<open>represents\<close> and the refinement of each operation.
    StoreKeys: keys as a type with a linear order, which their bytes reflect.
  \<^item> Json: \<^verbatim>\<open>encoding/json\<close>, as far as the owner query uses it. Types: \<^verbatim>\<open>types/errors.go\<close>,
    \<^verbatim>\<open>params.go\<close>, \<^verbatim>\<open>message_*.go\<close>, \<^verbatim>\<open>genesis.go\<close>. Chain: the state the module sees (\<open>chain\<close>: its store, the
    parameters, the height, the events, and the state \<open>'w\<close> of the other modules) and the other
    keepers (\<open>env\<close>).
  \<^item> MsgServer: \<^verbatim>\<open>keeper/msg_server_*.go\<close>. EndBlocker: \<^verbatim>\<open>keeper/abci.go\<close>; GasLimit: its
    \<^verbatim>\<open>determineGasLimit\<close>. Module: \<^verbatim>\<open>keeper/grpc_query_*.go\<close>, \<^verbatim>\<open>genesis.go\<close>, \<^verbatim>\<open>handler.go\<close>, \<^verbatim>\<open>module.go\<close>,
    \<^verbatim>\<open>types/codec.go\<close>. BlockSpec, HandlerSpec, QuerySpec: the same refinements one level up.
  \<^item> LiveIterator: the consume loop once more, over an iterator that sees what the loop
    writes.
  \<^item> ChainSteps: the chain as a state machine (\<open>chain_step\<close>, \<open>reachable\<close>) over the handlers, the
    parameters, the other modules and the end of a block, and its invariant \<open>chain_inv\<close>. CallRuns: a
    call from its scheduling to its execution. Recurring: endless runs, and a call that repeats.
  \<^item> Gateway: \<^verbatim>\<open>types/*.pb.gw.go\<close>. Cli: \<^verbatim>\<open>client/cli\<close>.
  \<^item> App: the modules, orders, stores, subspaces and accounts of \<^verbatim>\<open>app/app.go\<close>; Wiring: the
    order in which \<^verbatim>\<open>NewWasmApp\<close> makes the keepers, the routers, and loading; AppSetup: all of
    its steps, on the application's struct, under the SDK's rules. InitChain: the genesis of the chain, \<^verbatim>\<open>app/genesis.go\<close> and
    \<^verbatim>\<open>module_simulation.go\<close>. AppExport: \<^verbatim>\<open>app/export.go\<close>. RootCmd: \<^verbatim>\<open>cmd/burntd/root.go\<close>, \<^verbatim>\<open>genwasm.go\<close>,
    \<^verbatim>\<open>main.go\<close>. GenAccounts: \<^verbatim>\<open>cmd/burntd/genaccounts.go\<close>. Encoding: what the module and the application
    register: \<^verbatim>\<open>app/encoding.go\<close>, \<^verbatim>\<open>app/params/proto.go\<close>, \<open>NewKeeper\<close>, the hooks of \<^verbatim>\<open>module.go\<close> and the API
    routes. Nullify: \<^verbatim>\<open>testutil\<close>.
  \<^item> Paths: Go's \<^verbatim>\<open>path/filepath\<close>, without the file system. Harness, HarnessTx: the network of
    \<^verbatim>\<open>integration_tests/\<close>, its files, keys and validators, and the transactions it signs and sends.
  \<^item> Samples: concrete stores, environments and chains for the witnesses. CodecProps,
    KeeperProps, HandlerProps, ModuleProps, BlockProps and the ends of the theories above: the
    properties.

  \<^bold>\<open>What the lemmas show.\<close> Codecs: marshalling fills exactly the computed size, never panics and is
  undone by unmarshalling; unknown fields of any wire type are skipped. Keeper: every operation
  refines one on the abstract schedule, except \<open>ReScheduleCall\<close>, which swaps its values. Handlers:
  exactly when they succeed, what they change, and that only a confirmed owner gets that far.
  Blocks: the end of a block refines one step of the schedule; with benign contracts it returns,
  and the inputs on which it panics, which halts the chain, are given. In every reachable chain,
  as long as no owner schedules a second call for one contract, the store represents a schedule of
  calls that are still ahead, so benign contracts never halt it, and a call waits there unchanged
  for its block, in which it runs, and again at every height its contract asks for; except that
  calls of long addresses are never consumed. Module and application: genesis, parameters,
  routing, order, wiring, the outcome of \<open>NewWasmApp\<close>, and export.

  \<^bold>\<open>Termination and bounds.\<close> No fuel is used. Every definition is total but one: the varint loops are
  bounded by the shift and the input, the other loops by the input or by the list of entries an
  iterator visits. The loop over a live iterator may run forever, and is a partial function that
  is shown to return over every store that represents a schedule. Integers keep their width (\<open>u64\<close>,
  bytes, \<open>i64\<close> for \<^verbatim>\<open>int\<close>); the codec theorems need messages below 2^63 bytes, the size of a Go slice.

  \<^bold>\<open>Parameters.\<close> The SDK, the wasm keeper, the gateway's runtime and the operating system are
  arguments: records of functions (\<open>kv_ops\<close>, \<open>coin_codec\<close>, \<open>env\<close>, \<open>export_env\<close>, \<open>gen_sdk\<close>, \<open>gw_runtime\<close>,
  \<open>daemon\<close>, \<open>api_sdk\<close>, \<open>harness_sdk\<close>, \<open>tx_sdk\<close>), of which a theorem assumes what it names. In Keeper an
  iterator is a snapshot: the consume loop deletes the entry it is at, which the SDK's contract
  does not allow. LiveIterator shows that a live iterator makes no difference. Running a contract
  changes the state of the other modules alone: the wasm keeper dispatches a contract's messages
  through the router of the message services, on which the scheduler registers none
  (\<open>RegisterServices\<close>), so no contract reaches the schedule from within its own execution.

  \<^bold>\<open>Not modelled.\<close> Gas of the transaction itself and logging, which change no state; getters,
  descriptors and gRPC stubs of the generated code; the commands of the SDK; constants that
  nothing uses (\<^verbatim>\<open>params/weights.go\<close>); the tests and the fixtures of keeper and network, contracts and
  containers.
\<close>

end
